(* ===== verification/Prelude.thy ===== *)
theory Prelude
  imports Main "HOL-Library.Word"
begin

unbundle bit_operations_syntax

text \<open>
  Shared vocabulary of the development: the C++ integer types at their widths, byte
  strings, the byte order of the two wire formats (little endian for the UCM protocol,
  the package manifest and the persisted sessions; big endian for VehicleStatus and DoIP),
  \<open>std::string::find\<close>, \<open>std::to_string\<close>, and the lemma collections that carry the
  proofs of the component theories.

  Positions and sizes (\<open>std::size_t\<close>, 64 bits on the target) are \<open>nat\<close>: no buffer of the
  program comes near \<open>2 ^ 64\<close> bytes, so sums of positions and 32-bit lengths do not wrap.
  Every other integer keeps its width as a \<open>word\<close>.
\<close>

named_theorems codec_simps \<open>round trips and lengths of the byte-level readers and writers\<close>
named_theorems io_simps \<open>file-system primitives\<close>
named_theorems frame_simps \<open>which files an operation leaves alone\<close>

type_synonym byte = "8 word"
type_synonym u16 = "16 word"
type_synonym u32 = "32 word"
type_synonym u64 = "64 word"
type_synonym bytes = "byte list"

section \<open>Bytes and characters\<close>

definition byte_of_char :: "char \<Rightarrow> byte" where
  "byte_of_char c = word_of_nat (of_char c)"

definition char_of_byte :: "byte \<Rightarrow> char" where
  "char_of_byte b = char_of (unat b)"

lemma unat_byte_less [simp]: "unat (b :: byte) < 256"
  using unsigned_less [of b] by simp

lemma unat_byte_of_char [simp]: "unat (byte_of_char c) = of_char c"
  by (simp add: byte_of_char_def unat_of_nat take_bit_eq_mod)

lemma char_of_byte_of_char [simp]: "char_of_byte (byte_of_char c) = c"
  by (simp add: char_of_byte_def)

lemma byte_of_char_of_byte [simp]: "byte_of_char (char_of_byte b) = b"
proof -
  have "unat (byte_of_char (char_of_byte b)) = unat b"
    by (simp only: unat_byte_of_char char_of_byte_def) (simp add: of_char_of)
  then show ?thesis by (simp only: word_unat_eq_iff)
qed

definition bytes_of_string :: "string \<Rightarrow> bytes" where
  "bytes_of_string s = map byte_of_char s"

definition string_of_bytes :: "bytes \<Rightarrow> string" where
  "string_of_bytes bs = map char_of_byte bs"

lemma string_of_bytes_of_string [simp]: "string_of_bytes (bytes_of_string s) = s"
  by (simp add: string_of_bytes_def bytes_of_string_def comp_def)

lemma bytes_of_string_of_bytes [simp]: "bytes_of_string (string_of_bytes bs) = bs"
  by (simp add: string_of_bytes_def bytes_of_string_def comp_def)

lemma length_bytes_of_string [simp]: "length (bytes_of_string s) = length s"
  by (simp add: bytes_of_string_def)

lemma length_string_of_bytes [simp]: "length (string_of_bytes bs) = length bs"
  by (simp add: string_of_bytes_def)

lemma bytes_of_string_inject [simp]: "bytes_of_string s = bytes_of_string t \<longleftrightarrow> s = t"
  by (metis string_of_bytes_of_string)

lemma bytes_of_string_append [simp]:
  "bytes_of_string (s @ t) = bytes_of_string s @ bytes_of_string t"
  by (simp add: bytes_of_string_def)

lemma bytes_of_string_Nil [simp]: "bytes_of_string [] = []"
  by (simp add: bytes_of_string_def)

lemma bytes_of_string_Cons [simp]:
  "bytes_of_string (c # s) = byte_of_char c # bytes_of_string s"
  by (simp add: bytes_of_string_def)

section \<open>Byte order\<close>

text \<open>
  \<open>le_bytes n v\<close> are the \<open>n\<close> low bytes of \<open>v\<close>, least significant first: what copying the
  object representation of an integer yields on the little-endian target. \<open>le_word\<close> reads
  them back. The big-endian forms reverse the list.
\<close>

definition le_bytes :: "nat \<Rightarrow> 'a::len word \<Rightarrow> bytes" where
  "le_bytes n v = map (\<lambda>i. ucast (drop_bit (8 * i) v)) [0..<n]"

fun le_word :: "bytes \<Rightarrow> 'a::len word" where
  "le_word [] = 0"
| "le_word (b # bs) = ucast b OR push_bit 8 (le_word bs)"

definition be_bytes :: "nat \<Rightarrow> 'a::len word \<Rightarrow> bytes" where
  "be_bytes n v = rev (le_bytes n v)"

definition be_word :: "bytes \<Rightarrow> 'a::len word" where
  "be_word bs = le_word (rev bs)"

lemma length_le_bytes [simp]: "length (le_bytes n v) = n"
  by (simp add: le_bytes_def)

lemma length_be_bytes [simp]: "length (be_bytes n v) = n"
  by (simp add: be_bytes_def)

lemma bit_le_word:
  "bit (le_word bs :: 'a::len word) i \<longleftrightarrow>
     i < LENGTH('a) \<and> i div 8 < length bs \<and> bit (bs ! (i div 8)) (i mod 8)"
proof (induction bs arbitrary: i)
  case Nil
  show ?case by simp
next
  case (Cons b bs)
  show ?case
  proof (cases "i < 8")
    case True
    then show ?thesis
      by (auto simp: bit_or_iff bit_push_bit_iff bit_unsigned_iff dest: bit_imp_le_length)
  next
    case False
    then obtain k where k: "i = 8 + k" by (metis le_Suc_ex not_less)
    have d: "(8 + k) div 8 = Suc (k div 8)" by simp
    have "\<not> bit b (8 + k)" using bit_imp_le_length [of b "8 + k"] by auto
    then show ?thesis
      using Cons.IH [of k]
      by (auto simp: k d bit_or_iff bit_push_bit_iff bit_unsigned_iff dest: bit_imp_le_length)
  qed
qed

lemma bit_le_bytes_nth:
  "i < n \<Longrightarrow> bit (le_bytes n v ! i) j \<longleftrightarrow> j < 8 \<and> bit v (8 * i + j)"
  by (auto simp: le_bytes_def bit_unsigned_iff bit_drop_bit_eq dest: bit_imp_le_length)

lemma le_word_le_bytes [codec_simps]:
  assumes "LENGTH('a) \<le> 8 * n"
  shows "le_word (le_bytes n v) = (v :: 'a::len word)"
proof (rule bit_word_eqI)
  fix i assume i: "i < LENGTH('a)"
  with assms have "i div 8 < n" by auto
  then show "bit (le_word (le_bytes n v) :: 'a word) i = bit v i"
    using i by (simp add: bit_le_word bit_le_bytes_nth)
qed

lemma le_bytes_le_word [codec_simps]:
  assumes "8 * length bs \<le> LENGTH('a::len)"
  shows "le_bytes (length bs) (le_word bs :: 'a word) = bs"
proof (rule nth_equalityI)
  fix i assume "i < length (le_bytes (length bs) (le_word bs :: 'a word))"
  then have i: "i < length bs" by simp
  show "le_bytes (length bs) (le_word bs :: 'a word) ! i = bs ! i"
  proof (rule bit_word_eqI)
    fix j assume "j < LENGTH(8)"
    then have j: "j < 8" by simp
    have "8 * i + j < LENGTH('a)" using i j assms by simp
    then show "bit (le_bytes (length bs) (le_word bs :: 'a word) ! i) j = bit (bs ! i) j"
      using i j by (simp add: bit_le_bytes_nth bit_le_word)
  qed
qed simp

lemma be_word_be_bytes [codec_simps]:
  "LENGTH('a) \<le> 8 * n \<Longrightarrow> be_word (be_bytes n v) = (v :: 'a::len word)"
  by (simp add: be_word_def be_bytes_def le_word_le_bytes)

lemma be_bytes_be_word [codec_simps]:
  assumes "8 * length bs \<le> LENGTH('a::len)"
  shows "be_bytes (length bs) (be_word bs :: 'a word) = bs"
  using le_bytes_le_word [of "rev bs", where ?'a = 'a] assms
  by (simp add: be_word_def be_bytes_def)

text \<open>The conversion of a size to a 32-bit length field is exact below \<open>2 ^ 32\<close>.\<close>

lemma unat_of_nat_u32 [simp]: "n < 2 ^ 32 \<Longrightarrow> unat (word_of_nat n :: u32) = n"
  by (simp add: unat_of_nat take_bit_eq_mod)

lemma unat_of_nat_u64: "n < 2 ^ 64 \<Longrightarrow> unat (word_of_nat n :: u64) = n"
  by (simp add: unat_of_nat take_bit_eq_mod)

section \<open>Strings\<close>

text \<open>\<open>std::string::find(c, pos)\<close>: the least index from \<open>pos\<close> on, \<open>None\<close> for \<open>npos\<close>.\<close>

fun str_find :: "'a list \<Rightarrow> 'a \<Rightarrow> nat \<Rightarrow> nat option" where
  "str_find [] c pos = None"
| "str_find (x # s) c 0 = (if x = c then Some 0 else map_option Suc (str_find s c 0))"
| "str_find (x # s) c (Suc pos) = map_option Suc (str_find s c pos)"

lemma str_find_SomeD:
  "str_find s c pos = Some i \<Longrightarrow> pos \<le> i \<and> i < length s \<and> s ! i = c"
  by (induction s c pos arbitrary: i rule: str_find.induct) (auto split: if_splits)

lemma str_find_before:
  "str_find s c pos = Some i \<Longrightarrow> pos \<le> j \<Longrightarrow> j < i \<Longrightarrow> s ! j \<noteq> c"
proof (induction s c pos arbitrary: i j rule: str_find.induct)
  case (2 x s c)
  then show ?case by (cases j) (auto split: if_splits)
next
  case (3 x s c pos)
  then show ?case by (cases j) auto
qed simp

lemma str_find_append_skip:
  "c \<notin> set xs \<Longrightarrow> str_find (xs @ ys) c 0 = map_option ((+) (length xs)) (str_find ys c 0)"
  by (induction xs; cases "str_find ys c 0") auto

lemma str_find_append_from:
  "str_find (xs @ ys) c (length xs + n) = map_option ((+) (length xs)) (str_find ys c n)"
  by (induction xs; cases "str_find ys c n") auto

text \<open>\<open>std::string::find\<close> of a non-empty string.\<close>

fun str_find_sub :: "'a list \<Rightarrow> 'a list \<Rightarrow> nat option" where
  "str_find_sub needle [] = None"
| "str_find_sub needle (x # s) =
     (if take (length needle) (x # s) = needle then Some 0 else map_option Suc (str_find_sub needle s))"

lemma str_find_sub_SomeD:
  "str_find_sub needle s = Some i \<Longrightarrow> i < length s \<and> take (length needle) (drop i s) = needle"
  by (induction s arbitrary: i) (auto split: if_splits)

text \<open>\<open>std::to_string\<close> of an unsigned value.\<close>

fun to_string :: "nat \<Rightarrow> string" where
  "to_string n = (if n < 10 then [char_of (48 + n)] else to_string (n div 10) @ [char_of (48 + n mod 10)])"

declare to_string.simps [simp del]

definition digits_value :: "string \<Rightarrow> nat" where
  "digits_value s = foldl (\<lambda>a c. 10 * a + (of_char c - 48)) 0 s"

lemma digits_value_to_string: "digits_value (to_string n) = n"
proof (induction n rule: to_string.induct)
  case (1 n)
  have d: "of_char (char_of (48 + k) :: char) = (48 + k :: nat)" if "k < 10" for k
    using that by (simp add: of_char_of)
  show ?case
  proof (cases "n < 10")
    case True
    then show ?thesis by (subst to_string.simps) (simp add: digits_value_def d)
  next
    case False
    then have "digits_value (to_string (n div 10)) = n div 10" by (rule 1)
    with False show ?thesis
      by (subst to_string.simps) (simp add: digits_value_def d)
  qed
qed

lemma to_string_inject [simp]: "to_string m = to_string n \<longleftrightarrow> m = n"
  by (metis digits_value_to_string)

lemma to_string_nonempty [simp]: "to_string n \<noteq> []"
  by (subst to_string.simps) simp

section \<open>Lists\<close>

lemma take_drop_append_exact:
  "length xs = n \<Longrightarrow> length ys = m \<Longrightarrow> take m (drop n (xs @ ys @ zs)) = ys"
  by simp

lemma concat_snoc [simp]: "concat (xss @ [xs]) = concat xss @ xs"
  by simp

lemma length_to_string: "n < 10 ^ Suc k \<Longrightarrow> length (to_string n) \<le> Suc k"
proof (induction k arbitrary: n)
  case 0
  then show ?case by (subst to_string.simps) simp
next
  case (Suc k)
  then have "n div 10 < 10 ^ Suc k" by (simp add: less_mult_imp_div_less mult.commute)
  from Suc.IH [OF this] show ?case by (subst to_string.simps) simp
qed

end
