(* ===== verification/FileSys.thy ===== *)
theory FileSys
  imports Prelude
begin

text \<open>
  The file system as the program sees it through \<open>std::ifstream\<close>, \<open>std::ofstream\<close>,
  \<open>unlink\<close> and \<open>mkdir\<close>. A file is its path and its bytes. Every operation consumes the next
  outcome of an arbitrary list of faults, so a theorem that quantifies over the file system
  quantifies over every pattern of failures:
  \<^item> \<open>IoOk\<close>: the operation succeeds;
  \<^item> \<open>IoOpenFail\<close>: the file cannot be opened (missing directory, permissions, no space);
  \<^item> \<open>IoShort n seen\<close>: only the first \<open>n\<close> bytes of a write reach the file; \<open>seen\<close> tells
    whether the stream notices before the code looks at it. A stream that is flushed first
    always notices; one that is only checked after \<open>operator<<\<close> may still hold the bytes in
    its buffer and lose them in its destructor.
  After the listed outcomes everything succeeds. A file that opens for reading is read in
  full; reads that fail half-way are not modelled.
\<close>

datatype io_fault = IoOk | IoOpenFail | IoShort nat bool

record fsys =
  files :: "string \<rightharpoonup> bytes"
  faults :: "io_fault list"

definition next_fault :: "fsys \<Rightarrow> io_fault \<times> fsys" where
  "next_fault fs = (case faults fs of [] \<Rightarrow> (IoOk, fs) | f # r \<Rightarrow> (f, fs\<lparr>faults := r\<rparr>))"

definition put_file :: "string \<Rightarrow> bytes \<Rightarrow> fsys \<Rightarrow> fsys" where
  "put_file p d fs = fs\<lparr>files := (files fs)(p \<mapsto> d)\<rparr>"

text \<open>Open for reading, and the content read from it.\<close>

definition ifs_read :: "string \<Rightarrow> fsys \<Rightarrow> bytes option \<times> fsys" where
  "ifs_read p fs = (case next_fault fs of
     (IoOpenFail, fs') \<Rightarrow> (None, fs')
   | (_, fs') \<Rightarrow> (files fs' p, fs'))"

text \<open>
  Open with \<open>trunc\<close>, write \<open>d\<close>, optionally flush. The result tells whether the stream
  opened and whether it is still good after the write (and flush).
\<close>

definition ofs_trunc :: "bool \<Rightarrow> string \<Rightarrow> bytes \<Rightarrow> fsys \<Rightarrow> (bool \<times> bool) \<times> fsys" where
  "ofs_trunc flushed p d fs = (case next_fault fs of
     (IoOk, fs') \<Rightarrow> ((True, True), put_file p d fs')
   | (IoOpenFail, fs') \<Rightarrow> ((False, False), fs')
   | (IoShort n seen, fs') \<Rightarrow> ((True, \<not> (seen \<or> flushed)), put_file p (take n d) fs'))"

text \<open>Open with \<open>app\<close> and write \<open>d\<close> behind the present content.\<close>

definition ofs_append :: "string \<Rightarrow> bytes \<Rightarrow> fsys \<Rightarrow> bool \<times> fsys" where
  "ofs_append p d fs = (case next_fault fs of
     (IoOk, fs') \<Rightarrow> (True, put_file p (case_option [] id (files fs' p) @ d) fs')
   | (IoOpenFail, fs') \<Rightarrow> (False, fs')
   | (IoShort n seen, fs') \<Rightarrow> (True, put_file p (case_option [] id (files fs' p) @ take n d) fs'))"

definition fs_unlink :: "string \<Rightarrow> fsys \<Rightarrow> fsys" where
  "fs_unlink p fs = (case next_fault fs of
     (IoOk, fs') \<Rightarrow> fs'\<lparr>files := (files fs')(p := None)\<rparr>
   | (_, fs') \<Rightarrow> fs')"

text \<open>\<open>mkdir\<close>: true when the directory exists afterwards (created, or \<open>EEXIST\<close>).\<close>

definition fs_mkdir :: "string \<Rightarrow> fsys \<Rightarrow> bool \<times> fsys" where
  "fs_mkdir p fs = (case next_fault fs of (IoOpenFail, fs') \<Rightarrow> (False, fs') | (_, fs') \<Rightarrow> (True, fs'))"

lemmas fs_prim_defs = ifs_read_def ofs_trunc_def ofs_append_def fs_unlink_def fs_mkdir_def
lemmas fs_splits = io_fault.splits option.splits prod.splits list.splits if_splits

section \<open>Runs without faults\<close>

lemma next_fault_Nil [io_simps]: "faults fs = [] \<Longrightarrow> next_fault fs = (IoOk, fs)"
  by (simp add: next_fault_def)

lemma files_put_file [simp]: "files (put_file p d fs) = (files fs)(p \<mapsto> d)"
  by (simp add: put_file_def)

lemma faults_put_file [simp]: "faults (put_file p d fs) = faults fs"
  by (simp add: put_file_def)

lemma ifs_read_ok [io_simps]: "faults fs = [] \<Longrightarrow> ifs_read p fs = (files fs p, fs)"
  by (simp add: ifs_read_def next_fault_Nil)

lemma ofs_trunc_ok [io_simps]:
  "faults fs = [] \<Longrightarrow> ofs_trunc fl p d fs = ((True, True), put_file p d fs)"
  by (simp add: ofs_trunc_def next_fault_Nil)

lemma ofs_append_ok [io_simps]:
  "faults fs = [] \<Longrightarrow>
     ofs_append p d fs = (True, put_file p (case_option [] id (files fs p) @ d) fs)"
  by (simp add: ofs_append_def next_fault_Nil)

lemma fs_unlink_ok [io_simps]:
  "faults fs = [] \<Longrightarrow> fs_unlink p fs = fs\<lparr>files := (files fs)(p := None)\<rparr>"
  by (simp add: fs_unlink_def next_fault_Nil)

lemma fs_mkdir_ok [io_simps]: "faults fs = [] \<Longrightarrow> fs_mkdir p fs = (True, fs)"
  by (simp add: fs_mkdir_def next_fault_Nil)

section \<open>Which files an operation may change\<close>

definition only_changes :: "string set \<Rightarrow> fsys \<Rightarrow> fsys \<Rightarrow> bool" where
  "only_changes S fs fs' \<longleftrightarrow> (\<forall>p. p \<notin> S \<longrightarrow> files fs' p = files fs p)"

lemma only_changesD: "only_changes S fs fs' \<Longrightarrow> p \<notin> S \<Longrightarrow> files fs' p = files fs p"
  by (simp add: only_changes_def)

lemma only_changes_refl [simp, intro]: "only_changes S fs fs"
  by (simp add: only_changes_def)

lemma only_changes_trans [trans]:
  "only_changes S a b \<Longrightarrow> only_changes T b c \<Longrightarrow> only_changes (S \<union> T) a c"
  by (simp add: only_changes_def)

lemma only_changes_trans_same:
  "only_changes S a b \<Longrightarrow> only_changes S b c \<Longrightarrow> only_changes S a c"
  by (simp add: only_changes_def)

lemma only_changes_mono: "only_changes S a b \<Longrightarrow> S \<subseteq> T \<Longrightarrow> only_changes T a b"
  by (auto simp: only_changes_def)

lemma files_next_fault [simp]: "next_fault fs = (f, fs') \<Longrightarrow> files fs' = files fs"
  by (auto simp: next_fault_def split: list.splits)

lemma ifs_read_frame [frame_simps]: "ifs_read p fs = (r, fs') \<Longrightarrow> files fs' = files fs"
  by (auto simp: ifs_read_def split: fs_splits)

lemma ifs_read_SomeD: "ifs_read p fs = (Some d, fs') \<Longrightarrow> files fs p = Some d \<and> files fs' = files fs"
  by (auto simp: ifs_read_def split: fs_splits)

lemma fs_mkdir_frame [frame_simps]: "fs_mkdir p fs = (r, fs') \<Longrightarrow> files fs' = files fs"
  by (auto simp: fs_mkdir_def split: fs_splits)

lemma ofs_trunc_frame: "ofs_trunc fl p d fs = (r, fs') \<Longrightarrow> only_changes {p} fs fs'"
  by (auto simp: ofs_trunc_def only_changes_def split: fs_splits)

lemma ofs_append_frame: "ofs_append p d fs = (r, fs') \<Longrightarrow> only_changes {p} fs fs'"
  by (auto simp: ofs_append_def only_changes_def split: fs_splits)

lemma fs_unlink_frame: "only_changes {p} fs (fs_unlink p fs)"
  by (auto simp: fs_unlink_def only_changes_def split: fs_splits)

lemma only_changes_files_eq: "files fs' = files fs \<Longrightarrow> only_changes S fs fs'"
  by (simp add: only_changes_def)

text \<open>A flushed write that reports success has stored every byte.\<close>

lemma ofs_trunc_flushedD:
  "ofs_trunc True p d fs = ((opened, True), fs') \<Longrightarrow> files fs' p = Some d"
  by (auto simp: ofs_trunc_def split: fs_splits)

end
