(* ===== verification/VersionManager.thy ===== *)
theory VersionManager
  imports FileSys
begin

text \<open>
  \<open>ota::VersionManager\<close> (src/src/ota/version_manager.h and .cpp): the current version, the
  target version and the upgrade history, each kept in a file of its own below the base
  directory. The history file has one line \<open>from|to|result\<close> per record. The theory
  proves exactly which records survive a save and a reload.
\<close>

record version_record =
  vr_from :: string
  vr_to :: string
  vr_result :: string

record version_manager =
  vm_base_dir :: string
  vm_current :: string
  vm_target :: string
  vm_history :: "version_record list"

abbreviation newline :: char where "newline \<equiv> CHR 0x0A"
abbreviation bar :: char where "bar \<equiv> CHR ''|''"

text \<open>\<open>std::getline\<close>, once and in a loop until the stream fails.\<close>

definition first_line :: "string \<Rightarrow> string" where
  "first_line s = takeWhile (\<lambda>c. c \<noteq> newline) s"

fun getlines :: "string \<Rightarrow> string list" where
  "getlines [] = []"
| "getlines (c # s) = (let l = first_line (c # s) in l # getlines (drop (Suc (length l)) (c # s)))"

text \<open>One line of the history file, written and parsed.\<close>

definition history_line :: "version_record \<Rightarrow> string" where
  "history_line r = vr_from r @ bar # vr_to r @ bar # vr_result r"

definition parse_history_line :: "string \<Rightarrow> version_record option" where
  "parse_history_line line =
     (case str_find line bar 0 of
        None \<Rightarrow> None
      | Some first \<Rightarrow>
          (case str_find line bar (first + 1) of
             None \<Rightarrow> None
           | Some second \<Rightarrow>
               Some \<lparr>vr_from = take first line,
                     vr_to = take (second - first - 1) (drop (first + 1) line),
                     vr_result = drop (second + 1) line\<rparr>))"

definition vm_load :: "version_manager \<Rightarrow> fsys \<Rightarrow> version_manager \<times> fsys" where
  "vm_load vm fs =
     (let (c, fs1) = ifs_read (vm_base_dir vm @ ''/current_version'') fs;
          vm1 = (case c of None \<Rightarrow> vm
                 | Some d \<Rightarrow> vm\<lparr>vm_current := first_line (string_of_bytes d)\<rparr>);
          (t, fs2) = ifs_read (vm_base_dir vm @ ''/target_version'') fs1;
          vm2 = (case t of None \<Rightarrow> vm1
                 | Some d \<Rightarrow> vm1\<lparr>vm_target := first_line (string_of_bytes d)\<rparr>);
          (h, fs3) = ifs_read (vm_base_dir vm @ ''/version_history.log'') fs2
      in case h of
           None \<Rightarrow> (vm2, fs3)
         | Some d \<Rightarrow>
             (vm2\<lparr>vm_history := vm_history vm2 @
                List.map_filter parse_history_line (getlines (string_of_bytes d))\<rparr>, fs3))"

definition vm_save :: "version_manager \<Rightarrow> fsys \<Rightarrow> fsys" where
  "vm_save vm fs =
     (let (_, fs1) = ofs_trunc False (vm_base_dir vm @ ''/current_version'')
                       (bytes_of_string (vm_current vm)) fs;
          (_, fs2) = ofs_trunc False (vm_base_dir vm @ ''/target_version'')
                       (bytes_of_string (vm_target vm)) fs1;
          (_, fs3) = ofs_trunc False (vm_base_dir vm @ ''/version_history.log'')
                       (bytes_of_string (concat (map (\<lambda>r. history_line r @ [newline]) (vm_history vm)))) fs2
      in fs3)"

definition vm_new :: "string \<Rightarrow> fsys \<Rightarrow> version_manager \<times> fsys" where
  "vm_new base fs =
     (let (_, fs1) = fs_mkdir base fs
      in vm_load \<lparr>vm_base_dir = base, vm_current = [], vm_target = [], vm_history = []\<rparr> fs1)"

definition set_current :: "string \<Rightarrow> version_manager \<Rightarrow> fsys \<Rightarrow> version_manager \<times> fsys" where
  "set_current v vm fs = (let vm' = vm\<lparr>vm_current := v\<rparr> in (vm', vm_save vm' fs))"

definition set_target :: "string \<Rightarrow> version_manager \<Rightarrow> fsys \<Rightarrow> version_manager \<times> fsys" where
  "set_target v vm fs = (let vm' = vm\<lparr>vm_target := v\<rparr> in (vm', vm_save vm' fs))"

definition record_result ::
  "string \<Rightarrow> string \<Rightarrow> string \<Rightarrow> version_manager \<Rightarrow> fsys \<Rightarrow> version_manager \<times> fsys" where
  "record_result from to result vm fs =
     (let vm' = vm\<lparr>vm_history := vm_history vm @ [\<lparr>vr_from = from, vr_to = to, vr_result = result\<rparr>]\<rparr>
      in (vm', vm_save vm' fs))"

section \<open>Lines and records\<close>

lemma first_line_append: "newline \<notin> set l \<Longrightarrow> first_line (l @ newline # r) = l"
  by (induction l) (auto simp: first_line_def)

lemma first_line_no_newline: "newline \<notin> set l \<Longrightarrow> first_line l = l"
  by (induction l) (auto simp: first_line_def)

lemma getlines_line:
  assumes "newline \<notin> set l"
  shows "getlines (l @ newline # r) = l # getlines r"
proof -
  have fl: "first_line (l @ newline # r) = l" by (rule first_line_append [OF assms])
  obtain c s where cs: "l @ newline # r = c # s" by (cases l) auto
  have "drop (Suc (length l)) (c # s) = r" by (simp flip: cs)
  with fl cs show ?thesis by (simp add: Let_def)
qed

lemma getlines_lines:
  "(\<forall>l \<in> set ls. newline \<notin> set l) \<Longrightarrow> getlines (concat (map (\<lambda>l. l @ [newline]) ls)) = ls"
  by (induction ls) (auto simp: getlines_line)

lemma parse_history_line_of:
  assumes "bar \<notin> set (vr_from r)" and "bar \<notin> set (vr_to r)"
  shows "parse_history_line (history_line r) = Some r"
proof -
  let ?rest = "vr_to r @ bar # vr_result r"
  have "str_find (history_line r) bar 0 = Some (length (vr_from r))"
    using assms(1) by (simp add: history_line_def str_find_append_skip)
  moreover have "str_find (history_line r) bar (length (vr_from r) + 1) =
                 Some (length (vr_from r) + 1 + length (vr_to r))"
    using assms(2) str_find_append_from [of "vr_from r" "bar # ?rest" bar 1]
    by (simp add: history_line_def str_find_append_skip)
  ultimately show ?thesis
    by (simp add: parse_history_line_def history_line_def)
qed

lemma parse_history_line_fields:
  assumes "parse_history_line l = Some r"
  shows "bar \<notin> set (vr_from r) \<and> bar \<notin> set (vr_to r)"
proof -
  from assms obtain f s where f: "str_find l bar 0 = Some f" and s: "str_find l bar (f + 1) = Some s"
    and r: "r = \<lparr>vr_from = take f l, vr_to = take (s - f - 1) (drop (f + 1) l), vr_result = drop (s + 1) l\<rparr>"
    by (auto simp: parse_history_line_def split: option.splits)
  have "bar \<notin> set (take f l)"
    using str_find_before [OF f] by (auto simp: in_set_conv_nth)
  moreover have "bar \<notin> set (take (s - f - 1) (drop (f + 1) l))"
    using str_find_before [OF s] by (auto simp: in_set_conv_nth)
  ultimately show ?thesis by (simp add: r)
qed

section \<open>Persistence\<close>

definition clean_record :: "version_record \<Rightarrow> bool" where
  "clean_record r \<longleftrightarrow> bar \<notin> set (vr_from r) \<and> bar \<notin> set (vr_to r) \<and>
     newline \<notin> set (vr_from r) \<and> newline \<notin> set (vr_to r) \<and> newline \<notin> set (vr_result r)"

definition clean_vm :: "version_manager \<Rightarrow> bool" where
  "clean_vm vm \<longleftrightarrow> newline \<notin> set (vm_current vm) \<and> newline \<notin> set (vm_target vm) \<and>
     list_all clean_record (vm_history vm)"

lemma map_filter_parse_lines:
  "list_all clean_record rs \<Longrightarrow> List.map_filter parse_history_line (map history_line rs) = rs"
  by (induction rs) (auto simp: clean_record_def parse_history_line_of map_filter_simps)

lemma getlines_history:
  assumes "list_all clean_record rs"
  shows "getlines (concat (map (\<lambda>r. history_line r @ [newline]) rs)) = map history_line rs"
proof -
  have "\<forall>l \<in> set (map history_line rs). newline \<notin> set l"
    using assms by (auto simp: list_all_iff clean_record_def history_line_def)
  from getlines_lines [OF this] show ?thesis by (simp add: comp_def)
qed

lemma vm_save_ok [io_simps]:
  assumes "faults fs = []"
  shows "vm_save vm fs = fs\<lparr>files := (files fs)
     (vm_base_dir vm @ ''/current_version'' \<mapsto> bytes_of_string (vm_current vm),
      vm_base_dir vm @ ''/target_version'' \<mapsto> bytes_of_string (vm_target vm),
      vm_base_dir vm @ ''/version_history.log'' \<mapsto>
        bytes_of_string (concat (map (\<lambda>r. history_line r @ [newline]) (vm_history vm))))\<rparr>"
  using assms by (simp add: vm_save_def ofs_trunc_ok put_file_def)

definition vm_paths :: "version_manager \<Rightarrow> string set" where
  "vm_paths vm = (\<lambda>f. vm_base_dir vm @ f) ` {''/current_version'', ''/target_version'', ''/version_history.log''}"

lemma vm_save_frame: "only_changes (vm_paths vm) fs (vm_save vm fs)"
proof -
  obtain r1 fs1 where 1: "ofs_trunc False (vm_base_dir vm @ ''/current_version'')
      (bytes_of_string (vm_current vm)) fs = (r1, fs1)" by fastforce
  obtain r2 fs2 where 2: "ofs_trunc False (vm_base_dir vm @ ''/target_version'')
      (bytes_of_string (vm_target vm)) fs1 = (r2, fs2)" by fastforce
  obtain r3 fs3 where 3: "ofs_trunc False (vm_base_dir vm @ ''/version_history.log'')
      (bytes_of_string (concat (map (\<lambda>r. history_line r @ [newline]) (vm_history vm)))) fs2 = (r3, fs3)"
    by fastforce
  from ofs_trunc_frame [OF 1] ofs_trunc_frame [OF 2] ofs_trunc_frame [OF 3]
  have "only_changes (vm_paths vm) fs fs3"
    by (auto simp: only_changes_def vm_paths_def)
  then show ?thesis by (simp add: vm_save_def 1 2 3 Let_def)
qed

lemma set_target_frame: "set_target v vm fs = (vm', fs') \<Longrightarrow> only_changes (vm_paths vm) fs fs'"
  using vm_save_frame [of "vm\<lparr>vm_target := v\<rparr>" fs] by (auto simp: set_target_def vm_paths_def Let_def)

lemma set_current_frame: "set_current v vm fs = (vm', fs') \<Longrightarrow> only_changes (vm_paths vm) fs fs'"
  using vm_save_frame [of "vm\<lparr>vm_current := v\<rparr>" fs] by (auto simp: set_current_def vm_paths_def Let_def)

lemma record_result_frame:
  "record_result f t r vm fs = (vm', fs') \<Longrightarrow> only_changes (vm_paths vm) fs fs'"
  using vm_save_frame [of "vm\<lparr>vm_history := vm_history vm @ [\<lparr>vr_from = f, vr_to = t, vr_result = r\<rparr>]\<rparr>" fs]
  by (auto simp: record_result_def vm_paths_def Let_def)

text \<open>
  What a restarted process reads back. When the version strings hold no line break and
  the \<open>from\<close> and \<open>to\<close> fields of the history no bar, a version manager constructed over the
  files that \<open>save\<close> wrote is the one that was saved: current version, target version and
  the history in order.
\<close>

theorem version_manager_reload:
  assumes "faults fs = []" and "clean_vm vm"
  shows "vm_new (vm_base_dir vm) (vm_save vm fs) = (vm, vm_save vm fs)"
proof -
  let ?fs = "vm_save vm fs"
  have f: "faults ?fs = []" using assms(1) by (simp add: vm_save_ok)
  have "list_all clean_record (vm_history vm)" using assms(2) by (simp add: clean_vm_def)
  then have "List.map_filter parse_history_line
      (getlines (concat (map (\<lambda>r. history_line r @ [newline]) (vm_history vm)))) = vm_history vm"
    by (simp add: getlines_history map_filter_parse_lines)
  moreover have "first_line (vm_current vm) = vm_current vm" "first_line (vm_target vm) = vm_target vm"
    using assms(2) by (auto simp: clean_vm_def intro: first_line_no_newline)
  ultimately show ?thesis
    unfolding vm_new_def vm_load_def
    using f assms(1) by (simp add: ifs_read_ok fs_mkdir_ok vm_save_ok)
qed

theorem version_manager_reload_witness:
  "vm_new ''/v'' (vm_save \<lparr>vm_base_dir = ''/v'', vm_current = ''1.0'', vm_target = ''1.1'',
       vm_history = [\<lparr>vr_from = ''0.9'', vr_to = ''1.0'', vr_result = ''SUCCESS''\<rparr>]\<rparr>
       \<lparr>files = Map.empty, faults = []\<rparr>) =
   (\<lparr>vm_base_dir = ''/v'', vm_current = ''1.0'', vm_target = ''1.1'',
       vm_history = [\<lparr>vr_from = ''0.9'', vr_to = ''1.0'', vr_result = ''SUCCESS''\<rparr>]\<rparr>,
    vm_save \<lparr>vm_base_dir = ''/v'', vm_current = ''1.0'', vm_target = ''1.1'',
       vm_history = [\<lparr>vr_from = ''0.9'', vr_to = ''1.0'', vr_result = ''SUCCESS''\<rparr>]\<rparr>
       \<lparr>files = Map.empty, faults = []\<rparr>)"
  using version_manager_reload
    [of "\<lparr>files = Map.empty, faults = []\<rparr>" "\<lparr>vm_base_dir = ''/v'', vm_current = ''1.0'',
       vm_target = ''1.1'', vm_history = [\<lparr>vr_from = ''0.9'', vr_to = ''1.0'', vr_result = ''SUCCESS''\<rparr>]\<rparr>"]
  by (simp add: clean_vm_def clean_record_def)

text \<open>
  The history format is unambiguous for exactly the records without a bar in \<open>from\<close> and
  \<open>to\<close>: a record with one is read back as a different record, so a version string that
  contains a bar corrupts the stored history.
\<close>

theorem history_line_faithful_iff:
  "parse_history_line (history_line r) = Some r \<longleftrightarrow> bar \<notin> set (vr_from r) \<and> bar \<notin> set (vr_to r)"
  using parse_history_line_fields [of "history_line r" r] parse_history_line_of by auto

end
