(* ===== verification/Verify.thy ===== *)
theory Verify
  imports FileSys
begin

unbundle bit_operations_syntax

text \<open>
  \<open>ota::VerifyStrategy\<close> (src/src/ota/verify_strategy.h and .cpp): the digest of an image by
  SHA-256 or CRC-32, its comparison with the expected digest and the factory that chooses
  the strategy by name. SHA-256 is OpenSSL's and a parameter (a function from the content to
  the 32 digest bytes); CRC-32 is the program's own table-driven code and is proved equal to
  the bit-serial definition.
\<close>

section \<open>Hexadecimal digits\<close>

definition hex_digits :: string where
  "hex_digits = ''0123456789abcdef''"

definition bytes_to_hex :: "bytes \<Rightarrow> string" where
  "bytes_to_hex ds = concat (map (\<lambda>b. [hex_digits ! unat (drop_bit 4 b), hex_digits ! unat (b AND 0x0F)]) ds)"

section \<open>CRC-32\<close>

text \<open>
  One bit of the reflected polynomial, the table entry of a byte (eight such bits), the
  256-entry table and the update of the register by one byte of input.
\<close>

definition crc_bit :: "u32 \<Rightarrow> u32" where
  "crc_bit c = (if c AND 1 \<noteq> 0 then 0xEDB88320 XOR drop_bit 1 c else drop_bit 1 c)"

definition crc_entry :: "u32 \<Rightarrow> u32" where
  "crc_entry i = (crc_bit ^^ 8) i"

definition crc_table :: "u32 list" where
  "crc_table = map (\<lambda>i. crc_entry (word_of_nat i)) [0..<256]"

definition crc_byte :: "u32 \<Rightarrow> byte \<Rightarrow> u32" where
  "crc_byte crc b = crc_table ! unat ((crc XOR ucast b) AND 0xFF) XOR drop_bit 8 crc"

text \<open>The file is read in buffers of 4096 bytes; a read at the end of the file gives none.\<close>

function crc_read_loop :: "u32 \<Rightarrow> bytes \<Rightarrow> u32" where
  "crc_read_loop crc input =
     (if input = [] then crc
      else crc_read_loop (foldl crc_byte crc (take 4096 input)) (drop 4096 input))"
  by pat_completeness auto
termination
  by (relation "measure (\<lambda>(crc, input). length input)") auto

declare crc_read_loop.simps [simp del]

definition crc32 :: "bytes \<Rightarrow> u32" where
  "crc32 d = crc_read_loop 0xFFFFFFFF d XOR 0xFFFFFFFF"

definition crc32_hex :: "bytes \<Rightarrow> string" where
  "crc32_hex d = (let crc = crc32 d in
     bytes_to_hex [ucast (drop_bit 24 crc AND 0xFF), ucast (drop_bit 16 crc AND 0xFF),
                   ucast (drop_bit 8 crc AND 0xFF), ucast (crc AND 0xFF)])"

section \<open>Strategies\<close>

datatype strategy = Sha256 | Crc32

text \<open>
  \<open>digest(path, error)\<close>: the digest and the error string after the call; on success the error
  string is left as it was.
\<close>

definition digest_hex :: "(bytes \<Rightarrow> bytes) \<Rightarrow> strategy \<Rightarrow> bytes \<Rightarrow> string" where
  "digest_hex sha s d = (case s of Sha256 \<Rightarrow> bytes_to_hex (sha d) | Crc32 \<Rightarrow> crc32_hex d)"

definition digest ::
  "(bytes \<Rightarrow> bytes) \<Rightarrow> strategy \<Rightarrow> string \<Rightarrow> string \<Rightarrow> fsys \<Rightarrow> string \<times> string \<times> fsys" where
  "digest sha s path error fs =
     (case ifs_read path fs of
        (None, fs') \<Rightarrow> ([], ''cannot open file'', fs')
      | (Some d, fs') \<Rightarrow> (digest_hex sha s d, error, fs'))"

definition tolower :: "char \<Rightarrow> char" where
  "tolower c = (if 65 \<le> (of_char c :: nat) \<and> of_char c \<le> (90 :: nat)
                then char_of (of_char c + 32 :: nat) else c)"

definition normalized :: "string \<Rightarrow> string" where
  "normalized = map tolower"

definition verify ::
  "(bytes \<Rightarrow> bytes) \<Rightarrow> strategy \<Rightarrow> string \<Rightarrow> string \<Rightarrow> string \<Rightarrow> fsys \<Rightarrow> bool \<times> string \<times> fsys" where
  "verify sha s path expected error fs =
     (case digest sha s path error fs of (actual, error', fs') \<Rightarrow>
        if error' \<noteq> [] then (False, error', fs')
        else if expected = [] then (True, error', fs')
        else if normalized actual \<noteq> normalized expected then (False, ''digest mismatch'', fs')
        else (True, error', fs'))"

definition make_verify_strategy :: "string \<Rightarrow> strategy option" where
  "make_verify_strategy algorithm =
     (let name = normalized algorithm in
      if name = ''sha256'' \<or> name = ''sha-256'' then Some Sha256
      else if name = ''crc32'' \<or> name = ''crc-32'' then Some Crc32
      else None)"

section \<open>The table-driven CRC is the bit-serial one\<close>

definition crc_serial_byte :: "u32 \<Rightarrow> byte \<Rightarrow> u32" where
  "crc_serial_byte crc b = (crc_bit ^^ 8) (crc XOR ucast b)"

definition crc32_serial :: "bytes \<Rightarrow> u32" where
  "crc32_serial d = foldl crc_serial_byte 0xFFFFFFFF d XOR 0xFFFFFFFF"

lemma crc_bit_alt: "crc_bit c = (if bit c 0 then 0xEDB88320 XOR drop_bit 1 c else drop_bit 1 c)"
  by (simp add: crc_bit_def and_one_eq bit_0 mod_2_eq_odd)

lemma xor_cancel_left: "p XOR (p XOR x) = (x :: u32)"
  by (simp flip: xor.assoc)

lemma crc_bit_xor: "crc_bit (a XOR b) = crc_bit a XOR crc_bit b"
proof -
  have *: "(if P \<noteq> Q then p XOR (x XOR y) else x XOR y) =
           (if P then p XOR x else x) XOR (if Q then p XOR y else y)"
    for P Q and p x y :: u32
    by (cases P; cases Q) (simp_all add: ac_simps xor_cancel_left)
  show ?thesis unfolding crc_bit_alt bit_xor_iff drop_bit_xor by (rule *)
qed

lemma crc_bits_xor: "(crc_bit ^^ n) (a XOR b) = (crc_bit ^^ n) a XOR (crc_bit ^^ n) b"
  by (induction n) (simp_all add: crc_bit_xor)

lemma crc_bits_high: "take_bit n x = 0 \<Longrightarrow> (crc_bit ^^ n) x = drop_bit n x"
proof (induction n arbitrary: x)
  case 0
  show ?case by simp
next
  case (Suc n)
  have z: "\<not> bit x i" if "i < Suc n" for i
    using that Suc.prems by (metis bit_take_bit_iff bit_0_eq bot_apply bot_bool_def)
  then have "crc_bit x = drop_bit 1 x" by (simp add: crc_bit_alt)
  moreover have "take_bit n (drop_bit 1 x) = 0"
    by (rule bit_word_eqI) (auto simp: bit_take_bit_iff bit_drop_bit_eq z)
  ultimately show ?case
    using Suc.IH [of "drop_bit 1 x"] by (simp add: funpow_Suc_right del: funpow.simps)
qed

lemma crc_table_nth: "crc_table ! unat ((x :: u32) AND 0xFF) = crc_entry (x AND 0xFF)"
proof -
  have "unat (x AND 0xFF) \<le> unat (0xFF :: u32)"
    using word_and_le1 [of x "0xFF"] by (simp only: word_le_nat_alt)
  then have "unat (x AND 0xFF) < 256" by simp
  then show ?thesis by (simp add: crc_table_def)
qed

lemma low_byte_split: "y = (y AND 0xFF) XOR push_bit 8 (drop_bit 8 (y :: u32))"
proof -
  have m: "(0xFF :: u32) = mask 8" by (simp add: mask_eq_exp_minus_1)
  show ?thesis unfolding m
  proof (rule bit_word_eqI)
    fix n assume "n < LENGTH(32)"
    then show "bit y n = bit ((y AND mask 8) XOR push_bit 8 (drop_bit 8 y)) n"
      by (cases "8 \<le> n") (auto simp: bit_xor_iff bit_and_iff bit_push_bit_iff bit_drop_bit_eq bit_mask_iff)
  qed
qed

lemma take_push_byte: "take_bit 8 (push_bit 8 (w :: u32)) = 0"
  by (rule bit_word_eqI) (auto simp: bit_take_bit_iff bit_push_bit_iff)

lemma drop_push_drop_byte: "drop_bit 8 (push_bit 8 (drop_bit 8 (w :: u32))) = drop_bit 8 w"
  by (rule bit_word_eqI) (auto simp: bit_drop_bit_eq bit_push_bit_iff dest: bit_imp_le_length)

lemma crc_byte_serial: "crc_byte crc b = crc_serial_byte crc b"
proof -
  let ?y = "crc XOR ucast b :: u32"
  have split: "?y = (?y AND 0xFF) XOR push_bit 8 (drop_bit 8 ?y)" by (rule low_byte_split)
  have hi: "drop_bit 8 (ucast b :: u32) = 0"
    by (rule bit_word_eqI) (auto simp: bit_drop_bit_eq bit_unsigned_iff dest: bit_imp_le_length)
  have "(crc_bit ^^ 8) (push_bit 8 (drop_bit 8 ?y)) = drop_bit 8 (push_bit 8 (drop_bit 8 ?y))"
    by (rule crc_bits_high) (rule take_push_byte)
  also have "\<dots> = drop_bit 8 ?y" by (rule drop_push_drop_byte)
  also have "\<dots> = drop_bit 8 crc" by (simp add: drop_bit_xor hi)
  finally have high: "(crc_bit ^^ 8) (push_bit 8 (drop_bit 8 ?y)) = drop_bit 8 crc" .
  have "crc_serial_byte crc b = (crc_bit ^^ 8) ((?y AND 0xFF) XOR push_bit 8 (drop_bit 8 ?y))"
    unfolding crc_serial_byte_def by (subst split) (rule refl)
  also have "\<dots> = crc_entry (?y AND 0xFF) XOR drop_bit 8 crc"
    by (simp only: crc_bits_xor high crc_entry_def)
  finally show ?thesis by (simp only: crc_byte_def crc_table_nth)
qed

lemma crc_read_loop_foldl: "crc_read_loop crc d = foldl crc_byte crc d"
proof (induction crc d rule: crc_read_loop.induct)
  case (1 crc d)
  show ?case
  proof (cases "d = []")
    case True
    then show ?thesis by (simp add: crc_read_loop.simps)
  next
    case False
    have "crc_read_loop crc d = foldl crc_byte crc (take 4096 d @ drop 4096 d)"
      using 1 [OF False] False by (subst crc_read_loop.simps) (simp only: foldl_append if_False)
    then show ?thesis by simp
  qed
qed

text \<open>
  The digest the update is checked against is a real CRC-32. Reading the image in
  buffers of 4096 bytes and folding it through the 256-entry table yields the register of
  the bit-serial, reflected CRC-32 (polynomial \<open>EDB88320\<close>) over the whole content.
\<close>

theorem crc32_table_driven_correct: "crc32 d = crc32_serial d"
proof -
  have "crc_byte = crc_serial_byte" by (intro ext) (rule crc_byte_serial)
  then show ?thesis by (simp add: crc32_def crc32_serial_def crc_read_loop_foldl)
qed

section \<open>What the comparison accepts\<close>

lemma hex_digits_lower: "i < 16 \<Longrightarrow> tolower (hex_digits ! i) = hex_digits ! i"
proof -
  assume "i < 16"
  then have "i \<in> set [0..<16]" by simp
  then show ?thesis by (auto simp: hex_digits_def tolower_def upt_rec numeral_eq_Suc)
qed

lemma hex_digits_inject: "i < 16 \<Longrightarrow> j < 16 \<Longrightarrow> hex_digits ! i = hex_digits ! j \<Longrightarrow> i = j"
  using nth_eq_iff_index_eq [of hex_digits i j] by (simp add: hex_digits_def)

lemma nibble_bounds [simp]: "unat (drop_bit 4 (b :: byte)) < 16" "unat (b AND 0x0F) < 16"
proof -
  show "unat (drop_bit 4 b) < 16"
    using unat_byte_less [of b] by (simp add: drop_bit_eq_div unat_div del: unat_byte_less)
  have "unat (b AND 0x0F) \<le> unat (0x0F :: byte)"
    using word_and_le1 [of b "0x0F"] by (simp only: word_le_nat_alt)
  then show "unat (b AND 0x0F) < 16" by simp
qed

lemma normalized_bytes_to_hex [simp]: "normalized (bytes_to_hex ds) = bytes_to_hex ds"
  by (induction ds) (simp_all add: normalized_def bytes_to_hex_def hex_digits_lower)

lemma normalized_digest_hex [simp]: "normalized (digest_hex sha s d) = digest_hex sha s d"
  by (simp add: digest_hex_def crc32_hex_def Let_def split: strategy.splits)

lemma nibbles_inject:
  assumes "drop_bit 4 a = drop_bit 4 (b :: byte)" and "a AND 0x0F = b AND 0x0F"
  shows "a = b"
proof (rule bit_word_eqI)
  fix n assume "n < LENGTH(8)"
  have m: "(0x0F :: byte) = mask 4" by (simp add: mask_eq_exp_minus_1)
  show "bit a n = bit b n"
  proof (cases "n < 4")
    case True
    with arg_cong [OF assms(2), of "\<lambda>w. bit w n"] show ?thesis by (simp add: m bit_and_iff bit_mask_iff)
  next
    case False
    with arg_cong [OF assms(1), of "\<lambda>w. bit w (n - 4)"] show ?thesis by (simp add: bit_drop_bit_eq)
  qed
qed

lemma bytes_to_hex_inject [simp]: "bytes_to_hex xs = bytes_to_hex ys \<longleftrightarrow> xs = ys"
proof (induction xs arbitrary: ys)
  case Nil
  show ?case by (cases ys) (simp_all add: bytes_to_hex_def)
next
  case (Cons x xs)
  show ?case
  proof (cases ys)
    case Nil
    then show ?thesis by (simp add: bytes_to_hex_def)
  next
    case (Cons y ys')
    have "hex_digits ! unat (drop_bit 4 x) = hex_digits ! unat (drop_bit 4 y) \<Longrightarrow>
          hex_digits ! unat (x AND 0x0F) = hex_digits ! unat (y AND 0x0F) \<Longrightarrow> x = y"
      by (metis hex_digits_inject nibble_bounds nibbles_inject word_unat_eq_iff)
    then show ?thesis using Cons.IH [of ys'] Cons by (auto simp: bytes_to_hex_def)
  qed
qed

lemma bytes_to_hex_empty_iff [simp]: "bytes_to_hex xs = [] \<longleftrightarrow> xs = []"
  by (cases xs) (simp_all add: bytes_to_hex_def)

lemma verify_frame: "verify sha s p e err fs = (r, err', fs') \<Longrightarrow> files fs' = files fs"
  by (auto simp: verify_def digest_def split: option.splits prod.splits if_splits dest: ifs_read_frame)

lemma verify_trueD:
  assumes "verify sha s p e [] fs = (True, err', fs')"
  shows "\<exists>d. files fs p = Some d \<and> (e = [] \<or> normalized e = digest_hex sha s d) \<and> err' = []"
  using assms
  by (auto simp: verify_def digest_def split: option.splits prod.splits if_splits dest: ifs_read_SomeD)

text \<open>
  The acceptance decision of \<open>verify\<close> on a readable image, with the error string empty
  at the call. It accepts when no digest was asked for or when the expected text is the
  lower-case hexadecimal digest of the content up to the case of its letters; the error it
  leaves is empty or \<open>digest mismatch\<close> accordingly. An unreadable image is refused.
\<close>

theorem verify_decision:
  "verify sha s p expected [] fs =
     (case ifs_read p fs of
        (None, fs') \<Rightarrow> (False, ''cannot open file'', fs')
      | (Some d, fs') \<Rightarrow>
          if expected = [] \<or> normalized expected = digest_hex sha s d then (True, [], fs')
          else (False, ''digest mismatch'', fs'))"
  by (cases "ifs_read p fs"; cases "fst (ifs_read p fs)")
     (simp_all add: verify_def digest_def eq_commute [of "digest_hex _ _ _"])

text \<open>
  The hexadecimal text determines the digest, so an image is accepted against the
  published text of a digest \<open>h\<close> by SHA-256 only if its own digest bytes are \<open>h\<close>.
\<close>

theorem verify_sha256_binds:
  assumes "h \<noteq> []" and "verify sha Sha256 p (bytes_to_hex h) [] fs = (True, err, fs')"
  shows "\<exists>d. files fs p = Some d \<and> sha d = h"
  using verify_trueD [OF assms(2)] assms(1) by (auto simp: digest_hex_def)

theorem verify_sha256_binds_witness:
  "\<exists>d. files \<lparr>files = [''/i'' \<mapsto> [1, 2]], faults = []\<rparr> ''/i'' = Some d \<and> rev d = [2, 1]"
proof -
  have "verify rev Sha256 ''/i'' (bytes_to_hex [2, 1]) [] \<lparr>files = [''/i'' \<mapsto> [1, 2]], faults = []\<rparr> =
      (True, [], \<lparr>files = [''/i'' \<mapsto> [1, 2]], faults = []\<rparr>)"
    by (simp add: verify_def digest_def ifs_read_ok digest_hex_def)
  from verify_sha256_binds [OF _ this] show ?thesis by simp
qed

end
