(* ===== verification/SlotManager.thy ===== *)
theory SlotManager
  imports FileSys
begin

text \<open>
  The A/B slot interface \<open>ota::SlotManager\<close> and its file-backed implementation
  \<open>MockSlotManager\<close> (src/src/ota/slot_manager.h and .cpp). The abstract class is the record
  \<open>slot_ops\<close> of its virtual functions over an implementation state; its contract is the locale
  \<open>slot_manager\<close> (an image is only ever written to the slot that is not running) and the
  locale \<open>ab_switch\<close> that adds what activation and rollback promise.
\<close>

record 's slot_ops =
  so_current_slot :: "'s \<Rightarrow> string"
  so_inactive_slot :: "'s \<Rightarrow> string"
  so_write_image :: "string \<Rightarrow> string \<Rightarrow> 's \<Rightarrow> fsys \<Rightarrow> bool \<times> 's \<times> fsys"
  so_activate :: "'s \<Rightarrow> fsys \<Rightarrow> bool \<times> 's \<times> fsys"
  so_rollback :: "'s \<Rightarrow> fsys \<Rightarrow> bool \<times> 's \<times> fsys"
  so_inactive_valid :: "'s \<Rightarrow> fsys \<Rightarrow> bool \<times> fsys"

section \<open>The contract\<close>

locale slot_manager =
  fixes ops :: "'s slot_ops"
    and inv :: "'s \<Rightarrow> bool"
    and slot_files :: "'s \<Rightarrow> string \<Rightarrow> string set"
  assumes inactive_differs: "inv s \<Longrightarrow> so_inactive_slot ops s \<noteq> so_current_slot ops s"
    and slots_disjoint:
      "inv s \<Longrightarrow> slot_files s (so_inactive_slot ops s) \<inter> slot_files s (so_current_slot ops s) = {}"
    and write_keeps: "inv s \<Longrightarrow> so_write_image ops p v s fs = (r, s', fs') \<Longrightarrow> s' = s"
    and write_frame: "inv s \<Longrightarrow> so_write_image ops p v s fs = (r, s', fs') \<Longrightarrow>
       only_changes (slot_files s (so_inactive_slot ops s)) fs fs'"
begin

text \<open>Whatever fails on the way, the running slot keeps its files.\<close>

lemma write_spares_active:
  assumes "inv s" and "so_write_image ops p v s fs = (r, s', fs')"
    and "f \<in> slot_files s (so_current_slot ops s)"
  shows "files fs' f = files fs f"
  using write_frame [OF assms(1,2)] slots_disjoint [OF assms(1)] assms(3)
  by (auto simp: only_changes_def)

end

locale ab_switch = slot_manager ops inv slot_files
  for ops :: "'s slot_ops" and inv :: "'s \<Rightarrow> bool" and slot_files :: "'s \<Rightarrow> string \<Rightarrow> string set" +
  fixes last_good :: "'s \<Rightarrow> string"
  assumes activate_inv: "inv s \<Longrightarrow> so_activate ops s fs = (r, s', fs') \<Longrightarrow> inv s'"
    and activate_switches: "inv s \<Longrightarrow> so_activate ops s fs = (True, s', fs') \<Longrightarrow>
       so_current_slot ops s' = so_inactive_slot ops s \<and> last_good s' = so_current_slot ops s"
    and activate_refused: "inv s \<Longrightarrow> so_activate ops s fs = (False, s', fs') \<Longrightarrow>
       s' = s \<or> so_current_slot ops s' = so_inactive_slot ops s \<and> last_good s' = so_current_slot ops s"
    and rollback_inv: "inv s \<Longrightarrow> so_rollback ops s fs = (r, s', fs') \<Longrightarrow> inv s'"
    and rollback_restores: "inv s \<Longrightarrow> so_rollback ops s fs = (r, s', fs') \<Longrightarrow>
       so_current_slot ops s' = last_good s \<and> last_good s' = last_good s"
begin

text \<open>Activation and then rollback is back where it started, and the other slot is spare again.\<close>

lemma activate_rollback:
  assumes "inv s" and "so_activate ops s fs = (True, s', fs')"
    and "so_rollback ops s' fs'' = (r, t, fs3)"
  shows "so_current_slot ops t = so_current_slot ops s"
  using activate_switches [OF assms(1,2)]
    rollback_restores [OF activate_inv [OF assms(1,2)] assms(3)] by simp

end

section \<open>MockSlotManager\<close>

record mock_slots =
  ms_base_dir :: string
  ms_current :: string
  ms_last_good :: string

text \<open>\<open>mkdir_p\<close>: one \<open>mkdir\<close> per path prefix that ends before a slash, then the whole path.\<close>

function mkdir_p_loop :: "string \<Rightarrow> nat \<Rightarrow> fsys \<Rightarrow> bool \<times> fsys" where
  "mkdir_p_loop path pos fs =
     (if pos < length path then
        (let slash = str_find path (CHR ''/'') pos;
             part = (case slash of None \<Rightarrow> path | Some i \<Rightarrow> take i path);
             current = (if part = [] then ''/'' else part)
         in case fs_mkdir current fs of (ok, fs') \<Rightarrow>
              if \<not> ok then (False, fs')
              else (case slash of None \<Rightarrow> (True, fs') | Some i \<Rightarrow> mkdir_p_loop path (i + 1) fs'))
      else (True, fs))"
  by pat_completeness auto
termination
  by (relation "measure (\<lambda>(path, pos, fs). length path - pos)") (auto dest!: str_find_SomeD [OF sym])

declare mkdir_p_loop.simps [simp del]

definition mkdir_p :: "string \<Rightarrow> fsys \<Rightarrow> bool \<times> fsys" where
  "mkdir_p path fs = mkdir_p_loop path 0 fs"

definition slot_dir :: "mock_slots \<Rightarrow> string \<Rightarrow> string" where
  "slot_dir ms slot = ms_base_dir ms @ ''/slots/'' @ slot"

definition ensure_dirs :: "mock_slots \<Rightarrow> fsys \<Rightarrow> bool \<times> fsys" where
  "ensure_dirs ms fs =
     (case mkdir_p (ms_base_dir ms) fs of (a, fs1) \<Rightarrow>
        if \<not> a then (False, fs1)
        else (case mkdir_p (slot_dir ms ''A'') fs1 of (b, fs2) \<Rightarrow>
          if \<not> b then (False, fs2) else mkdir_p (slot_dir ms ''B'') fs2))"

definition write_text :: "string \<Rightarrow> string \<Rightarrow> fsys \<Rightarrow> bool \<times> fsys" where
  "write_text path value fs =
     (case ofs_trunc False path (bytes_of_string value) fs of
        ((opened, good), fs') \<Rightarrow> (if \<not> opened then False else good, fs'))"

definition read_text :: "string \<Rightarrow> fsys \<Rightarrow> string option \<times> fsys" where
  "read_text path fs = (case ifs_read path fs of (d, fs') \<Rightarrow> (map_option string_of_bytes d, fs'))"

definition mock_inactive_slot :: "mock_slots \<Rightarrow> string" where
  "mock_inactive_slot ms = (if ms_current ms = ''A'' then ''B'' else ''A'')"

definition mock_slots_new :: "string \<Rightarrow> string \<Rightarrow> fsys \<Rightarrow> mock_slots \<times> fsys" where
  "mock_slots_new base current fs =
     (let ms = \<lparr>ms_base_dir = base, ms_current = current, ms_last_good = current\<rparr>;
          (_, fs1) = ensure_dirs ms fs;
          (_, fs2) = write_text (base @ ''/current_slot'') current fs1;
          (_, fs3) = write_text (base @ ''/last_good_slot'') current fs2
      in (ms, fs3))"

text \<open>
  \<open>output << input.rdbuf()\<close> sets the failure bit when it copies nothing, so an empty image
  is refused; an image that is the target file itself has been truncated by then.
\<close>

definition mock_write_image ::
  "string \<Rightarrow> string \<Rightarrow> mock_slots \<Rightarrow> fsys \<Rightarrow> bool \<times> mock_slots \<times> fsys" where
  "mock_write_image image_path version ms fs =
     (let target = mock_inactive_slot ms in
      case ensure_dirs ms fs of (dirs, fs1) \<Rightarrow>
      if \<not> dirs then (False, ms, fs1)
      else (case ifs_read image_path fs1 of
        (None, fs2) \<Rightarrow> (False, ms, fs2)
      | (Some content, fs2) \<Rightarrow>
          (let output_path = slot_dir ms target @ ''/rootfs.img'';
               d = (if image_path = output_path then [] else content)
           in case ofs_trunc True output_path d fs2 of ((opened, good), fs3) \<Rightarrow>
              if \<not> opened then (False, ms, fs3)
              else if \<not> good \<or> d = [] then (False, ms, fs3)
              else (case write_text (slot_dir ms target @ ''/version'') version fs3 of
                      (ok, fs4) \<Rightarrow> (ok, ms, fs4)))))"

definition mock_inactive_valid :: "mock_slots \<Rightarrow> fsys \<Rightarrow> bool \<times> fsys" where
  "mock_inactive_valid ms fs =
     (case ifs_read (slot_dir ms (mock_inactive_slot ms) @ ''/rootfs.img'') fs of
        (None, fs1) \<Rightarrow> (False, fs1)
      | (Some _, fs1) \<Rightarrow>
          (case read_text (slot_dir ms (mock_inactive_slot ms) @ ''/version'') fs1 of
             (v, fs2) \<Rightarrow> (v \<noteq> None, fs2)))"

definition mock_activate :: "mock_slots \<Rightarrow> fsys \<Rightarrow> bool \<times> mock_slots \<times> fsys" where
  "mock_activate ms fs =
     (case mock_inactive_valid ms fs of (valid, fs1) \<Rightarrow>
      if \<not> valid then (False, ms, fs1)
      else (let ms' = ms\<lparr>ms_last_good := ms_current ms, ms_current := mock_inactive_slot ms\<rparr> in
            case write_text (ms_base_dir ms @ ''/last_good_slot'') (ms_last_good ms') fs1 of (a, fs2) \<Rightarrow>
            if \<not> a then (False, ms', fs2)
            else (case write_text (ms_base_dir ms @ ''/current_slot'') (ms_current ms') fs2 of
                    (b, fs3) \<Rightarrow> (b, ms', fs3))))"

definition mock_rollback :: "mock_slots \<Rightarrow> fsys \<Rightarrow> bool \<times> mock_slots \<times> fsys" where
  "mock_rollback ms fs =
     (if ms_last_good ms = [] then (False, ms, fs)
      else (let ms' = ms\<lparr>ms_current := ms_last_good ms\<rparr> in
            case write_text (ms_base_dir ms @ ''/current_slot'') (ms_current ms') fs of
              (ok, fs') \<Rightarrow> (ok, ms', fs')))"

definition mock_ops :: "mock_slots slot_ops" where
  "mock_ops = \<lparr>so_current_slot = ms_current, so_inactive_slot = mock_inactive_slot,
     so_write_image = mock_write_image, so_activate = mock_activate,
     so_rollback = mock_rollback, so_inactive_valid = mock_inactive_valid\<rparr>"

section \<open>Frames of the file primitives\<close>

lemma mkdir_p_loop_frame: "mkdir_p_loop path pos fs = (r, fs') \<Longrightarrow> files fs' = files fs"
proof (induction path pos fs arbitrary: r rule: mkdir_p_loop.induct)
  case (1 path pos fs)
  let ?slash = "str_find path (CHR ''/'') pos"
  let ?part = "case ?slash of None \<Rightarrow> path | Some i \<Rightarrow> take i path"
  let ?cur = "if ?part = [] then ''/'' else ?part"
  show ?case
  proof (cases "pos < length path")
    case True
    obtain ok fs1 where mk: "fs_mkdir ?cur fs = (ok, fs1)" by fastforce
    with True "1.prems" show ?thesis
      using fs_mkdir_frame [OF mk] "1.IH" [OF True refl refl refl mk [symmetric]]
      by (subst (asm) mkdir_p_loop.simps)
         (auto simp: Let_def split: if_split_asm option.split_asm)
  next
    case False
    with "1.prems" show ?thesis by (simp add: mkdir_p_loop.simps)
  qed
qed

lemma mkdir_p_frame [frame_simps]: "mkdir_p path fs = (r, fs') \<Longrightarrow> files fs' = files fs"
  by (simp add: mkdir_p_def mkdir_p_loop_frame)

lemma ensure_dirs_frame [frame_simps]: "ensure_dirs ms fs = (r, fs') \<Longrightarrow> files fs' = files fs"
  by (auto simp: ensure_dirs_def split: prod.splits if_splits dest!: mkdir_p_frame)

lemma write_text_frame: "write_text p v fs = (r, fs') \<Longrightarrow> only_changes {p} fs fs'"
  by (auto simp: write_text_def split: prod.splits dest: ofs_trunc_frame)

lemma read_text_frame [frame_simps]: "read_text p fs = (r, fs') \<Longrightarrow> files fs' = files fs"
  by (auto simp: read_text_def split: prod.splits dest: ifs_read_frame)

lemma mkdir_p_loop_ok: "faults fs = [] \<Longrightarrow> mkdir_p_loop path pos fs = (True, fs)"
proof (induction path pos fs rule: mkdir_p_loop.induct)
  case (1 path pos fs)
  then show ?case
    by (subst mkdir_p_loop.simps) (auto simp: Let_def fs_mkdir_ok split: option.splits)
qed

lemma ensure_dirs_ok [io_simps]: "faults fs = [] \<Longrightarrow> ensure_dirs ms fs = (True, fs)"
  by (simp add: ensure_dirs_def mkdir_p_def mkdir_p_loop_ok)

lemma write_text_ok [io_simps]:
  "faults fs = [] \<Longrightarrow> write_text p v fs = (True, put_file p (bytes_of_string v) fs)"
  by (simp add: write_text_def ofs_trunc_ok)

lemma read_text_ok [io_simps]:
  "faults fs = [] \<Longrightarrow> read_text p fs = (map_option string_of_bytes (files fs p), fs)"
  by (simp add: read_text_def ifs_read_ok)

section \<open>MockSlotManager meets the contract\<close>

definition mock_inv :: "mock_slots \<Rightarrow> bool" where
  "mock_inv ms \<longleftrightarrow> ms_current ms \<in> {''A'', ''B''} \<and> ms_last_good ms \<in> {''A'', ''B''}"

definition mock_slot_files :: "mock_slots \<Rightarrow> string \<Rightarrow> string set" where
  "mock_slot_files ms slot = {slot_dir ms slot @ ''/rootfs.img'', slot_dir ms slot @ ''/version''}"

lemma mock_write_frame:
  assumes "mock_write_image p v ms fs = (r, ms', fs')"
  shows "ms' = ms \<and> only_changes (mock_slot_files ms (mock_inactive_slot ms)) fs fs'"
  using assms
  by (auto simp: mock_write_image_def Let_def only_changes_def mock_slot_files_def
      split: prod.splits option.splits if_splits
      dest!: ensure_dirs_frame ifs_read_frame ofs_trunc_frame write_text_frame)

lemma mock_inactive_valid_frame: "mock_inactive_valid ms fs = (r, fs') \<Longrightarrow> files fs' = files fs"
  by (auto simp: mock_inactive_valid_def split: prod.splits option.splits
      dest!: ifs_read_frame read_text_frame)

text \<open>What a write that reports success has stored.\<close>

lemma mock_write_imageD:
  assumes "mock_write_image p v ms fs = (True, ms', fs')"
    and "p \<noteq> slot_dir ms (mock_inactive_slot ms) @ ''/rootfs.img''"
  shows "\<exists>d. files fs p = Some d \<and>
           files fs' (slot_dir ms (mock_inactive_slot ms) @ ''/rootfs.img'') = Some d"
proof -
  let ?out = "slot_dir ms (mock_inactive_slot ms) @ ''/rootfs.img''"
  from assms obtain d fs1 fs2 fs3 where e: "ensure_dirs ms fs = (True, fs1)"
    and r: "ifs_read p fs1 = (Some d, fs2)" and w: "ofs_trunc True ?out d fs2 = ((True, True), fs3)"
    and v: "write_text (slot_dir ms (mock_inactive_slot ms) @ ''/version'') v fs3 = (True, fs')"
    by (auto simp: mock_write_image_def Let_def split: prod.splits option.splits if_splits)
  have "files fs' ?out = files fs3 ?out"
    using write_text_frame [OF v] by (rule only_changesD) simp
  with ofs_trunc_flushedD [OF w] ifs_read_SomeD [OF r] ensure_dirs_frame [OF e] show ?thesis by simp
qed

interpretation mock: ab_switch mock_ops mock_inv mock_slot_files ms_last_good
proof unfold_locales
  fix s fs p v r s' fs'
  show "so_inactive_slot mock_ops s \<noteq> so_current_slot mock_ops s"
    by (simp add: mock_ops_def mock_inactive_slot_def)
  show "mock_slot_files s (so_inactive_slot mock_ops s) \<inter> mock_slot_files s (so_current_slot mock_ops s) = {}"
    if "mock_inv s"
    using that by (auto simp: mock_ops_def mock_inactive_slot_def mock_slot_files_def slot_dir_def mock_inv_def)
  show "s' = s" if "so_write_image mock_ops p v s fs = (r, s', fs')"
    using that by (auto simp: mock_ops_def dest: mock_write_frame)
  show "only_changes (mock_slot_files s (so_inactive_slot mock_ops s)) fs fs'"
    if "so_write_image mock_ops p v s fs = (r, s', fs')"
    using that by (auto simp: mock_ops_def dest: mock_write_frame)
  show "mock_inv s'" if "mock_inv s" and "so_activate mock_ops s fs = (r, s', fs')"
    using that by (auto simp: mock_ops_def mock_activate_def mock_inv_def mock_inactive_slot_def Let_def
        split: prod.splits if_splits)
  show "so_current_slot mock_ops s' = so_inactive_slot mock_ops s \<and> ms_last_good s' = so_current_slot mock_ops s"
    if "so_activate mock_ops s fs = (True, s', fs')"
    using that by (auto simp: mock_ops_def mock_activate_def Let_def split: prod.splits if_splits)
  show "s' = s \<or> so_current_slot mock_ops s' = so_inactive_slot mock_ops s \<and> ms_last_good s' = so_current_slot mock_ops s"
    if "so_activate mock_ops s fs = (False, s', fs')"
    using that by (auto simp: mock_ops_def mock_activate_def Let_def split: prod.splits if_splits)
  show "mock_inv s'" if "mock_inv s" and "so_rollback mock_ops s fs = (r, s', fs')"
    using that by (auto simp: mock_ops_def mock_rollback_def mock_inv_def Let_def split: prod.splits if_splits)
  show "so_current_slot mock_ops s' = ms_last_good s \<and> ms_last_good s' = ms_last_good s"
    if "mock_inv s" and "so_rollback mock_ops s fs = (r, s', fs')"
    using that by (auto simp: mock_ops_def mock_rollback_def mock_inv_def Let_def split: prod.splits if_splits)
qed

end
