(* ===== verification/BootController.thy ===== *)
theory BootController
  imports SlotManager
begin

text \<open>
  The boot-control interface \<open>ota::BootController\<close> and its file-backed implementation
  \<open>MockBootController\<close> (src/src/ota/boot_controller.h and .cpp), whose state is the directory it
  keeps its files in.
\<close>

record 'b boot_ops =
  bo_set_next_slot :: "string \<Rightarrow> 'b \<Rightarrow> fsys \<Rightarrow> bool \<times> 'b \<times> fsys"
  bo_reboot :: "'b \<Rightarrow> fsys \<Rightarrow> bool \<times> 'b \<times> fsys"
  bo_mark_boot_success :: "'b \<Rightarrow> fsys \<Rightarrow> bool \<times> 'b \<times> fsys"
  bo_mark_boot_failed :: "string \<Rightarrow> 'b \<Rightarrow> fsys \<Rightarrow> bool \<times> 'b \<times> fsys"

text \<open>\<open>MockBootController\<close> has its own copies of \<open>write_text\<close> and \<open>read_text\<close>.\<close>

definition boot_write_text :: "string \<Rightarrow> string \<Rightarrow> fsys \<Rightarrow> bool \<times> fsys" where
  "boot_write_text path value fs =
     (case ofs_trunc False path (bytes_of_string value) fs of
        ((opened, good), fs') \<Rightarrow> (if \<not> opened then False else good, fs'))"

definition boot_read_text :: "string \<Rightarrow> fsys \<Rightarrow> string option \<times> fsys" where
  "boot_read_text path fs = (case ifs_read path fs of (d, fs') \<Rightarrow> (map_option string_of_bytes d, fs'))"

type_synonym mock_boot = string

definition mock_boot_new :: "string \<Rightarrow> fsys \<Rightarrow> mock_boot \<times> fsys" where
  "mock_boot_new state_dir fs = (let (_, fs') = fs_mkdir state_dir fs in (state_dir, fs'))"

definition mock_set_next_slot :: "string \<Rightarrow> mock_boot \<Rightarrow> fsys \<Rightarrow> bool \<times> mock_boot \<times> fsys" where
  "mock_set_next_slot slot dir fs =
     (case boot_write_text (dir @ ''/next_slot'') slot fs of (ok, fs') \<Rightarrow> (ok, dir, fs'))"

definition mock_reboot :: "mock_boot \<Rightarrow> fsys \<Rightarrow> bool \<times> mock_boot \<times> fsys" where
  "mock_reboot dir fs =
     (case boot_write_text (dir @ ''/boot_attempted'') ''1'' fs of (ok, fs') \<Rightarrow> (ok, dir, fs'))"

definition mock_mark_boot_success :: "mock_boot \<Rightarrow> fsys \<Rightarrow> bool \<times> mock_boot \<times> fsys" where
  "mock_mark_boot_success dir fs =
     (case boot_write_text (dir @ ''/boot_result'') ''success'' fs of (ok, fs') \<Rightarrow> (ok, dir, fs'))"

definition mock_mark_boot_failed :: "string \<Rightarrow> mock_boot \<Rightarrow> fsys \<Rightarrow> bool \<times> mock_boot \<times> fsys" where
  "mock_mark_boot_failed reason dir fs =
     (case boot_write_text (dir @ ''/boot_result'') ''failed'' fs of (a, fs1) \<Rightarrow>
        if \<not> a then (False, dir, fs1)
        else (case boot_write_text (dir @ ''/boot_error'') reason fs1 of (b, fs2) \<Rightarrow> (b, dir, fs2)))"

definition next_slot :: "mock_boot \<Rightarrow> fsys \<Rightarrow> string \<times> fsys" where
  "next_slot dir fs = (case boot_read_text (dir @ ''/next_slot'') fs of (v, fs') \<Rightarrow> (case_option [] id v, fs'))"

definition last_error :: "mock_boot \<Rightarrow> fsys \<Rightarrow> string \<times> fsys" where
  "last_error dir fs = (case boot_read_text (dir @ ''/boot_error'') fs of (v, fs') \<Rightarrow> (case_option [] id v, fs'))"

definition reboot_attempted :: "mock_boot \<Rightarrow> fsys \<Rightarrow> bool \<times> fsys" where
  "reboot_attempted dir fs =
     (case boot_read_text (dir @ ''/boot_attempted'') fs of (v, fs') \<Rightarrow> (case_option [] id v = ''1'', fs'))"

definition mock_boot_ops :: "mock_boot boot_ops" where
  "mock_boot_ops = \<lparr>bo_set_next_slot = mock_set_next_slot, bo_reboot = mock_reboot,
     bo_mark_boot_success = mock_mark_boot_success, bo_mark_boot_failed = mock_mark_boot_failed\<rparr>"

definition mock_boot_files :: "mock_boot \<Rightarrow> string set" where
  "mock_boot_files dir = (\<lambda>f. dir @ f) ` {''/next_slot'', ''/boot_attempted'', ''/boot_result'', ''/boot_error''}"

section \<open>What the OTA manager may rely on\<close>

text \<open>A boot controller changes no file but its own.\<close>

locale boot_control =
  fixes ops :: "'b boot_ops"
    and boot_files :: "'b \<Rightarrow> string set"
  assumes next_frame: "bo_set_next_slot ops slot b fs = (r, b', fs') \<Longrightarrow>
      b' = b \<and> only_changes (boot_files b) fs fs'"
    and reboot_frame: "bo_reboot ops b fs = (r, b', fs') \<Longrightarrow>
      b' = b \<and> only_changes (boot_files b) fs fs'"

lemma boot_write_text_frame: "boot_write_text p v fs = (r, fs') \<Longrightarrow> only_changes {p} fs fs'"
  by (auto simp: boot_write_text_def split: prod.splits dest: ofs_trunc_frame)

lemma boot_write_text_ok [io_simps]:
  "faults fs = [] \<Longrightarrow> boot_write_text p v fs = (True, put_file p (bytes_of_string v) fs)"
  by (simp add: boot_write_text_def ofs_trunc_ok)

lemma boot_read_text_ok [io_simps]:
  "faults fs = [] \<Longrightarrow> boot_read_text p fs = (map_option string_of_bytes (files fs p), fs)"
  by (simp add: boot_read_text_def ifs_read_ok)

interpretation mock_boot: boot_control mock_boot_ops mock_boot_files
  by unfold_locales
     (auto simp: mock_boot_ops_def mock_set_next_slot_def mock_reboot_def mock_boot_files_def
        split: prod.splits dest!: boot_write_text_frame intro: only_changes_mono)

end
