(* ===== verification/LinuxAb.thy ===== *)
theory LinuxAb
  imports BootController
begin

text \<open>
  The slot manager and boot controller of the board (src/src/ota/linuxab_slot_manager.h/.cpp and
  linuxab_boot_controller.h/.cpp): the running slot is read from the kernel command line, the
  \<open>boot\<close> and \<open>rootfs\<close> items of a Rockchip image are copied to the block devices of the other
  slot, and switching is delegated to the board's \<open>rkboot_control\<close> tool. The shell is a list of
  command outcomes and a log of the commands given. A block device is a file of fixed size;
  the image is read as it was when it was opened (it is no block device itself).
\<close>

definition kRkImageTag :: u32 where "kRkImageTag = 0x46414B52"
definition kRkFwMagic :: u32 where "kRkFwMagic = 0x57464B52"

record rk_item =
  ri_name :: bytes
  ri_file :: bytes
  ri_offset :: u32
  ri_flash_offset :: u32
  ri_usespace :: u32
  ri_size :: u32

record rk_header =
  rh_tag :: u32
  rh_size :: u32
  rh_machine_model :: bytes
  rh_manufacturer :: bytes
  rh_version :: u32
  rh_item_count :: u32
  rh_items :: "rk_item list"

text \<open>The layout of \<open>RkImageItem\<close> (112 bytes) and \<open>RkImageHeader\<close> (140 + 16 * 112 bytes).\<close>

definition parse_rk_item :: "bytes \<Rightarrow> rk_item" where
  "parse_rk_item b = \<lparr>ri_name = take 32 b, ri_file = take 64 (drop 32 b),
     ri_offset = le_word (take 4 (drop 96 b)), ri_flash_offset = le_word (take 4 (drop 100 b)),
     ri_usespace = le_word (take 4 (drop 104 b)), ri_size = le_word (take 4 (drop 108 b))\<rparr>"

definition rk_header_size :: nat where "rk_header_size = 1932"

definition parse_rk_header :: "bytes \<Rightarrow> rk_header" where
  "parse_rk_header b = \<lparr>rh_tag = le_word (take 4 b), rh_size = le_word (take 4 (drop 4 b)),
     rh_machine_model = take 64 (drop 8 b), rh_manufacturer = take 60 (drop 72 b),
     rh_version = le_word (take 4 (drop 132 b)), rh_item_count = le_word (take 4 (drop 136 b)),
     rh_items = map (\<lambda>i. parse_rk_item (take 112 (drop (140 + 112 * i) b))) [0..<16]\<rparr>"

definition ReadU32Le :: "bytes \<Rightarrow> u32" where
  "ReadU32Le p = ucast (p ! 0) OR push_bit 8 (ucast (p ! 1)) OR
                 push_bit 16 (ucast (p ! 2)) OR push_bit 24 (ucast (p ! 3))"

record shell =
  sh_results :: "bool list"
  sh_log :: "string list"

definition run_command :: "string \<Rightarrow> shell \<Rightarrow> bool \<times> shell" where
  "run_command cmd sh = (case sh_results sh of
     [] \<Rightarrow> (True, sh\<lparr>sh_log := sh_log sh @ [cmd]\<rparr>)
   | r # rs \<Rightarrow> (r, sh\<lparr>sh_results := rs, sh_log := sh_log sh @ [cmd]\<rparr>))"

record linux_slots =
  ls_current :: string
  ls_shell :: shell

definition detect_current_slot :: "fsys \<Rightarrow> string option \<times> fsys" where
  "detect_current_slot fs =
     (case ifs_read ''/proc/cmdline'' fs of
        (None, fs') \<Rightarrow> (None, fs')
      | (Some d, fs') \<Rightarrow>
          (let line = takeWhile (\<lambda>c. c \<noteq> CHR 0x0A) (string_of_bytes d);
               key = ''androidboot.slot_suffix=''
           in (case str_find_sub key line of
                 None \<Rightarrow> None
               | Some pos \<Rightarrow>
                   (let suffix = take 2 (drop (pos + length key) line) in
                    if suffix = ''_a'' then Some ''A''
                    else if suffix = ''_b'' then Some ''B'' else None), fs')))"

definition linux_slots_new :: "shell \<Rightarrow> fsys \<Rightarrow> linux_slots \<times> fsys" where
  "linux_slots_new sh fs = (case detect_current_slot fs of (slot, fs') \<Rightarrow>
     (\<lparr>ls_current = case_option ''A'' id slot, ls_shell = sh\<rparr>, fs'))"

definition linux_inactive_slot :: "linux_slots \<Rightarrow> string" where
  "linux_inactive_slot s = (if ls_current s = ''A'' then ''B'' else ''A'')"

text \<open>\<open>write(2)\<close> at an offset of a block device; a full device or a fault writes less.\<close>

definition dev_write :: "string \<Rightarrow> nat \<Rightarrow> bytes \<Rightarrow> fsys \<Rightarrow> nat \<times> fsys" where
  "dev_write dev off chunk fs =
     (case next_fault fs of (f, fs') \<Rightarrow>
        (let old = case_option [] id (files fs' dev);
             room = min (length chunk) (length old - off);
             n = (case f of IoOk \<Rightarrow> room | IoOpenFail \<Rightarrow> 0 | IoShort k _ \<Rightarrow> min k room)
         in (n, put_file dev (take off old @ take n chunk @ drop (off + n) old) fs')))"

text \<open>
  The copy loop: a read of at most 1 MiB of what is left of the item, and its write to the
  device. A read past the end of the image gives nothing and ends the loop with an error.
\<close>

definition item_chunk :: "bytes \<Rightarrow> nat \<Rightarrow> nat \<Rightarrow> bytes" where
  "item_chunk img src remaining = take (min 1048576 remaining) (drop src img)"

lemma item_chunk_le: "length (item_chunk img src remaining) \<le> remaining"
  by (simp add: item_chunk_def)

function write_item_loop :: "bytes \<Rightarrow> nat \<Rightarrow> string \<Rightarrow> nat \<Rightarrow> nat \<Rightarrow> fsys \<Rightarrow> bool \<times> fsys" where
  "write_item_loop img src dev dst remaining fs =
     (if remaining = 0 then (True, fs)
      else (let chunk = item_chunk img src remaining in
            if chunk = [] then (False, fs)
            else (case dev_write dev dst chunk fs of (n, fs') \<Rightarrow>
                    if n \<noteq> length chunk then (False, fs')
                    else write_item_loop img (src + length chunk) dev (dst + length chunk)
                           (remaining - length chunk) fs')))"
  by pat_completeness auto
termination
  by (relation "measure (\<lambda>(img, src, dev, dst, remaining, fs). remaining)")
     auto

declare write_item_loop.simps [simp del]

definition write_item :: "string \<Rightarrow> u32 \<Rightarrow> u32 \<Rightarrow> string \<Rightarrow> fsys \<Rightarrow> bool \<times> fsys" where
  "write_item image_path item_offset item_size device fs =
     (case ifs_read image_path fs of
        (None, fs1) \<Rightarrow> (False, fs1)
      | (Some img, fs1) \<Rightarrow>
          (case next_fault fs1 of
             (IoOpenFail, fs2) \<Rightarrow> (False, fs2)
           | (_, fs2) \<Rightarrow>
               if files fs2 device = None then (False, fs2)
               else write_item_loop img (unat item_offset) device 0 (unat item_size) fs2))"

text \<open>\<open>strcmp(item.name, name) == 0\<close>: the characters up to the first NUL.\<close>

definition item_named :: "rk_item \<Rightarrow> string \<Rightarrow> bool" where
  "item_named it name \<longleftrightarrow> takeWhile (\<lambda>b. b \<noteq> 0) (ri_name it) = bytes_of_string name"

definition item_device :: "char \<Rightarrow> rk_item \<Rightarrow> string option" where
  "item_device slot_char it =
     (if item_named it ''boot'' then Some (''/dev/block/by-name/boot_'' @ [slot_char])
      else if item_named it ''rootfs'' then Some (''/dev/block/by-name/system_'' @ [slot_char])
      else None)"

fun write_items :: "u32 \<Rightarrow> char \<Rightarrow> string \<Rightarrow> rk_item list \<Rightarrow> fsys \<Rightarrow> bool \<times> fsys" where
  "write_items gfw_offset slot_char image_path [] fs = (True, fs)"
| "write_items gfw_offset slot_char image_path (it # its) fs =
     (let offset = (if gfw_offset \<noteq> 0 then ri_offset it + gfw_offset else ri_offset it) in
      case item_device slot_char it of
        None \<Rightarrow> write_items gfw_offset slot_char image_path its fs
      | Some device \<Rightarrow>
          (case write_item image_path offset (ri_size it) device fs of (ok, fs') \<Rightarrow>
             if ok then write_items gfw_offset slot_char image_path its fs' else (False, fs')))"

definition linux_slot_char :: "string \<Rightarrow> char" where
  "linux_slot_char slot = (if slot = ''A'' then CHR ''a'' else CHR ''b'')"

text \<open>The header of a package: where it starts and what it must say to be used.\<close>

definition rk_gfw_offset :: "bytes \<Rightarrow> u32" where
  "rk_gfw_offset img = (if ReadU32Le img = kRkFwMagic then ReadU32Le (drop 0x21 img) else 0)"

definition rk_image_header :: "bytes \<Rightarrow> rk_header option" where
  "rk_image_header img =
     (if length img < 512 then None
      else (let raw = take rk_header_size (drop (unat (rk_gfw_offset img)) img);
                hdr = parse_rk_header raw
            in if length raw \<noteq> rk_header_size \<or> rh_tag hdr \<noteq> kRkImageTag \<or>
                  sint (rh_item_count hdr) \<le> 0 \<or> sint (rh_item_count hdr) > 16
               then None else Some hdr))"

definition linux_write_image ::
  "string \<Rightarrow> string \<Rightarrow> linux_slots \<Rightarrow> fsys \<Rightarrow> bool \<times> linux_slots \<times> fsys" where
  "linux_write_image image_path version s fs =
     (case ifs_read image_path fs of
        (None, fs1) \<Rightarrow> (False, s, fs1)
      | (Some img, fs1) \<Rightarrow>
          (case rk_image_header img of
             None \<Rightarrow> (False, s, fs1)
           | Some hdr \<Rightarrow>
               (case write_items (rk_gfw_offset img) (linux_slot_char (linux_inactive_slot s)) image_path
                       (take (nat (sint (rh_item_count hdr))) (rh_items hdr)) fs1 of
                  (ok, fs2) \<Rightarrow> (ok, s, fs2))))"

definition linux_activate :: "linux_slots \<Rightarrow> fsys \<Rightarrow> bool \<times> linux_slots \<times> fsys" where
  "linux_activate s fs = (case run_command ''rkboot_control other'' (ls_shell s) of
     (ok, sh) \<Rightarrow> (ok, s\<lparr>ls_shell := sh\<rparr>, fs))"

definition linux_rollback :: "linux_slots \<Rightarrow> fsys \<Rightarrow> bool \<times> linux_slots \<times> fsys" where
  "linux_rollback s fs = (case run_command ''rkboot_control other'' (ls_shell s) of
     (ok, sh) \<Rightarrow> (ok, s\<lparr>ls_shell := sh\<rparr>, fs))"

definition linux_inactive_valid :: "linux_slots \<Rightarrow> fsys \<Rightarrow> bool \<times> fsys" where
  "linux_inactive_valid s fs =
     (let c = linux_slot_char (linux_inactive_slot s) in
      (files fs (''/dev/block/by-name/boot_'' @ [c]) \<noteq> None \<and>
       files fs (''/dev/block/by-name/system_'' @ [c]) \<noteq> None, fs))"

definition linux_ops :: "linux_slots slot_ops" where
  "linux_ops = \<lparr>so_current_slot = ls_current, so_inactive_slot = linux_inactive_slot,
     so_write_image = linux_write_image, so_activate = linux_activate,
     so_rollback = linux_rollback, so_inactive_valid = linux_inactive_valid\<rparr>"

section \<open>LinuxAbBootController\<close>

text \<open>
  \<open>reboot(2)\<close> does not come back when it works; a call that returns has failed, and returns
  false.
\<close>

definition linux_set_next_slot :: "string \<Rightarrow> shell \<Rightarrow> fsys \<Rightarrow> bool \<times> shell \<times> fsys" where
  "linux_set_next_slot slot sh fs = (True, sh, fs)"

definition linux_reboot :: "shell \<Rightarrow> fsys \<Rightarrow> bool \<times> shell \<times> fsys" where
  "linux_reboot sh fs = (False, sh, fs)"

definition linux_mark_boot_success :: "shell \<Rightarrow> fsys \<Rightarrow> bool \<times> shell \<times> fsys" where
  "linux_mark_boot_success sh fs = (case run_command ''rkboot_control now'' sh of (ok, sh') \<Rightarrow> (ok, sh', fs))"

definition linux_mark_boot_failed :: "string \<Rightarrow> shell \<Rightarrow> fsys \<Rightarrow> bool \<times> shell \<times> fsys" where
  "linux_mark_boot_failed reason sh fs = (True, sh, fs)"

definition linux_boot_ops :: "shell boot_ops" where
  "linux_boot_ops = \<lparr>bo_set_next_slot = linux_set_next_slot, bo_reboot = linux_reboot,
     bo_mark_boot_success = linux_mark_boot_success, bo_mark_boot_failed = linux_mark_boot_failed\<rparr>"

interpretation linux_boot: boot_control linux_boot_ops "\<lambda>_. {}"
  by unfold_locales (auto simp: linux_boot_ops_def linux_set_next_slot_def linux_reboot_def)

section \<open>Only the spare slot's devices are written\<close>

lemma dev_write_frame: "dev_write dev off chunk fs = (n, fs') \<Longrightarrow> only_changes {dev} fs fs'"
  by (auto simp: dev_write_def Let_def only_changes_def split: prod.splits)

lemma write_item_loop_step:
  assumes "remaining \<noteq> 0" and "item_chunk img src remaining \<noteq> []"
    and "dev_write dev dst (item_chunk img src remaining) fs = (n, fs1)"
  shows "write_item_loop img src dev dst remaining fs =
    (if n \<noteq> length (item_chunk img src remaining) then (False, fs1)
     else write_item_loop img (src + length (item_chunk img src remaining)) dev
            (dst + length (item_chunk img src remaining))
            (remaining - length (item_chunk img src remaining)) fs1)"
  using assms by (subst write_item_loop.simps) (simp add: Let_def)

lemma write_item_loop_frame:
  "write_item_loop img src dev dst remaining fs = (r, fs') \<Longrightarrow> only_changes {dev} fs fs'"
proof (induction img src dev dst remaining fs arbitrary: r rule: write_item_loop.induct)
  case (1 img src dev dst remaining fs)
  let ?chunk = "item_chunk img src remaining"
  show ?case
  proof (cases "remaining = 0 \<or> ?chunk = []")
    case True
    with "1.prems" show ?thesis by (auto simp: write_item_loop.simps [of img src dev dst remaining fs] Let_def split: if_splits)
  next
    case False
    obtain n fs1 where w: "dev_write dev dst ?chunk fs = (n, fs1)" by fastforce
    note step = write_item_loop_step [OF _ _ w]
    show ?thesis
    proof (cases "n = length ?chunk")
      case True
      with "1.prems" False step
      have rec: "write_item_loop img (src + length ?chunk) dev (dst + length ?chunk)
          (remaining - length ?chunk) fs1 = (r, fs')" by simp
      have "only_changes {dev} fs1 fs'"
        by (rule "1.IH" [OF _ refl _ w [symmetric] _ rec]) (use False True in auto)
      with dev_write_frame [OF w] show ?thesis by (rule only_changes_trans_same)
    next
      case n: False
      with "1.prems" False step dev_write_frame [OF w] show ?thesis by simp
    qed
  qed
qed

lemma write_item_frame:
  assumes "write_item p off sz dev fs = (r, fs')"
  shows "only_changes {dev} fs fs'"
  using assms
  by (auto simp: write_item_def only_changes_def split: prod.splits option.splits io_fault.splits if_splits
      dest!: ifs_read_frame write_item_loop_frame files_next_fault)

definition linux_slot_files :: "linux_slots \<Rightarrow> string \<Rightarrow> string set" where
  "linux_slot_files s slot = {''/dev/block/by-name/boot_'' @ [linux_slot_char slot],
                              ''/dev/block/by-name/system_'' @ [linux_slot_char slot]}"

lemma write_items_frame:
  "write_items gfw c p its fs = (r, fs') \<Longrightarrow>
     only_changes {''/dev/block/by-name/boot_'' @ [c], ''/dev/block/by-name/system_'' @ [c]} fs fs'"
proof (induction gfw c p its fs rule: write_items.induct)
  case (2 gfw c p it its fs)
  show ?case
  proof (cases "item_device c it")
    case None
    with "2.prems" "2.IH"(1) show ?thesis by (auto simp: Let_def)
  next
    case (Some dev)
    then have dev: "{dev} \<subseteq> {''/dev/block/by-name/boot_'' @ [c], ''/dev/block/by-name/system_'' @ [c]}"
      by (auto simp: item_device_def split: if_splits)
    obtain ok fs1 where w: "write_item p (if gfw \<noteq> 0 then ri_offset it + gfw else ri_offset it)
        (ri_size it) dev fs = (ok, fs1)" by fastforce
    note fr = only_changes_mono [OF write_item_frame [OF w] dev]
    show ?thesis
    proof (cases ok)
      case True
      with "2.prems" Some w have "write_items gfw c p its fs1 = (r, fs')" by (simp add: Let_def)
      with "2.IH"(2) [OF refl Some w [symmetric]] True show ?thesis
        using fr by (auto intro: only_changes_trans_same)
    next
      case False
      with "2.prems" Some w fr show ?thesis by (simp add: Let_def)
    qed
  qed
qed simp

lemma linux_write_frame:
  assumes "linux_write_image p v s fs = (r, s', fs')"
  shows "s' = s \<and> only_changes (linux_slot_files s (linux_inactive_slot s)) fs fs'"
  using assms
  by (auto simp: linux_write_image_def linux_slot_files_def split: prod.splits option.splits
      dest!: ifs_read_frame write_items_frame simp: only_changes_def)

definition linux_inv :: "linux_slots \<Rightarrow> bool" where
  "linux_inv s \<longleftrightarrow> ls_current s \<in> {''A'', ''B''}"

interpretation linux: slot_manager linux_ops linux_inv linux_slot_files
  by unfold_locales
     (auto simp: linux_ops_def linux_inactive_slot_def linux_inv_def linux_slot_files_def
        linux_slot_char_def dest: linux_write_frame)

section \<open>A write that succeeds has installed the items\<close>

lemma dev_writeD:
  assumes "dev_write dev dst c fs = (length c, fs1)" and "files fs dev = Some old" and "c \<noteq> []"
  shows "dst + length c \<le> length old \<and>
    files fs1 dev = Some (take dst old @ c @ drop (dst + length c) old)"
proof -
  have "0 < length c" using assms(3) by simp
  moreover have "length c \<le> length old - dst"
    using assms(1,2) by (auto simp: dev_write_def Let_def split: prod.splits io_fault.splits)
  ultimately have "dst + length c \<le> length old" by linarith
  with assms(1,2) show ?thesis
    by (auto simp: dev_write_def Let_def split: prod.splits io_fault.splits)
qed

lemma item_chunk_append:
  "item_chunk img src r @ take (r - length (item_chunk img src r)) (drop (src + length (item_chunk img src r)) img) =
   take r (drop src img)"
proof -
  let ?n = "length (item_chunk img src r)"
  have c: "item_chunk img src r = take ?n (drop src img)"
    by (metis item_chunk_def append_eq_conv_conj append_take_drop_id)
  have "take (?n + (r - ?n)) (drop src img) = take ?n (drop src img) @ take (r - ?n) (drop ?n (drop src img))"
    by (rule take_add)
  moreover have "?n + (r - ?n) = r" using item_chunk_le [of img src r] by simp
  ultimately show ?thesis using c by (simp add: add.commute)
qed

lemma write_item_loop_content:
  "write_item_loop img src dev dst remaining fs = (True, fs') \<Longrightarrow> files fs dev = Some old \<Longrightarrow>
   dst \<le> length old \<Longrightarrow>
   dst + remaining \<le> length old \<and> length (take remaining (drop src img)) = remaining \<and>
   files fs' dev = Some (take dst old @ take remaining (drop src img) @ drop (dst + remaining) old)"
proof (induction img src dev dst remaining fs arbitrary: old rule: write_item_loop.induct)
  case (1 img src dev dst remaining fs)
  let ?c = "item_chunk img src remaining"
  show ?case
  proof (cases "remaining = 0")
    case True
    with "1.prems" show ?thesis by (auto simp: write_item_loop.simps [of img src dev dst 0 fs])
  next
    case r: False
    have c: "?c \<noteq> []"
      using "1.prems"(1) r by (auto simp: write_item_loop.simps [of img src dev dst remaining fs] Let_def split: if_splits)
    obtain n fs1 where w: "dev_write dev dst ?c fs = (n, fs1)" by fastforce
    with "1.prems"(1) have n: "n = length ?c" and
      rec: "write_item_loop img (src + length ?c) dev (dst + length ?c) (remaining - length ?c) fs1 = (True, fs')"
      using write_item_loop_step [OF r c w] by (auto split: if_splits)
    let ?new = "take dst old @ ?c @ drop (dst + length ?c) old"
    from w n "1.prems"(2) c have d: "dst + length ?c \<le> length old" "files fs1 dev = Some ?new"
      using dev_writeD by auto
    have len: "length ?c \<le> remaining" by (rule item_chunk_le)
    from "1.IH" [OF r refl c w [symmetric] _ rec d(2)] n d(1) "1.prems"(3)
    have ih: "dst + length ?c + (remaining - length ?c) \<le> length ?new"
      "length (take (remaining - length ?c) (drop (src + length ?c) img)) = remaining - length ?c"
      "files fs' dev = Some (take (dst + length ?c) ?new @ take (remaining - length ?c) (drop (src + length ?c) img) @
          drop (dst + length ?c + (remaining - length ?c)) ?new)" by auto
    have eq: "dst + length ?c + (remaining - length ?c) = dst + remaining" using len by simp
    have nl: "length ?new = length old" using d(1) by simp
    have tk: "take (dst + length ?c) ?new = take dst old @ ?c" using "1.prems"(3) by simp
    have dr: "drop (dst + remaining) ?new = drop (dst + remaining) old"
      using "1.prems"(3) d(1) len by (simp add: add.commute)
    have "files fs' dev = Some (take dst old @ (?c @ take (remaining - length ?c) (drop (src + length ?c) img)) @
        drop (dst + remaining) old)"
      using ih(3) unfolding eq tk dr by simp
    moreover have "length (take remaining (drop src img)) = remaining"
      using arg_cong [OF item_chunk_append [of img src remaining], of length] ih(2) len
      by (simp only: length_append le_add_diff_inverse)
    ultimately show ?thesis using ih(1) nl eq unfolding item_chunk_append by simp
  qed
qed

lemma write_itemD:
  assumes "write_item p off sz dev fs = (True, fs')"
  shows "\<exists>img old. files fs p = Some img \<and> files fs dev = Some old \<and>
    unat sz \<le> length old \<and> length (take (unat sz) (drop (unat off) img)) = unat sz \<and>
    files fs' dev = Some (take (unat sz) (drop (unat off) img) @ drop (unat sz) old)"
proof -
  from assms obtain img fs1 f fs2 old where r: "ifs_read p fs = (Some img, fs1)"
    and n: "next_fault fs1 = (f, fs2)" and o: "files fs2 dev = Some old"
    and l: "write_item_loop img (unat off) dev 0 (unat sz) fs2 = (True, fs')"
    by (auto simp: write_item_def split: prod.splits option.splits io_fault.splits if_splits)
  from write_item_loop_content [OF l o] ifs_read_SomeD [OF r] files_next_fault [OF n] o
  show ?thesis by auto
qed

text \<open>The device of an item holds its bytes of the image.\<close>

definition device_holds :: "string \<Rightarrow> bytes \<Rightarrow> fsys \<Rightarrow> bool" where
  "device_holds dev d fs \<longleftrightarrow> (\<exists>c. files fs dev = Some c \<and> take (length d) c = d)"

definition item_content :: "bytes \<Rightarrow> u32 \<Rightarrow> rk_item \<Rightarrow> bytes" where
  "item_content img gfw it =
     take (unat (ri_size it)) (drop (unat (if gfw \<noteq> 0 then ri_offset it + gfw else ri_offset it)) img)"

lemma write_item_holds:
  assumes "write_item p (if gfw \<noteq> 0 then ri_offset it + gfw else ri_offset it) (ri_size it) dev fs = (True, fs')"
    and "files fs p = Some img"
  shows "device_holds dev (item_content img gfw it) fs'"
  using write_itemD [OF assms(1)] assms(2) by (auto simp: device_holds_def item_content_def)

lemma write_items_holds:
  assumes "write_items gfw c p its fs = (True, fs')" and "files fs p = Some img"
    and "item_device c it = Some dev" and "\<forall>i \<in> set its. item_device c i = Some dev \<longrightarrow> i = it"
    and "p \<notin> {''/dev/block/by-name/boot_'' @ [c], ''/dev/block/by-name/system_'' @ [c]}"
    and "it \<in> set its \<or> device_holds dev (item_content img gfw it) fs"
  shows "device_holds dev (item_content img gfw it) fs'"
  using assms
proof (induction gfw c p its fs rule: write_items.induct)
  case (2 gfw c p i its fs)
  show ?case
  proof (cases "item_device c i")
    case None
    with "2.prems" have "it \<noteq> i" by auto
    with None "2.IH"(1) [OF refl None] "2.prems" show ?thesis by (auto simp: Let_def)
  next
    case (Some d)
    obtain fs1 where w: "write_item p (if gfw \<noteq> 0 then ri_offset i + gfw else ri_offset i)
        (ri_size i) d fs = (True, fs1)" and rec: "write_items gfw c p its fs1 = (True, fs')"
      using "2.prems"(1) Some by (auto simp: Let_def split: prod.splits if_splits)
    have "d \<noteq> p" using Some "2.prems"(5) by (auto simp: item_device_def split: if_splits)
    then have img: "files fs1 p = Some img"
      using write_item_frame [OF w] "2.prems"(2) by (auto simp: only_changes_def)
    have "it \<in> set its \<or> device_holds dev (item_content img gfw it) fs1"
    proof (cases "d = dev")
      case True
      with Some "2.prems"(4) have "i = it" by simp
      with True w write_item_holds [OF w "2.prems"(2)] show ?thesis by simp
    next
      case False
      with "2.prems"(3) Some have "i \<noteq> it" by auto
      with "2.prems"(6) False write_item_frame [OF w] show ?thesis
        by (auto simp: device_holds_def only_changes_def)
    qed
    from "2.IH"(2) [OF refl Some w [symmetric] _ rec img "2.prems"(3) _ "2.prems"(5) this] "2.prems"(4)
    show ?thesis by simp
  qed
qed simp

text \<open>
  When the board's slot manager reports that an image was written, every boot or root
  file system item of it that is the only one for its partition is on the block device of the
  spare slot, byte for byte (offsets shifted by the RKFW header where there is one); and the
  package header passed its checks.
\<close>

theorem linux_write_image_installs:
  assumes "linux_write_image p v s fs = (True, s', fs')" and "files fs p = Some img"
    and "rk_image_header img = Some hdr"
    and "it \<in> set (take (nat (sint (rh_item_count hdr))) (rh_items hdr))"
    and "item_device (linux_slot_char (linux_inactive_slot s)) it = Some dev"
    and "\<forall>i \<in> set (rh_items hdr). item_device (linux_slot_char (linux_inactive_slot s)) i = Some dev \<longrightarrow> i = it"
    and "p \<notin> linux_slot_files s (linux_inactive_slot s)"
  shows "device_holds dev (item_content img (rk_gfw_offset img) it) fs'"
proof -
  obtain fs1 where r: "ifs_read p fs = (Some img, fs1)"
    and w: "write_items (rk_gfw_offset img) (linux_slot_char (linux_inactive_slot s)) p
        (take (nat (sint (rh_item_count hdr))) (rh_items hdr)) fs1 = (True, fs')"
    using assms(1-3)
    by (auto simp: linux_write_image_def split: prod.splits option.splits dest: ifs_read_SomeD)
  have "files fs1 p = Some img" using ifs_read_SomeD [OF r] by simp
  from write_items_holds [OF w this assms(5)] assms(4,6,7) show ?thesis
    by (auto simp: linux_slot_files_def dest: in_set_takeD)
qed

text \<open>A package with one item, three bytes for the boot partition, right behind the header.\<close>

definition ex_rk_item :: bytes where
  "ex_rk_item = (bytes_of_string ''boot'' @ replicate 28 0) @ replicate 64 0 @ le_bytes 4 (1932 :: u32) @
     le_bytes 4 (0 :: u32) @ le_bytes 4 (0 :: u32) @ le_bytes 4 (3 :: u32)"

definition ex_rk_image :: bytes where
  "ex_rk_image = le_bytes 4 kRkImageTag @ le_bytes 4 (0 :: u32) @ replicate 64 0 @ replicate 60 0 @
     le_bytes 4 (0 :: u32) @ le_bytes 4 (1 :: u32) @ ex_rk_item @ replicate 1680 0 @ [5, 6, 7]"

definition ex_board_fs :: fsys where
  "ex_board_fs = \<lparr>files = [''/i'' \<mapsto> ex_rk_image, ''/dev/block/by-name/boot_b'' \<mapsto> [0, 0, 0, 0]], faults = []\<rparr>"

definition ex_board :: linux_slots where
  "ex_board = \<lparr>ls_current = ''A'', ls_shell = \<lparr>sh_results = [], sh_log = []\<rparr>\<rparr>"

lemma length_ex_rk [simp]: "length ex_rk_item = 112" "length ex_rk_image = 1935"
  by (simp_all add: ex_rk_item_def ex_rk_image_def)

lemma ex_rk_gfw: "rk_gfw_offset ex_rk_image = 0"
  by code_simp

lemma ex_rk_parse_item:
  "parse_rk_item ex_rk_item = \<lparr>ri_name = bytes_of_string ''boot'' @ replicate 28 0, ri_file = replicate 64 0,
     ri_offset = 1932, ri_flash_offset = 0, ri_usespace = 0, ri_size = 3\<rparr>"
  by (simp add: parse_rk_item_def ex_rk_item_def codec_simps)

definition ex_rk_pre :: bytes where
  "ex_rk_pre = le_bytes 4 kRkImageTag @ le_bytes 4 (0 :: u32) @ replicate 64 0 @ replicate 60 0 @
     le_bytes 4 (0 :: u32) @ le_bytes 4 (1 :: u32)"

lemma ex_rk_split: "take 1932 ex_rk_image = ex_rk_pre @ ex_rk_item @ replicate 1680 0" "length ex_rk_pre = 140"
  by (simp_all add: ex_rk_image_def ex_rk_pre_def)

lemma ex_rk_item_bytes:
  assumes "i < 16"
  shows "take 112 (drop (140 + 112 * i) (take 1932 ex_rk_image)) = (if i = 0 then ex_rk_item else replicate 112 0)"
proof (cases i)
  case 0
  then show ?thesis by (simp add: ex_rk_split)
next
  case (Suc k)
  have "drop (140 + 112 * i) (ex_rk_pre @ ex_rk_item @ replicate 1680 0) = replicate (1680 - 112 * k) 0"
    by (simp add: Suc ex_rk_split(2))
  with Suc assms show ?thesis unfolding ex_rk_split(1) by simp
qed

lemma ex_rk_items:
  "rh_items (parse_rk_header (take 1932 ex_rk_image)) =
     map (\<lambda>i. parse_rk_item (if i = 0 then ex_rk_item else replicate 112 0)) [0..<16]"
  unfolding parse_rk_header_def by (simp add: ex_rk_item_bytes del: upt_rec_numeral)

lemma ex_rk_header:
  "rk_image_header ex_rk_image = Some (parse_rk_header (take 1932 ex_rk_image))"
  "rh_item_count (parse_rk_header (take 1932 ex_rk_image)) = 1"
  by (simp_all add: rk_image_header_def Let_def rk_header_size_def ex_rk_gfw)
     (simp_all add: ex_rk_split parse_rk_header_def ex_rk_pre_def codec_simps)

lemma ex_rk_no_name: "item_device c (parse_rk_item (replicate 112 0)) = None"
  by (simp add: item_device_def item_named_def parse_rk_item_def)

lemma ex_rk_boot: "item_device c (parse_rk_item ex_rk_item) = Some (''/dev/block/by-name/boot_'' @ [c])"
  unfolding ex_rk_parse_item by (simp add: item_device_def item_named_def) code_simp

lemma ex_rk_proj: "ri_offset (parse_rk_item ex_rk_item) = 1932" "ri_size (parse_rk_item ex_rk_item) = 3"
  by (simp_all add: ex_rk_parse_item)

lemma ex_board_write:
  "linux_write_image ''/i'' ''2'' ex_board ex_board_fs =
    (True, ex_board, put_file ''/dev/block/by-name/boot_b'' [5, 6, 7, 0] ex_board_fs)"
proof -
  have it: "take (Suc 0) (rh_items (parse_rk_header (take 1932 ex_rk_image))) = [parse_rk_item ex_rk_item]"
    unfolding ex_rk_items by (simp add: upt_rec)
  have c: "item_chunk ex_rk_image 1932 3 = [5, 6, 7]"
    by (simp add: item_chunk_def ex_rk_image_def)
  have l: "write_item_loop ex_rk_image 1932 ''/dev/block/by-name/boot_b'' 0 3 ex_board_fs =
      (True, put_file ''/dev/block/by-name/boot_b'' [5, 6, 7, 0] ex_board_fs)"
    by (subst write_item_loop.simps) (simp add: c dev_write_def next_fault_def ex_board_fs_def Let_def write_item_loop.simps)
  have "files ex_board_fs ''/i'' = Some ex_rk_image" "faults ex_board_fs = []"
    "files ex_board_fs ''/dev/block/by-name/boot_b'' = Some [0, 0, 0, 0]"
    by (simp_all add: ex_board_fs_def)
  then show ?thesis
    by (simp add: linux_write_image_def ifs_read_ok ex_rk_header it ex_rk_gfw ex_rk_boot ex_rk_proj ex_board_def
        linux_inactive_slot_def linux_slot_char_def write_item_def next_fault_Nil l)
qed

theorem linux_write_image_installs_witness:
  "device_holds ''/dev/block/by-name/boot_b'' (item_content ex_rk_image 0 (parse_rk_item ex_rk_item))
     (put_file ''/dev/block/by-name/boot_b'' [5, 6, 7, 0] ex_board_fs)"
proof -
  let ?h = "parse_rk_header (take 1932 ex_rk_image)"
  have slot: "linux_inactive_slot ex_board = ''B''" "linux_slot_char ''B'' = CHR ''b''"
    by (simp_all add: ex_board_def linux_inactive_slot_def linux_slot_char_def)
  have img: "files ex_board_fs ''/i'' = Some ex_rk_image" by (simp add: ex_board_fs_def)
  have mem: "parse_rk_item ex_rk_item \<in> set (take (nat (sint (rh_item_count ?h))) (rh_items ?h))"
    unfolding ex_rk_items ex_rk_header by (simp add: upt_rec)
  have uniq: "\<forall>i \<in> set (rh_items ?h). item_device (CHR ''b'') i = Some ''/dev/block/by-name/boot_b'' \<longrightarrow> i = parse_rk_item ex_rk_item"
    unfolding ex_rk_items by (auto simp: ex_rk_no_name)
  show ?thesis
    using linux_write_image_installs [OF ex_board_write img ex_rk_header(1) mem _ _ , of "''/dev/block/by-name/boot_b''"]
      uniq by (simp add: slot ex_rk_boot ex_rk_gfw linux_slot_files_def)
qed

end
