(* ===== verification/OtaManager.thy ===== *)
theory OtaManager
  imports VersionManager Verify LinuxAb
begin

text \<open>
  \<open>ota::OtaManager\<close> (src/src/ota/ota_manager.h and .cpp, ota_types.h and .cpp): the update state
  machine over the slot, boot and version interfaces. This theory has the operations as the
  code runs them when nothing interferes (\<open>run_update\<close> is the whole worker thread); the theory
  OtaThreads cuts the worker into its atomic steps and interleaves them with the calls.

  The verification strategy, the slot manager and the boot controller are the references the
  constructor takes: \<open>ota_deps\<close> has their virtual functions (and OpenSSL's SHA-256), the record
  \<open>ota\<close> their states. The version manager object is shared with the UCM service, so it is a
  field here and the service reads it from here. \<open>om_notified\<close> is what the registered progress
  callback has been called with.
\<close>

datatype ota_state =
  Idle | Checking | Downloading | Verifying | Installing | ReadyToSwitch
| Rebooting | BootVerify | Success | Failed | Rollback

fun state_to_string :: "ota_state \<Rightarrow> string" where
  "state_to_string Idle = ''IDLE''"
| "state_to_string Checking = ''CHECKING''"
| "state_to_string Downloading = ''DOWNLOADING''"
| "state_to_string Verifying = ''VERIFYING''"
| "state_to_string Installing = ''INSTALLING''"
| "state_to_string ReadyToSwitch = ''READY_TO_SWITCH''"
| "state_to_string Rebooting = ''REBOOTING''"
| "state_to_string BootVerify = ''BOOT_VERIFY''"
| "state_to_string Success = ''SUCCESS''"
| "state_to_string Failed = ''FAILED''"
| "state_to_string Rollback = ''ROLLBACK''"

record progress =
  pr_state :: ota_state
  pr_percent :: int
  pr_detail :: string

definition progress_default :: progress where
  "progress_default = \<lparr>pr_state = Idle, pr_percent = 0, pr_detail = []\<rparr>"

record ('s, 'b) ota_deps =
  od_sha :: "bytes \<Rightarrow> bytes"
  od_slots :: "'s slot_ops"
  od_boot :: "'b boot_ops"

text \<open>The arguments of \<open>start_update\<close>, and the points of \<open>run_update\<close> between two atomic actions.\<close>

record job =
  jb_image :: string
  jb_digest :: string
  jb_version :: string

datatype worker_pc =
  WStart | WOpen | WDownloading | WCopy | WVerifying | WVerify | WInstalling | WWrite
| WTarget | WReady | WApply | WFail int string | WDone

record ('s, 'b) ota =
  om_verify :: strategy
  om_slots :: 's
  om_boot :: 'b
  om_versions :: version_manager
  om_staging_dir :: string
  om_auto_apply :: bool
  om_progress :: progress
  om_callback :: bool
  om_notified :: "progress list"
  om_worker :: "(job \<times> worker_pc) option"
  om_fs :: fsys

definition find_last :: "'a list \<Rightarrow> 'a \<Rightarrow> nat option" where
  "find_last s c = map_option (\<lambda>i. length s - 1 - i) (str_find (rev s) c 0)"

definition ota_new ::
  "strategy \<Rightarrow> 's \<Rightarrow> 'b \<Rightarrow> version_manager \<Rightarrow> string \<Rightarrow> bool \<Rightarrow> fsys \<Rightarrow> ('s, 'b) ota" where
  "ota_new strat slots boot versions staging_dir auto_apply fs =
     (let fs1 = (case find_last staging_dir (CHR ''/'') of
                   Some slash \<Rightarrow> (if slash > 0 then snd (fs_mkdir (take slash staging_dir) fs) else fs)
                 | None \<Rightarrow> fs);
          fs2 = snd (fs_mkdir staging_dir fs1)
      in \<lparr>om_verify = strat, om_slots = slots, om_boot = boot, om_versions = versions,
          om_staging_dir = staging_dir, om_auto_apply = auto_apply, om_progress = progress_default,
          om_callback = False, om_notified = [], om_worker = None, om_fs = fs2\<rparr>)"

definition set_progress :: "ota_state \<Rightarrow> int \<Rightarrow> string \<Rightarrow> ('s, 'b) ota \<Rightarrow> ('s, 'b) ota" where
  "set_progress st percent detail om =
     (let p = \<lparr>pr_state = st, pr_percent = percent, pr_detail = detail\<rparr>
      in om\<lparr>om_progress := p,
            om_notified := (if om_callback om then om_notified om @ [p] else om_notified om)\<rparr>)"

definition set_progress_callback :: "bool \<Rightarrow> ('s, 'b) ota \<Rightarrow> ('s, 'b) ota" where
  "set_progress_callback cb om = om\<lparr>om_callback := cb\<rparr>"

text \<open>States in which \<open>start_update\<close> accepts a new job.\<close>

definition startable :: "ota_state \<Rightarrow> bool" where
  "startable st \<longleftrightarrow> \<not> (st \<noteq> Idle \<and> st \<noteq> Failed \<and> st \<noteq> Success \<and> st \<noteq> Rollback)"

text \<open>
  \<open>start_update\<close> joins the previous worker while it holds the progress mutex. When that worker
  still has to take the mutex the call never returns: \<open>None\<close>.
\<close>

definition start_update :: "job \<Rightarrow> ('s, 'b) ota \<Rightarrow> (bool \<times> ('s, 'b) ota) option" where
  "start_update j om =
     (if \<not> startable (pr_state (om_progress om)) then Some (False, om)
      else if (case om_worker om of Some (_, pc) \<Rightarrow> pc \<noteq> WDone | None \<Rightarrow> False) then None
      else Some (True, om\<lparr>om_progress := progress_default, om_worker := Some (j, WStart)\<rparr>))"

definition switch_and_reboot ::
  "('s, 'b) ota_deps \<Rightarrow> ('s, 'b) ota \<Rightarrow> bool \<times> ('s, 'b) ota" where
  "switch_and_reboot d om =
     (if pr_state (om_progress om) \<noteq> ReadyToSwitch then (False, om)
      else (let percent = pr_percent (om_progress om);
                slot = so_inactive_slot (od_slots d) (om_slots om) in
        case bo_set_next_slot (od_boot d) slot (om_boot om) (om_fs om) of (ok1, b1, fs1) \<Rightarrow>
        let om1 = om\<lparr>om_boot := b1, om_fs := fs1\<rparr> in
        if \<not> ok1 then (False, set_progress Failed percent ''set next slot failed'' om1)
        else (case so_activate (od_slots d) (om_slots om1) (om_fs om1) of (ok2, s2, fs2) \<Rightarrow>
          let om2 = om1\<lparr>om_slots := s2, om_fs := fs2\<rparr> in
          if \<not> ok2 then (False, set_progress Failed percent ''activate inactive slot failed'' om2)
          else (case bo_reboot (od_boot d) (om_boot om2) (om_fs om2) of (ok3, b3, fs3) \<Rightarrow>
            let om3 = om2\<lparr>om_boot := b3, om_fs := fs3\<rparr> in
            if \<not> ok3 then (False, set_progress Failed percent ''reboot command failed'' om3)
            else (True, om3\<lparr>om_progress := \<lparr>pr_state = Rebooting, pr_percent = 100,
                     pr_detail = ''waiting for boot verification''\<rparr>\<rparr>)))))"

definition report_boot_result ::
  "('s, 'b) ota_deps \<Rightarrow> bool \<Rightarrow> string \<Rightarrow> ('s, 'b) ota \<Rightarrow> bool \<times> ('s, 'b) ota" where
  "report_boot_result d success error_reason om =
     (if pr_state (om_progress om) \<noteq> Rebooting then (False, om)
      else (let from = vm_current (om_versions om); to = vm_target (om_versions om) in
        if success then
          (case bo_mark_boot_success (od_boot d) (om_boot om) (om_fs om) of (ok, b1, fs1) \<Rightarrow>
           let om1 = om\<lparr>om_boot := b1, om_fs := fs1\<rparr> in
           if \<not> ok then (False, set_progress Failed 100 ''record boot success failed'' om1)
           else (case record_result from to ''SUCCESS'' (om_versions om1) (om_fs om1) of (vm2, fs2) \<Rightarrow>
                 case set_current to vm2 fs2 of (vm3, fs3) \<Rightarrow>
                 (True, set_progress Success 100 ''update success''
                          (om1\<lparr>om_versions := vm3, om_fs := fs3\<rparr>))))
        else
          (case bo_mark_boot_failed (od_boot d) error_reason (om_boot om) (om_fs om) of (ok, b1, fs1) \<Rightarrow>
           let om1 = om\<lparr>om_boot := b1, om_fs := fs1\<rparr> in
           if \<not> ok then (False, set_progress Failed 100 ''record boot failure failed'' om1)
           else (case so_rollback (od_slots d) (om_slots om1) (om_fs om1) of (ok2, s2, fs2) \<Rightarrow>
             let om2 = om1\<lparr>om_slots := s2, om_fs := fs2\<rparr> in
             if \<not> ok2 then (False, set_progress Failed 100 ''rollback slot failed'' om2)
             else (case record_result from to ''ROLLBACK'' (om_versions om2) (om_fs om2) of (vm3, fs3) \<Rightarrow>
                   (True, set_progress Rollback 100 ''rollback to last good slot''
                            (om2\<lparr>om_versions := vm3, om_fs := fs3\<rparr>)))))))"

definition rollback :: "('s, 'b) ota_deps \<Rightarrow> ('s, 'b) ota \<Rightarrow> bool \<times> ('s, 'b) ota" where
  "rollback d om =
     (if pr_state (om_progress om) \<noteq> ReadyToSwitch \<and> pr_state (om_progress om) \<noteq> Rebooting then (False, om)
      else (case so_rollback (od_slots d) (om_slots om) (om_fs om) of (ok, s1, fs1) \<Rightarrow>
        let om1 = om\<lparr>om_slots := s1, om_fs := fs1\<rparr> in
        if \<not> ok then (False, set_progress Failed (pr_percent (om_progress om)) ''rollback slot failed'' om1)
        else (True, set_progress Rollback 100 ''manual rollback'' om1)))"

text \<open>
  \<open>copy_file\<close>: both streams are opened before either is checked, so the target is truncated
  even when the source is missing; a source that is the target is empty by then. Copying
  nothing sets only the failure bit, which the code does not look at.
\<close>

definition copy_file :: "string \<Rightarrow> string \<Rightarrow> fsys \<Rightarrow> string option \<times> fsys" where
  "copy_file from to fs =
     (case ifs_read from fs of (content, fs1) \<Rightarrow>
      case ofs_trunc True to (case content of Some d \<Rightarrow> if from = to then [] else d | None \<Rightarrow> []) fs1 of
        ((opened, good), fs2) \<Rightarrow>
          if content = None \<or> \<not> opened then (Some ''copy file failed'', fs2)
          else if \<not> good then (Some ''copy file failed during write'', fs2)
          else (None, fs2))"

definition staged_path :: "('s, 'b) ota \<Rightarrow> string" where
  "staged_path om = om_staging_dir om @ ''/pending.img''"

text \<open>The worker thread, run to its end without interference.\<close>

definition run_update :: "('s, 'b) ota_deps \<Rightarrow> job \<Rightarrow> ('s, 'b) ota \<Rightarrow> ('s, 'b) ota" where
  "run_update d j om0 =
     (let om1 = set_progress Checking 1 ''checking source image'' om0 in
      case ifs_read (jb_image j) (om_fs om1) of (source, fs1) \<Rightarrow>
      let om2 = om1\<lparr>om_fs := fs1\<rparr> in
      if source = None then set_progress Failed 0 ''source image not found'' om2
      else (let staged = staged_path om2;
                om3 = set_progress Downloading 15 ''copying image to staging'' om2 in
        case copy_file (jb_image j) staged (om_fs om3) of (copy_error, fs3) \<Rightarrow>
        let om4 = om3\<lparr>om_fs := fs3\<rparr> in
        case copy_error of
          Some e \<Rightarrow> set_progress Failed 15 e om4
        | None \<Rightarrow>
          (let om5 = set_progress Verifying 55 ''verifying image digest'' om4 in
           case verify (od_sha d) (om_verify om5) staged (jb_digest j) [] (om_fs om5) of (ok, error, fs5) \<Rightarrow>
           let om6 = om5\<lparr>om_fs := fs5\<rparr> in
           if \<not> ok then set_progress Failed 55 error om6
           else (let om7 = set_progress Installing 75 ''writing image to inactive slot'' om6 in
             case so_write_image (od_slots d) staged (jb_version j) (om_slots om7) (om_fs om7) of (okw, s7, fs7) \<Rightarrow>
             let om8 = om7\<lparr>om_slots := s7, om_fs := fs7\<rparr> in
             if \<not> okw then set_progress Failed 75 ''write inactive slot failed'' om8
             else (case set_target (jb_version j) (om_versions om8) (om_fs om8) of (vm9, fs9) \<Rightarrow>
               let om10 = set_progress ReadyToSwitch 90 ''ready to switch''
                            (om8\<lparr>om_versions := vm9, om_fs := fs9\<rparr>) in
               if om_auto_apply om10 then snd (switch_and_reboot d om10) else om10)))))"

section \<open>Projections of the small operations\<close>

lemma set_progress_simps [simp]:
  "om_progress (set_progress st p dt om) = \<lparr>pr_state = st, pr_percent = p, pr_detail = dt\<rparr>"
  "om_fs (set_progress st p dt om) = om_fs om"
  "om_slots (set_progress st p dt om) = om_slots om"
  "om_boot (set_progress st p dt om) = om_boot om"
  "om_versions (set_progress st p dt om) = om_versions om"
  "om_staging_dir (set_progress st p dt om) = om_staging_dir om"
  "om_auto_apply (set_progress st p dt om) = om_auto_apply om"
  "om_verify (set_progress st p dt om) = om_verify om"
  "om_worker (set_progress st p dt om) = om_worker om"
  "staged_path (set_progress st p dt om) = staged_path om"
  "staged_path (om\<lparr>om_fs := fs\<rparr>) = staged_path om"
  by (simp_all add: set_progress_def Let_def staged_path_def)

lemma copy_file_frame: "copy_file a b fs = (r, fs') \<Longrightarrow> only_changes {b} fs fs'"
  by (auto simp: copy_file_def only_changes_def split: prod.splits if_splits
      dest!: ifs_read_frame ofs_trunc_frame)

lemma copy_file_noneD:
  "copy_file a b fs = (None, fs') \<Longrightarrow> a \<noteq> b \<Longrightarrow> \<exists>d. files fs a = Some d \<and> files fs' b = Some d"
  by (auto simp: copy_file_def split: prod.splits if_splits option.splits
      dest!: ifs_read_SomeD ofs_trunc_flushedD)

lemma copy_file_ok [io_simps]:
  "faults fs = [] \<Longrightarrow> files fs a = Some d \<Longrightarrow> a \<noteq> b \<Longrightarrow> copy_file a b fs = (None, put_file b d fs)"
  by (simp add: copy_file_def ifs_read_ok ofs_trunc_ok)

section \<open>Calls out of order\<close>

text \<open>
  Outside the states they belong to, the calls of the manager are refused and change
  nothing at all: no file, no slot, no progress. A switch needs \<open>ReadyToSwitch\<close>, a boot
  result \<open>Rebooting\<close>, a rollback one of the two, and no update starts while one is running.
\<close>

theorem ota_calls_guarded:
  "(pr_state (om_progress om) \<noteq> ReadyToSwitch \<longrightarrow> switch_and_reboot d om = (False, om)) \<and>
   (pr_state (om_progress om) \<noteq> Rebooting \<longrightarrow> report_boot_result d ok why om = (False, om)) \<and>
   (pr_state (om_progress om) \<notin> {ReadyToSwitch, Rebooting} \<longrightarrow> rollback d om = (False, om)) \<and>
   (pr_state (om_progress om) \<in> {Checking, Downloading, Verifying, Installing, ReadyToSwitch, Rebooting} \<longrightarrow>
      start_update j om = Some (False, om))"
  by (auto simp: switch_and_reboot_def report_boot_result_def rollback_def start_update_def startable_def)

section \<open>Slot switch, boot result and rollback\<close>

lemma switch_and_rebootD:
  assumes "switch_and_reboot d om = (True, om')"
  shows "\<exists>b1 fs1 fs2. bo_set_next_slot (od_boot d) (so_inactive_slot (od_slots d) (om_slots om)) (om_boot om) (om_fs om)
            = (True, b1, fs1) \<and>
          so_activate (od_slots d) (om_slots om) fs1 = (True, om_slots om', fs2) \<and>
          bo_reboot (od_boot d) b1 fs2 = (True, om_boot om', om_fs om') \<and>
          pr_state (om_progress om) = ReadyToSwitch \<and> pr_state (om_progress om') = Rebooting \<and>
          om_versions om' = om_versions om \<and> om_notified om' = om_notified om \<and> om_worker om' = om_worker om"
  using assms by (auto simp: switch_and_reboot_def Let_def split: prod.splits if_splits)

lemma report_boot_failureD:
  assumes "report_boot_result d False why om = (True, om')"
  shows "\<exists>fs1 fs2. so_rollback (od_slots d) (om_slots om) fs1 = (True, om_slots om', fs2) \<and>
          pr_state (om_progress om') = Rollback \<and>
          vm_current (om_versions om') = vm_current (om_versions om) \<and>
          vm_history (om_versions om') = vm_history (om_versions om) @
            [\<lparr>vr_from = vm_current (om_versions om), vr_to = vm_target (om_versions om), vr_result = ''ROLLBACK''\<rparr>]"
proof -
  from assms obtain b1 fs1 s2 fs2 vm3 fs3 where
    r: "so_rollback (od_slots d) (om_slots om) fs1 = (True, s2, fs2)"
    and v: "record_result (vm_current (om_versions om)) (vm_target (om_versions om)) ''ROLLBACK'' (om_versions om) fs2
            = (vm3, fs3)"
    and o: "om' = set_progress Rollback 100 ''rollback to last good slot''
              (om\<lparr>om_boot := b1, om_slots := s2, om_versions := vm3, om_fs := fs3\<rparr>)"
    by (auto simp: report_boot_result_def Let_def split: prod.splits if_splits)
  show ?thesis
    by (intro exI [of _ fs1] exI [of _ fs2]) (use r v o in \<open>auto simp: record_result_def Let_def split: prod.splits\<close>)
qed

lemma report_boot_successD:
  assumes "report_boot_result d True why om = (True, om')"
  shows "om_slots om' = om_slots om \<and> pr_state (om_progress om') = Success \<and>
          vm_current (om_versions om') = vm_target (om_versions om) \<and>
          vm_history (om_versions om') = vm_history (om_versions om) @
            [\<lparr>vr_from = vm_current (om_versions om), vr_to = vm_target (om_versions om), vr_result = ''SUCCESS''\<rparr>]"
  using assms
  by (auto simp: report_boot_result_def Let_def record_result_def set_current_def split: prod.splits if_splits)

context ab_switch begin

lemma failed_boot_returns:
  assumes "inv (om_slots om)" and "od_slots d = ops"
    and "switch_and_reboot d om = (True, om1)" and "report_boot_result d False why om1 = (True, om2)"
  shows "so_current_slot ops (om_slots om2) = so_current_slot ops (om_slots om)"
proof -
  from switch_and_rebootD [OF assms(3)] assms(2) obtain fs1 fs2 where
    a: "so_activate ops (om_slots om) fs1 = (True, om_slots om1, fs2)" by auto
  from report_boot_failureD [OF assms(4)] assms(2) obtain fs3 fs4 where
    r: "so_rollback ops (om_slots om1) fs3 = (True, om_slots om2, fs4)" by auto
  from activate_rollback [OF assms(1) a r] show ?thesis .
qed

lemma good_boot_switches:
  assumes "inv (om_slots om)" and "od_slots d = ops"
    and "switch_and_reboot d om = (True, om1)" and "report_boot_result d True why om1 = (True, om2)"
  shows "so_current_slot ops (om_slots om2) = so_inactive_slot ops (om_slots om)"
  using switch_and_rebootD [OF assms(3)] report_boot_successD [OF assms(4)] assms(1,2)
  by (auto dest: activate_switches)

end

text \<open>
  C4: an update whose first boot fails is undone. After a switch and a reported boot failure the
  running slot is the one before the switch, the current version is unchanged, the state is
  \<open>Rollback\<close> and the history has gained one \<open>ROLLBACK\<close> record.
\<close>

theorem failed_boot_is_rolled_back:
  fixes d :: "(mock_slots, 'b) ota_deps"
  assumes "mock_inv (om_slots om)" and "od_slots d = mock_ops"
    and "switch_and_reboot d om = (True, om1)" and "report_boot_result d False why om1 = (True, om2)"
  shows "ms_current (om_slots om2) = ms_current (om_slots om) \<and>
    pr_state (om_progress om2) = Rollback \<and>
    vm_current (om_versions om2) = vm_current (om_versions om) \<and>
    vm_history (om_versions om2) = vm_history (om_versions om) @
      [\<lparr>vr_from = vm_current (om_versions om), vr_to = vm_target (om_versions om), vr_result = ''ROLLBACK''\<rparr>]"
  using mock.failed_boot_returns [OF assms] report_boot_failureD [OF assms(4)] switch_and_rebootD [OF assms(3)]
  by (auto simp: mock_ops_def)

text \<open>
  C5: an update whose first boot succeeds is kept. The running slot is the one the image was
  written to, the current version is the target version, the state is \<open>Success\<close> and the
  history has gained one \<open>SUCCESS\<close> record.
\<close>

theorem good_boot_is_committed:
  fixes d :: "(mock_slots, 'b) ota_deps"
  assumes "mock_inv (om_slots om)" and "od_slots d = mock_ops"
    and "switch_and_reboot d om = (True, om1)" and "report_boot_result d True why om1 = (True, om2)"
  shows "ms_current (om_slots om2) = mock_inactive_slot (om_slots om) \<and>
    pr_state (om_progress om2) = Success \<and>
    vm_current (om_versions om2) = vm_target (om_versions om) \<and>
    vm_history (om_versions om2) = vm_history (om_versions om) @
      [\<lparr>vr_from = vm_current (om_versions om), vr_to = vm_target (om_versions om), vr_result = ''SUCCESS''\<rparr>]"
  using mock.good_boot_switches [OF assms] report_boot_successD [OF assms(4)] switch_and_rebootD [OF assms(3)]
  by (auto simp: mock_ops_def)

text \<open>
  The progress callback misses the switch. A successful \<open>switch_and_reboot\<close> moves the
  manager to \<open>Rebooting\<close> without a notification, although the callback is documented to run
  whenever the progress changes.
\<close>

theorem switch_is_not_notified:
  assumes "switch_and_reboot d om = (True, om')"
  shows "om_progress om' \<noteq> om_progress om \<and> om_notified om' = om_notified om"
  using switch_and_rebootD [OF assms] by auto

text \<open>
  On the board, undoing an update before the switch performs the switch. In
  \<open>ReadyToSwitch\<close> a manual rollback gives the boot tool the very command that activates the
  slot just written, and reports a completed rollback when the command succeeds.
\<close>

theorem board_rollback_before_switch_activates:
  fixes d :: "(linux_slots, 'b) ota_deps"
  assumes "od_slots d = linux_ops" and "pr_state (om_progress om) = ReadyToSwitch"
    and "rollback d om = (ok, om')"
  shows "(ok, om_slots om', om_fs om') = linux_activate (om_slots om) (om_fs om) \<and>
    sh_log (ls_shell (om_slots om')) = sh_log (ls_shell (om_slots om)) @ [''rkboot_control other''] \<and>
    pr_state (om_progress om') = (if ok then Rollback else Failed)"
  using assms
  by (auto simp: rollback_def linux_ops_def linux_rollback_def linux_activate_def run_command_def Let_def
      split: prod.splits if_splits list.splits)

section \<open>The running slot during an update\<close>

text \<open>Everything the worker of a manager without automatic switch may write.\<close>

context slot_manager begin

lemma run_update_frame:
  fixes d :: "('s, 'b) ota_deps"
  assumes "inv (om_slots om)" and "od_slots d = ops" and "\<not> om_auto_apply om"
  shows "only_changes ({staged_path om} \<union> slot_files (om_slots om) (so_inactive_slot ops (om_slots om))
            \<union> vm_paths (om_versions om)) (om_fs om) (om_fs (run_update d j om))"
proof -
  let ?S = "{staged_path om} \<union> slot_files (om_slots om) (so_inactive_slot ops (om_slots om))
            \<union> vm_paths (om_versions om)"
  obtain src fs1 where 1: "ifs_read (jb_image j) (om_fs om) = (src, fs1)" by fastforce
  obtain ce fs3 where 3: "copy_file (jb_image j) (staged_path om) fs1 = (ce, fs3)" by fastforce
  obtain ok err fs5 where 5: "verify (od_sha d) (om_verify om) (staged_path om) (jb_digest j) [] fs3 = (ok, err, fs5)"
    by (metis prod_cases3)
  obtain okw s7 fs7 where 7: "so_write_image ops (staged_path om) (jb_version j) (om_slots om) fs5 = (okw, s7, fs7)"
    by (metis prod_cases3)
  obtain vm9 fs9 where 9: "set_target (jb_version j) (om_versions om) fs7 = (vm9, fs9)" by fastforce
  have f1: "only_changes ?S (om_fs om) fs1" using ifs_read_frame [OF 1] by (rule only_changes_files_eq)
  have f3: "only_changes ?S (om_fs om) fs3"
    by (rule only_changes_trans_same [OF f1]) (rule only_changes_mono [OF copy_file_frame [OF 3]], auto)
  have f5: "only_changes ?S (om_fs om) fs5"
    by (rule only_changes_trans_same [OF f3]) (rule only_changes_files_eq [OF verify_frame [OF 5]])
  have f7: "only_changes ?S (om_fs om) fs7"
    by (rule only_changes_trans_same [OF f5]) (rule only_changes_mono [OF write_frame [OF assms(1) 7]], auto)
  have f9: "only_changes ?S (om_fs om) fs9"
    by (rule only_changes_trans_same [OF f7]) (rule only_changes_mono [OF set_target_frame [OF 9]], auto)
  have "om_fs (run_update d j om) \<in> {fs1, fs3, fs5, fs7, fs9}"
    by (cases src; cases ce; cases ok; cases okw)
       (simp_all add: run_update_def Let_def 1 3 5 7 9 assms(2,3))
  then show ?thesis using f1 f3 f5 f7 f9 by auto
qed

lemma run_update_spares_active:
  fixes d :: "('s, 'b) ota_deps"
  assumes "inv (om_slots om)" and "od_slots d = ops" and "\<not> om_auto_apply om"
    and "f \<in> slot_files (om_slots om) (so_current_slot ops (om_slots om))"
    and "f \<noteq> staged_path om" and "f \<notin> vm_paths (om_versions om)"
  shows "files (om_fs (run_update d j om)) f = files (om_fs om) f"
  by (rule only_changesD [OF run_update_frame [OF assms(1-3)]])
     (use assms(4-6) slots_disjoint [OF assms(1)] in auto)

end

text \<open>
  C2: an update never touches the slot the system runs from. Whatever image is offered and
  whatever input/output fails on the way, the image and the version file of the running slot
  of the file-backed slot manager are the same after the worker ran (the staging file and the
  version files lie outside that slot; the automatic switch is off).
\<close>

theorem update_spares_running_slot:
  fixes d :: "(mock_slots, 'b) ota_deps"
  assumes "mock_inv (om_slots om)" and "od_slots d = mock_ops" and "\<not> om_auto_apply om"
    and "f \<in> mock_slot_files (om_slots om) (ms_current (om_slots om))"
    and "f \<noteq> staged_path om" and "f \<notin> vm_paths (om_versions om)"
  shows "files (om_fs (run_update d j om)) f = files (om_fs om) f"
  using mock.run_update_spares_active [OF assms(1-3) _ assms(5,6)] assms(4) by (simp add: mock_ops_def)

text \<open>
  The same on the board: the boot and system partitions of the running slot are not
  written by an update.
\<close>

theorem update_spares_running_partitions:
  fixes d :: "(linux_slots, 'b) ota_deps"
  assumes "linux_inv (om_slots om)" and "od_slots d = linux_ops" and "\<not> om_auto_apply om"
    and "f \<in> linux_slot_files (om_slots om) (ls_current (om_slots om))"
    and "f \<noteq> staged_path om" and "f \<notin> vm_paths (om_versions om)"
  shows "files (om_fs (run_update d j om)) f = files (om_fs om) f"
  using linux.run_update_spares_active [OF assms(1-3) _ assms(5,6)] assms(4) by (simp add: linux_ops_def)

section \<open>An update that meets no fault\<close>

lemma mock_write_image_ok [io_simps]:
  assumes "faults fs = []" and "files fs p = Some img" and "img \<noteq> []"
    and "p \<noteq> slot_dir ms (mock_inactive_slot ms) @ ''/rootfs.img''"
  shows "mock_write_image p v ms fs = (True, ms,
    put_file (slot_dir ms (mock_inactive_slot ms) @ ''/version'') (bytes_of_string v)
      (put_file (slot_dir ms (mock_inactive_slot ms) @ ''/rootfs.img'') img fs))"
  using assms by (simp add: mock_write_image_def Let_def io_simps)

lemma verify_ok [io_simps]:
  "faults fs = [] \<Longrightarrow> files fs p = Some img \<Longrightarrow> e = [] \<or> normalized e = digest_hex sha s img \<Longrightarrow>
   verify sha s p e [] fs = (True, [], fs)"
  by (auto simp: verify_def digest_def ifs_read_ok)

lemma set_target_ok [io_simps]:
  "set_target v vm fs = (vm\<lparr>vm_target := v\<rparr>, vm_save (vm\<lparr>vm_target := v\<rparr>) fs)"
  by (simp add: set_target_def Let_def)

lemma run_update_installs:
  fixes d :: "(mock_slots, 'b) ota_deps"
  assumes "od_slots d = mock_ops" and "\<not> om_auto_apply om" and "faults (om_fs om) = []"
    and "files (om_fs om) (jb_image j) = Some img" and "img \<noteq> []"
    and "jb_digest j = [] \<or> normalized (jb_digest j) = digest_hex (od_sha d) (om_verify om) img"
    and "jb_image j \<noteq> staged_path om"
    and "mock_slot_files (om_slots om) (mock_inactive_slot (om_slots om)) \<inter>
           ({staged_path om} \<union> vm_paths (om_versions om)) = {}"
  shows "om_progress (run_update d j om) =
           \<lparr>pr_state = ReadyToSwitch, pr_percent = 90, pr_detail = ''ready to switch''\<rparr> \<and>
         files (om_fs (run_update d j om)) (slot_dir (om_slots om) (mock_inactive_slot (om_slots om)) @ ''/rootfs.img'')
           = Some img \<and>
         files (om_fs (run_update d j om)) (slot_dir (om_slots om) (mock_inactive_slot (om_slots om)) @ ''/version'')
           = Some (bytes_of_string (jb_version j)) \<and>
         vm_target (om_versions (run_update d j om)) = jb_version j"
proof -
  let ?ms = "om_slots om" and ?st = "staged_path om"
  let ?dir = "slot_dir ?ms (mock_inactive_slot ?ms)"
  let ?vm = "om_versions om\<lparr>vm_target := jb_version j\<rparr>"
  define fs3 where "fs3 = put_file ?st img (om_fs om)"
  define fs7 where "fs7 = put_file (?dir @ ''/version'') (bytes_of_string (jb_version j)) (put_file (?dir @ ''/rootfs.img'') img fs3)"
  have 1: "ifs_read (jb_image j) (om_fs om) = (Some img, om_fs om)" using assms(3,4) by (simp add: ifs_read_ok)
  have 3: "copy_file (jb_image j) ?st (om_fs om) = (None, fs3)"
    using assms(3,4,7) by (simp add: copy_file_ok fs3_def)
  have 5: "verify (od_sha d) (om_verify om) ?st (jb_digest j) [] fs3 = (True, [], fs3)"
    using assms(3,6) by (intro verify_ok) (simp_all add: fs3_def)
  have 7: "so_write_image mock_ops ?st (jb_version j) ?ms fs3 = (True, ?ms, fs7)"
    using assms(3,5,8) by (auto simp: mock_ops_def fs3_def fs7_def mock_slot_files_def intro!: mock_write_image_ok)
  have run: "run_update d j om = set_progress ReadyToSwitch 90 ''ready to switch''
      ((set_progress Installing 75 ''writing image to inactive slot''
         ((set_progress Verifying 55 ''verifying image digest''
            ((set_progress Downloading 15 ''copying image to staging''
               ((set_progress Checking 1 ''checking source image'' om)\<lparr>om_fs := om_fs om\<rparr>))\<lparr>om_fs := fs3\<rparr>))\<lparr>om_fs := fs3\<rparr>))
        \<lparr>om_slots := ?ms, om_versions := ?vm, om_fs := vm_save ?vm fs7\<rparr>)"
    using assms(1,2) by (simp add: run_update_def Let_def 1 3 5 7 set_target_ok)
  have "p \<notin> vm_paths ?vm" if "p \<in> mock_slot_files ?ms (mock_inactive_slot ?ms)" for p
    using that assms(8) by (auto simp: vm_paths_def)
  then have k: "files (vm_save ?vm fs7) p = files fs7 p" if "p \<in> mock_slot_files ?ms (mock_inactive_slot ?ms)" for p
    using only_changesD [OF vm_save_frame] that by blast
  show ?thesis unfolding run
    by (simp add: k mock_slot_files_def) (simp add: fs7_def)
qed


section \<open>A small configuration\<close>

text \<open>
  A manager over the file-backed slots and boot control, in directory \<open>/s\<close>, that runs from
  slot A and is offered a four-byte image; the statements above are evaluated on it.
\<close>

definition ex_deps :: "(mock_slots, mock_boot) ota_deps" where
  "ex_deps = \<lparr>od_sha = (\<lambda>d. d), od_slots = mock_ops, od_boot = mock_boot_ops\<rparr>"

definition ex_fs :: fsys where
  "ex_fs = \<lparr>files = [''/i'' \<mapsto> [1, 2, 3, 4], ''/s/slots/A/rootfs.img'' \<mapsto> [9]], faults = []\<rparr>"

definition ex_job :: job where
  "ex_job = \<lparr>jb_image = ''/i'', jb_digest = ''01020304'', jb_version = ''2''\<rparr>"

definition ex_ota :: "(mock_slots, mock_boot) ota" where
  "ex_ota = (ota_new Sha256 \<lparr>ms_base_dir = ''/s'', ms_current = ''A'', ms_last_good = ''A''\<rparr> ''/b''
     \<lparr>vm_base_dir = ''/v'', vm_current = ''1'', vm_target = [], vm_history = []\<rparr> ''/t'' False ex_fs)\<lparr>om_callback := True\<rparr>"

definition ex_ready :: "(mock_slots, mock_boot) ota" where
  "ex_ready = run_update ex_deps ex_job ex_ota"

definition ex_rebooting :: "(mock_slots, mock_boot) ota" where
  "ex_rebooting = snd (switch_and_reboot ex_deps ex_ready)"

lemma ex_ota_simps [simp]:
  "om_slots ex_ota = \<lparr>ms_base_dir = ''/s'', ms_current = ''A'', ms_last_good = ''A''\<rparr>"
  "om_auto_apply ex_ota = False" "om_fs ex_ota = ex_fs" "om_verify ex_ota = Sha256"
  "staged_path ex_ota = ''/t/pending.img''" "vm_base_dir (om_versions ex_ota) = ''/v''"
  "vm_current (om_versions ex_ota) = ''1''" "vm_history (om_versions ex_ota) = []"
  "om_progress ex_ota = progress_default" "om_worker ex_ota = None" "om_boot ex_ota = ''/b''"
  by (simp_all add: ex_ota_def ota_new_def staged_path_def find_last_def Let_def fs_mkdir_ok ex_fs_def)

lemma ex_deps_simps [simp]: "od_slots ex_deps = mock_ops" "od_boot ex_deps = mock_boot_ops" "od_sha ex_deps d = d"
  by (simp_all add: ex_deps_def)

lemma ex_switch: "switch_and_reboot ex_deps ex_ready = (True, ex_rebooting)"
proof -
  have "fst (switch_and_reboot ex_deps ex_ready)" by code_simp
  then show ?thesis by (simp add: ex_rebooting_def prod_eq_iff)
qed

lemma ex_ready_facts:
  "mock_inv (om_slots ex_ready)" "ms_current (om_slots ex_ready) = ''A''"
  "vm_current (om_versions ex_ready) = ''1''" "vm_target (om_versions ex_ready) = ''2''"
  by code_simp+

lemma ex_report:
  "report_boot_result ex_deps True [] ex_rebooting = (True, snd (report_boot_result ex_deps True [] ex_rebooting))"
  "report_boot_result ex_deps False ''bad'' ex_rebooting =
     (True, snd (report_boot_result ex_deps False ''bad'' ex_rebooting))"
proof -
  have "fst (report_boot_result ex_deps True [] ex_rebooting)" by code_simp
  then show "report_boot_result ex_deps True [] ex_rebooting = (True, snd (report_boot_result ex_deps True [] ex_rebooting))"
    by (simp add: prod_eq_iff)
  have "fst (report_boot_result ex_deps False ''bad'' ex_rebooting)" by code_simp
  then show "report_boot_result ex_deps False ''bad'' ex_rebooting =
      (True, snd (report_boot_result ex_deps False ''bad'' ex_rebooting))"
    by (simp add: prod_eq_iff)
qed

theorem ota_calls_guarded_witness:
  "let om = set_progress Checking 1 [] ex_ota in
   switch_and_reboot ex_deps om = (False, om) \<and> report_boot_result ex_deps True [] om = (False, om) \<and>
   rollback ex_deps om = (False, om) \<and> start_update ex_job om = Some (False, om)"
  using ota_calls_guarded [of "set_progress Checking 1 [] ex_ota" ex_deps True "[]" ex_job] by (simp add: Let_def)

theorem failed_boot_is_rolled_back_witness:
  "ms_current (om_slots (snd (report_boot_result ex_deps False ''bad'' ex_rebooting))) = ''A'' \<and>
   vm_current (om_versions (snd (report_boot_result ex_deps False ''bad'' ex_rebooting))) = ''1''"
  using failed_boot_is_rolled_back [OF ex_ready_facts(1) ex_deps_simps(1) ex_switch ex_report(2)]
  by (simp add: ex_ready_facts)

theorem good_boot_is_committed_witness:
  "ms_current (om_slots (snd (report_boot_result ex_deps True [] ex_rebooting))) = ''B'' \<and>
   vm_current (om_versions (snd (report_boot_result ex_deps True [] ex_rebooting))) = ''2''"
  using good_boot_is_committed [OF ex_ready_facts(1) ex_deps_simps(1) ex_switch ex_report(1)]
  by (simp add: ex_ready_facts mock_inactive_slot_def)

theorem switch_is_not_notified_witness:
  "om_progress ex_rebooting \<noteq> om_progress ex_ready \<and> om_notified ex_rebooting = om_notified ex_ready"
  using switch_is_not_notified [OF ex_switch] .

theorem update_spares_running_slot_witness:
  "files (om_fs ex_ready) ''/s/slots/A/rootfs.img'' = Some [9]"
  unfolding ex_ready_def
  using update_spares_running_slot [of ex_ota ex_deps "''/s/slots/A/rootfs.img''" ex_job]
  by (simp add: mock_inv_def mock_slot_files_def slot_dir_def vm_paths_def) (simp add: ex_fs_def)

theorem update_spares_running_partitions_witness:
  "files (om_fs (run_update \<lparr>od_sha = (\<lambda>d. d), od_slots = linux_ops, od_boot = mock_boot_ops\<rparr> ex_job
      (ota_new Crc32 \<lparr>ls_current = ''A'', ls_shell = \<lparr>sh_results = [], sh_log = []\<rparr>\<rparr> ''/b''
         \<lparr>vm_base_dir = ''/v'', vm_current = ''1'', vm_target = [], vm_history = []\<rparr> ''/t'' False
         (put_file ''/dev/block/by-name/boot_a'' [7] ex_fs)))) ''/dev/block/by-name/boot_a'' = Some [7]"
  using update_spares_running_partitions
    [of "ota_new Crc32 \<lparr>ls_current = ''A'', ls_shell = \<lparr>sh_results = [], sh_log = []\<rparr>\<rparr> ''/b''
         \<lparr>vm_base_dir = ''/v'', vm_current = ''1'', vm_target = [], vm_history = []\<rparr> ''/t'' False
         (put_file ''/dev/block/by-name/boot_a'' [7] ex_fs)"
        "\<lparr>od_sha = (\<lambda>d. d), od_slots = linux_ops, od_boot = mock_boot_ops\<rparr>"
        "''/dev/block/by-name/boot_a''" ex_job]
  by (simp add: linux_inv_def linux_slot_files_def linux_slot_char_def vm_paths_def ota_new_def staged_path_def
      find_last_def Let_def ex_fs_def fs_mkdir_ok)


theorem board_rollback_before_switch_activates_witness:
  "sh_log (ls_shell (om_slots (snd (rollback \<lparr>od_sha = (\<lambda>d. d), od_slots = linux_ops, od_boot = linux_boot_ops\<rparr>
      (set_progress ReadyToSwitch 90 []
        (ota_new Crc32 ex_board \<lparr>sh_results = [], sh_log = []\<rparr>
           \<lparr>vm_base_dir = ''/v'', vm_current = ''1'', vm_target = [], vm_history = []\<rparr> ''/t'' False ex_fs))))))
   = [''rkboot_control other'']"
  using board_rollback_before_switch_activates [OF _ _ surjective_pairing,
      of "\<lparr>od_sha = (\<lambda>d. d), od_slots = linux_ops, od_boot = linux_boot_ops\<rparr>"
         "set_progress ReadyToSwitch 90 []
            (ota_new Crc32 ex_board \<lparr>sh_results = [], sh_log = []\<rparr>
               \<lparr>vm_base_dir = ''/v'', vm_current = ''1'', vm_target = [], vm_history = []\<rparr> ''/t'' False ex_fs)"]
  by (simp add: ex_board_def ota_new_def Let_def)

end
