(* ===== verification/OtaThreads.thy ===== *)
theory OtaThreads
  imports OtaManager
begin

text \<open>
  \<open>OtaManager\<close> with its worker thread and its callers interleaved
  (src/src/ota/ota_manager.cpp). The worker of \<open>run_update\<close> is cut at every place where it
  takes the progress mutex or touches the file system, the slots or the versions
  (\<open>worker_step\<close>). \<open>start_update\<close> is cut where it releases the mutex and where it may block:
  a caller is in \<open>ts_join\<close> while it holds the mutex and joins the previous worker, and in
  \<open>ts_spawn\<close> between the release of the mutex and the assignment of \<open>worker_\<close>. Move-assigning a
  \<open>std::thread\<close> over one that is still joinable calls \<open>std::terminate\<close>: \<open>ts_dead\<close>.
  The other calls hold the mutex from their first to their last action and are one step each.
\<close>

definition needs_mutex :: "worker_pc \<Rightarrow> bool" where
  "needs_mutex pc = (case pc of
     WStart \<Rightarrow> True | WDownloading \<Rightarrow> True | WVerifying \<Rightarrow> True | WInstalling \<Rightarrow> True
   | WReady \<Rightarrow> True | WApply \<Rightarrow> True | WFail _ _ \<Rightarrow> True | _ \<Rightarrow> False)"

fun worker_act ::
  "('s, 'b) ota_deps \<Rightarrow> job \<Rightarrow> worker_pc \<Rightarrow> ('s, 'b) ota \<Rightarrow> worker_pc \<times> ('s, 'b) ota" where
  "worker_act d j WStart om = (WOpen, set_progress Checking 1 ''checking source image'' om)"
| "worker_act d j WOpen om = (case ifs_read (jb_image j) (om_fs om) of (source, fs) \<Rightarrow>
     (if source = None then WFail 0 ''source image not found'' else WDownloading, om\<lparr>om_fs := fs\<rparr>))"
| "worker_act d j WDownloading om = (WCopy, set_progress Downloading 15 ''copying image to staging'' om)"
| "worker_act d j WCopy om = (case copy_file (jb_image j) (staged_path om) (om_fs om) of (e, fs) \<Rightarrow>
     (case e of Some msg \<Rightarrow> WFail 15 msg | None \<Rightarrow> WVerifying, om\<lparr>om_fs := fs\<rparr>))"
| "worker_act d j WVerifying om = (WVerify, set_progress Verifying 55 ''verifying image digest'' om)"
| "worker_act d j WVerify om =
     (case verify (od_sha d) (om_verify om) (staged_path om) (jb_digest j) [] (om_fs om) of (ok, error, fs) \<Rightarrow>
        (if ok then WInstalling else WFail 55 error, om\<lparr>om_fs := fs\<rparr>))"
| "worker_act d j WInstalling om = (WWrite, set_progress Installing 75 ''writing image to inactive slot'' om)"
| "worker_act d j WWrite om =
     (case so_write_image (od_slots d) (staged_path om) (jb_version j) (om_slots om) (om_fs om) of (ok, s, fs) \<Rightarrow>
        (if ok then WTarget else WFail 75 ''write inactive slot failed'', om\<lparr>om_slots := s, om_fs := fs\<rparr>))"
| "worker_act d j WTarget om = (case set_target (jb_version j) (om_versions om) (om_fs om) of (vm, fs) \<Rightarrow>
     (WReady, om\<lparr>om_versions := vm, om_fs := fs\<rparr>))"
| "worker_act d j WReady om =
     (if om_auto_apply om then WApply else WDone, set_progress ReadyToSwitch 90 ''ready to switch'' om)"
| "worker_act d j WApply om = (WDone, snd (switch_and_reboot d om))"
| "worker_act d j (WFail p e) om = (WDone, set_progress Failed p e om)"
| "worker_act d j WDone om = (WDone, om)"

definition worker_step :: "('s, 'b) ota_deps \<Rightarrow> ('s, 'b) ota \<Rightarrow> ('s, 'b) ota" where
  "worker_step d om = (case om_worker om of
     None \<Rightarrow> om
   | Some (j, pc) \<Rightarrow> (case worker_act d j pc om of (pc', om') \<Rightarrow> om'\<lparr>om_worker := Some (j, pc')\<rparr>))"

record ('s, 'b) tsys =
  ts_om :: "('s, 'b) ota"
  ts_join :: "job option"
  ts_spawn :: "job list"
  ts_dead :: bool

definition worker_finished :: "('s, 'b) ota \<Rightarrow> bool" where
  "worker_finished om = (case om_worker om of None \<Rightarrow> True | Some (_, pc) \<Rightarrow> pc = WDone)"

inductive ota_step :: "('s, 'b) ota_deps \<Rightarrow> ('s, 'b) tsys \<Rightarrow> ('s, 'b) tsys \<Rightarrow> bool" for d where
  start_begin: "\<not> ts_dead t \<Longrightarrow> ts_join t = None \<Longrightarrow> startable (pr_state (om_progress (ts_om t))) \<Longrightarrow>
     ota_step d t (t\<lparr>ts_join := Some j\<rparr>)"
| start_joined: "\<not> ts_dead t \<Longrightarrow> ts_join t = Some j \<Longrightarrow> worker_finished (ts_om t) \<Longrightarrow>
     ota_step d t (t\<lparr>ts_om := (ts_om t)\<lparr>om_progress := progress_default, om_worker := None\<rparr>,
                     ts_join := None, ts_spawn := ts_spawn t @ [j]\<rparr>)"
| start_spawn: "\<not> ts_dead t \<Longrightarrow> ts_spawn t = js1 @ j # js2 \<Longrightarrow>
     ota_step d t (if om_worker (ts_om t) = None
       then t\<lparr>ts_om := (ts_om t)\<lparr>om_worker := Some (j, WStart)\<rparr>, ts_spawn := js1 @ js2\<rparr>
       else t\<lparr>ts_dead := True\<rparr>)"
| worker: "\<not> ts_dead t \<Longrightarrow> om_worker (ts_om t) = Some (j, pc) \<Longrightarrow> needs_mutex pc \<longrightarrow> ts_join t = None \<Longrightarrow>
     ota_step d t (t\<lparr>ts_om := worker_step d (ts_om t)\<rparr>)"
| switch: "\<not> ts_dead t \<Longrightarrow> ts_join t = None \<Longrightarrow>
     ota_step d t (t\<lparr>ts_om := snd (switch_and_reboot d (ts_om t))\<rparr>)"
| boot_result: "\<not> ts_dead t \<Longrightarrow> ts_join t = None \<Longrightarrow>
     ota_step d t (t\<lparr>ts_om := snd (report_boot_result d ok why (ts_om t))\<rparr>)"
| manual_rollback: "\<not> ts_dead t \<Longrightarrow> ts_join t = None \<Longrightarrow>
     ota_step d t (t\<lparr>ts_om := snd (rollback d (ts_om t))\<rparr>)"

inductive_cases ota_stepE: "ota_step d t t'"

text \<open>A freshly constructed manager, and what it can reach.\<close>

definition ts_init :: "('s, 'b) ota \<Rightarrow> ('s, 'b) tsys" where
  "ts_init om = \<lparr>ts_om = om\<lparr>om_progress := progress_default, om_worker := None\<rparr>,
     ts_join = None, ts_spawn = [], ts_dead = False\<rparr>"

abbreviation ota_reach :: "('s, 'b) ota_deps \<Rightarrow> ('s, 'b) ota \<Rightarrow> ('s, 'b) tsys \<Rightarrow> bool" where
  "ota_reach d om \<equiv> (ota_step d)\<^sup>*\<^sup>* (ts_init om)"

section \<open>The steps of the worker add up to the worker\<close>

lemma worker_step_Some:
  "om_worker om = Some (j, pc) \<Longrightarrow>
   worker_step d om = (snd (worker_act d j pc om))\<lparr>om_worker := Some (j, fst (worker_act d j pc om))\<rparr>"
  by (simp add: worker_step_def split: prod.split)

lemma set_progress_worker [simp]:
  "set_progress st p dt (om\<lparr>om_worker := w\<rparr>) = (set_progress st p dt om)\<lparr>om_worker := w\<rparr>"
  by (simp add: set_progress_def Let_def)

lemma staged_path_worker [simp]: "staged_path (om\<lparr>om_worker := w\<rparr>) = staged_path om"
  by (simp add: staged_path_def)

lemma switch_worker [simp]:
  "switch_and_reboot d (om\<lparr>om_worker := w\<rparr>) =
     (fst (switch_and_reboot d om), (snd (switch_and_reboot d om))\<lparr>om_worker := w\<rparr>)"
  by (simp add: switch_and_reboot_def Let_def set_progress_def split: prod.split)

lemma worker_act_worker [simp]:
  "worker_act d j pc (om\<lparr>om_worker := w\<rparr>) =
     (fst (worker_act d j pc om), (snd (worker_act d j pc om))\<lparr>om_worker := w\<rparr>)"
  by (cases pc) (simp_all split: prod.split option.split)

definition worker_run :: "('s, 'b) ota_deps \<Rightarrow> job \<Rightarrow> worker_pc \<times> ('s, 'b) ota \<Rightarrow> worker_pc \<times> ('s, 'b) ota" where
  "worker_run d j = (\<lambda>(pc, om). worker_act d j pc om)"

lemma worker_step_run:
  "(worker_step d ^^ n) (om\<lparr>om_worker := Some (j, pc)\<rparr>) =
     (case (worker_run d j ^^ n) (pc, om) of (pc', om') \<Rightarrow> om'\<lparr>om_worker := Some (j, pc')\<rparr>)"
proof (induction n)
  case (Suc n)
  obtain pc' om' where r: "(worker_run d j ^^ n) (pc, om) = (pc', om')" by fastforce
  with Suc show ?case
    by (simp add: worker_step_Some worker_run_def split: prod.split)
qed simp

lemma worker_run_done [simp]: "(worker_run d j ^^ n) (WDone, om) = (WDone, om)"
  by (induction n) (simp_all add: worker_run_def)

lemma worker_run_Suc: "(worker_run d j ^^ Suc n) (pc, om) = (worker_run d j ^^ n) (worker_act d j pc om)"
  unfolding funpow_Suc_right by (simp add: worker_run_def)

lemma worker_run_fail [simp]: "(worker_run d j ^^ Suc n) (WFail p e, om) = (WDone, set_progress Failed p e om)"
  unfolding worker_run_Suc by simp

lemma worker_run_update: "(worker_run d j ^^ 11) (WStart, om) = (WDone, run_update d j om)"
proof -
  obtain src fs1 where 1: "ifs_read (jb_image j) (om_fs om) = (src, fs1)" by fastforce
  obtain ce fs3 where 3: "copy_file (jb_image j) (staged_path om) fs1 = (ce, fs3)" by fastforce
  obtain ok err fs5 where 5: "verify (od_sha d) (om_verify om) (staged_path om) (jb_digest j) [] fs3 = (ok, err, fs5)"
    by (metis prod_cases3)
  obtain okw s7 fs7 where
    7: "so_write_image (od_slots d) (staged_path om) (jb_version j) (om_slots om) fs5 = (okw, s7, fs7)"
    by (metis prod_cases3)
  obtain vm9 fs9 where 9: "set_target (jb_version j) (om_versions om) fs7 = (vm9, fs9)" by fastforce
  have n: "11 = Suc (Suc (Suc (Suc (Suc (Suc (Suc (Suc (Suc (Suc (Suc 0))))))))))" by simp
  show ?thesis unfolding n
    by (cases src; cases ce; cases ok; cases okw)
       (simp_all add: worker_run_Suc run_update_def Let_def 1 3 5 7 9 del: funpow.simps(2))
qed


section \<open>Invariants of all interleavings\<close>

text \<open>
  The invariant is stated for the file-backed slots and boot control. \<open>keeps\<close> relates two
  states of the manager between which neither slot's image, nor the configuration, has changed;
  \<open>layout\<close> says that staging file, version files and boot files lie outside the slots.
\<close>

type_synonym mock_ota = "(mock_slots, mock_boot) ota"

definition rootfs :: "mock_ota \<Rightarrow> string \<Rightarrow> string" where
  "rootfs om slot = slot_dir (om_slots om) slot @ ''/rootfs.img''"

definition keeps :: "mock_ota \<Rightarrow> mock_ota \<Rightarrow> bool" where
  "keeps om om' \<longleftrightarrow> ms_base_dir (om_slots om') = ms_base_dir (om_slots om) \<and> om_boot om' = om_boot om \<and>
     vm_base_dir (om_versions om') = vm_base_dir (om_versions om) \<and> om_staging_dir om' = om_staging_dir om \<and>
     om_verify om' = om_verify om \<and> (mock_inv (om_slots om) \<longrightarrow> mock_inv (om_slots om')) \<and>
     files (om_fs om') (rootfs om ''A'') = files (om_fs om) (rootfs om ''A'') \<and>
     files (om_fs om') (rootfs om ''B'') = files (om_fs om) (rootfs om ''B'')"

definition layout :: "mock_ota \<Rightarrow> bool" where
  "layout om \<longleftrightarrow> {rootfs om ''A'', rootfs om ''B''} \<inter>
     ({staged_path om} \<union> vm_paths (om_versions om) \<union> mock_boot_files (om_boot om)) = {}"

definition accepted :: "(mock_slots, mock_boot) ota_deps \<Rightarrow> mock_ota \<Rightarrow> job \<Rightarrow> bytes \<Rightarrow> bool" where
  "accepted d om j img \<longleftrightarrow> jb_digest j = [] \<or> normalized (jb_digest j) = digest_hex (od_sha d) (om_verify om) img"

definition holds_accepted :: "(mock_slots, mock_boot) ota_deps \<Rightarrow> job \<Rightarrow> mock_ota \<Rightarrow> string \<Rightarrow> bool" where
  "holds_accepted d j om p \<longleftrightarrow> (\<exists>img. files (om_fs om) p = Some img \<and> accepted d om j img)"

fun pc_inv :: "(mock_slots, mock_boot) ota_deps \<Rightarrow> job \<Rightarrow> worker_pc \<Rightarrow> mock_ota \<Rightarrow> bool" where
  "pc_inv d j WStart om \<longleftrightarrow> pr_state (om_progress om) = Idle"
| "pc_inv d j WOpen om \<longleftrightarrow> pr_state (om_progress om) = Checking"
| "pc_inv d j WDownloading om \<longleftrightarrow> pr_state (om_progress om) = Checking"
| "pc_inv d j WCopy om \<longleftrightarrow> pr_state (om_progress om) = Downloading"
| "pc_inv d j WVerifying om \<longleftrightarrow> pr_state (om_progress om) = Downloading"
| "pc_inv d j WVerify om \<longleftrightarrow> pr_state (om_progress om) = Verifying"
| "pc_inv d j WInstalling om \<longleftrightarrow> pr_state (om_progress om) = Verifying \<and> holds_accepted d j om (staged_path om)"
| "pc_inv d j WWrite om \<longleftrightarrow> pr_state (om_progress om) = Installing \<and> holds_accepted d j om (staged_path om)"
| "pc_inv d j WTarget om \<longleftrightarrow> pr_state (om_progress om) = Installing \<and>
     holds_accepted d j om (rootfs om (mock_inactive_slot (om_slots om)))"
| "pc_inv d j WReady om \<longleftrightarrow> pr_state (om_progress om) = Installing \<and>
     holds_accepted d j om (rootfs om (mock_inactive_slot (om_slots om)))"
| "pc_inv d j (WFail p e) om \<longleftrightarrow> 0 \<le> p \<and> p \<le> 100 \<and>
     pr_state (om_progress om) \<in> {Checking, Downloading, Verifying, Installing}"
| "pc_inv d j _ om \<longleftrightarrow> pr_state (om_progress om) \<in> {ReadyToSwitch, Rebooting, Success, Failed, Rollback} \<and>
     (pr_state (om_progress om) = ReadyToSwitch \<longrightarrow>
        holds_accepted d j om (rootfs om (mock_inactive_slot (om_slots om)))) \<and>
     (pr_state (om_progress om) \<in> {Rebooting, Success} \<longrightarrow>
        holds_accepted d j om (rootfs om (ms_current (om_slots om))))"

definition thread_inv :: "(mock_slots, mock_boot) ota_deps \<Rightarrow> (mock_slots, mock_boot) tsys \<Rightarrow> bool" where
  "thread_inv d t \<longleftrightarrow> (let om = ts_om t in
     mock_inv (om_slots om) \<and> layout om \<and> 0 \<le> pr_percent (om_progress om) \<and> pr_percent (om_progress om) \<le> 100 \<and>
     (case om_worker om of None \<Rightarrow> pr_state (om_progress om) = Idle | Some (j, pc) \<Rightarrow> pc_inv d j pc om))"

subsection \<open>Frames of the calls\<close>

lemma rootfs_simps [simp]:
  "rootfs (om\<lparr>om_fs := fs\<rparr>) = rootfs om" "rootfs (om\<lparr>om_worker := w\<rparr>) = rootfs om"
  "rootfs (om\<lparr>om_versions := vm\<rparr>) = rootfs om" "rootfs (om\<lparr>om_boot := b\<rparr>) = rootfs om"
  "rootfs (om\<lparr>om_progress := p\<rparr>) = rootfs om" "rootfs (set_progress st pc dt om) = rootfs om"
  by (auto simp: rootfs_def)

lemma keeps_refl [simp]: "keeps om om"
  by (simp add: keeps_def)

lemma keeps_trans: "keeps a b \<Longrightarrow> keeps b c \<Longrightarrow> keeps a c"
  by (auto simp: keeps_def rootfs_def slot_dir_def)

lemma keeps_irrelevant [simp]:
  "keeps om (set_progress st p dt om') = keeps om om'" "keeps om (om'\<lparr>om_progress := pr\<rparr>) = keeps om om'"
  "keeps om (om'\<lparr>om_worker := w\<rparr>) = keeps om om'"
  by (simp_all add: keeps_def)

lemma keeps_files:
  "only_changes S (om_fs om) fs \<Longrightarrow> S \<inter> {rootfs om ''A'', rootfs om ''B''} = {} \<Longrightarrow> keeps om (om\<lparr>om_fs := fs\<rparr>)"
  by (auto simp: keeps_def dest: only_changesD)

lemma layout_keeps: "keeps om om' \<Longrightarrow> layout om' = layout om"
  by (simp add: layout_def keeps_def rootfs_def slot_dir_def staged_path_def vm_paths_def)

lemma holds_keeps:
  assumes "keeps om om'" and "slot \<in> {''A'', ''B''}"
  shows "holds_accepted d j om' (rootfs om' slot) = holds_accepted d j om (rootfs om slot)"
proof -
  have "rootfs om' slot = rootfs om slot" "om_verify om' = om_verify om"
    using assms(1) by (simp_all add: keeps_def rootfs_def slot_dir_def)
  moreover have "files (om_fs om') (rootfs om slot) = files (om_fs om) (rootfs om slot)"
    using assms by (auto simp: keeps_def)
  ultimately show ?thesis by (simp add: holds_accepted_def accepted_def)
qed

text \<open>The control files of the slot manager are no slot images.\<close>

definition ctl_files :: "mock_slots \<Rightarrow> string set" where
  "ctl_files ms = {ms_base_dir ms @ ''/last_good_slot'', ms_base_dir ms @ ''/current_slot''}"

lemma mock_activate_frame:
  "mock_activate ms fs = (r, ms', fs') \<Longrightarrow> ms_base_dir ms' = ms_base_dir ms \<and> only_changes (ctl_files ms) fs fs'"
  by (auto simp: mock_activate_def Let_def only_changes_def ctl_files_def split: prod.splits if_splits
      dest!: mock_inactive_valid_frame write_text_frame)

lemma mock_rollback_frame:
  "mock_rollback ms fs = (r, ms', fs') \<Longrightarrow> ms_base_dir ms' = ms_base_dir ms \<and> only_changes (ctl_files ms) fs fs'"
  by (auto simp: mock_rollback_def Let_def only_changes_def ctl_files_def split: prod.splits if_splits
      dest!: write_text_frame)

lemma keeps_slots:
  assumes "ms_base_dir s = ms_base_dir (om_slots om)" and "only_changes (ctl_files (om_slots om)) (om_fs om) fs"
    and "mock_inv (om_slots om) \<Longrightarrow> mock_inv s"
  shows "keeps om (om\<lparr>om_slots := s, om_fs := fs\<rparr>)"
  using assms by (auto simp: keeps_def only_changes_def ctl_files_def rootfs_def slot_dir_def)

lemma keeps_activate:
  "mock_activate (om_slots om) (om_fs om) = (r, s, fs) \<Longrightarrow> keeps om (om\<lparr>om_slots := s, om_fs := fs\<rparr>)"
  using mock_activate_frame mock.activate_inv by (intro keeps_slots) (auto simp: mock_ops_def)

lemma keeps_rollback:
  "mock_rollback (om_slots om) (om_fs om) = (r, s, fs) \<Longrightarrow> keeps om (om\<lparr>om_slots := s, om_fs := fs\<rparr>)"
  using mock_rollback_frame mock.rollback_inv by (intro keeps_slots) (auto simp: mock_ops_def)

lemma keeps_boot:
  assumes "only_changes (mock_boot_files (om_boot om)) (om_fs om) fs" and "layout om"
  shows "keeps om (om\<lparr>om_fs := fs\<rparr>)"
  using assms by (intro keeps_files) (auto simp: layout_def)

lemma keeps_versions:
  assumes "only_changes (vm_paths (om_versions om)) (om_fs om) fs" and "layout om"
    and "vm_base_dir vm = vm_base_dir (om_versions om)"
  shows "keeps om (om\<lparr>om_versions := vm, om_fs := fs\<rparr>)"
  using assms keeps_files [OF assms(1)] by (auto simp: layout_def keeps_def)

lemma mock_boot_frames:
  "mock_set_next_slot slot b fs = (r, b', fs') \<Longrightarrow> b' = b \<and> only_changes (mock_boot_files b) fs fs'"
  "mock_reboot b fs = (r, b', fs') \<Longrightarrow> b' = b \<and> only_changes (mock_boot_files b) fs fs'"
  "mock_mark_boot_success b fs = (r, b', fs') \<Longrightarrow> b' = b \<and> only_changes (mock_boot_files b) fs fs'"
  "mock_mark_boot_failed why b fs = (r, b', fs') \<Longrightarrow> b' = b \<and> only_changes (mock_boot_files b) fs fs'"
  by (auto simp: mock_set_next_slot_def mock_reboot_def mock_mark_boot_success_def mock_mark_boot_failed_def
      mock_boot_files_def only_changes_def split: prod.splits if_splits dest!: boot_write_text_frame)

definition mock_deps :: "(mock_slots, mock_boot) ota_deps \<Rightarrow> bool" where
  "mock_deps d \<longleftrightarrow> od_slots d = mock_ops \<and> od_boot d = mock_boot_ops"

lemma switch_keeps:
  assumes "mock_deps d" and "layout om"
  shows "keeps om (snd (switch_and_reboot d om))"
proof -
  obtain ok1 b1 fs1 where 1: "mock_set_next_slot (mock_inactive_slot (om_slots om)) (om_boot om) (om_fs om) = (ok1, b1, fs1)"
    by (metis prod_cases3)
  obtain ok2 s2 fs2 where 2: "mock_activate (om_slots om) fs1 = (ok2, s2, fs2)" by (metis prod_cases3)
  obtain ok3 b3 fs3 where 3: "mock_reboot b1 fs2 = (ok3, b3, fs3)" by (metis prod_cases3)
  let ?om1 = "om\<lparr>om_fs := fs1\<rparr>" and ?om2 = "om\<lparr>om_slots := s2, om_fs := fs2\<rparr>"
  have b: "b1 = om_boot om" "b3 = b1" using mock_boot_frames(1) [OF 1] mock_boot_frames(2) [OF 3] by auto
  have k1: "keeps om ?om1" using mock_boot_frames(1) [OF 1] assms(2) by (auto intro: keeps_boot)
  have "keeps ?om1 (?om1\<lparr>om_slots := s2, om_fs := fs2\<rparr>)" using 2 by (intro keeps_activate) simp
  with k1 have k2: "keeps om ?om2" using keeps_trans by fastforce
  then have l2: "layout ?om2" using assms(2) layout_keeps by blast
  have "keeps ?om2 (?om2\<lparr>om_fs := fs3\<rparr>)"
    using mock_boot_frames(2) [OF 3] b l2 by (intro keeps_boot) auto
  with k2 have k3: "keeps om (om\<lparr>om_slots := s2, om_fs := fs3\<rparr>)" using keeps_trans by fastforce
  have 3: "mock_reboot (om_boot om) fs2 = (ok3, om_boot om, fs3)" using 3 b by simp
  show ?thesis
    using k1 k2 k3 b(1) assms(1)
    by (simp add: switch_and_reboot_def Let_def mock_deps_def mock_ops_def mock_boot_ops_def 1 2 3)
qed

lemma rollback_keeps: "mock_deps d \<Longrightarrow> keeps om (snd (rollback d om))"
  by (auto simp: rollback_def Let_def mock_deps_def mock_ops_def split: prod.split intro: keeps_rollback)

lemma record_result_keeps:
  assumes "record_result f t r (om_versions om) (om_fs om) = (vm, fs)" and "layout om"
  shows "keeps om (om\<lparr>om_versions := vm, om_fs := fs\<rparr>)"
  using assms by (intro keeps_versions record_result_frame) (auto simp: record_result_def Let_def)

lemma set_current_keeps:
  assumes "set_current v (om_versions om) (om_fs om) = (vm, fs)" and "layout om"
  shows "keeps om (om\<lparr>om_versions := vm, om_fs := fs\<rparr>)"
  using assms by (intro keeps_versions set_current_frame) (auto simp: set_current_def Let_def)

lemma report_success_keeps:
  assumes "mock_deps d" and "layout om"
  shows "keeps om (snd (report_boot_result d True why om))"
proof -
  obtain ok b1 fs1 where 1: "mock_mark_boot_success (om_boot om) (om_fs om) = (ok, b1, fs1)" by (metis prod_cases3)
  then have b: "b1 = om_boot om" and k1: "keeps om (om\<lparr>om_fs := fs1\<rparr>)"
    using mock_boot_frames(3) [OF 1] assms(2) by (auto intro: keeps_boot)
  obtain vm2 fs2 where 2: "record_result (vm_current (om_versions om)) (vm_target (om_versions om)) ''SUCCESS''
      (om_versions om) fs1 = (vm2, fs2)" by fastforce
  obtain vm3 fs3 where 3: "set_current (vm_target (om_versions om)) vm2 fs2 = (vm3, fs3)" by fastforce
  have "keeps (om\<lparr>om_fs := fs1\<rparr>) (om\<lparr>om_versions := vm2, om_fs := fs2\<rparr>)"
    using record_result_keeps [of _ _ _ "om\<lparr>om_fs := fs1\<rparr>"] 2 k1 assms(2) layout_keeps by fastforce
  with k1 have k2: "keeps om (om\<lparr>om_versions := vm2, om_fs := fs2\<rparr>)" by (rule keeps_trans)
  have "keeps (om\<lparr>om_versions := vm2, om_fs := fs2\<rparr>) (om\<lparr>om_versions := vm3, om_fs := fs3\<rparr>)"
    using set_current_keeps [of _ "om\<lparr>om_versions := vm2, om_fs := fs2\<rparr>"] 3 k2 assms(2) layout_keeps by fastforce
  with k2 have k3: "keeps om (om\<lparr>om_versions := vm3, om_fs := fs3\<rparr>)" by (rule keeps_trans)
  show ?thesis
    using k1 k3 b assms(1) by (simp add: report_boot_result_def Let_def mock_deps_def mock_boot_ops_def 1 2 3)
qed

lemma report_failure_keeps:
  assumes "mock_deps d" and "layout om"
  shows "keeps om (snd (report_boot_result d False why om))"
proof -
  obtain ok b1 fs1 where 1: "mock_mark_boot_failed why (om_boot om) (om_fs om) = (ok, b1, fs1)" by (metis prod_cases3)
  then have b: "b1 = om_boot om" and k1: "keeps om (om\<lparr>om_fs := fs1\<rparr>)"
    using mock_boot_frames(4) [OF 1] assms(2) by (auto intro: keeps_boot)
  obtain ok2 s2 fs2 where 2: "mock_rollback (om_slots om) fs1 = (ok2, s2, fs2)" by (metis prod_cases3)
  obtain vm3 fs3 where 3: "record_result (vm_current (om_versions om)) (vm_target (om_versions om)) ''ROLLBACK''
      (om_versions om) fs2 = (vm3, fs3)" by fastforce
  have "keeps (om\<lparr>om_fs := fs1\<rparr>) (om\<lparr>om_slots := s2, om_fs := fs2\<rparr>)"
    using keeps_rollback [of "om\<lparr>om_fs := fs1\<rparr>"] 2 by fastforce
  with k1 have k2: "keeps om (om\<lparr>om_slots := s2, om_fs := fs2\<rparr>)" by (rule keeps_trans)
  have "keeps (om\<lparr>om_slots := s2, om_fs := fs2\<rparr>) (om\<lparr>om_slots := s2, om_versions := vm3, om_fs := fs3\<rparr>)"
    using record_result_keeps [of _ _ _ "om\<lparr>om_slots := s2, om_fs := fs2\<rparr>"] 3 k2 assms(2) layout_keeps by fastforce
  with k2 have k3: "keeps om (om\<lparr>om_slots := s2, om_versions := vm3, om_fs := fs3\<rparr>)" by (rule keeps_trans)
  show ?thesis
    using k1 k2 k3 b assms(1)
    by (simp add: report_boot_result_def Let_def mock_deps_def mock_boot_ops_def mock_ops_def 1 2 3)
qed

lemma report_keeps: "mock_deps d \<Longrightarrow> layout om \<Longrightarrow> keeps om (snd (report_boot_result d ok why om))"
  by (cases ok) (simp_all add: report_success_keeps report_failure_keeps)

subsection \<open>Effects of the calls on state, percentage and slots\<close>

lemma switch_effect:
  assumes "mock_deps d" and "mock_inv (om_slots om)" and "snd (switch_and_reboot d om) = om'"
  shows "om_worker om' = om_worker om \<and>
    (om' = om \<or> pr_state (om_progress om) = ReadyToSwitch \<and>
      (pr_state (om_progress om') = Failed \<and> pr_percent (om_progress om') = pr_percent (om_progress om) \<or>
       pr_state (om_progress om') = Rebooting \<and> pr_percent (om_progress om') = 100 \<and>
       ms_current (om_slots om') = mock_inactive_slot (om_slots om)))"
proof -
  have "ms_current s' = mock_inactive_slot (om_slots om)"
    if "mock_activate (om_slots om) fs = (True, s', fs')" for fs s' fs'
    using mock.activate_switches [OF assms(2)] that by (auto simp: mock_ops_def)
  with assms(1,3) show ?thesis
    by (auto simp: switch_and_reboot_def Let_def mock_deps_def mock_ops_def split: prod.splits if_splits)
qed

lemma rollback_effect:
  assumes "snd (rollback d om) = om'"
  shows "om_worker om' = om_worker om \<and>
    (om' = om \<or> pr_state (om_progress om) \<in> {ReadyToSwitch, Rebooting} \<and>
      pr_state (om_progress om') \<in> {Failed, Rollback} \<and>
      pr_percent (om_progress om') \<in> {pr_percent (om_progress om), 100})"
  using assms by (auto simp: rollback_def Let_def split: prod.splits if_splits)

lemma report_effect:
  assumes "snd (report_boot_result d ok why om) = om'"
  shows "om_worker om' = om_worker om \<and>
    (om' = om \<or> pr_state (om_progress om) = Rebooting \<and> pr_percent (om_progress om') = 100 \<and>
      (pr_state (om_progress om') \<in> {Failed, Rollback} \<or>
       pr_state (om_progress om') = Success \<and> om_slots om' = om_slots om))"
  using assms by (auto simp: report_boot_result_def Let_def split: prod.splits if_splits)

lemma pc_inv_late:
  "pc_inv d j pc om \<Longrightarrow> pr_state (om_progress om) \<in> {ReadyToSwitch, Rebooting} \<Longrightarrow> pc \<in> {WApply, WDone}"
  by (cases pc) auto

lemma slot_names:
  "mock_inv ms \<Longrightarrow> ms_current ms \<in> {''A'', ''B''}" "mock_inactive_slot ms \<in> {''A'', ''B''}"
  by (auto simp: mock_inv_def mock_inactive_slot_def)

text \<open>The part of the invariant that does not mention the worker.\<close>

definition base_inv :: "mock_ota \<Rightarrow> bool" where
  "base_inv om \<longleftrightarrow> mock_inv (om_slots om) \<and> layout om \<and>
     0 \<le> pr_percent (om_progress om) \<and> pr_percent (om_progress om) \<le> 100"

definition late_inv :: "(mock_slots, mock_boot) ota_deps \<Rightarrow> job \<Rightarrow> mock_ota \<Rightarrow> bool" where
  "late_inv d j om \<longleftrightarrow> pr_state (om_progress om) \<in> {ReadyToSwitch, Rebooting, Success, Failed, Rollback} \<and>
     (pr_state (om_progress om) = ReadyToSwitch \<longrightarrow>
        holds_accepted d j om (rootfs om (mock_inactive_slot (om_slots om)))) \<and>
     (pr_state (om_progress om) \<in> {Rebooting, Success} \<longrightarrow>
        holds_accepted d j om (rootfs om (ms_current (om_slots om))))"

lemma pc_inv_WApply_WDone: "pc_inv d j WApply om = late_inv d j om" "pc_inv d j WDone om = late_inv d j om"
  by (simp_all add: late_inv_def)

lemma thread_inv_alt:
  "thread_inv d t \<longleftrightarrow> base_inv (ts_om t) \<and>
     (case om_worker (ts_om t) of None \<Rightarrow> pr_state (om_progress (ts_om t)) = Idle
        | Some (j, pc) \<Rightarrow> pc_inv d j pc (ts_om t))"
  by (simp add: thread_inv_def base_inv_def Let_def)

text \<open>A call that leaves the images alone keeps the invariant when its effect on the progress is
  one of those the manager has.\<close>

lemma late_effect:
  assumes "base_inv om" and "late_inv d j om" and k: "keeps om om'"
    and e: "om' = om \<or> 0 \<le> pr_percent (om_progress om') \<and> pr_percent (om_progress om') \<le> 100 \<and>
       (pr_state (om_progress om') \<in> {Failed, Rollback} \<or>
        pr_state (om_progress om) = ReadyToSwitch \<and> pr_state (om_progress om') = Rebooting \<and>
          ms_current (om_slots om') = mock_inactive_slot (om_slots om) \<or>
        pr_state (om_progress om) = Rebooting \<and> pr_state (om_progress om') = Success \<and>
          om_slots om' = om_slots om)"
  shows "base_inv om' \<and> late_inv d j om'"
proof (cases "om' = om")
  case True
  with assms(1,2) show ?thesis by simp
next
  case False
  have b: "mock_inv (om_slots om)" "layout om" using assms(1) by (simp_all add: base_inv_def)
  have inv': "mock_inv (om_slots om')" "layout om'" using k b layout_keeps [OF k] by (simp_all add: keeps_def)
  note c = holds_keeps [OF k slot_names(1) [OF b(1)], of d j] holds_keeps [OF k slot_names(2), of d j "om_slots om"]
  from e False consider "pr_state (om_progress om') \<in> {Failed, Rollback}"
    | "pr_state (om_progress om) = ReadyToSwitch" "pr_state (om_progress om') = Rebooting"
      "ms_current (om_slots om') = mock_inactive_slot (om_slots om)"
    | "pr_state (om_progress om) = Rebooting" "pr_state (om_progress om') = Success" "om_slots om' = om_slots om"
    by blast
  then have "late_inv d j om'" using assms(2) c by cases (auto simp: late_inv_def)
  moreover have "base_inv om'" using e False inv' by (simp add: base_inv_def)
  ultimately show ?thesis by simp
qed

lemma percent_base: "base_inv om \<Longrightarrow> 0 \<le> pr_percent (om_progress om) \<and> pr_percent (om_progress om) \<le> 100"
  by (simp add: base_inv_def)

lemma late_switch:
  assumes "mock_deps d" and "base_inv om" and "late_inv d j om"
  shows "base_inv (snd (switch_and_reboot d om)) \<and> late_inv d j (snd (switch_and_reboot d om))"
proof (rule late_effect [OF assms(2,3)])
  have b: "mock_inv (om_slots om)" "layout om" using assms(2) by (simp_all add: base_inv_def)
  show "keeps om (snd (switch_and_reboot d om))" by (rule switch_keeps [OF assms(1) b(2)])
qed (use switch_effect [OF assms(1) _ refl, of om] assms(2) percent_base [OF assms(2)] in \<open>fastforce simp: base_inv_def\<close>)

lemma late_rollback:
  assumes "mock_deps d" and "base_inv om" and "late_inv d j om"
  shows "base_inv (snd (rollback d om)) \<and> late_inv d j (snd (rollback d om))"
  by (rule late_effect [OF assms(2,3) rollback_keeps [OF assms(1)]])
     (use rollback_effect [OF refl, of d om] percent_base [OF assms(2)] in fastforce)

lemma late_report:
  assumes "mock_deps d" and "base_inv om" and "late_inv d j om"
  shows "base_inv (snd (report_boot_result d ok why om)) \<and> late_inv d j (snd (report_boot_result d ok why om))"
proof (rule late_effect [OF assms(2,3)])
  show "keeps om (snd (report_boot_result d ok why om))"
    using assms(2) by (intro report_keeps [OF assms(1)]) (simp add: base_inv_def)
qed (use report_effect [OF refl, of d ok why om] in fastforce)

subsection \<open>Steps of the worker\<close>

lemma holds_accepted_simps [simp]:
  "holds_accepted d j (om\<lparr>om_worker := w\<rparr>) p = holds_accepted d j om p"
  "holds_accepted d j (set_progress st pc dt om) p = holds_accepted d j om p"
  by (simp_all add: holds_accepted_def accepted_def)

lemma layout_simps [simp]:
  "layout (om\<lparr>om_worker := w\<rparr>) = layout om" "layout (set_progress st pc dt om) = layout om"
  "layout (om\<lparr>om_fs := fs\<rparr>) = layout om" "layout (om\<lparr>om_progress := p\<rparr>) = layout om"
  by (simp_all add: layout_def staged_path_def)

lemma base_inv_worker [simp]: "base_inv (om\<lparr>om_worker := w\<rparr>) = base_inv om"
  by (simp add: base_inv_def)

lemma pc_inv_worker [simp]: "pc_inv d j pc (om\<lparr>om_worker := w\<rparr>) = pc_inv d j pc om"
  by (cases pc) simp_all

lemma base_inv_fs [simp]: "base_inv (om\<lparr>om_fs := fs\<rparr>) = base_inv om"
  by (simp add: base_inv_def)

lemma base_inv_set_progress [simp]:
  "base_inv (set_progress st p dt om) \<longleftrightarrow> mock_inv (om_slots om) \<and> layout om \<and> 0 \<le> p \<and> p \<le> 100"
  by (simp add: base_inv_def)

lemma verify_staged:
  assumes "verify (od_sha d) (om_verify om) (staged_path om) (jb_digest j) [] (om_fs om) = (True, err, fs)"
  shows "holds_accepted d j (om\<lparr>om_fs := fs\<rparr>) (staged_path om)"
  using verify_trueD [OF assms] verify_frame [OF assms] by (auto simp: holds_accepted_def accepted_def)

lemma mock_write_installs:
  assumes "mock_write_image (staged_path om) v (om_slots om) (om_fs om) = (True, s, fs)"
    and "layout om" and "holds_accepted d j om (staged_path om)"
  shows "s = om_slots om \<and> holds_accepted d j (om\<lparr>om_fs := fs\<rparr>) (rootfs om (mock_inactive_slot (om_slots om)))"
proof -
  have "staged_path om \<noteq> slot_dir (om_slots om) (mock_inactive_slot (om_slots om)) @ ''/rootfs.img''"
    using assms(2) slot_names(2) [of "om_slots om"] by (auto simp: layout_def rootfs_def)
  from mock_write_imageD [OF assms(1) this] assms(3)
  have "holds_accepted d j (om\<lparr>om_fs := fs\<rparr>) (rootfs om (mock_inactive_slot (om_slots om)))"
    by (auto simp: holds_accepted_def accepted_def rootfs_def)
  then show ?thesis using mock_write_frame [OF assms(1)] by simp
qed

lemma set_target_installed:
  assumes "set_target v (om_versions om) (om_fs om) = (vm, fs)" and "layout om" and "slot \<in> {''A'', ''B''}"
  shows "layout (om\<lparr>om_versions := vm, om_fs := fs\<rparr>) \<and>
    holds_accepted d j (om\<lparr>om_versions := vm, om_fs := fs\<rparr>) (rootfs om slot) = holds_accepted d j om (rootfs om slot)"
proof -
  have "vm_base_dir vm = vm_base_dir (om_versions om)" using assms(1) by (auto simp: set_target_def Let_def)
  then have k: "keeps om (om\<lparr>om_versions := vm, om_fs := fs\<rparr>)"
    by (rule keeps_versions [OF set_target_frame [OF assms(1)] assms(2)])
  from holds_keeps [OF k assms(3)] layout_keeps [OF k] assms(2) show ?thesis by simp
qed

lemma worker_act_inv:
  assumes d: "mock_deps d" and b: "base_inv om" and p: "pc_inv d j pc om"
    and w: "worker_act d j pc om = (pc', om')"
  shows "base_inv om' \<and> pc_inv d j pc' om'"
proof -
  have l: "mock_inv (om_slots om)" "layout om" using b by (simp_all add: base_inv_def)
  show ?thesis
  proof (cases pc)
    case WVerify
    then show ?thesis using b p w verify_staged [of d om j]
      by (auto split: prod.splits if_splits)
  next
    case WWrite
    then show ?thesis using b p w l d mock_write_installs [of om "jb_version j" _ _ d j] mock_write_frame
      by (fastforce simp: mock_deps_def mock_ops_def base_inv_def split: prod.splits if_splits)
  next
    case WTarget
    then show ?thesis using b p w l set_target_installed [OF _ l(2) slot_names(2), of "jb_version j" _ _ d j "om_slots om"]
      by (auto simp: base_inv_def split: prod.splits)
  next
    case WApply
    have "late_inv d j om" using p unfolding WApply pc_inv_WApply_WDone .
    from late_switch [OF d b this] show ?thesis
      using w unfolding WApply worker_act.simps prod.inject pc_inv_WApply_WDone by (auto simp only: pc_inv_WApply_WDone)
  qed (use p w l b in \<open>auto simp: base_inv_def split: prod.splits option.splits if_splits\<close>)
qed

lemma late_call:
  assumes "thread_inv d t" and "pr_state (om_progress (ts_om t)) \<in> {ReadyToSwitch, Rebooting}"
  shows "\<exists>j pc. om_worker (ts_om t) = Some (j, pc) \<and> pc \<in> {WApply, WDone} \<and>
    base_inv (ts_om t) \<and> late_inv d j (ts_om t)"
proof -
  obtain j pc where w: "om_worker (ts_om t) = Some (j, pc)" and p: "pc_inv d j pc (ts_om t)" and b: "base_inv (ts_om t)"
    using assms by (auto simp: thread_inv_alt split: option.splits)
  moreover have "pc \<in> {WApply, WDone}" using pc_inv_late [OF p assms(2)] .
  ultimately show ?thesis using pc_inv_WApply_WDone by auto
qed

lemma thread_inv_lateI:
  "om_worker (ts_om t) = Some (j, pc) \<Longrightarrow> pc \<in> {WApply, WDone} \<Longrightarrow> base_inv (ts_om t) \<Longrightarrow>
   late_inv d j (ts_om t) \<Longrightarrow> thread_inv d t"
  using pc_inv_WApply_WDone by (auto simp: thread_inv_alt)

lemma thread_inv_switch:
  assumes "mock_deps d" and "thread_inv d t"
  shows "thread_inv d (t\<lparr>ts_om := snd (switch_and_reboot d (ts_om t))\<rparr>)"
proof (cases "pr_state (om_progress (ts_om t)) = ReadyToSwitch")
  case True
  with late_call [OF assms(2)] obtain j pc where w: "om_worker (ts_om t) = Some (j, pc)" "pc \<in> {WApply, WDone}"
    and i: "base_inv (ts_om t)" "late_inv d j (ts_om t)" by auto
  have "om_worker (snd (switch_and_reboot d (ts_om t))) = om_worker (ts_om t)"
    using switch_effect [OF assms(1) _ refl] i(1) by (simp add: base_inv_def)
  with late_switch [OF assms(1) i] w show ?thesis by (intro thread_inv_lateI [of _ j pc]) simp_all
next
  case False
  with assms(2) show ?thesis by (simp add: switch_and_reboot_def)
qed

lemma thread_inv_rollback:
  assumes "mock_deps d" and "thread_inv d t"
  shows "thread_inv d (t\<lparr>ts_om := snd (rollback d (ts_om t))\<rparr>)"
proof (cases "pr_state (om_progress (ts_om t)) \<in> {ReadyToSwitch, Rebooting}")
  case True
  with late_call [OF assms(2)] obtain j pc where w: "om_worker (ts_om t) = Some (j, pc)" "pc \<in> {WApply, WDone}"
    and i: "base_inv (ts_om t)" "late_inv d j (ts_om t)" by blast
  from late_rollback [OF assms(1) i] w rollback_effect [OF refl, of d "ts_om t"]
  show ?thesis by (intro thread_inv_lateI [of _ j pc]) simp_all
next
  case False
  with assms(2) show ?thesis by (simp add: rollback_def)
qed

lemma thread_inv_report:
  assumes "mock_deps d" and "thread_inv d t"
  shows "thread_inv d (t\<lparr>ts_om := snd (report_boot_result d ok why (ts_om t))\<rparr>)"
proof (cases "pr_state (om_progress (ts_om t)) = Rebooting")
  case True
  with late_call [OF assms(2)] obtain j pc where w: "om_worker (ts_om t) = Some (j, pc)" "pc \<in> {WApply, WDone}"
    and i: "base_inv (ts_om t)" "late_inv d j (ts_om t)" by auto
  from late_report [OF assms(1) i] w report_effect [OF refl, of d ok why "ts_om t"]
  show ?thesis by (intro thread_inv_lateI [of _ j pc]) simp_all
next
  case False
  with assms(2) show ?thesis by (simp add: report_boot_result_def)
qed

lemma thread_inv_worker:
  assumes "mock_deps d" and "thread_inv d t" and "om_worker (ts_om t) = Some (j, pc)"
  shows "thread_inv d (t\<lparr>ts_om := worker_step d (ts_om t)\<rparr>)"
  using assms worker_act_inv [OF assms(1) _ _ surjective_pairing, of "ts_om t" j pc]
  by (simp add: thread_inv_alt worker_step_Some)

lemma thread_inv_om: "ts_om t' = ts_om t \<Longrightarrow> thread_inv d t \<Longrightarrow> thread_inv d t'"
  by (simp add: thread_inv_def)

lemma thread_inv_step:
  assumes "ota_step d t t'" and "mock_deps d" and i: "thread_inv d t"
  shows "thread_inv d t'"
  using assms(1)
proof cases
  case (start_begin j)
  then show ?thesis using i by (auto intro: thread_inv_om)
next
  case (start_joined j)
  with i show ?thesis by (simp add: thread_inv_alt base_inv_def progress_default_def)
next
  case (start_spawn js1 j js2)
  show ?thesis
  proof (cases "om_worker (ts_om t)")
    case None
    with start_spawn i show ?thesis by (simp add: thread_inv_alt)
  next
    case (Some w)
    with start_spawn i show ?thesis by (auto intro: thread_inv_om)
  qed
next
  case (worker j pc)
  with thread_inv_worker [OF assms(2,3)] show ?thesis by simp
next
  case switch
  with thread_inv_switch [OF assms(2,3)] show ?thesis by simp
next
  case (boot_result ok why)
  with thread_inv_report [OF assms(2,3)] show ?thesis by simp
next
  case manual_rollback
  with thread_inv_rollback [OF assms(2,3)] show ?thesis by simp
qed

lemma thread_inv_reach:
  assumes "ota_reach d om t" and "mock_deps d" and "mock_inv (om_slots om)" and "layout om"
  shows "thread_inv d t"
  using assms(1)
proof (induction rule: rtranclp_induct)
  case base
  show ?case using assms(3,4) by (simp add: thread_inv_alt ts_init_def base_inv_def progress_default_def)
next
  case (step t t')
  then show ?case using thread_inv_step assms(2) by blast
qed

subsection \<open>Runs\<close>

lemma start_update_run:
  assumes "\<not> ts_dead t" and "ts_join t = None" and "ts_spawn t = []"
    and "start_update j (ts_om t) = Some (True, om')"
  shows "(ota_step d)\<^sup>*\<^sup>* t (t\<lparr>ts_om := om'\<rparr>)"
proof -
  have s: "startable (pr_state (om_progress (ts_om t)))" and f: "worker_finished (ts_om t)"
    and om': "om' = (ts_om t)\<lparr>om_progress := progress_default, om_worker := Some (j, WStart)\<rparr>"
    using assms(4) by (auto simp: start_update_def worker_finished_def split: if_splits option.splits)
  let ?t1 = "t\<lparr>ts_join := Some j\<rparr>"
  let ?t2 = "?t1\<lparr>ts_om := (ts_om ?t1)\<lparr>om_progress := progress_default, om_worker := None\<rparr>,
                ts_join := None, ts_spawn := ts_spawn ?t1 @ [j]\<rparr>"
  have 1: "ota_step d t ?t1" using assms(1,2) s by (rule ota_step.start_begin)
  have 2: "ota_step d ?t1 ?t2" by (rule ota_step.start_joined) (use assms(1) f in simp_all)
  have "ota_step d ?t2 (if om_worker (ts_om ?t2) = None
       then ?t2\<lparr>ts_om := (ts_om ?t2)\<lparr>om_worker := Some (j, WStart)\<rparr>, ts_spawn := [] @ []\<rparr>
       else ?t2\<lparr>ts_dead := True\<rparr>)"
    by (rule ota_step.start_spawn) (use assms(1,3) in simp_all)
  moreover have "?t2\<lparr>ts_om := (ts_om ?t2)\<lparr>om_worker := Some (j, WStart)\<rparr>, ts_spawn := [] @ []\<rparr> = t\<lparr>ts_om := om'\<rparr>"
    using assms(2,3) om' by simp
  ultimately have "ota_step d ?t2 (t\<lparr>ts_om := om'\<rparr>)" by simp
  with 1 2 show ?thesis by (meson converse_rtranclp_into_rtranclp rtranclp.rtrancl_refl)
qed

lemma worker_steps_reach:
  assumes "\<not> ts_dead t" and "ts_join t = None" and "om_worker (ts_om t) \<noteq> None"
  shows "(ota_step d)\<^sup>*\<^sup>* t (t\<lparr>ts_om := (worker_step d ^^ n) (ts_om t)\<rparr>) \<and>
    om_worker ((worker_step d ^^ n) (ts_om t)) \<noteq> None"
proof (induction n)
  case 0
  show ?case using assms(3) by simp
next
  case (Suc n)
  let ?om = "(worker_step d ^^ n) (ts_om t)"
  from Suc obtain j pc where w: "om_worker ?om = Some (j, pc)" by auto
  have "ota_step d (t\<lparr>ts_om := ?om\<rparr>) (t\<lparr>ts_om := ?om\<rparr>\<lparr>ts_om := worker_step d (ts_om (t\<lparr>ts_om := ?om\<rparr>))\<rparr>)"
    by (rule ota_step.worker) (use assms w in simp_all)
  with Suc w show ?case by (auto simp: worker_step_Some intro: rtranclp.rtrancl_into_rtrancl)
qed

lemma update_run:
  assumes "start_update j om = Some (True, om')" and "om_progress om = progress_default" and "om_worker om = None"
  shows "ota_reach d om \<lparr>ts_om = (run_update d j om)\<lparr>om_worker := Some (j, WDone)\<rparr>,
     ts_join = None, ts_spawn = [], ts_dead = False\<rparr>"
proof -
  have i: "ts_init om = \<lparr>ts_om = om, ts_join = None, ts_spawn = [], ts_dead = False\<rparr>"
    using assms(2,3) by (cases om) (simp add: ts_init_def)
  have o: "om' = om\<lparr>om_worker := Some (j, WStart)\<rparr>"
    using assms by (cases om) (auto simp: start_update_def split: if_splits)
  have "ota_reach d om \<lparr>ts_om = om', ts_join = None, ts_spawn = [], ts_dead = False\<rparr>"
    using start_update_run [of "ts_init om" j om' d] assms(1) i by simp
  also have "(ota_step d)\<^sup>*\<^sup>* \<lparr>ts_om = om', ts_join = None, ts_spawn = [], ts_dead = False\<rparr>
      \<lparr>ts_om = (worker_step d ^^ 11) om', ts_join = None, ts_spawn = [], ts_dead = False\<rparr>"
    using worker_steps_reach [of "\<lparr>ts_om = om', ts_join = None, ts_spawn = [], ts_dead = False\<rparr>" d 11] o by simp
  finally show ?thesis unfolding o worker_step_run worker_run_update by simp
qed

lemma ex_update_run: "ota_reach ex_deps ex_ota \<lparr>ts_om = ex_ready\<lparr>om_worker := Some (ex_job, WDone)\<rparr>,
     ts_join = None, ts_spawn = [], ts_dead = False\<rparr>"
  unfolding ex_ready_def
  by (rule update_run) (auto simp: start_update_def startable_def progress_default_def)

section \<open>What holds in every interleaving\<close>





text \<open>
  A start request that the sequential manager accepts is carried out by the threads: when no
  other start request is under way, the caller gets through the join and leaves the manager in
  the state \<open>start_update\<close> describes.
\<close>

theorem start_update_is_carried_out:
  assumes "\<not> ts_dead t" and "ts_join t = None" and "ts_spawn t = []"
    and "start_update j (ts_om t) = Some (True, om')"
  shows "(ota_step d)\<^sup>*\<^sup>* t (t\<lparr>ts_om := om'\<rparr>)"
  using assms by (rule start_update_run)

theorem start_update_is_carried_out_witness:
  "(ota_step ex_deps)\<^sup>*\<^sup>* (ts_init ex_ota)
     ((ts_init ex_ota)\<lparr>ts_om := ex_ota\<lparr>om_progress := progress_default, om_worker := Some (ex_job, WStart)\<rparr>\<rparr>)"
  using start_update_is_carried_out [of "ts_init ex_ota" ex_job "ex_ota\<lparr>om_progress := progress_default, om_worker := Some (ex_job, WStart)\<rparr>" ex_deps]
  by (simp add: ts_init_def start_update_def startable_def progress_default_def)

text \<open>
  Two start requests in quick succession can block the manager for good. The second caller
  passes the state check before the new worker has left \<open>Idle\<close>, takes the mutex and joins the
  worker, which waits for that mutex: a state is reached in which no thread can take a step.
\<close>

theorem start_update_can_deadlock:
  "\<exists>t. ota_reach d om t \<and> ts_join t = Some j2 \<and> om_worker (ts_om t) = Some (j1, WStart) \<and> \<not> ts_dead t \<and>
     (\<forall>t'. \<not> ota_step d t t')"
proof -
  let ?om = "om\<lparr>om_progress := progress_default, om_worker := Some (j1, WStart)\<rparr>"
  let ?t = "\<lparr>ts_om = ?om, ts_join = None, ts_spawn = [], ts_dead = False\<rparr>"
  have 1: "ota_reach d om ?t"
    using start_update_run [of "ts_init om" j1 ?om d]
    by (simp add: ts_init_def start_update_def startable_def progress_default_def)
  have 2: "ota_step d ?t (?t\<lparr>ts_join := Some j2\<rparr>)"
    by (rule ota_step.start_begin) (simp_all add: startable_def progress_default_def)
  have "\<not> ota_step d (?t\<lparr>ts_join := Some j2\<rparr>) t'" for t'
    by (auto elim!: ota_stepE simp: worker_finished_def needs_mutex_def)
  with 1 2 show ?thesis
    by (intro exI [of _ "?t\<lparr>ts_join := Some j2\<rparr>"]) (auto intro: rtranclp.rtrancl_into_rtrancl)
qed

text \<open>
  Two callers that start updates at the same time can bring the process down: both pass the
  check and release the mutex before either has assigned \<open>worker_\<close>, and the second assignment
  replaces a joinable thread, which calls \<open>std::terminate\<close>.
\<close>

theorem concurrent_starts_can_terminate:
  "\<exists>t. ota_reach d om t \<and> ts_dead t"
proof -
  let ?om = "om\<lparr>om_progress := progress_default, om_worker := None\<rparr>"
  let ?t = "\<lambda>w jn sp dd. \<lparr>ts_om = ?om\<lparr>om_worker := w\<rparr>, ts_join = jn, ts_spawn = sp, ts_dead = dd\<rparr>"
  fix j :: job
  have join: "ota_step d (?t None None sp False) (?t None (Some j) sp False)" for sp
    using ota_step.start_begin [of "?t None None sp False" d j] by (simp add: startable_def progress_default_def)
  have pass: "ota_step d (?t None (Some j) sp False) (?t None None (sp @ [j]) False)" for sp
    using ota_step.start_joined [of "?t None (Some j) sp False" j d] by (simp add: worker_finished_def)
  have spawn: "ota_step d (?t None None [j, j] False) (?t (Some (j, WStart)) None [j] False)"
    using ota_step.start_spawn [of "?t None None [j, j] False" "[]" j "[j]" d] by simp
  have die: "ota_step d (?t (Some (j, WStart)) None [j] False) (?t (Some (j, WStart)) None [j] True)"
    using ota_step.start_spawn [of "?t (Some (j, WStart)) None [j] False" "[]" j "[]" d] by simp
  have "ts_init om = ?t None None [] False" by (simp add: ts_init_def)
  with join [of "[]"] pass [of "[]"] join [of "[j]"] pass [of "[j]"] spawn die
  have "ota_reach d om (?t (Some (j, WStart)) None [j] True)"
    by (simp add: converse_rtranclp_into_rtranclp)
  then show ?thesis by (intro exI) auto
qed

end
