(* ===== verification/Codec.thy ===== *)
theory Codec
  imports Prelude
begin

text \<open>
  The interface all wire formats of the program share: a writer that yields bytes and a reader
  that is given the whole message and a position, and either fails or returns a value and the
  position behind it. The locale \<open>codec\<close> states what a user of a format relies on (what was
  written is read back wherever it stands in the message, and a reader never leaves the
  message); formats built from others are codecs again (\<open>dec_pair\<close>, \<open>dec_triple\<close>,
  \<open>read_n\<close>), which is how the reply lists of the services are handled.
\<close>

type_synonym 'a reader = "bytes \<Rightarrow> nat \<Rightarrow> ('a \<times> nat) option"

text \<open>Two and three fields in sequence, and a counted loop that collects its items.\<close>

definition dec_pair :: "'a reader \<Rightarrow> 'b reader \<Rightarrow> ('a \<times> 'b) reader" where
  "dec_pair d1 d2 b p = (case d1 b p of None \<Rightarrow> None
     | Some (x, q) \<Rightarrow> (case d2 b q of None \<Rightarrow> None | Some (y, r) \<Rightarrow> Some ((x, y), r)))"

definition dec_triple :: "'a reader \<Rightarrow> 'b reader \<Rightarrow> 'c reader \<Rightarrow> ('a \<times> 'b \<times> 'c) reader" where
  "dec_triple d1 d2 d3 = dec_pair d1 (dec_pair d2 d3)"

fun read_n :: "'a reader \<Rightarrow> nat \<Rightarrow> 'a list reader" where
  "read_n d 0 b p = Some ([], p)"
| "read_n d (Suc n) b p = (case d b p of None \<Rightarrow> None
     | Some (x, q) \<Rightarrow> (case read_n d n b q of None \<Rightarrow> None | Some (xs, r) \<Rightarrow> Some (x # xs, r)))"

locale codec =
  fixes enc :: "'a \<Rightarrow> bytes"
    and dec :: "'a reader"
    and ok :: "'a \<Rightarrow> bool"
  assumes dec_enc: "ok v \<Longrightarrow> dec (pre @ enc v @ post) (length pre) = Some (v, length pre + length (enc v))"
    and dec_inside: "dec b p = Some (v, q) \<Longrightarrow> p \<le> q \<and> q \<le> length b"
begin

lemma dec_enc_start: "ok v \<Longrightarrow> dec (enc v @ post) 0 = Some (v, length (enc v))"
  using dec_enc [of v "[]" post] by simp

lemma dec_enc_only: "ok v \<Longrightarrow> dec (enc v) 0 = Some (v, length (enc v))"
  using dec_enc_start [of v "[]"] by simp

text \<open>A value followed by other data can be told apart from every other value.\<close>

lemma enc_prefix_free:
  assumes "ok v" and "ok w" and "enc v @ x = enc w @ y"
  shows "v = w \<and> x = y"
proof -
  have "Some (v, length (enc v)) = Some (w, length (enc w))"
    using dec_enc_start [OF assms(1), of x] dec_enc_start [OF assms(2), of y] assms(3) by simp
  with assms(3) show ?thesis by simp
qed

lemma enc_inject: "ok v \<Longrightarrow> ok w \<Longrightarrow> enc v = enc w \<Longrightarrow> v = w"
  using enc_prefix_free [of v w "[]" "[]"] by simp

lemma read_n_enc:
  "list_all ok vs \<Longrightarrow> read_n dec (length vs) (pre @ concat (map enc vs) @ post) (length pre) =
     Some (vs, length pre + length (concat (map enc vs)))"
proof (induction vs arbitrary: pre)
  case (Cons v vs)
  have 1: "dec (pre @ enc v @ concat (map enc vs) @ post) (length pre) = Some (v, length pre + length (enc v))"
    using Cons.prems by (intro dec_enc) simp
  have 2: "read_n dec (length vs) ((pre @ enc v) @ concat (map enc vs) @ post) (length (pre @ enc v)) =
      Some (vs, length (pre @ enc v) + length (concat (map enc vs)))"
    using Cons.prems by (intro Cons.IH) simp
  from 1 2 show ?case by simp
qed simp

lemma read_n_inside: "read_n dec n b p = Some (vs, q) \<Longrightarrow> p \<le> length b \<Longrightarrow> p \<le> q \<and> q \<le> length b \<and> length vs = n"
proof (induction n arbitrary: p vs q)
  case (Suc n)
  from Suc.prems(1) obtain x p1 xs where d: "dec b p = Some (x, p1)" and r: "read_n dec n b p1 = Some (xs, q)"
    and "vs = x # xs" by (auto split: option.splits prod.splits)
  with dec_inside [OF d] Suc.IH [OF r] show ?case by auto
qed simp

end

lemma codec_pair:
  assumes "codec e1 d1 ok1" and "codec e2 d2 ok2"
  shows "codec (\<lambda>(x, y). e1 x @ e2 y) (dec_pair d1 d2) (\<lambda>(x, y). ok1 x \<and> ok2 y)"
proof
  fix v pre post
  assume "case v of (x, y) \<Rightarrow> ok1 x \<and> ok2 y"
  then obtain x y where v: "v = (x, y)" and o: "ok1 x" "ok2 y" by (cases v) auto
  have "d1 (pre @ e1 x @ (e2 y @ post)) (length pre) = Some (x, length pre + length (e1 x))"
    by (rule codec.dec_enc [OF assms(1) o(1)])
  moreover have "d2 ((pre @ e1 x) @ e2 y @ post) (length (pre @ e1 x)) = Some (y, length (pre @ e1 x) + length (e2 y))"
    by (rule codec.dec_enc [OF assms(2) o(2)])
  ultimately show "dec_pair d1 d2 (pre @ (case v of (x, y) \<Rightarrow> e1 x @ e2 y) @ post) (length pre) =
      Some (v, length pre + length (case v of (x, y) \<Rightarrow> e1 x @ e2 y))"
    by (simp add: dec_pair_def v)
next
  fix b p v q
  assume "dec_pair d1 d2 b p = Some (v, q)"
  then obtain x r y where "d1 b p = Some (x, r)" "d2 b r = Some (y, q)"
    by (auto simp: dec_pair_def split: option.splits)
  then show "p \<le> q \<and> q \<le> length b"
    using codec.dec_inside [OF assms(1)] codec.dec_inside [OF assms(2)] by fastforce
qed

lemma codec_triple:
  assumes "codec e1 d1 ok1" and "codec e2 d2 ok2" and "codec e3 d3 ok3"
  shows "codec (\<lambda>(x, y, z). e1 x @ e2 y @ e3 z) (dec_triple d1 d2 d3) (\<lambda>(x, y, z). ok1 x \<and> ok2 y \<and> ok3 z)"
  using codec_pair [OF assms(1) codec_pair [OF assms(2,3)]]
  by (simp add: dec_triple_def case_prod_beta')

text \<open>The two shapes every format here is made of: a fixed number of bytes, and a length in front.\<close>

lemma take_drop_pre: "length w = n \<Longrightarrow> take n (drop (length pre) (pre @ w @ post)) = w"
  by simp

lemma codec_fixed:
  assumes "\<And>v. length (e v) = n" and "\<And>v. f (e v) = v"
    and "\<And>b p. d b p = (if p + n > length b then None else Some (f (take n (drop p b)), p + n))"
  shows "codec e d (\<lambda>_. True)"
  by unfold_locales (use assms(1,2) in \<open>auto simp: assms(3) split: if_splits\<close>)

lemma codec_counted:
  fixes el :: "nat \<Rightarrow> bytes"
  assumes "codec el dl okl" and "\<And>b p. d b p = (case dl b p of None \<Rightarrow> None
      | Some (n, q) \<Rightarrow> if q + n > length b then None else Some (g (take n (drop q b)), q + n))"
    and "\<And>v. e v = el (length (h v)) @ h v" and "\<And>v. g (h v) = v"
  shows "codec e d (\<lambda>v. okl (length (h v)))"
proof
  fix v pre post
  assume "okl (length (h v))"
  then have "dl (pre @ el (length (h v)) @ (h v @ post)) (length pre) =
      Some (length (h v), length pre + length (el (length (h v))))"
    by (rule codec.dec_enc [OF assms(1)])
  then show "d (pre @ e v @ post) (length pre) = Some (v, length pre + length (e v))" by (simp add: assms(2-4))
next
  fix b p v q
  assume "d b p = Some (v, q)"
  then obtain n r where "dl b p = Some (n, r)" "q = r + n" "r + n \<le> length b"
    by (auto simp: assms(2) split: option.splits if_splits)
  then show "p \<le> q \<and> q \<le> length b" using codec.dec_inside [OF assms(1)] by fastforce
qed

text \<open>A format for a type that is a renaming of another, such as a record of a tuple.\<close>

lemma codec_map:
  assumes "codec e d ok" and "\<And>v. f (g v) = v"
    and "\<And>b p. d' b p = map_option (\<lambda>(x, q). (f x, q)) (d b p)" and "\<And>v. e' v = e (g v)"
  shows "codec e' d' (\<lambda>v. ok (g v))"
proof
  fix v pre post
  assume "ok (g v)"
  from codec.dec_enc [OF assms(1) this] show "d' (pre @ e' v @ post) (length pre) = Some (v, length pre + length (e' v))"
    by (simp add: assms(2-4))
next
  fix b p v q
  assume "d' b p = Some (v, q)"
  then show "p \<le> q \<and> q \<le> length b" using codec.dec_inside [OF assms(1)] by (auto simp: assms(3))
qed

end
