(* ===== verification/PackageManifest.thy ===== *)
theory PackageManifest
  imports Codec
begin

text \<open>
  The transfer package (src/src/ota/package_manifest.h): a length-prefixed manifest blob
  followed by the payload. The HMAC of the payload (package_manifest.cpp) is computed by
  OpenSSL, a parameter wherever it is used; \<open>HmacSha256Hex\<close> is the code around it.
\<close>

record PackageManifest =
  mf_name :: string
  mf_version :: string
  mf_dependencies :: "string list"
  mf_signature :: string

text \<open>OpenSSL's HMAC returns a null pointer on failure; the key is the demo key.\<close>

definition HmacSha256Hex :: "(string \<Rightarrow> bytes \<Rightarrow> bytes option) \<Rightarrow> bytes \<Rightarrow> string" where
  "HmacSha256Hex hmac data =
     (case hmac ''demo-ota-secret'' data of
        None \<Rightarrow> []
      | Some out \<Rightarrow> concat (map (\<lambda>b. [''0123456789abcdef'' ! unat (drop_bit 4 b AND 0xF),
                                      ''0123456789abcdef'' ! unat (b AND 0xF)]) out))"

definition ManifestAppendU32 :: "bytes \<Rightarrow> u32 \<Rightarrow> bytes" where
  "ManifestAppendU32 out v = out @ le_bytes 4 v"

definition ManifestAppendString :: "bytes \<Rightarrow> string \<Rightarrow> bytes" where
  "ManifestAppendString out s = ManifestAppendU32 out (word_of_nat (length s)) @ bytes_of_string s"

definition ManifestReadU32 :: "u32 reader" where
  "ManifestReadU32 inp pos =
     (if pos + 4 > length inp then None else Some (le_word (take 4 (drop pos inp)), pos + 4))"

definition ManifestReadString :: "string reader" where
  "ManifestReadString inp pos = (case ManifestReadU32 inp pos of
     None \<Rightarrow> None
   | Some (len, pos1) \<Rightarrow>
       if pos1 + unat len > length inp then None
       else Some (string_of_bytes (take (unat len) (drop pos1 inp)), pos1 + unat len))"

definition manifest_blob :: "PackageManifest \<Rightarrow> bytes" where
  "manifest_blob m =
     (let blob1 = ManifestAppendString [] (mf_name m);
          blob2 = ManifestAppendString blob1 (mf_version m);
          blob3 = ManifestAppendU32 blob2 (word_of_nat (length (mf_dependencies m)));
          blob4 = foldl ManifestAppendString blob3 (mf_dependencies m)
      in ManifestAppendString blob4 (mf_signature m))"

definition BuildPackage :: "PackageManifest \<Rightarrow> bytes \<Rightarrow> bytes" where
  "BuildPackage m payload =
     ManifestAppendU32 [] (word_of_nat (length (manifest_blob m))) @ manifest_blob m @ payload"

definition unpack_manifest :: "bytes \<Rightarrow> PackageManifest option" where
  "unpack_manifest blob =
     (case ManifestReadString blob 0 of
        None \<Rightarrow> None
      | Some (name, p1) \<Rightarrow>
        (case ManifestReadString blob p1 of
           None \<Rightarrow> None
         | Some (version, p2) \<Rightarrow>
           (case ManifestReadU32 blob p2 of
              None \<Rightarrow> None
            | Some (dep_count, p3) \<Rightarrow>
              (case read_n ManifestReadString (unat dep_count) blob p3 of
                 None \<Rightarrow> None
               | Some (deps, p4) \<Rightarrow>
                 (case ManifestReadString blob p4 of
                    None \<Rightarrow> None
                  | Some (sig, p5) \<Rightarrow>
                      Some \<lparr>mf_name = name, mf_version = version, mf_dependencies = deps,
                            mf_signature = sig\<rparr>)))))"

definition UnpackPackage :: "bytes \<Rightarrow> (PackageManifest \<times> bytes) option" where
  "UnpackPackage pkg =
     (case ManifestReadU32 pkg 0 of
        None \<Rightarrow> None
      | Some (blob_len, pos) \<Rightarrow>
          if pos + unat blob_len > length pkg then None
          else (let blob = take (unat blob_len) (drop pos pkg);
                    payload = drop (pos + unat blob_len) pkg
                in map_option (\<lambda>m. (m, payload)) (unpack_manifest blob)))"

section \<open>The helpers are codecs\<close>

interpretation mu32: codec "ManifestAppendU32 []" ManifestReadU32 "\<lambda>_. True"
  by (rule codec_fixed [where f = le_word and n = 4])
     (simp_all add: ManifestAppendU32_def ManifestReadU32_def codec_simps)

definition manifest_read_len :: "nat reader" where
  "manifest_read_len b p = map_option (\<lambda>(w, q). (unat w, q)) (ManifestReadU32 b p)"

interpretation mlen: codec "\<lambda>n. ManifestAppendU32 [] (word_of_nat n)" manifest_read_len "\<lambda>n. n < 2 ^ 32"
proof
  fix v pre post
  assume "v < (2 ^ 32 :: nat)"
  then show "manifest_read_len (pre @ ManifestAppendU32 [] (word_of_nat v) @ post) (length pre) =
      Some (v, length pre + length (ManifestAppendU32 [] (word_of_nat v)))"
    using mu32.dec_enc [where v = "word_of_nat v" and pre = pre and post = post] by (simp add: manifest_read_len_def)
next
  fix b p v q
  assume "manifest_read_len b p = Some (v, q)"
  then show "p \<le> q \<and> q \<le> length b" using mu32.dec_inside by (fastforce simp: manifest_read_len_def)
qed

interpretation mstr: codec "ManifestAppendString []" ManifestReadString "\<lambda>s. length s < 2 ^ 32"
proof -
  have "codec (ManifestAppendString []) ManifestReadString (\<lambda>s. length (bytes_of_string s) < 2 ^ 32)"
    by (rule codec_counted [OF mlen.codec_axioms, where g = string_of_bytes])
       (auto simp: ManifestReadString_def manifest_read_len_def ManifestAppendString_def split: option.splits)
  then show "codec (ManifestAppendString []) ManifestReadString (\<lambda>s. length s < 2 ^ 32)" by simp
qed

lemma ManifestAppendString_out: "ManifestAppendString out s = out @ ManifestAppendString [] s"
  by (simp add: ManifestAppendString_def ManifestAppendU32_def)

lemma foldl_ManifestAppendString:
  "foldl ManifestAppendString out ss = out @ concat (map (ManifestAppendString []) ss)"
proof (induction ss arbitrary: out)
  case (Cons s ss)
  then show ?case using ManifestAppendString_out [of out s] by simp
qed simp

lemma manifest_blob_eq:
  "manifest_blob m = ManifestAppendString [] (mf_name m) @ ManifestAppendString [] (mf_version m) @
     ManifestAppendU32 [] (word_of_nat (length (mf_dependencies m))) @
     concat (map (ManifestAppendString []) (mf_dependencies m)) @ ManifestAppendString [] (mf_signature m)"
  unfolding manifest_blob_def Let_def foldl_ManifestAppendString
  by (subst (1 2) ManifestAppendString_out) (simp add: ManifestAppendU32_def)

definition manifest_fits :: "PackageManifest \<Rightarrow> bool" where
  "manifest_fits m \<longleftrightarrow> length (mf_name m) < 2 ^ 32 \<and> length (mf_version m) < 2 ^ 32 \<and>
     length (mf_dependencies m) < 2 ^ 32 \<and> list_all (\<lambda>s. length s < 2 ^ 32) (mf_dependencies m) \<and>
     length (mf_signature m) < 2 ^ 32"

lemma unpack_manifest_blob: "manifest_fits m \<Longrightarrow> unpack_manifest (manifest_blob m) = Some m"
proof -
  assume f: "manifest_fits m"
  let ?a = "ManifestAppendString [] (mf_name m)" and ?b = "ManifestAppendString [] (mf_version m)"
  let ?c = "ManifestAppendU32 [] (word_of_nat (length (mf_dependencies m)))"
  let ?d = "concat (map (ManifestAppendString []) (mf_dependencies m))"
  let ?e = "ManifestAppendString [] (mf_signature m)"
  have 1: "ManifestReadString (?a @ (?b @ ?c @ ?d @ ?e)) 0 = Some (mf_name m, length ?a)"
    using f by (intro mstr.dec_enc_start) (simp add: manifest_fits_def)
  have 2: "ManifestReadString (?a @ ?b @ (?c @ ?d @ ?e)) (length ?a) = Some (mf_version m, length ?a + length ?b)"
    using f by (intro mstr.dec_enc) (simp add: manifest_fits_def)
  have 3: "ManifestReadU32 ((?a @ ?b) @ ?c @ (?d @ ?e)) (length (?a @ ?b)) =
      Some (word_of_nat (length (mf_dependencies m)), length (?a @ ?b) + length ?c)"
    by (rule mu32.dec_enc) simp
  have 4: "read_n ManifestReadString (length (mf_dependencies m)) ((?a @ ?b @ ?c) @ ?d @ ?e) (length (?a @ ?b @ ?c)) =
      Some (mf_dependencies m, length (?a @ ?b @ ?c) + length ?d)"
    using f by (intro mstr.read_n_enc) (simp add: manifest_fits_def)
  have 5: "ManifestReadString ((?a @ ?b @ ?c @ ?d) @ ?e @ []) (length (?a @ ?b @ ?c @ ?d)) =
      Some (mf_signature m, length (?a @ ?b @ ?c @ ?d) + length ?e)"
    using f by (intro mstr.dec_enc) (simp add: manifest_fits_def)
  have u: "unat (word_of_nat (length (mf_dependencies m)) :: u32) = length (mf_dependencies m)"
    using f by (simp add: manifest_fits_def)
  from 1 2 3 4 5 u show ?thesis
    by (simp add: unpack_manifest_def manifest_blob_eq add.assoc)
qed

lemma package_unpacks:
  assumes "manifest_fits m" and "length (manifest_blob m) < 2 ^ 32"
  shows "UnpackPackage (BuildPackage m payload) = Some (m, payload)"
proof -
  let ?h = "ManifestAppendU32 [] (word_of_nat (length (manifest_blob m)))"
  have "ManifestReadU32 (?h @ (manifest_blob m @ payload)) 0 = Some (word_of_nat (length (manifest_blob m)), length ?h)"
    by (rule mu32.dec_enc_start) simp
  then show ?thesis
    using assms(2) unpack_manifest_blob [OF assms(1)] by (simp add: UnpackPackage_def BuildPackage_def Let_def)
qed

text \<open>
  C40: what the update agent packs the service unpacks: for every manifest whose strings and
  dependency list fit their 32-bit lengths, \<open>UnpackPackage\<close> of \<open>BuildPackage\<close> returns the
  manifest and the payload.
\<close>

theorem package_roundtrip:
  assumes "manifest_fits m" and "length (manifest_blob m) < 2 ^ 32"
  shows "UnpackPackage (BuildPackage m payload) = Some (m, payload)"
  using assms by (rule package_unpacks)

theorem package_roundtrip_witness:
  "UnpackPackage (BuildPackage \<lparr>mf_name = ''platform'', mf_version = ''2'', mf_dependencies = [''1.0.0''],
     mf_signature = ''ab''\<rparr> [1, 2, 3]) =
   Some (\<lparr>mf_name = ''platform'', mf_version = ''2'', mf_dependencies = [''1.0.0''], mf_signature = ''ab''\<rparr>, [1, 2, 3])"
  by (rule package_roundtrip)
     (simp_all add: manifest_fits_def manifest_blob_eq ManifestAppendString_def ManifestAppendU32_def)

end
