(* ===== verification/UcmService.thy ===== *)
theory UcmService
  imports OtaManager PackageManifest
begin

text \<open>
  The target side of the UCM service (src/src/ota/ucm_service.h and .cpp, ucm_types.h): transfer
  sessions, processing of a received package, and the lifecycle calls that are passed on to the
  OTA manager. Manager, version manager and service share one file system: it and the versions
  are fields of the manager's record. \<open>statvfs\<close> is an outcome given to \<open>TransferStart\<close>;
  HMAC-SHA256 is OpenSSL's, a field of \<open>ucm_deps\<close>.
\<close>

datatype UcmErrc =
  kSuccess | kInvalidTransferId | kInvalidPackageManifest | kAuthenticationFailed
| kInsufficientMemory | kOperationNotPermitted | kServiceBusy | kIncompatibleDelta
| kProcessedSoftwarePackageInconsistent | kProcessSwPackageCancelled | kSoftwareClusterMissing
| kIncompatiblePackageVersion | kMissingDependencies | kOldVersion | kPackageInconsistent
| kIncorrectBlock | kIncorrectBlockSize | kBlockInconsistent | kIncorrectSize | kInsufficientData
| kNothingToRollback | kNotAbleToRollback | kNothingToRevert | kNotAbleToRevertPackages
| ErrcValue u32

text \<open>The wire value; \<open>ErrcValue\<close> is a value of the underlying type that no enumerator has.\<close>

fun errc_code :: "UcmErrc \<Rightarrow> u32" where
  "errc_code kSuccess = 0" | "errc_code kInvalidTransferId = 1" | "errc_code kInvalidPackageManifest = 2"
| "errc_code kAuthenticationFailed = 3" | "errc_code kInsufficientMemory = 4"
| "errc_code kOperationNotPermitted = 5" | "errc_code kServiceBusy = 6" | "errc_code kIncompatibleDelta = 7"
| "errc_code kProcessedSoftwarePackageInconsistent = 8" | "errc_code kProcessSwPackageCancelled = 9"
| "errc_code kSoftwareClusterMissing = 10" | "errc_code kIncompatiblePackageVersion = 11"
| "errc_code kMissingDependencies = 12" | "errc_code kOldVersion = 13" | "errc_code kPackageInconsistent = 14"
| "errc_code kIncorrectBlock = 15" | "errc_code kIncorrectBlockSize = 16" | "errc_code kBlockInconsistent = 17"
| "errc_code kIncorrectSize = 18" | "errc_code kInsufficientData = 19" | "errc_code kNothingToRollback = 20"
| "errc_code kNotAbleToRollback = 21" | "errc_code kNothingToRevert = 22"
| "errc_code kNotAbleToRevertPackages = 23" | "errc_code (ErrcValue v) = v"

definition errc_names :: "UcmErrc list" where
  "errc_names = [kSuccess, kInvalidTransferId, kInvalidPackageManifest, kAuthenticationFailed,
     kInsufficientMemory, kOperationNotPermitted, kServiceBusy, kIncompatibleDelta,
     kProcessedSoftwarePackageInconsistent, kProcessSwPackageCancelled, kSoftwareClusterMissing,
     kIncompatiblePackageVersion, kMissingDependencies, kOldVersion, kPackageInconsistent,
     kIncorrectBlock, kIncorrectBlockSize, kBlockInconsistent, kIncorrectSize, kInsufficientData,
     kNothingToRollback, kNotAbleToRollback, kNothingToRevert, kNotAbleToRevertPackages]"

definition errc_cast :: "u32 \<Rightarrow> UcmErrc" where
  "errc_cast v = (if unat v < length errc_names then errc_names ! unat v else ErrcValue v)"

record SwPackageInfo =
  sp_name :: string
  sp_version :: string

record SwClusterInfo =
  sc_name :: string
  sc_version :: string
  sc_state :: string

record HistoryEntry =
  he_from :: string
  he_to :: string
  he_result :: string

record ProgressInfo =
  pi_state :: string
  pi_percent :: int
  pi_detail :: string

record session =
  ss_expected_bytes :: u64
  ss_received_bytes :: u64
  ss_expected_block :: u64

record ('s, 'b) ucm_deps =
  ud_ota :: "('s, 'b) ota_deps"
  ud_hmac :: "string \<Rightarrow> bytes \<Rightarrow> bytes option"

record ('s, 'b) ucm =
  us_transfer_dir :: string
  us_manager :: "('s, 'b) ota"
  us_verify :: strategy
  us_ucm_id :: string
  us_sessions :: "string \<rightharpoonup> session"
  us_next_id :: u64

definition kBlockSize :: u32 where "kBlockSize = 4096"

abbreviation us_fs :: "('s, 'b) ucm \<Rightarrow> fsys" where "us_fs us \<equiv> om_fs (us_manager us)"
abbreviation us_versions :: "('s, 'b) ucm \<Rightarrow> version_manager" where "us_versions us \<equiv> om_versions (us_manager us)"

definition set_fs :: "fsys \<Rightarrow> ('s, 'b) ucm \<Rightarrow> ('s, 'b) ucm" where
  "set_fs fs us = us\<lparr>us_manager := (us_manager us)\<lparr>om_fs := fs\<rparr>\<rparr>"

definition ucm_new :: "string \<Rightarrow> ('s, 'b) ota \<Rightarrow> strategy \<Rightarrow> string \<Rightarrow> ('s, 'b) ucm" where
  "ucm_new transfer_dir manager strat ucm_id =
     \<lparr>us_transfer_dir = transfer_dir, us_manager = manager\<lparr>om_fs := snd (fs_mkdir transfer_dir (om_fs manager))\<rparr>,
      us_verify = strat, us_ucm_id = ucm_id, us_sessions = Map.empty, us_next_id = 1\<rparr>"

definition PackagePath :: "('s, 'b) ucm \<Rightarrow> string \<Rightarrow> string" where
  "PackagePath us transfer_id = us_transfer_dir us @ ''/'' @ transfer_id @ ''.zip''"

definition MetaPath :: "('s, 'b) ucm \<Rightarrow> string \<Rightarrow> string" where
  "MetaPath us transfer_id = us_transfer_dir us @ ''/'' @ transfer_id @ ''.meta''"

definition session_bytes :: "session \<Rightarrow> bytes" where
  "session_bytes ss = le_bytes 8 (ss_expected_bytes ss) @ le_bytes 8 (ss_received_bytes ss) @
     le_bytes 8 (ss_expected_block ss)"

definition SaveSession :: "string \<Rightarrow> session \<Rightarrow> ('s, 'b) ucm \<Rightarrow> ('s, 'b) ucm" where
  "SaveSession transfer_id ss us =
     set_fs (snd (ofs_trunc True (MetaPath us transfer_id) (session_bytes ss) (us_fs us))) us"

text \<open>Three reads of eight bytes; the last one fails when the file is shorter.\<close>

definition parse_session :: "bytes \<Rightarrow> session option" where
  "parse_session d = (if length d < 24 then None
     else Some \<lparr>ss_expected_bytes = le_word (take 8 d), ss_received_bytes = le_word (take 8 (drop 8 d)),
                ss_expected_block = le_word (take 8 (drop 16 d))\<rparr>)"

definition LoadSession :: "string \<Rightarrow> ('s, 'b) ucm \<Rightarrow> session option \<times> ('s, 'b) ucm" where
  "LoadSession transfer_id us =
     (case ifs_read (MetaPath us transfer_id) (us_fs us) of
        (None, fs) \<Rightarrow> (None, set_fs fs us)
      | (Some d, fs) \<Rightarrow> (parse_session d, set_fs fs us))"

definition RemoveSessionFiles :: "string \<Rightarrow> ('s, 'b) ucm \<Rightarrow> ('s, 'b) ucm" where
  "RemoveSessionFiles transfer_id us =
     set_fs (fs_unlink (MetaPath us transfer_id) (fs_unlink (PackagePath us transfer_id) (us_fs us))) us"

section \<open>Transfer\<close>

definition TransferStart ::
  "(u64 \<times> u64) option \<Rightarrow> u64 \<Rightarrow> ('s, 'b) ucm \<Rightarrow> (UcmErrc \<times> string \<times> u32) \<times> ('s, 'b) ucm" where
  "TransferStart vfs sz us =
     (if (case vfs of Some (f_bavail, f_frsize) \<Rightarrow> sz > f_bavail * f_frsize | None \<Rightarrow> False)
      then ((kInsufficientMemory, [], 0), us)
      else (let id = to_string (unat (us_next_id us));
                us1 = us\<lparr>us_next_id := us_next_id us + 1\<rparr> in
        case ofs_trunc True (PackagePath us1 id) [] (us_fs us1) of ((opened, _), fs) \<Rightarrow>
        let us2 = set_fs fs us1 in
        if \<not> opened then ((kInsufficientMemory, [], 0), us2)
        else (let ss = \<lparr>ss_expected_bytes = sz, ss_received_bytes = 0, ss_expected_block = 1\<rparr>;
                  us3 = us2\<lparr>us_sessions := (us_sessions us2)(id \<mapsto> ss)\<rparr>
              in ((kSuccess, id, kBlockSize), SaveSession id ss us3))))"

definition find_session :: "string \<Rightarrow> ('s, 'b) ucm \<Rightarrow> session option \<times> ('s, 'b) ucm" where
  "find_session transfer_id us =
     (case us_sessions us transfer_id of
        Some ss \<Rightarrow> (Some ss, us)
      | None \<Rightarrow> (case LoadSession transfer_id us of
          (None, us1) \<Rightarrow> (None, us1)
        | (Some resumed, us1) \<Rightarrow>
            (Some resumed, us1\<lparr>us_sessions := (us_sessions us1)(transfer_id \<mapsto> resumed)\<rparr>)))"

definition TransferData ::
  "string \<Rightarrow> bytes \<Rightarrow> u64 \<Rightarrow> ('s, 'b) ucm \<Rightarrow> UcmErrc \<times> ('s, 'b) ucm" where
  "TransferData transfer_id block block_counter us =
     (case find_session transfer_id us of
        (None, us1) \<Rightarrow> (kInvalidTransferId, us1)
      | (Some ss, us1) \<Rightarrow>
          if block_counter \<noteq> ss_expected_block ss then (kIncorrectBlock, us1)
          else if ss_received_bytes ss + word_of_nat (length block) > ss_expected_bytes ss
          then (kIncorrectSize, us1)
          else (case ofs_append (PackagePath us1 transfer_id) block (us_fs us1) of (opened, fs) \<Rightarrow>
            let us2 = set_fs fs us1 in
            if \<not> opened then (kInsufficientMemory, us2)
            else (let ss' = ss\<lparr>ss_expected_block := ss_expected_block ss + 1,
                               ss_received_bytes := ss_received_bytes ss + word_of_nat (length block)\<rparr>
                  in (kSuccess, SaveSession transfer_id ss'
                        (us2\<lparr>us_sessions := (us_sessions us2)(transfer_id \<mapsto> ss')\<rparr>)))))"

definition TransferExit :: "string \<Rightarrow> ('s, 'b) ucm \<Rightarrow> UcmErrc" where
  "TransferExit transfer_id us =
     (case us_sessions us transfer_id of
        None \<Rightarrow> kInvalidTransferId
      | Some ss \<Rightarrow>
          if ss_received_bytes ss = 0 then kOperationNotPermitted
          else if ss_received_bytes ss \<noteq> ss_expected_bytes ss then kInsufficientData
          else kSuccess)"

definition DeleteTransfer :: "string \<Rightarrow> ('s, 'b) ucm \<Rightarrow> UcmErrc \<times> ('s, 'b) ucm" where
  "DeleteTransfer transfer_id us =
     (case us_sessions us transfer_id of
        None \<Rightarrow> (kInvalidTransferId, us)
      | Some _ \<Rightarrow> (kSuccess, RemoveSessionFiles transfer_id
                     (us\<lparr>us_sessions := (us_sessions us)(transfer_id := None)\<rparr>)))"

section \<open>Processing and lifecycle\<close>

text \<open>\<open>None\<close>: the call never returns, because \<open>start_update\<close> does not.\<close>

definition ProcessSwPackage ::
  "('s, 'b) ucm_deps \<Rightarrow> string \<Rightarrow> ('s, 'b) ucm \<Rightarrow> (UcmErrc \<times> ('s, 'b) ucm) option" where
  "ProcessSwPackage d transfer_id us =
     (case us_sessions us transfer_id of
        None \<Rightarrow> Some (kInvalidTransferId, us)
      | Some _ \<Rightarrow>
        (case ifs_read (PackagePath us transfer_id) (us_fs us) of
           (None, fs1) \<Rightarrow> Some (kInvalidPackageManifest, set_fs fs1 us)
         | (Some pkg, fs1) \<Rightarrow>
           (let us1 = set_fs fs1 us in
            case UnpackPackage pkg of
              None \<Rightarrow> Some (kInvalidPackageManifest, us1)
            | Some (manifest, payload) \<Rightarrow>
              if mf_signature manifest \<noteq> HmacSha256Hex (ud_hmac d) payload then Some (kAuthenticationFailed, us1)
              else if mf_version manifest = vm_current (us_versions us1) then Some (kIncompatiblePackageVersion, us1)
              else if \<not> list_all (\<lambda>dep. dep = vm_current (us_versions us1)) (mf_dependencies manifest)
              then Some (kMissingDependencies, us1)
              else (let payload_path = PackagePath us1 transfer_id @ ''.img'';
                        us2 = set_fs (snd (ofs_trunc True payload_path payload (us_fs us1))) us1 in
                case digest (od_sha (ud_ota d)) (us_verify us2) payload_path [] (us_fs us2) of (dig, _, fs3) \<Rightarrow>
                let us3 = set_fs fs3 us2 in
                if dig = [] then Some (kInsufficientMemory, us3)
                else (case start_update \<lparr>jb_image = payload_path, jb_digest = dig, jb_version = mf_version manifest\<rparr>
                             (us_manager us3) of
                        None \<Rightarrow> None
                      | Some (False, om) \<Rightarrow> Some (kServiceBusy, us3\<lparr>us_manager := om\<rparr>)
                      | Some (True, om) \<Rightarrow>
                          Some (kSuccess, RemoveSessionFiles transfer_id
                            (us3\<lparr>us_manager := om, us_sessions := (us_sessions us3)(transfer_id := None)\<rparr>)))))))"

definition permitted :: "bool \<Rightarrow> UcmErrc" where
  "permitted ok = (if ok then kSuccess else kOperationNotPermitted)"

definition Activate :: "('s, 'b) ucm_deps \<Rightarrow> ('s, 'b) ucm \<Rightarrow> UcmErrc \<times> ('s, 'b) ucm" where
  "Activate d us = (case switch_and_reboot (ud_ota d) (us_manager us) of (ok, om) \<Rightarrow>
     (permitted ok, us\<lparr>us_manager := om\<rparr>))"

definition Finish :: "('s, 'b) ucm_deps \<Rightarrow> ('s, 'b) ucm \<Rightarrow> UcmErrc \<times> ('s, 'b) ucm" where
  "Finish d us = (case report_boot_result (ud_ota d) True [] (us_manager us) of (ok, om) \<Rightarrow>
     (permitted ok, us\<lparr>us_manager := om\<rparr>))"

definition UcmRollback :: "('s, 'b) ucm_deps \<Rightarrow> ('s, 'b) ucm \<Rightarrow> UcmErrc \<times> ('s, 'b) ucm" where
  "UcmRollback d us = (case rollback (ud_ota d) (us_manager us) of (ok, om) \<Rightarrow>
     (permitted ok, us\<lparr>us_manager := om\<rparr>))"

definition Cancel :: "string \<Rightarrow> ('s, 'b) ucm \<Rightarrow> UcmErrc \<times> ('s, 'b) ucm" where
  "Cancel transfer_id us = DeleteTransfer transfer_id us"

definition RevertProcessedSwPackages :: "('s, 'b) ucm \<Rightarrow> UcmErrc" where
  "RevertProcessedSwPackages us = kSuccess"

section \<open>Queries\<close>

definition GetId :: "('s, 'b) ucm \<Rightarrow> UcmErrc \<times> string" where
  "GetId us = (kSuccess, us_ucm_id us)"

definition GetSwPackages :: "('s, 'b) ucm \<Rightarrow> UcmErrc \<times> SwPackageInfo list" where
  "GetSwPackages us = (kSuccess, [\<lparr>sp_name = ''platform'', sp_version = vm_current (us_versions us)\<rparr>])"

definition GetSwClusterInfo :: "('s, 'b) ucm \<Rightarrow> UcmErrc \<times> SwClusterInfo list" where
  "GetSwClusterInfo us =
     (kSuccess, [\<lparr>sc_name = ''app'', sc_version = vm_current (us_versions us), sc_state = ''kActive''\<rparr>])"

definition GetSwClusterChangeInfo :: "('s, 'b) ucm \<Rightarrow> UcmErrc \<times> SwClusterInfo list" where
  "GetSwClusterChangeInfo us =
     (kSuccess, if vm_target (us_versions us) \<noteq> vm_current (us_versions us)
        then [\<lparr>sc_name = ''app'', sc_version = vm_target (us_versions us), sc_state = ''kPending''\<rparr>] else [])"

definition GetSwClusterDescription :: "string \<Rightarrow> UcmErrc \<times> string" where
  "GetSwClusterDescription name = (kSuccess, ''demo software cluster: '' @ name)"

definition GetSwProcessProgress :: "('s, 'b) ucm \<Rightarrow> UcmErrc \<times> ProgressInfo" where
  "GetSwProcessProgress us = (let p = om_progress (us_manager us) in
     (kSuccess, \<lparr>pi_state = state_to_string (pr_state p), pi_percent = pr_percent p, pi_detail = pr_detail p\<rparr>))"

definition GetHistory :: "('s, 'b) ucm \<Rightarrow> UcmErrc \<times> HistoryEntry list" where
  "GetHistory us = (kSuccess, map (\<lambda>r. \<lparr>he_from = vr_from r, he_to = vr_to r, he_result = vr_result r\<rparr>)
     (vm_history (us_versions us)))"

end
