(* ===== verification/UcmTransfer.thy ===== *)
theory UcmTransfer
  imports UcmService
begin

text \<open>
  Properties of the transfer half of the UCM service (src/src/ota/ucm_service.cpp): the session
  table, the package files and the persisted session records agree; a transfer can be resumed
  after a restart; and what the faults the code does not look for can do to a transfer.
\<close>

section \<open>Paths and projections\<close>

lemma set_fs_simps [simp]:
  "us_fs (set_fs fs us) = fs" "us_transfer_dir (set_fs fs us) = us_transfer_dir us"
  "us_sessions (set_fs fs us) = us_sessions us" "us_next_id (set_fs fs us) = us_next_id us"
  "us_verify (set_fs fs us) = us_verify us" "us_versions (set_fs fs us) = us_versions us"
  "om_progress (us_manager (set_fs fs us)) = om_progress (us_manager us)"
  "om_worker (us_manager (set_fs fs us)) = om_worker (us_manager us)"
  "PackagePath (set_fs fs us) = PackagePath us" "MetaPath (set_fs fs us) = MetaPath us"
  by (simp_all add: set_fs_def PackagePath_def MetaPath_def fun_eq_iff)

lemma path_dir_simps [simp]:
  "PackagePath (us\<lparr>us_sessions := s\<rparr>) = PackagePath us" "MetaPath (us\<lparr>us_sessions := s\<rparr>) = MetaPath us"
  "PackagePath (us\<lparr>us_next_id := n\<rparr>) = PackagePath us" "MetaPath (us\<lparr>us_next_id := n\<rparr>) = MetaPath us"
  "PackagePath (us\<lparr>us_manager := om\<rparr>) = PackagePath us" "MetaPath (us\<lparr>us_manager := om\<rparr>) = MetaPath us"
  by (simp_all add: PackagePath_def MetaPath_def fun_eq_iff)

lemma path_eq_iff [simp]:
  "PackagePath us a = PackagePath us b \<longleftrightarrow> a = b" "MetaPath us a = MetaPath us b \<longleftrightarrow> a = b"
  by (simp_all add: PackagePath_def MetaPath_def)

lemma path_differ [simp]:
  "PackagePath us a \<noteq> MetaPath us b" "MetaPath us b \<noteq> PackagePath us a"
  "PackagePath us a @ ''.img'' \<noteq> PackagePath us b" "PackagePath us a @ ''.img'' \<noteq> MetaPath us b"
proof -
  have l: "last (PackagePath us a) = CHR ''p''" "last (MetaPath us a) = CHR ''a''"
    "last (PackagePath us a @ ''.img'') = CHR ''g''" for a
    by (simp_all add: PackagePath_def MetaPath_def)
  show "PackagePath us a \<noteq> MetaPath us b" using l(1) [of a] l(2) [of b] by force
  then show "MetaPath us b \<noteq> PackagePath us a" by simp
  show "PackagePath us a @ ''.img'' \<noteq> PackagePath us b" using l(3) [of a] l(1) [of b] by force
  show "PackagePath us a @ ''.img'' \<noteq> MetaPath us b" using l(3) [of a] l(2) [of b] by force
qed

lemma length_session_bytes [simp]: "length (session_bytes ss) = 24"
  by (simp add: session_bytes_def)

lemma parse_session_bytes [simp]: "parse_session (session_bytes ss) = Some ss"
  by (simp add: parse_session_def session_bytes_def codec_simps)

lemma SaveSession_ok [io_simps]:
  "faults (us_fs us) = [] \<Longrightarrow> SaveSession tid ss us = set_fs (put_file (MetaPath us tid) (session_bytes ss) (us_fs us)) us"
  by (simp add: SaveSession_def ofs_trunc_ok)

lemma SaveSession_simps [simp]:
  "us_sessions (SaveSession tid ss us) = us_sessions us" "us_transfer_dir (SaveSession tid ss us) = us_transfer_dir us"
  "PackagePath (SaveSession tid ss us) = PackagePath us" "MetaPath (SaveSession tid ss us) = MetaPath us"
  by (simp_all add: SaveSession_def)

section \<open>Sessions, package files and session records agree\<close>

definition session_ok :: "('s, 'b) ucm \<Rightarrow> string \<Rightarrow> session \<Rightarrow> bool" where
  "session_ok us tid ss \<longleftrightarrow> (\<exists>c. files (us_fs us) (PackagePath us tid) = Some c \<and>
     length c = unat (ss_received_bytes ss)) \<and> ss_received_bytes ss \<le> ss_expected_bytes ss \<and>
     ss_expected_bytes ss < 2 ^ 63"

definition transfer_inv :: "('s, 'b) ucm \<Rightarrow> bool" where
  "transfer_inv us \<longleftrightarrow> faults (us_fs us) = [] \<and>
     (\<forall>tid ss. us_sessions us tid = Some ss \<longrightarrow> session_ok us tid ss) \<and>
     (\<forall>tid d ss. files (us_fs us) (MetaPath us tid) = Some d \<longrightarrow> parse_session d = Some ss \<longrightarrow> session_ok us tid ss)"

lemma transfer_invI:
  assumes "faults (us_fs us) = []"
    and "\<And>tid ss. us_sessions us tid = Some ss \<Longrightarrow> session_ok us tid ss"
    and "\<And>tid d ss. files (us_fs us) (MetaPath us tid) = Some d \<Longrightarrow> parse_session d = Some ss \<Longrightarrow> session_ok us tid ss"
  shows "transfer_inv us"
  using assms by (auto simp: transfer_inv_def)

text \<open>Storing a consistent session under its name, with its record.\<close>

lemma transfer_inv_store:
  assumes inv: "transfer_inv us" and f: "files fs (PackagePath us tid) = Some c" "length c = unat (ss_received_bytes ss)"
    and fl: "faults fs = []" and oc: "only_changes {PackagePath us tid} (us_fs us) fs"
    and le: "ss_received_bytes ss \<le> ss_expected_bytes ss" "ss_expected_bytes ss < 2 ^ 63"
  shows "transfer_inv (SaveSession tid ss ((set_fs fs us)\<lparr>us_sessions := (us_sessions us)(tid \<mapsto> ss)\<rparr>))"
    (is "transfer_inv ?us")
proof -
  let ?m = "(set_fs fs us)\<lparr>us_sessions := (us_sessions us)(tid \<mapsto> ss)\<rparr>"
  have fs': "us_fs ?us = put_file (MetaPath us tid) (session_bytes ss) fs"
    using fl by (simp add: SaveSession_ok)
  have new: "session_ok ?us tid ss" unfolding session_ok_def fs' using f le by simp
  have old: "session_ok ?us i s" if "session_ok us i s" "i \<noteq> tid" for i s
    using that only_changesD [OF oc, of "PackagePath us i"] unfolding session_ok_def fs' by simp
  show ?thesis
  proof (rule transfer_invI)
    show "faults (us_fs ?us) = []" unfolding fs' using fl by simp
  next
    fix i s
    assume "us_sessions ?us i = Some s"
    then show "session_ok ?us i s" using new old inv by (auto simp: transfer_inv_def split: if_splits)
  next
    fix i d s
    assume a: "files (us_fs ?us) (MetaPath ?us i) = Some d" "parse_session d = Some s"
    show "session_ok ?us i s"
    proof (cases "i = tid")
      case True
      with a new show ?thesis unfolding fs' by auto
    next
      case False
      with a only_changesD [OF oc, of "MetaPath us i"] have "files (us_fs us) (MetaPath us i) = Some d"
        unfolding fs' by simp
      with a(2) inv old False show ?thesis by (auto simp: transfer_inv_def)
    qed
  qed
qed

lemma transfer_inv_start:
  assumes "transfer_inv us" and "sz < 2 ^ 63"
  shows "transfer_inv (snd (TransferStart vfs sz us))"
proof -
  let ?tid = "to_string (unat (us_next_id us))" and ?us = "us\<lparr>us_next_id := us_next_id us + 1\<rparr>"
  have i: "transfer_inv ?us" using assms(1) by (simp add: transfer_inv_def session_ok_def)
  have fl: "faults (us_fs us) = []" using assms(1) by (simp add: transfer_inv_def)
  have "transfer_inv (SaveSession ?tid \<lparr>ss_expected_bytes = sz, ss_received_bytes = 0, ss_expected_block = 1\<rparr>
      ((set_fs (put_file (PackagePath ?us ?tid) [] (us_fs us)) ?us)\<lparr>us_sessions := (us_sessions ?us)
         (?tid \<mapsto> \<lparr>ss_expected_bytes = sz, ss_received_bytes = 0, ss_expected_block = 1\<rparr>)\<rparr>))"
    by (rule transfer_inv_store [OF i, where c = "[]"]) (use fl assms(2) in \<open>simp_all add: only_changes_def\<close>)
  then show ?thesis
    using assms(1) fl by (simp add: TransferStart_def Let_def ofs_trunc_ok split: option.splits)
qed

lemma find_session_ok:
  assumes "transfer_inv us" and "find_session tid us = (r, us1)"
  shows "transfer_inv us1 \<and> us_fs us1 = us_fs us \<and> us_transfer_dir us1 = us_transfer_dir us \<and>
    (\<forall>ss. r = Some ss \<longrightarrow> session_ok us1 tid ss \<and> us_sessions us1 tid = Some ss)"
proof -
  have fl: "faults (us_fs us) = []" using assms(1) by (simp add: transfer_inv_def)
  have sid: "set_fs (us_fs us) us = us" by (simp add: set_fs_def)
  show ?thesis
  proof (cases "us_sessions us tid")
    case (Some ss)
    with assms show ?thesis by (auto simp: find_session_def transfer_inv_def)
  next
    case None
    show ?thesis
    proof (cases "LoadSession tid us")
      case (Pair l us2)
      have us2: "us2 = us" and l: "l = (case files (us_fs us) (MetaPath us tid) of None \<Rightarrow> None | Some d \<Rightarrow> parse_session d)"
        using Pair fl sid by (auto simp: LoadSession_def ifs_read_ok split: option.splits)
      show ?thesis
      proof (cases l)
        case N: None
        with None Pair us2 assms show ?thesis by (simp add: find_session_def)
      next
        case (Some ss)
        with l assms(1) have ok: "session_ok us tid ss" by (auto simp: transfer_inv_def split: option.splits)
        have "us1 = us\<lparr>us_sessions := (us_sessions us)(tid \<mapsto> ss)\<rparr>" "r = Some ss"
          using None Pair us2 Some assms(2) by (auto simp: find_session_def)
        with ok assms(1) show ?thesis by (auto simp: transfer_inv_def session_ok_def)
      qed
    qed
  qed
qed

lemma transfer_inv_data:
  assumes "transfer_inv us" and "length block < 2 ^ 63"
  shows "transfer_inv (snd (TransferData tid block n us))"
proof -
  obtain r us1 where f: "find_session tid us = (r, us1)" by fastforce
  note fs = find_session_ok [OF assms(1) f]
  have fl: "faults (us_fs us1) = []" using conjunct1 [OF fs] by (simp add: transfer_inv_def)
  show ?thesis
  proof (cases r)
    case None
    with f fs show ?thesis by (simp add: TransferData_def)
  next
    case (Some ss)
    with fs have ok: "session_ok us1 tid ss" by simp
    then obtain c where c: "files (us_fs us1) (PackagePath us1 tid) = Some c" "length c = unat (ss_received_bytes ss)"
      and le: "ss_received_bytes ss \<le> ss_expected_bytes ss" "ss_expected_bytes ss < 2 ^ 63"
      by (auto simp: session_ok_def)
    let ?len = "word_of_nat (length block) :: u64"
    let ?ss = "ss\<lparr>ss_expected_block := ss_expected_block ss + 1, ss_received_bytes := ss_received_bytes ss + ?len\<rparr>"
    have "unat (ss_expected_bytes ss) < 2 ^ 63"
      using le(2) by (simp add: word_less_nat_alt)
    then have "unat (ss_received_bytes ss) + length block < 2 ^ 64"
      using assms(2) le(1) by (simp add: word_le_nat_alt)
    moreover have "unat ?len = length block" using assms(2) by (simp add: unat_of_nat_u64)
    ultimately have sum: "unat (ss_received_bytes ss + ?len) = unat (ss_received_bytes ss) + length block"
      by (simp add: unat_word_ariths)
    have "transfer_inv (SaveSession tid ?ss ((set_fs (put_file (PackagePath us1 tid) (c @ block) (us_fs us1)) us1)
        \<lparr>us_sessions := (us_sessions us1)(tid \<mapsto> ?ss)\<rparr>))"
      if "\<not> ss_expected_bytes ss < ss_received_bytes ss + ?len"
      by (rule transfer_inv_store [OF conjunct1 [OF fs], where c = "c @ block"])
         (use fl c le sum that in \<open>simp_all add: only_changes_def\<close>)
    with f fs Some c fl show ?thesis by (simp add: TransferData_def Let_def ofs_append_ok not_less)
  qed
qed

lemma transfer_inv_remove:
  assumes "transfer_inv us"
  shows "transfer_inv (RemoveSessionFiles tid (us\<lparr>us_sessions := (us_sessions us)(tid := None)\<rparr>))" (is "transfer_inv ?us")
proof -
  have fl: "faults (us_fs us) = []" using assms by (simp add: transfer_inv_def)
  then have fs': "us_fs ?us = (us_fs us)\<lparr>files := (files (us_fs us))(PackagePath us tid := None, MetaPath us tid := None)\<rparr>"
    by (simp add: RemoveSessionFiles_def fs_unlink_ok)
  have [simp]: "PackagePath ?us = PackagePath us" "MetaPath ?us = MetaPath us"
    "us_sessions ?us = (us_sessions us)(tid := None)" by (simp_all add: RemoveSessionFiles_def)
  have old: "session_ok ?us i s" if "session_ok us i s" "i \<noteq> tid" for i s
    using that unfolding session_ok_def fs' by simp
  show ?thesis
  proof (rule transfer_invI)
    show "faults (us_fs ?us) = []" unfolding fs' using fl by simp
  next
    fix i s
    assume "us_sessions ?us i = Some s"
    then show "session_ok ?us i s" using old assms by (auto simp: transfer_inv_def split: if_splits)
  next
    fix i d s
    assume "files (us_fs ?us) (MetaPath ?us i) = Some d" "parse_session d = Some s"
    then show "session_ok ?us i s" unfolding fs' using old assms by (auto simp: transfer_inv_def split: if_splits)
  qed
qed

lemma transfer_inv_delete: "transfer_inv us \<Longrightarrow> transfer_inv (snd (DeleteTransfer tid us))"
  by (auto simp: DeleteTransfer_def transfer_inv_remove split: option.split)

lemma transfer_inv_manager:
  assumes "transfer_inv us" and "om_fs om = us_fs us"
  shows "transfer_inv (us\<lparr>us_manager := om\<rparr>)"
  using assms by (simp add: transfer_inv_def session_ok_def)

lemma start_update_fs: "start_update j om = Some (r, om') \<Longrightarrow> om_fs om' = om_fs om"
  by (auto simp: start_update_def split: if_splits option.splits)

lemma transfer_inv_payload:
  assumes "transfer_inv us"
  shows "transfer_inv (set_fs (put_file (PackagePath us tid @ ''.img'') d (us_fs us)) us)"
  using assms by (simp add: transfer_inv_def session_ok_def eq_commute [of "PackagePath us _"] eq_commute [of "MetaPath us _"])

lemma transfer_inv_process:
  assumes "transfer_inv us" and "ProcessSwPackage d tid us = Some (r, us')"
  shows "transfer_inv us'"
proof -
  have fl: "faults (us_fs us) = []" using assms(1) by (simp add: transfer_inv_def)
  have sid: "set_fs (us_fs us) us = us" by (simp add: set_fs_def)
  let ?img = "PackagePath us tid @ ''.img''"
  define us2 where "us2 p = set_fs (put_file ?img p (us_fs us)) us" for p
  have i2: "transfer_inv (us2 p)" for p unfolding us2_def by (rule transfer_inv_payload [OF assms(1)])
  have rd: "ifs_read ?img (put_file ?img p (us_fs us)) = (Some p, put_file ?img p (us_fs us))" for p
    using fl by (simp add: ifs_read_ok)
  have sid2: "set_fs (put_file ?img p (us_fs us)) (us2 p) = us2 p" for p by (simp add: set_fs_def us2_def)
  have ii: "transfer_inv ((us2 p)\<lparr>us_manager := om\<rparr>)"
    if "start_update j (us_manager (us2 p)) = Some (b, om)" for p j b om
    using transfer_inv_manager [OF i2] start_update_fs [OF that] by simp
  have ir: "transfer_inv (RemoveSessionFiles tid ((us2 p)\<lparr>us_manager := om, us_sessions := (us_sessions (us2 p))(tid := None)\<rparr>))"
    if "start_update j (us_manager (us2 p)) = Some (b, om)" for p j b om
    using transfer_inv_remove [OF ii [OF that]] by simp
  from assms show ?thesis
    by (auto simp: ProcessSwPackage_def Let_def ifs_read_ok [OF fl] sid ofs_trunc_ok [OF fl] digest_def
        rd sid2 simp flip: us2_def split: option.splits if_splits bool.splits prod.splits intro: i2 ii ir)
qed

text \<open>
  The calls that touch transfers, in any order and with any arguments, and a restart of the
  process: a new service with a new manager over the files as they are.
\<close>

inductive ucm_step :: "('s, 'b) ucm_deps \<Rightarrow> ('s, 'b) ucm \<Rightarrow> ('s, 'b) ucm \<Rightarrow> bool" for d where
  start: "sz < 2 ^ 63 \<Longrightarrow> ucm_step d us (snd (TransferStart vfs sz us))"
| data: "length block < 2 ^ 63 \<Longrightarrow> ucm_step d us (snd (TransferData tid block n us))"
| delete: "ucm_step d us (snd (DeleteTransfer tid us))"
| cancel: "ucm_step d us (snd (Cancel tid us))"
| process: "ProcessSwPackage d tid us = Some (r, us') \<Longrightarrow> ucm_step d us us'"
| restart: "om_fs om = us_fs us \<Longrightarrow> ucm_step d us (ucm_new (us_transfer_dir us) om strat name)"

lemma transfer_inv_new:
  assumes "faults (om_fs om) = []"
    and "\<And>tid c ss. files (om_fs om) (dir @ ''/'' @ tid @ ''.meta'') = Some c \<Longrightarrow> parse_session c = Some ss \<Longrightarrow>
       session_ok (ucm_new dir om strat name) tid ss"
  shows "transfer_inv (ucm_new dir om strat name)"
  by (rule transfer_invI) (use assms in \<open>simp_all add: ucm_new_def fs_mkdir_ok MetaPath_def\<close>)

lemma transfer_inv_restart:
  assumes "transfer_inv us" and "om_fs om = us_fs us"
  shows "transfer_inv (ucm_new (us_transfer_dir us) om strat name)"
  using assms by (intro transfer_inv_new)
    (auto simp: transfer_inv_def session_ok_def ucm_new_def fs_mkdir_ok PackagePath_def MetaPath_def)

lemma transfer_inv_step: "ucm_step d us us' \<Longrightarrow> transfer_inv us \<Longrightarrow> transfer_inv us'"
  by (induction rule: ucm_step.induct)
     (simp_all add: transfer_inv_start transfer_inv_data transfer_inv_delete Cancel_def transfer_inv_restart
        transfer_inv_process)

lemma transfer_inv_reach: "(ucm_step d)\<^sup>*\<^sup>* us us' \<Longrightarrow> transfer_inv us \<Longrightarrow> transfer_inv us'"
  by (induction rule: rtranclp_induct) (auto intro: transfer_inv_step)


section \<open>Restart\<close>


text \<open>
  A restarted service numbers transfers from 1 again. Its first \<open>TransferStart\<close> empties the
  package file of an unfinished transfer 1 and replaces its record, so that the transfer that was
  to be resumed is lost: its next block is refused.
\<close>

theorem restart_loses_unfinished_transfer:
  assumes "faults (us_fs us) = []" and "om_fs om = us_fs us" and "n \<noteq> 1"
    and "us1 = snd (TransferStart None sz (ucm_new (us_transfer_dir us) om strat name))"
  shows "fst (TransferStart None sz (ucm_new (us_transfer_dir us) om strat name)) = (kSuccess, ''1'', kBlockSize) \<and>
    files (us_fs us1) (PackagePath us ''1'') = Some [] \<and> fst (TransferData ''1'' block n us1) = kIncorrectBlock"
proof -
  let ?us0 = "ucm_new (us_transfer_dir us) om strat name"
  let ?ss = "\<lparr>ss_expected_bytes = sz, ss_received_bytes = 0, ss_expected_block = 1\<rparr> :: session"
  have p: "PackagePath ?us0 = PackagePath us" "MetaPath ?us0 = MetaPath us"
    by (simp_all add: ucm_new_def PackagePath_def MetaPath_def fun_eq_iff)
  have 0: "us_next_id ?us0 = 1" "us_fs ?us0 = us_fs us" using assms(1,2) by (simp_all add: ucm_new_def fs_mkdir_ok)
  have one: "to_string (Suc 0) = ''1''" by code_simp
  have r: "TransferStart None sz ?us0 = ((kSuccess, ''1'', kBlockSize), us1)" and s: "us_sessions us1 ''1'' = Some ?ss"
    and f: "files (us_fs us1) (PackagePath us ''1'') = Some []"
    using assms(1,4) by (simp_all add: TransferStart_def Let_def 0 one ofs_trunc_ok p SaveSession_ok)
  then show ?thesis using assms(3) by (simp add: TransferData_def find_session_def)
qed

section \<open>Storage faults\<close>

text \<open>
  The service does not notice a failed block write. When only \<open>k\<close> bytes of a block reach the
  package file, \<open>TransferData\<close> still reports success and counts the whole block.
\<close>

theorem lost_block_is_reported_as_received:
  assumes "us_sessions us tid = Some ss" and "files (us_fs us) (PackagePath us tid) = Some c"
    and "ss_received_bytes ss + word_of_nat (length block) \<le> ss_expected_bytes ss"
    and "faults (us_fs us) = [IoShort k seen]"
    and "TransferData tid block (ss_expected_block ss) us = (r, us')"
  shows "r = kSuccess \<and> files (us_fs us') (PackagePath us tid) = Some (c @ take k block) \<and>
    (\<exists>ss'. us_sessions us' tid = Some ss' \<and>
       ss_received_bytes ss' = ss_received_bytes ss + word_of_nat (length block))"
  using assms
  by (auto simp: TransferData_def find_session_def ofs_append_def next_fault_def Let_def not_less [symmetric]
      SaveSession_ok)

lemma ProcessSwPackageD:
  assumes "ProcessSwPackage d tid us = Some (kSuccess, us')"
  shows "\<exists>pkg fs1 m payload dig err fs3 om. ifs_read (PackagePath us tid) (us_fs us) = (Some pkg, fs1) \<and>
    UnpackPackage pkg = Some (m, payload) \<and> mf_signature m = HmacSha256Hex (ud_hmac d) payload \<and>
    mf_version m \<noteq> vm_current (us_versions us) \<and>
    list_all (\<lambda>dep. dep = vm_current (us_versions us)) (mf_dependencies m) \<and>
    digest (od_sha (ud_ota d)) (us_verify us) (PackagePath us tid @ ''.img'') []
      (snd (ofs_trunc True (PackagePath us tid @ ''.img'') payload fs1)) = (dig, err, fs3) \<and> dig \<noteq> [] \<and>
    start_update \<lparr>jb_image = PackagePath us tid @ ''.img'', jb_digest = dig, jb_version = mf_version m\<rparr>
      ((us_manager us)\<lparr>om_fs := fs3\<rparr>) = Some (True, om) \<and>
    us' = RemoveSessionFiles tid (us\<lparr>us_manager := om, us_sessions := (us_sessions us)(tid := None)\<rparr>)"
proof -
  have m: "us_manager (set_fs fs u) = (us_manager u)\<lparr>om_fs := fs\<rparr>" for fs and u :: "('a, 'b) ucm"
    by (simp add: set_fs_def)
  have s: "(set_fs fs u)\<lparr>us_manager := om, us_sessions := x\<rparr> = u\<lparr>us_manager := om, us_sessions := x\<rparr>"
    for fs om x and u :: "('a, 'b) ucm" by (simp add: set_fs_def)
  from assms show ?thesis
    by (auto simp: ProcessSwPackage_def Let_def m s split: option.splits if_splits bool.splits prod.splits)
qed

lemma start_update_worker: "start_update j om = Some (True, om') \<Longrightarrow> om_worker om' = Some (j, WStart)"
  by (auto simp: start_update_def split: if_splits option.splits)

lemma RemoveSessionFiles_simps [simp]:
  "om_worker (us_manager (RemoveSessionFiles tid us)) = om_worker (us_manager us)"
  by (simp add: RemoveSessionFiles_def)


lemma ProcessSwPackage_runs:
  assumes "us_sessions us tid = Some ss" and r: "ifs_read (PackagePath us tid) (us_fs us) = (Some pkg, fs1)"
    and "UnpackPackage pkg = Some (m, payload)" and "mf_signature m = HmacSha256Hex (ud_hmac d) payload"
    and "mf_version m \<noteq> vm_current (us_versions us)" and "set (mf_dependencies m) \<subseteq> {vm_current (us_versions us)}"
    and w: "snd (ofs_trunc True (PackagePath us tid @ ''.img'') payload fs1) = fs3"
    and g: "digest (od_sha (ud_ota d)) (us_verify us) (PackagePath us tid @ ''.img'') [] fs3 = (dig, [], fs3)"
    and "dig \<noteq> []" and "startable (pr_state (om_progress (us_manager us)))" and "om_worker (us_manager us) = None"
    and fl: "faults fs3 = []"
  shows "\<exists>us' j. ProcessSwPackage d tid us = Some (kSuccess, us') \<and> om_worker (us_manager us') = Some (j, WStart) \<and>
    files (us_fs us') (jb_image j) = files fs3 (PackagePath us tid @ ''.img'') \<and> jb_digest j = dig \<and>
    jb_version j = mf_version m"
proof -
  let ?img = "PackagePath us tid @ ''.img''"
  define j where "j = \<lparr>jb_image = ?img, jb_digest = dig, jb_version = mf_version m\<rparr>"
  define us3 where "us3 = set_fs fs3 us"
  have st: "start_update j (us_manager us3) =
      Some (True, (us_manager us3)\<lparr>om_progress := progress_default, om_worker := Some (j, WStart)\<rparr>)"
    using assms(10,11) by (simp add: start_update_def us3_def)
  have l: "list_all (\<lambda>dep. dep = vm_current (us_versions us)) (mf_dependencies m)"
    using assms(6) by (auto simp: list_all_iff)
  have s2: "set_fs a (set_fs b u) = set_fs a u" for a b and u :: "('a, 'b) ucm" by (simp add: set_fs_def)
  have s3: "set_fs fs3 us3 = us3" by (simp add: us3_def set_fs_def)
  have p: "ProcessSwPackage d tid us = Some (kSuccess, RemoveSessionFiles tid (us3\<lparr>us_manager :=
      (us_manager us3)\<lparr>om_progress := progress_default, om_worker := Some (j, WStart)\<rparr>,
      us_sessions := (us_sessions us3)(tid := None)\<rparr>))"
    using assms(1-6,9) l st
    by (simp add: ProcessSwPackage_def Let_def r w g s2 s3 flip: us3_def j_def)
  show ?thesis
    by (rule exI, rule exI [of _ j], rule conjI, rule p)
       (use fl in \<open>simp add: RemoveSessionFiles_def fs_unlink_ok us3_def j_def\<close>)
qed

text \<open>
  A package that was authentic when it was checked can be installed cut short. The payload is
  written without looking at the result, and the digest the worker verifies against is computed
  from the file just written: when only \<open>k\<close> bytes reach it, the service reports success and the
  job asks for exactly the truncated image.
\<close>

theorem truncated_payload_is_accepted:
  assumes "us_sessions us tid = Some ss" and "files (us_fs us) (PackagePath us tid) = Some pkg"
    and "UnpackPackage pkg = Some (m, payload)" and "mf_signature m = HmacSha256Hex (ud_hmac d) payload"
    and "mf_version m \<noteq> vm_current (us_versions us)" and "set (mf_dependencies m) \<subseteq> {vm_current (us_versions us)}"
    and "faults (us_fs us) = [IoOk, IoShort k seen]" and "digest_hex (od_sha (ud_ota d)) (us_verify us) (take k payload) \<noteq> []"
    and "startable (pr_state (om_progress (us_manager us)))" and "om_worker (us_manager us) = None"
  shows "\<exists>us' j. ProcessSwPackage d tid us = Some (kSuccess, us') \<and> om_worker (us_manager us') = Some (j, WStart) \<and>
    files (us_fs us') (jb_image j) = Some (take k payload) \<and> jb_digest j = digest_hex (od_sha (ud_ota d)) (us_verify us) (take k payload)"
proof -
  let ?img = "PackagePath us tid @ ''.img''" and ?fs = "us_fs us"
  define fs3 where "fs3 = put_file ?img (take k payload) (?fs\<lparr>faults := []\<rparr>)"
  have r: "ifs_read (PackagePath us tid) ?fs = (Some pkg, ?fs\<lparr>faults := [IoShort k seen]\<rparr>)"
    using assms(2,7) by (simp add: ifs_read_def next_fault_def)
  have w: "snd (ofs_trunc True ?img payload (?fs\<lparr>faults := [IoShort k seen]\<rparr>)) = fs3"
    by (simp add: ofs_trunc_def next_fault_def fs3_def)
  have g: "digest (od_sha (ud_ota d)) (us_verify us) ?img [] fs3 =
      (digest_hex (od_sha (ud_ota d)) (us_verify us) (take k payload), [], fs3)"
    by (simp add: digest_def ifs_read_ok fs3_def)
  have "faults fs3 = []" "files fs3 ?img = Some (take k payload)" by (simp_all add: fs3_def)
  then show ?thesis using ProcessSwPackage_runs [OF assms(1) r assms(3-6) w g assms(8-10)] by auto
qed

section \<open>A small configuration\<close>

definition ex_ucm :: "(mock_slots, mock_boot) ucm" where
  "ex_ucm = ucm_new ''/x'' ex_ota Sha256 ''ucm''"

definition ex_ucm_deps :: "(mock_slots, mock_boot) ucm_deps" where
  "ex_ucm_deps = \<lparr>ud_ota = ex_deps, ud_hmac = (\<lambda>_ d. Some (rev d))\<rparr>"

definition ex_package :: bytes where
  "ex_package = BuildPackage \<lparr>mf_name = ''platform'', mf_version = ''2'', mf_dependencies = [''1''],
     mf_signature = ''030201''\<rparr> [1, 2, 3]"

definition ex_started :: "(mock_slots, mock_boot) ucm" where
  "ex_started = snd (TransferStart None (word_of_nat (length ex_package)) ex_ucm)"

definition ex_received :: "(mock_slots, mock_boot) ucm" where
  "ex_received = snd (TransferData ''1'' ex_package 1 ex_started)"

lemma ex_ucm_fs: "us_fs ex_ucm = ex_fs" "us_transfer_dir ex_ucm = ''/x''"
  by (simp_all add: ex_ucm_def ucm_new_def fs_mkdir_ok ex_fs_def)

lemma ex_len: "length ex_package = 43"
  by (simp add: ex_package_def BuildPackage_def manifest_blob_eq ManifestAppendString_def ManifestAppendU32_def)

lemma ex_received_session:
  "us_sessions ex_received ''1'' = Some \<lparr>ss_expected_bytes = 43, ss_received_bytes = 43, ss_expected_block = 2\<rparr>"
  by code_simp


lemma ex_started_facts:
  "faults (us_fs ex_started) = []" "us_sessions ex_started ''1'' =
     Some \<lparr>ss_expected_bytes = 43, ss_received_bytes = 0, ss_expected_block = 1\<rparr>"
  "files (us_fs ex_started) (MetaPath ex_started ''1'') =
     Some (session_bytes \<lparr>ss_expected_bytes = 43, ss_received_bytes = 0, ss_expected_block = 1\<rparr>)"
  by code_simp+


theorem restart_loses_unfinished_transfer_witness:
  "fst (TransferData ''1'' [9] 2
     (snd (TransferStart None 7 (ucm_new (us_transfer_dir ex_received) (us_manager ex_received) Crc32 ''ucm'')))) = kIncorrectBlock"
proof -
  have "faults (us_fs ex_received) = []" by code_simp
  from restart_loses_unfinished_transfer [OF this refl _ refl, of 2] show ?thesis by simp
qed

definition ex_faulty :: "io_fault list \<Rightarrow> (mock_slots, mock_boot) ucm \<Rightarrow> (mock_slots, mock_boot) ucm" where
  "ex_faulty fl us = set_fs ((us_fs us)\<lparr>faults := fl\<rparr>) us"

lemma ex_faulty_simps [simp]:
  "us_sessions (ex_faulty fl us) = us_sessions us" "files (us_fs (ex_faulty fl us)) = files (us_fs us)"
  "faults (us_fs (ex_faulty fl us)) = fl" "PackagePath (ex_faulty fl us) = PackagePath us"
  "us_versions (ex_faulty fl us) = us_versions us" "us_verify (ex_faulty fl us) = us_verify us"
  "om_progress (us_manager (ex_faulty fl us)) = om_progress (us_manager us)"
  "om_worker (us_manager (ex_faulty fl us)) = om_worker (us_manager us)"
  by (simp_all add: ex_faulty_def)

theorem lost_block_is_reported_as_received_witness:
  "fst (TransferData ''1'' [1, 2, 3] 1 (ex_faulty [IoShort 1 False] ex_started)) = kSuccess \<and>
   files (us_fs (snd (TransferData ''1'' [1, 2, 3] 1 (ex_faulty [IoShort 1 False] ex_started)))) (PackagePath ex_started ''1'') = Some [1]"
proof -
  have "files (us_fs ex_started) (PackagePath ex_started ''1'') = Some []" by code_simp
  then show ?thesis
    using lost_block_is_reported_as_received [of "ex_faulty [IoShort 1 False] ex_started" "''1''" _ "[]" "[1, 2, 3]" 1 False,
        OF _ _ _ _ surjective_pairing] ex_started_facts(2) by simp
qed

lemma ex_process: "ProcessSwPackage ex_ucm_deps ''1'' ex_received =
    Some (kSuccess, snd (the (ProcessSwPackage ex_ucm_deps ''1'' ex_received)))"
proof -
  have "map_option fst (ProcessSwPackage ex_ucm_deps ''1'' ex_received) = Some kSuccess" by code_simp
  then show ?thesis by auto
qed


theorem truncated_payload_is_accepted_witness:
  "\<exists>us' j. ProcessSwPackage ex_ucm_deps ''1'' (ex_faulty [IoOk, IoShort 2 True] ex_received) = Some (kSuccess, us') \<and>
     om_worker (us_manager us') = Some (j, WStart) \<and> files (us_fs us') (jb_image j) = Some [1, 2] \<and>
     jb_digest j = ''0102''"
proof -
  let ?m = "\<lparr>mf_name = ''platform'', mf_version = ''2'', mf_dependencies = [''1''], mf_signature = ''030201''\<rparr>"
  have f: "files (us_fs ex_received) (PackagePath ex_received ''1'') = Some ex_package" by code_simp
  have u: "UnpackPackage ex_package = Some (?m, [1, 2, 3])" by code_simp
  have h: "mf_signature ?m = HmacSha256Hex (ud_hmac ex_ucm_deps) [1, 2, 3]" by code_simp
  have g: "digest_hex (od_sha (ud_ota ex_ucm_deps)) Sha256 [1, 2] = ''0102''" by code_simp
  have v: "vm_current (us_versions ex_received) = ''1''" "us_verify ex_received = Sha256"
    "om_worker (us_manager ex_received) = None" "pr_state (om_progress (us_manager ex_received)) = Idle" by code_simp+
  show ?thesis
    using truncated_payload_is_accepted [of "ex_faulty [IoOk, IoShort 2 True] ex_received" "''1''" _ ex_package ?m "[1, 2, 3]" ex_ucm_deps 2 True]
      f u h v g ex_received_session by (simp add: startable_def)
qed

end
