(* ===== verification/UpdateAgent.thy ===== *)
theory UpdateAgent
  imports UcmTransfer
begin

text \<open>
  The update agent (src/src/ota/update_agent.cpp): download a payload, build a signed package,
  send it to the UCM service block by block and have it processed. The HTTP client
  (src/src/ota/http_downloader.cpp) is modelled around libcurl, whose outcome is a parameter: no
  handle, or the bytes it delivered to the write callback and its error text if any. The block
  loop would not end for a block size of zero; \<open>None\<close> stands for a call that does not
  return.
\<close>

type_synonym curl = "string \<Rightarrow> (bytes \<times> string option) option"

definition Download :: "curl \<Rightarrow> string \<Rightarrow> string \<Rightarrow> fsys \<Rightarrow> string option \<times> fsys" where
  "Download curl url out_path fs =
     (case curl url of
        None \<Rightarrow> (Some ''curl_easy_init failed'', fs)
      | Some (body, rc) \<Rightarrow>
          (case ofs_trunc True out_path body fs of ((opened, good), fs1) \<Rightarrow>
             if \<not> opened then (Some (''open output file failed: '' @ out_path), fs1)
             else if rc \<noteq> None then (rc, fs1)
             else if \<not> good then (Some ''write to output file failed'', fs1)
             else (None, fs1)))"

definition payload_file :: string where "payload_file = ''/tmp/update_agent_package.img''"

partial_function (option) transfer_loop ::
  "string \<Rightarrow> nat \<Rightarrow> bytes \<Rightarrow> nat \<Rightarrow> u64 \<Rightarrow> ('s, 'b) ucm \<Rightarrow> (bool \<times> ('s, 'b) ucm) option" where
  "transfer_loop tid block_size package offset block_counter us =
     (if offset < length package then
        (let n = min block_size (length package - offset);
             chunk = take n (drop offset package) in
         case TransferData tid chunk block_counter us of (e, us1) \<Rightarrow>
           if e \<noteq> kSuccess then Some (False, us1)
           else transfer_loop tid block_size package (offset + n) (block_counter + 1) us1)
      else Some (True, us))"

definition update_manifest :: "('s, 'b) ucm_deps \<Rightarrow> string \<Rightarrow> bytes \<Rightarrow> PackageManifest" where
  "update_manifest d version payload =
     \<lparr>mf_name = ''platform'', mf_version = version, mf_dependencies = [''1.0.0''],
      mf_signature = HmacSha256Hex (ud_hmac d) payload\<rparr>"

text \<open>The result is the error text, or \<open>Inr ()\<close> for true.\<close>

definition Update ::
  "('s, 'b) ucm_deps \<Rightarrow> curl \<Rightarrow> (u64 \<times> u64) option \<Rightarrow> string \<Rightarrow> string \<Rightarrow> ('s, 'b) ucm \<Rightarrow>
     ((string + unit) \<times> ('s, 'b) ucm) option" where
  "Update d curl vfs url version us =
     (case Download curl url payload_file (us_fs us) of
        (Some error, fs1) \<Rightarrow> Some (Inl error, set_fs fs1 us)
      | (None, fs1) \<Rightarrow>
        (case ifs_read payload_file fs1 of
           (None, fs2) \<Rightarrow> Some (Inl ''open downloaded package failed'', set_fs fs2 us)
         | (Some payload, fs2) \<Rightarrow>
           (let us2 = set_fs fs2 us;
                package = BuildPackage (update_manifest d version payload) payload in
            case TransferStart vfs (word_of_nat (length package)) us2 of
              ((e, transfer_id, block_size), us3) \<Rightarrow>
                if e \<noteq> kSuccess then Some (Inl ''TransferStart failed'', us3)
                else (case transfer_loop transfer_id (unat block_size) package 0 1 us3 of
                    None \<Rightarrow> None
                  | Some (False, us4) \<Rightarrow> Some (Inl ''TransferData failed'', us4)
                  | Some (True, us4) \<Rightarrow>
                      if TransferExit transfer_id us4 \<noteq> kSuccess then Some (Inl ''TransferExit failed'', us4)
                      else (case ProcessSwPackage d transfer_id us4 of
                          None \<Rightarrow> None
                        | Some (e5, us5) \<Rightarrow>
                            if e5 \<noteq> kSuccess then Some (Inl ''ProcessSwPackage failed'', us5)
                            else Some (Inr (), us5))))))"

section \<open>The block loop delivers the package\<close>

text \<open>What a transfer leaves alone.\<close>

definition same_service :: "('s, 'b) ucm \<Rightarrow> ('s, 'b) ucm \<Rightarrow> bool" where
  "same_service us us' \<longleftrightarrow> us_transfer_dir us' = us_transfer_dir us \<and> us_verify us' = us_verify us \<and>
     us_versions us' = us_versions us \<and> om_progress (us_manager us') = om_progress (us_manager us) \<and>
     om_worker (us_manager us') = om_worker (us_manager us)"

text \<open>A session in the middle of the transfer of \<open>pkg\<close>, with \<open>k\<close> bytes received.\<close>

definition in_transfer :: "string \<Rightarrow> bytes \<Rightarrow> nat \<Rightarrow> u64 \<Rightarrow> ('s, 'b) ucm \<Rightarrow> bool" where
  "in_transfer tid pkg k n us \<longleftrightarrow> faults (us_fs us) = [] \<and>
     us_sessions us tid = Some \<lparr>ss_expected_bytes = word_of_nat (length pkg), ss_received_bytes = word_of_nat k,
                                 ss_expected_block = n\<rparr> \<and>
     files (us_fs us) (PackagePath us tid) = Some (take k pkg)"

lemma TransferData_in_transfer:
  assumes "in_transfer tid pkg k n us" and "k + m \<le> length pkg" and "length pkg < 2 ^ 64"
  shows "\<exists>us'. TransferData tid (take m (drop k pkg)) n us = (kSuccess, us') \<and>
    in_transfer tid pkg (k + m) (n + 1) us' \<and> same_service us us'"
proof -
  let ?b = "take m (drop k pkg)"
  have len: "length ?b = m" using assms(2) by simp
  have mn: "min (length pkg - k) m = m" using assms(2) by simp
  have sum: "(word_of_nat k :: u64) + word_of_nat m = word_of_nat (k + m)" by simp
  have le: "\<not> (word_of_nat (length pkg) :: u64) < word_of_nat (k + m)"
    using assms(2,3) by (simp add: word_less_nat_alt unat_of_nat_u64 del: of_nat_add)
  have app: "take k pkg @ ?b = take (k + m) pkg" by (simp add: take_add)
  let ?ss = "\<lparr>ss_expected_bytes = word_of_nat (length pkg), ss_received_bytes = word_of_nat (k + m),
     ss_expected_block = n + 1\<rparr> :: session"
  let ?us = "SaveSession tid ?ss ((set_fs (put_file (PackagePath us tid) (take (k + m) pkg) (us_fs us)) us)
     \<lparr>us_sessions := (us_sessions us)(tid \<mapsto> ?ss)\<rparr>)"
  have "TransferData tid ?b n us = (kSuccess, ?us)"
    using assms(1) le unfolding TransferData_def
    by (simp add: find_session_def in_transfer_def ofs_append_ok Let_def mn sum app del: of_nat_add)
  moreover have "in_transfer tid pkg (k + m) (n + 1) ?us"
    using assms(1) by (simp add: in_transfer_def SaveSession_ok del: of_nat_add)
  moreover have "same_service us ?us" by (simp add: same_service_def SaveSession_def)
  ultimately show ?thesis by blast
qed

lemma same_service_trans: "same_service a b \<Longrightarrow> same_service b c \<Longrightarrow> same_service a c"
  by (simp add: same_service_def)

lemma transfer_loop_delivers:
  assumes "0 < bs" and "length pkg < 2 ^ 64" and "k \<le> length pkg" and "in_transfer tid pkg k n us"
  shows "\<exists>us' n'. transfer_loop tid bs pkg k n us = Some (True, us') \<and> in_transfer tid pkg (length pkg) n' us' \<and>
    same_service us us'"
  using assms(3,4)
proof (induction "length pkg - k" arbitrary: k n us rule: less_induct)
  case less
  show ?case
  proof (cases "k < length pkg")
    case True
    let ?m = "min bs (length pkg - k)"
    have le: "k + ?m \<le> length pkg" using True by simp
    have lt: "length pkg - (k + ?m) < length pkg - k" using True assms(1) by linarith
    obtain us1 where t: "TransferData tid (take ?m (drop k pkg)) n us = (kSuccess, us1)"
      and i: "in_transfer tid pkg (k + ?m) (n + 1) us1" and s: "same_service us us1"
      using TransferData_in_transfer [OF less.prems(2) le assms(2)] by auto
    obtain us' n' where "transfer_loop tid bs pkg (k + ?m) (n + 1) us1 = Some (True, us')"
      "in_transfer tid pkg (length pkg) n' us'" "same_service us1 us'"
      using less.hyps [OF lt le i] by auto
    with t s True show ?thesis
      by (subst transfer_loop.simps) (auto simp: Let_def intro: same_service_trans)
  next
    case False
    with less.prems show ?thesis by (subst transfer_loop.simps) (auto simp: same_service_def)
  qed
qed

lemma TransferStart_in_transfer:
  assumes "faults (us_fs us) = []"
    and "case vfs of None \<Rightarrow> True | Some (a, b) \<Rightarrow> word_of_nat (length pkg) \<le> a * b"
  shows "\<exists>tid us'. TransferStart vfs (word_of_nat (length pkg)) us = ((kSuccess, tid, kBlockSize), us') \<and>
    in_transfer tid pkg 0 1 us' \<and> same_service us us'"
  using assms
  by (auto simp: TransferStart_def Let_def ofs_trunc_ok in_transfer_def SaveSession_ok same_service_def
      split: option.splits if_splits)

text \<open>
  C37: the update agent delivers. On a fault-free storage with enough space, with an idle manager
  that runs the version the package depends on, a download that succeeds ends with the worker
  started on exactly the downloaded payload, under the requested version and with the digest of
  the payload; in particular the block loop ends.
\<close>

theorem update_agent_delivers:
  assumes "faults (us_fs us) = []" and "curl url = Some (payload, None)"
    and "manifest_fits (update_manifest d version payload)"
    and "length (manifest_blob (update_manifest d version payload)) < 2 ^ 32"
    and "length (BuildPackage (update_manifest d version payload) payload) < 2 ^ 64"
    and "case vfs of None \<Rightarrow> True
      | Some (a, b) \<Rightarrow> word_of_nat (length (BuildPackage (update_manifest d version payload) payload)) \<le> a * b"
    and "vm_current (us_versions us) = ''1.0.0''" and "version \<noteq> ''1.0.0''"
    and "digest_hex (od_sha (ud_ota d)) (us_verify us) payload \<noteq> []"
    and "startable (pr_state (om_progress (us_manager us)))" and "om_worker (us_manager us) = None"
  shows "\<exists>us' j. Update d curl vfs url version us = Some (Inr (), us') \<and> om_worker (us_manager us') = Some (j, WStart) \<and>
    files (us_fs us') (jb_image j) = Some payload \<and> jb_version j = version \<and>
    jb_digest j = digest_hex (od_sha (ud_ota d)) (us_verify us) payload"
proof -
  let ?m = "update_manifest d version payload"
  let ?pkg = "BuildPackage ?m payload"
  define fs2 where "fs2 = put_file payload_file payload (us_fs us)"
  have dl: "Download curl url payload_file (us_fs us) = (None, fs2)"
    using assms(1,2) by (simp add: Download_def ofs_trunc_ok fs2_def)
  have rd: "ifs_read payload_file fs2 = (Some payload, fs2)" using assms(1) by (simp add: ifs_read_ok fs2_def)
  define us2 where "us2 = set_fs fs2 us"
  have s02: "same_service us us2" by (simp add: same_service_def us2_def)
  obtain tid us3 where st: "TransferStart vfs (word_of_nat (length ?pkg)) us2 = ((kSuccess, tid, kBlockSize), us3)"
    and i3: "in_transfer tid ?pkg 0 1 us3" and s23: "same_service us2 us3"
    using TransferStart_in_transfer [of us2 ?pkg vfs] assms(1,6) by (auto simp: us2_def fs2_def)
  obtain us4 n where lp: "transfer_loop tid (unat kBlockSize) ?pkg 0 1 us3 = Some (True, us4)"
    and i4: "in_transfer tid ?pkg (length ?pkg) n us4" and s34: "same_service us3 us4"
    using transfer_loop_delivers [OF _ assms(5) _ i3, of "unat kBlockSize"] by (auto simp: kBlockSize_def)
  have s04: "same_service us us4" using s02 s23 s34 same_service_trans by blast
  have "0 < length ?pkg" by (simp add: BuildPackage_def ManifestAppendU32_def)
  then have "word_of_nat (length ?pkg) \<noteq> (0 :: u64)"
    using assms(5) by (metis unat_of_nat_u64 unat_0 less_not_refl2)
  then have ex: "TransferExit tid us4 = kSuccess" using i4 by (simp add: TransferExit_def in_transfer_def)
  let ?img = "PackagePath us4 tid @ ''.img''"
  define fs5 where "fs5 = put_file ?img payload (us_fs us4)"
  have f4: "faults (us_fs us4) = []" "files (us_fs us4) (PackagePath us4 tid) = Some ?pkg"
    using i4 by (simp_all add: in_transfer_def)
  obtain us5 j where pr: "ProcessSwPackage d tid us4 = Some (kSuccess, us5)" "om_worker (us_manager us5) = Some (j, WStart)"
    "files (us_fs us5) (jb_image j) = files fs5 ?img" "jb_version j = mf_version ?m"
    "jb_digest j = digest_hex (od_sha (ud_ota d)) (us_verify us) payload"
  proof -
    have 1: "ifs_read (PackagePath us4 tid) (us_fs us4) = (Some ?pkg, us_fs us4)" using f4 by (simp add: ifs_read_ok)
    have 2: "snd (ofs_trunc True ?img payload (us_fs us4)) = fs5" using f4 by (simp add: ofs_trunc_ok fs5_def)
    have 3: "digest (od_sha (ud_ota d)) (us_verify us4) ?img [] fs5 =
        (digest_hex (od_sha (ud_ota d)) (us_verify us) payload, [], fs5)"
      using f4 s04 by (simp add: digest_def ifs_read_ok fs5_def same_service_def)
    obtain ss where 4: "us_sessions us4 tid = Some ss" using i4 by (auto simp: in_transfer_def)
    have 5: "faults fs5 = []" using f4 by (simp add: fs5_def)
    have sig: "mf_signature ?m = HmacSha256Hex (ud_hmac d) payload" by (simp add: update_manifest_def)
    have ver: "mf_version ?m \<noteq> vm_current (us_versions us4)" "set (mf_dependencies ?m) \<subseteq> {vm_current (us_versions us4)}"
      using s04 assms(7,8) by (simp_all add: same_service_def update_manifest_def)
    have idle: "startable (pr_state (om_progress (us_manager us4)))" "om_worker (us_manager us4) = None"
      using s04 assms(10,11) by (simp_all add: same_service_def)
    from ProcessSwPackage_runs [OF 4 1 package_unpacks [OF assms(3,4)] sig ver 2 3 assms(9) idle 5] that
    show ?thesis by blast
  qed
  have "Update d curl vfs url version us = Some (Inr (), us5)"
    using st lp ex pr(1) by (simp add: Update_def dl rd Let_def flip: us2_def)
  with pr show ?thesis by (auto simp: fs5_def update_manifest_def)
qed

theorem update_agent_delivers_witness:
  "\<exists>us' j. Update ex_ucm_deps (\<lambda>_. Some ([5, 6], None)) (Some (10, 4096)) ''http://x/p'' ''2''
       (ex_ucm\<lparr>us_manager := (us_manager ex_ucm)\<lparr>om_versions := (us_versions ex_ucm)\<lparr>vm_current := ''1.0.0''\<rparr>\<rparr>\<rparr>)
     = Some (Inr (), us') \<and> om_worker (us_manager us') = Some (j, WStart) \<and>
     files (us_fs us') (jb_image j) = Some [5, 6] \<and> jb_version j = ''2''"
proof -
  let ?us = "ex_ucm\<lparr>us_manager := (us_manager ex_ucm)\<lparr>om_versions := (us_versions ex_ucm)\<lparr>vm_current := ''1.0.0''\<rparr>\<rparr>\<rparr>"
  let ?m = "update_manifest ex_ucm_deps ''2'' [5, 6]"
  have sig: "mf_signature ?m = ''0605''" by code_simp
  have m: "mf_name ?m = ''platform''" "mf_version ?m = ''2''" "mf_dependencies ?m = [''1.0.0'']"
    by (simp_all add: update_manifest_def)
  have b: "length (manifest_blob ?m) = 38" "length (BuildPackage ?m [5, 6]) = 44"
    by (simp_all add: BuildPackage_def manifest_blob_eq m sig ManifestAppendString_def ManifestAppendU32_def)
  have s: "om_progress (us_manager ex_ucm) = progress_default" "om_worker (us_manager ex_ucm) = None"
    by (simp_all add: ex_ucm_def ucm_new_def)
  have "digest_hex (od_sha (ud_ota ex_ucm_deps)) Sha256 [5, 6] \<noteq> []" by code_simp
  moreover have "us_verify ?us = Sha256" by (simp add: ex_ucm_def ucm_new_def)
  ultimately show ?thesis
    using update_agent_delivers [of ?us "\<lambda>_. Some ([5, 6], None)" "''http://x/p''" "[5, 6]" ex_ucm_deps "''2''" "Some (10, 4096)"]
    by (auto simp: b s m sig ex_ucm_fs ex_fs_def manifest_fits_def startable_def progress_default_def)
qed

end
