(* ===== verification/UcmProtocol.thy ===== *)
theory UcmProtocol
  imports Codec
begin

text \<open>
  The wire format of the UCM service (src/src/ucm/ucm_protocol.h): integers as their
  object representation on the little-endian target, strings and byte vectors with a 32-bit
  length in front. The writers append to an output vector, the readers advance a position. A
  position and a 32-bit length never overflow \<open>size_t\<close>, so positions are natural numbers.
\<close>

section \<open>Method numbers\<close>

definition kMethodTransferStart :: u16 where "kMethodTransferStart = 0x0001"
definition kMethodTransferData :: u16 where "kMethodTransferData = 0x0002"
definition kMethodTransferExit :: u16 where "kMethodTransferExit = 0x0003"
definition kMethodProcessSwPackage :: u16 where "kMethodProcessSwPackage = 0x0004"
definition kMethodDeleteTransfer :: u16 where "kMethodDeleteTransfer = 0x0005"
definition kMethodActivate :: u16 where "kMethodActivate = 0x0006"
definition kMethodFinish :: u16 where "kMethodFinish = 0x0007"
definition kMethodCancel :: u16 where "kMethodCancel = 0x0008"
definition kMethodRollback :: u16 where "kMethodRollback = 0x0009"
definition kMethodRevertProcessedSwPackages :: u16 where "kMethodRevertProcessedSwPackages = 0x000A"
definition kMethodGetSwPackages :: u16 where "kMethodGetSwPackages = 0x000B"
definition kMethodGetSwClusterInfo :: u16 where "kMethodGetSwClusterInfo = 0x000C"
definition kMethodGetSwClusterChangeInfo :: u16 where "kMethodGetSwClusterChangeInfo = 0x000D"
definition kMethodGetSwClusterDescription :: u16 where "kMethodGetSwClusterDescription = 0x000E"
definition kMethodGetSwProcessProgress :: u16 where "kMethodGetSwProcessProgress = 0x000F"
definition kMethodGetHistory :: u16 where "kMethodGetHistory = 0x0010"
definition kMethodGetId :: u16 where "kMethodGetId = 0x0011"

lemmas ucm_method_defs =
  kMethodTransferStart_def kMethodTransferData_def kMethodTransferExit_def kMethodProcessSwPackage_def
  kMethodDeleteTransfer_def kMethodActivate_def kMethodFinish_def kMethodCancel_def kMethodRollback_def
  kMethodRevertProcessedSwPackages_def kMethodGetSwPackages_def kMethodGetSwClusterInfo_def
  kMethodGetSwClusterChangeInfo_def kMethodGetSwClusterDescription_def kMethodGetSwProcessProgress_def
  kMethodGetHistory_def kMethodGetId_def

section \<open>Writers and readers\<close>

definition AppendU64 :: "bytes \<Rightarrow> u64 \<Rightarrow> bytes" where
  "AppendU64 out v = out @ le_bytes 8 v"

definition AppendU32 :: "bytes \<Rightarrow> u32 \<Rightarrow> bytes" where
  "AppendU32 out v = out @ le_bytes 4 v"

definition AppendString :: "bytes \<Rightarrow> string \<Rightarrow> bytes" where
  "AppendString out s = AppendU32 out (word_of_nat (length s)) @ bytes_of_string s"

definition AppendBytes :: "bytes \<Rightarrow> bytes \<Rightarrow> bytes" where
  "AppendBytes out b = AppendU32 out (word_of_nat (length b)) @ b"

definition ReadU64 :: "u64 reader" where
  "ReadU64 inp pos = (if pos + 8 > length inp then None else Some (le_word (take 8 (drop pos inp)), pos + 8))"

definition ReadU32 :: "u32 reader" where
  "ReadU32 inp pos = (if pos + 4 > length inp then None else Some (le_word (take 4 (drop pos inp)), pos + 4))"

definition ReadString :: "string reader" where
  "ReadString inp pos = (case ReadU32 inp pos of
     None \<Rightarrow> None
   | Some (len, pos1) \<Rightarrow>
       if pos1 + unat len > length inp then None
       else Some (string_of_bytes (take (unat len) (drop pos1 inp)), pos1 + unat len))"

definition ReadBytes :: "bytes reader" where
  "ReadBytes inp pos = (case ReadU32 inp pos of
     None \<Rightarrow> None
   | Some (len, pos1) \<Rightarrow>
       if pos1 + unat len > length inp then None
       else Some (take (unat len) (drop pos1 inp), pos1 + unat len))"

section \<open>They are codecs\<close>

lemma AppendU64_out: "AppendU64 out v = out @ AppendU64 [] v"
  by (simp add: AppendU64_def)

lemma AppendU32_out: "AppendU32 out v = out @ AppendU32 [] v"
  by (simp add: AppendU32_def)

lemma AppendString_out: "AppendString out s = out @ AppendString [] s"
  by (simp add: AppendString_def AppendU32_def)

lemma AppendBytes_out: "AppendBytes out s = out @ AppendBytes [] s"
  by (simp add: AppendBytes_def AppendU32_def)

lemma length_AppendU [simp]: "length (AppendU64 out v) = length out + 8" "length (AppendU32 out w) = length out + 4"
  by (simp_all add: AppendU64_def AppendU32_def)

abbreviation fits32 :: "'a list \<Rightarrow> bool" where "fits32 xs \<equiv> length xs < 2 ^ 32"

interpretation u64c: codec "AppendU64 []" ReadU64 "\<lambda>_. True"
  by (rule codec_fixed [where f = le_word and n = 8])
     (simp_all add: AppendU64_def ReadU64_def codec_simps)

interpretation u32c: codec "AppendU32 []" ReadU32 "\<lambda>_. True"
  by (rule codec_fixed [where f = le_word and n = 4])
     (simp_all add: AppendU32_def ReadU32_def codec_simps)

text \<open>The length in front of a string or vector, as a codec of natural numbers.\<close>

definition read_len :: "nat reader" where
  "read_len b p = map_option (\<lambda>(w, q). (unat w, q)) (ReadU32 b p)"

interpretation lenc: codec "\<lambda>n. AppendU32 [] (word_of_nat n)" read_len "\<lambda>n. n < 2 ^ 32"
proof
  fix v pre post
  assume "v < (2 ^ 32 :: nat)"
  then show "read_len (pre @ AppendU32 [] (word_of_nat v) @ post) (length pre) =
      Some (v, length pre + length (AppendU32 [] (word_of_nat v)))"
    using u32c.dec_enc [where v = "word_of_nat v" and pre = pre and post = post] by (simp add: read_len_def)
next
  fix b p v q
  assume "read_len b p = Some (v, q)"
  then show "p \<le> q \<and> q \<le> length b" using u32c.dec_inside by (fastforce simp: read_len_def)
qed

interpretation strc: codec "AppendString []" ReadString fits32
proof -
  have "codec (AppendString []) ReadString (\<lambda>s. length (bytes_of_string s) < 2 ^ 32)"
    by (rule codec_counted [OF lenc.codec_axioms, where g = string_of_bytes])
       (auto simp: ReadString_def read_len_def AppendString_def split: option.splits)
  then show "codec (AppendString []) ReadString fits32" by simp
qed

interpretation bytesc: codec "AppendBytes []" ReadBytes fits32
proof -
  have "codec (AppendBytes []) ReadBytes (\<lambda>s. length (id s) < 2 ^ 32)"
    by (rule codec_counted [OF lenc.codec_axioms, where g = id])
       (auto simp: ReadBytes_def read_len_def AppendBytes_def split: option.splits)
  then show "codec (AppendBytes []) ReadBytes fits32" by simp
qed

end
