(* ===== verification/UcmRpc.thy ===== *)
theory UcmRpc
  imports UcmTransfer UcmProtocol
begin

text \<open>
  The UCM service over SOME/IP: the method handlers of src/src/ucm/ucm_service_skeleton.cpp
  and the client calls of src/src/ucm/ucm_proxy.cpp. A handler maps the request bytes and the
  service to the response bytes and the service; \<open>Register\<close> is the table of handlers. A proxy
  call is given the transport (\<open>BindHandle::SendRequest\<close>): method and request to a response, or
  none on timeout or transport error. Out-parameters a call does not set are \<open>None\<close>.
\<close>

type_synonym ('s, 'b) handler = "bytes \<Rightarrow> ('s, 'b) ucm \<Rightarrow> (bytes \<times> ('s, 'b) ucm) option"

section \<open>Skeleton\<close>

definition AppendErrc :: "bytes \<Rightarrow> UcmErrc \<Rightarrow> bytes" where
  "AppendErrc resp e = AppendU32 resp (errc_code e)"

text \<open>The refusal of a request whose arguments cannot be read.\<close>

definition refused :: bytes where
  "refused = AppendErrc [] kOperationNotPermitted"

definition on_TransferStart :: "(u64 \<times> u64) option \<Rightarrow> ('s, 'b) handler" where
  "on_TransferStart vfs req us = (case ReadU64 req 0 of
     None \<Rightarrow> Some (refused, us)
   | Some (sz, _) \<Rightarrow> (case TransferStart vfs sz us of ((errc, tid, block_size), us') \<Rightarrow>
       Some (if errc = kSuccess then AppendU32 (AppendString (AppendErrc [] errc) tid) block_size
             else AppendErrc [] errc, us')))"

definition on_TransferData :: "('s, 'b) handler" where
  "on_TransferData req us = (case ReadString req 0 of
     None \<Rightarrow> Some (refused, us)
   | Some (tid, p1) \<Rightarrow> (case ReadU64 req p1 of
       None \<Rightarrow> Some (refused, us)
     | Some (counter, p2) \<Rightarrow> (case ReadBytes req p2 of
         None \<Rightarrow> Some (refused, us)
       | Some (block, _) \<Rightarrow> (case TransferData tid block counter us of (e, us') \<Rightarrow> Some (AppendErrc [] e, us')))))"

definition on_TransferExit :: "('s, 'b) handler" where
  "on_TransferExit req us = (case ReadString req 0 of
     None \<Rightarrow> Some (refused, us)
   | Some (tid, _) \<Rightarrow> Some (AppendErrc [] (TransferExit tid us), us))"

definition on_DeleteTransfer :: "('s, 'b) handler" where
  "on_DeleteTransfer req us = (case ReadString req 0 of
     None \<Rightarrow> Some (refused, us)
   | Some (tid, _) \<Rightarrow> (case DeleteTransfer tid us of (e, us') \<Rightarrow> Some (AppendErrc [] e, us')))"

definition on_ProcessSwPackage :: "('s, 'b) ucm_deps \<Rightarrow> ('s, 'b) handler" where
  "on_ProcessSwPackage d req us = (case ReadString req 0 of
     None \<Rightarrow> Some (refused, us)
   | Some (tid, _) \<Rightarrow> (case ProcessSwPackage d tid us of
       None \<Rightarrow> None
     | Some (e, us') \<Rightarrow> Some (AppendErrc [] e, us')))"

definition on_Activate :: "('s, 'b) ucm_deps \<Rightarrow> ('s, 'b) handler" where
  "on_Activate d req us = (case Activate d us of (e, us') \<Rightarrow> Some (AppendErrc [] e, us'))"

definition on_Finish :: "('s, 'b) ucm_deps \<Rightarrow> ('s, 'b) handler" where
  "on_Finish d req us = (case Finish d us of (e, us') \<Rightarrow> Some (AppendErrc [] e, us'))"

definition on_Cancel :: "('s, 'b) handler" where
  "on_Cancel req us = (case ReadString req 0 of
     None \<Rightarrow> Some (refused, us)
   | Some (tid, _) \<Rightarrow> (case Cancel tid us of (e, us') \<Rightarrow> Some (AppendErrc [] e, us')))"

definition on_Rollback :: "('s, 'b) ucm_deps \<Rightarrow> ('s, 'b) handler" where
  "on_Rollback d req us = (case UcmRollback d us of (e, us') \<Rightarrow> Some (AppendErrc [] e, us'))"

definition on_RevertProcessedSwPackages :: "('s, 'b) handler" where
  "on_RevertProcessedSwPackages req us = Some (AppendErrc [] (RevertProcessedSwPackages us), us)"

definition AppendPackageInfo :: "bytes \<Rightarrow> SwPackageInfo \<Rightarrow> bytes" where
  "AppendPackageInfo resp p = AppendString (AppendString resp (sp_name p)) (sp_version p)"

definition AppendClusterInfo :: "bytes \<Rightarrow> SwClusterInfo \<Rightarrow> bytes" where
  "AppendClusterInfo resp c = AppendString (AppendString (AppendString resp (sc_name c)) (sc_version c)) (sc_state c)"

definition AppendHistoryEntry :: "bytes \<Rightarrow> HistoryEntry \<Rightarrow> bytes" where
  "AppendHistoryEntry resp h = AppendString (AppendString (AppendString resp (he_from h)) (he_to h)) (he_result h)"

definition AppendList :: "(bytes \<Rightarrow> 'a \<Rightarrow> bytes) \<Rightarrow> bytes \<Rightarrow> 'a list \<Rightarrow> bytes" where
  "AppendList app resp xs = foldl app (AppendU32 resp (word_of_nat (length xs))) xs"

definition on_GetSwPackages :: "('s, 'b) handler" where
  "on_GetSwPackages req us = (case GetSwPackages us of (errc, packages) \<Rightarrow>
     Some (if errc = kSuccess then AppendList AppendPackageInfo (AppendErrc [] errc) packages else AppendErrc [] errc, us))"

definition on_GetSwClusterInfo :: "('s, 'b) handler" where
  "on_GetSwClusterInfo req us = (case GetSwClusterInfo us of (errc, clusters) \<Rightarrow>
     Some (if errc = kSuccess then AppendList AppendClusterInfo (AppendErrc [] errc) clusters else AppendErrc [] errc, us))"

definition on_GetSwClusterChangeInfo :: "('s, 'b) handler" where
  "on_GetSwClusterChangeInfo req us = (case GetSwClusterChangeInfo us of (errc, changes) \<Rightarrow>
     Some (if errc = kSuccess then AppendList AppendClusterInfo (AppendErrc [] errc) changes else AppendErrc [] errc, us))"

definition on_GetSwClusterDescription :: "('s, 'b) handler" where
  "on_GetSwClusterDescription req us = (case ReadString req 0 of
     None \<Rightarrow> Some (refused, us)
   | Some (name, _) \<Rightarrow> (case GetSwClusterDescription name of (errc, description) \<Rightarrow>
       Some (if errc = kSuccess then AppendString (AppendErrc [] errc) description else AppendErrc [] errc, us)))"

definition on_GetSwProcessProgress :: "('s, 'b) handler" where
  "on_GetSwProcessProgress req us = (case ReadString req 0 of
     None \<Rightarrow> Some (refused, us)
   | Some (_, _) \<Rightarrow> (case GetSwProcessProgress us of (errc, p) \<Rightarrow>
       Some (if errc = kSuccess
             then AppendString (AppendU32 (AppendString (AppendErrc [] errc) (pi_state p)) (word_of_int (pi_percent p))) (pi_detail p)
             else AppendErrc [] errc, us)))"

definition on_GetHistory :: "('s, 'b) handler" where
  "on_GetHistory req us = (case GetHistory us of (errc, history) \<Rightarrow>
     Some (if errc = kSuccess then AppendList AppendHistoryEntry (AppendErrc [] errc) history else AppendErrc [] errc, us))"

definition on_GetId :: "('s, 'b) handler" where
  "on_GetId req us = (case GetId us of (errc, i) \<Rightarrow>
     Some (if errc = kSuccess then AppendString (AppendErrc [] errc) i else AppendErrc [] errc, us))"

definition Register :: "('s, 'b) ucm_deps \<Rightarrow> (u64 \<times> u64) option \<Rightarrow> u16 \<rightharpoonup> ('s, 'b) handler" where
  "Register d vfs = [kMethodTransferStart \<mapsto> on_TransferStart vfs, kMethodTransferData \<mapsto> on_TransferData,
     kMethodTransferExit \<mapsto> on_TransferExit, kMethodDeleteTransfer \<mapsto> on_DeleteTransfer,
     kMethodProcessSwPackage \<mapsto> on_ProcessSwPackage d, kMethodActivate \<mapsto> on_Activate d,
     kMethodFinish \<mapsto> on_Finish d, kMethodCancel \<mapsto> on_Cancel, kMethodRollback \<mapsto> on_Rollback d,
     kMethodRevertProcessedSwPackages \<mapsto> on_RevertProcessedSwPackages,
     kMethodGetSwPackages \<mapsto> on_GetSwPackages, kMethodGetSwClusterInfo \<mapsto> on_GetSwClusterInfo,
     kMethodGetSwClusterChangeInfo \<mapsto> on_GetSwClusterChangeInfo,
     kMethodGetSwClusterDescription \<mapsto> on_GetSwClusterDescription,
     kMethodGetSwProcessProgress \<mapsto> on_GetSwProcessProgress, kMethodGetHistory \<mapsto> on_GetHistory,
     kMethodGetId \<mapsto> on_GetId]"

section \<open>Proxy\<close>

type_synonym 'w transport = "u16 \<Rightarrow> bytes \<Rightarrow> 'w \<Rightarrow> bytes option \<times> 'w"

definition ReadErrc :: "bytes \<Rightarrow> nat \<Rightarrow> UcmErrc \<times> nat" where
  "ReadErrc data pos = (case ReadU32 data pos of
     None \<Rightarrow> (kOperationNotPermitted, pos)
   | Some (v, pos1) \<Rightarrow> (errc_cast v, pos1))"

text \<open>The calls whose answer is an error code only.\<close>

definition call_errc :: "'w transport \<Rightarrow> u16 \<Rightarrow> bytes \<Rightarrow> 'w \<Rightarrow> UcmErrc \<times> 'w" where
  "call_errc send method req w = (case send method req w of
     (None, w1) \<Rightarrow> (kOperationNotPermitted, w1)
   | (Some data, w1) \<Rightarrow> (fst (ReadErrc data 0), w1))"

text \<open>The calls whose answer carries a value behind the error code.\<close>

definition call_value :: "'w transport \<Rightarrow> u16 \<Rightarrow> bytes \<Rightarrow> 'a reader \<Rightarrow> 'w \<Rightarrow> (UcmErrc \<times> 'a option) \<times> 'w" where
  "call_value send method req rd w = (case send method req w of
     (None, w1) \<Rightarrow> ((kOperationNotPermitted, None), w1)
   | (Some data, w1) \<Rightarrow> (case ReadErrc data 0 of (errc, pos) \<Rightarrow>
       if errc \<noteq> kSuccess then ((errc, None), w1)
       else (case rd data pos of
          None \<Rightarrow> ((kOperationNotPermitted, None), w1)
        | Some (v, _) \<Rightarrow> ((kSuccess, Some v), w1))))"

definition proxy_TransferStart :: "'w transport \<Rightarrow> u64 \<Rightarrow> 'w \<Rightarrow> (UcmErrc \<times> (string \<times> u32) option) \<times> 'w" where
  "proxy_TransferStart send sz =
     call_value send kMethodTransferStart (AppendU64 [] sz) (dec_pair ReadString ReadU32)"

definition proxy_TransferData :: "'w transport \<Rightarrow> string \<Rightarrow> bytes \<Rightarrow> u64 \<Rightarrow> 'w \<Rightarrow> UcmErrc \<times> 'w" where
  "proxy_TransferData send tid block block_counter =
     call_errc send kMethodTransferData (AppendBytes (AppendU64 (AppendString [] tid) block_counter) block)"

definition proxy_TransferExit :: "'w transport \<Rightarrow> string \<Rightarrow> 'w \<Rightarrow> UcmErrc \<times> 'w" where
  "proxy_TransferExit send tid = call_errc send kMethodTransferExit (AppendString [] tid)"

definition proxy_DeleteTransfer :: "'w transport \<Rightarrow> string \<Rightarrow> 'w \<Rightarrow> UcmErrc \<times> 'w" where
  "proxy_DeleteTransfer send tid = call_errc send kMethodDeleteTransfer (AppendString [] tid)"

definition proxy_ProcessSwPackage :: "'w transport \<Rightarrow> string \<Rightarrow> 'w \<Rightarrow> UcmErrc \<times> 'w" where
  "proxy_ProcessSwPackage send tid = call_errc send kMethodProcessSwPackage (AppendString [] tid)"

definition proxy_Activate :: "'w transport \<Rightarrow> 'w \<Rightarrow> UcmErrc \<times> 'w" where
  "proxy_Activate send = call_errc send kMethodActivate []"

definition proxy_Finish :: "'w transport \<Rightarrow> 'w \<Rightarrow> UcmErrc \<times> 'w" where
  "proxy_Finish send = call_errc send kMethodFinish []"

definition proxy_Cancel :: "'w transport \<Rightarrow> string \<Rightarrow> 'w \<Rightarrow> UcmErrc \<times> 'w" where
  "proxy_Cancel send tid = call_errc send kMethodCancel (AppendString [] tid)"

definition proxy_Rollback :: "'w transport \<Rightarrow> 'w \<Rightarrow> UcmErrc \<times> 'w" where
  "proxy_Rollback send = call_errc send kMethodRollback []"

definition proxy_RevertProcessedSwPackages :: "'w transport \<Rightarrow> 'w \<Rightarrow> UcmErrc \<times> 'w" where
  "proxy_RevertProcessedSwPackages send = call_errc send kMethodRevertProcessedSwPackages []"

definition ReadPackageInfo :: "SwPackageInfo reader" where
  "ReadPackageInfo b p = map_option (\<lambda>((n, v), q). (\<lparr>sp_name = n, sp_version = v\<rparr>, q)) (dec_pair ReadString ReadString b p)"

definition ReadClusterInfo :: "SwClusterInfo reader" where
  "ReadClusterInfo b p = map_option (\<lambda>((n, v, s), q). (\<lparr>sc_name = n, sc_version = v, sc_state = s\<rparr>, q))
     (dec_triple ReadString ReadString ReadString b p)"

definition ReadHistoryEntry :: "HistoryEntry reader" where
  "ReadHistoryEntry b p = map_option (\<lambda>((f, t, r), q). (\<lparr>he_from = f, he_to = t, he_result = r\<rparr>, q))
     (dec_triple ReadString ReadString ReadString b p)"

definition ReadList :: "'a reader \<Rightarrow> 'a list reader" where
  "ReadList rd b p = (case ReadU32 b p of None \<Rightarrow> None | Some (count, q) \<Rightarrow> read_n rd (unat count) b q)"

definition ReadProgressInfo :: "ProgressInfo reader" where
  "ReadProgressInfo b p = map_option (\<lambda>((s, pc, dt), q). (\<lparr>pi_state = s, pi_percent = sint pc, pi_detail = dt\<rparr>, q))
     (dec_triple ReadString ReadU32 ReadString b p)"

definition proxy_GetId :: "'w transport \<Rightarrow> 'w \<Rightarrow> (UcmErrc \<times> string option) \<times> 'w" where
  "proxy_GetId send = call_value send kMethodGetId [] ReadString"

definition proxy_GetSwPackages :: "'w transport \<Rightarrow> 'w \<Rightarrow> (UcmErrc \<times> SwPackageInfo list option) \<times> 'w" where
  "proxy_GetSwPackages send = call_value send kMethodGetSwPackages [] (ReadList ReadPackageInfo)"

definition proxy_GetSwClusterInfo :: "'w transport \<Rightarrow> 'w \<Rightarrow> (UcmErrc \<times> SwClusterInfo list option) \<times> 'w" where
  "proxy_GetSwClusterInfo send = call_value send kMethodGetSwClusterInfo [] (ReadList ReadClusterInfo)"

definition proxy_GetSwClusterChangeInfo :: "'w transport \<Rightarrow> 'w \<Rightarrow> (UcmErrc \<times> SwClusterInfo list option) \<times> 'w" where
  "proxy_GetSwClusterChangeInfo send = call_value send kMethodGetSwClusterChangeInfo [] (ReadList ReadClusterInfo)"

definition proxy_GetSwClusterDescription :: "'w transport \<Rightarrow> string \<Rightarrow> 'w \<Rightarrow> (UcmErrc \<times> string option) \<times> 'w" where
  "proxy_GetSwClusterDescription send name =
     call_value send kMethodGetSwClusterDescription (AppendString [] name) ReadString"

definition proxy_GetSwProcessProgress :: "'w transport \<Rightarrow> string \<Rightarrow> 'w \<Rightarrow> (UcmErrc \<times> ProgressInfo option) \<times> 'w" where
  "proxy_GetSwProcessProgress send tid =
     call_value send kMethodGetSwProcessProgress (AppendString [] tid) ReadProgressInfo"

definition proxy_GetHistory :: "'w transport \<Rightarrow> 'w \<Rightarrow> (UcmErrc \<times> HistoryEntry list option) \<times> 'w" where
  "proxy_GetHistory send = call_value send kMethodGetHistory [] (ReadList ReadHistoryEntry)"

section \<open>A transport that delivers\<close>

text \<open>The loss-free connection of a proxy with the registered handlers.\<close>

definition direct :: "('s, 'b) ucm_deps \<Rightarrow> (u64 \<times> u64) option \<Rightarrow> ('s, 'b) ucm transport" where
  "direct d vfs method req us = (case Register d vfs method of
     None \<Rightarrow> (None, us)
   | Some h \<Rightarrow> (case h req us of None \<Rightarrow> (None, us) | Some (resp, us') \<Rightarrow> (Some resp, us')))"

section \<open>The answers are codecs\<close>

lemma AppendPackageInfo_out: "AppendPackageInfo out v = out @ AppendPackageInfo [] v"
  unfolding AppendPackageInfo_def using AppendString_out by (metis append_assoc)

lemma AppendClusterInfo_out: "AppendClusterInfo out v = out @ AppendClusterInfo [] v"
  unfolding AppendClusterInfo_def using AppendString_out by (metis append_assoc)

lemma AppendHistoryEntry_out: "AppendHistoryEntry out v = out @ AppendHistoryEntry [] v"
  unfolding AppendHistoryEntry_def using AppendString_out by (metis append_assoc)

interpretation pkgc: codec "AppendPackageInfo []" ReadPackageInfo "\<lambda>p. fits32 (sp_name p) \<and> fits32 (sp_version p)"
proof -
  have e: "AppendPackageInfo [] v = AppendString [] (sp_name v) @ AppendString [] (sp_version v)" for v
    unfolding AppendPackageInfo_def using AppendString_out by metis
  show "codec (AppendPackageInfo []) ReadPackageInfo (\<lambda>p. fits32 (sp_name p) \<and> fits32 (sp_version p))"
    using codec_map [OF codec_pair [OF strc.codec_axioms strc.codec_axioms],
        where f = "\<lambda>(n, v). \<lparr>sp_name = n, sp_version = v\<rparr>" and g = "\<lambda>p. (sp_name p, sp_version p)"
          and d' = ReadPackageInfo and e' = "AppendPackageInfo []"]
    by (simp add: e ReadPackageInfo_def case_prod_beta')
qed

lemma codec_str3: "codec (\<lambda>(x, y, z). AppendString [] x @ AppendString [] y @ AppendString [] z)
    (dec_triple ReadString ReadString ReadString) (\<lambda>(x, y, z). fits32 x \<and> fits32 y \<and> fits32 z)"
  by (rule codec_triple [OF strc.codec_axioms strc.codec_axioms strc.codec_axioms])

interpretation clusterc: codec "AppendClusterInfo []" ReadClusterInfo
  "\<lambda>c. fits32 (sc_name c) \<and> fits32 (sc_version c) \<and> fits32 (sc_state c)"
proof -
  have e: "AppendClusterInfo [] v = AppendString [] (sc_name v) @ AppendString [] (sc_version v) @ AppendString [] (sc_state v)" for v
    unfolding AppendClusterInfo_def using AppendString_out append_assoc by metis
  show "codec (AppendClusterInfo []) ReadClusterInfo (\<lambda>c. fits32 (sc_name c) \<and> fits32 (sc_version c) \<and> fits32 (sc_state c))"
    using codec_map [OF codec_str3, where f = "\<lambda>(n, v, s). \<lparr>sc_name = n, sc_version = v, sc_state = s\<rparr>"
          and g = "\<lambda>c. (sc_name c, sc_version c, sc_state c)" and d' = ReadClusterInfo and e' = "AppendClusterInfo []"]
    by (simp add: e ReadClusterInfo_def case_prod_beta')
qed

interpretation historyc: codec "AppendHistoryEntry []" ReadHistoryEntry
  "\<lambda>h. fits32 (he_from h) \<and> fits32 (he_to h) \<and> fits32 (he_result h)"
proof -
  have e: "AppendHistoryEntry [] v = AppendString [] (he_from v) @ AppendString [] (he_to v) @ AppendString [] (he_result v)" for v
    unfolding AppendHistoryEntry_def using AppendString_out append_assoc by metis
  show "codec (AppendHistoryEntry []) ReadHistoryEntry (\<lambda>h. fits32 (he_from h) \<and> fits32 (he_to h) \<and> fits32 (he_result h))"
    using codec_map [OF codec_str3, where f = "\<lambda>(a, b, c). \<lparr>he_from = a, he_to = b, he_result = c\<rparr>"
          and g = "\<lambda>h. (he_from h, he_to h, he_result h)" and d' = ReadHistoryEntry and e' = "AppendHistoryEntry []"]
    by (simp add: e ReadHistoryEntry_def case_prod_beta')
qed

lemma AppendList_eq:
  assumes "\<And>out x. app out x = out @ app [] x"
  shows "AppendList app resp xs = resp @ AppendU32 [] (word_of_nat (length xs)) @ concat (map (app []) xs)"
proof -
  have "foldl app out xs = out @ concat (map (app []) xs)" for out
  proof (induction xs arbitrary: out)
    case (Cons x xs)
    then show ?case using assms [of out x] by simp
  qed simp
  then show ?thesis unfolding AppendList_def using AppendU32_out [of resp] by simp
qed

lemma codec_list:
  assumes "codec (app []) rd ok" and "\<And>out x. app out x = out @ app [] x"
  shows "codec (AppendList app []) (ReadList rd) (\<lambda>xs. length xs < 2 ^ 32 \<and> list_all ok xs)"
proof
  fix v pre post
  assume a: "length v < 2 ^ 32 \<and> list_all ok v"
  let ?n = "AppendU32 [] (word_of_nat (length v))" and ?c = "concat (map (app []) v)"
  have "ReadU32 (pre @ ?n @ (?c @ post)) (length pre) = Some (word_of_nat (length v), length pre + length ?n)"
    by (rule u32c.dec_enc) simp
  moreover have "read_n rd (length v) ((pre @ ?n) @ ?c @ post) (length (pre @ ?n)) = Some (v, length (pre @ ?n) + length ?c)"
    using codec.read_n_enc [OF assms(1)] a by blast
  ultimately show "ReadList rd (pre @ AppendList app [] v @ post) (length pre) = Some (v, length pre + length (AppendList app [] v))"
    using a by (simp add: ReadList_def AppendList_eq [OF assms(2)])
next
  fix b p v q
  assume "ReadList rd b p = Some (v, q)"
  then obtain n r where r: "ReadU32 b p = Some (n, r)" and c: "read_n rd (unat n) b r = Some (v, q)"
    by (auto simp: ReadList_def split: option.splits)
  from u32c.dec_inside [OF r] codec.read_n_inside [OF assms(1) c] show "p \<le> q \<and> q \<le> length b" by simp
qed

section \<open>Calls over a transport that delivers\<close>

definition named :: "UcmErrc \<Rightarrow> bool" where
  "named e = (case e of ErrcValue _ \<Rightarrow> False | _ \<Rightarrow> True)"

lemma errc_cast_code [simp]: "named e \<Longrightarrow> errc_cast (errc_code e) = e"
  by (cases e) (simp_all add: named_def errc_cast_def errc_names_def)

lemma ReadErrc_AppendErrc: "named e \<Longrightarrow> ReadErrc (AppendErrc [] e @ rest) 0 = (e, 4)"
  using u32c.dec_enc_start [where v = "errc_code e" and post = rest]
  by (simp add: ReadErrc_def AppendErrc_def)

lemma call_errc_eq:
  assumes "send m req w = (Some (AppendErrc [] e), w')" and "named e"
  shows "call_errc send m req w = (e, w')"
  using assms ReadErrc_AppendErrc [of e "[]"] by (simp add: call_errc_def)

lemma call_errc_pair:
  assumes "send m req w = (Some (AppendErrc [] (fst r)), snd r)" and "named (fst r)"
  shows "call_errc send m req w = r"
  using call_errc_eq [of send m req w "fst r" "snd r"] assms by simp

lemma length_AppendErrc [simp]: "length (AppendErrc [] e) = 4"
  by (simp add: AppendErrc_def)

lemma call_value_eq:
  assumes "codec enc rd ok" and "ok v" and "send m req w = (Some (AppendErrc [] kSuccess @ enc v), w')"
  shows "call_value send m req rd w = ((kSuccess, Some v), w')"
proof -
  have "rd (AppendErrc [] kSuccess @ enc v @ []) (length (AppendErrc [] kSuccess)) =
      Some (v, length (AppendErrc [] kSuccess) + length (enc v))"
    by (rule codec.dec_enc [OF assms(1,2)])
  then show ?thesis
    using assms(3) ReadErrc_AppendErrc [of kSuccess "enc v"] by (simp add: call_value_def named_def)
qed

lemma call_value_error:
  assumes "send m req w = (Some (AppendErrc [] e), w')" and "named e" and "e \<noteq> kSuccess"
  shows "call_value send m req rd w = ((e, None), w')"
  using assms ReadErrc_AppendErrc [of e "[]"] by (simp add: call_value_def)

lemma direct_handler:
  "direct d vfs kMethodTransferStart = (\<lambda>req us. case on_TransferStart vfs req us of None \<Rightarrow> (None, us) | Some (r, us') \<Rightarrow> (Some r, us'))"
  "direct d vfs kMethodTransferData = (\<lambda>req us. case on_TransferData req us of None \<Rightarrow> (None, us) | Some (r, us') \<Rightarrow> (Some r, us'))"
  "direct d vfs kMethodTransferExit = (\<lambda>req us. case on_TransferExit req us of None \<Rightarrow> (None, us) | Some (r, us') \<Rightarrow> (Some r, us'))"
  "direct d vfs kMethodDeleteTransfer = (\<lambda>req us. case on_DeleteTransfer req us of None \<Rightarrow> (None, us) | Some (r, us') \<Rightarrow> (Some r, us'))"
  "direct d vfs kMethodProcessSwPackage = (\<lambda>req us. case on_ProcessSwPackage d req us of None \<Rightarrow> (None, us) | Some (r, us') \<Rightarrow> (Some r, us'))"
  "direct d vfs kMethodActivate = (\<lambda>req us. case on_Activate d req us of None \<Rightarrow> (None, us) | Some (r, us') \<Rightarrow> (Some r, us'))"
  "direct d vfs kMethodFinish = (\<lambda>req us. case on_Finish d req us of None \<Rightarrow> (None, us) | Some (r, us') \<Rightarrow> (Some r, us'))"
  "direct d vfs kMethodCancel = (\<lambda>req us. case on_Cancel req us of None \<Rightarrow> (None, us) | Some (r, us') \<Rightarrow> (Some r, us'))"
  "direct d vfs kMethodRollback = (\<lambda>req us. case on_Rollback d req us of None \<Rightarrow> (None, us) | Some (r, us') \<Rightarrow> (Some r, us'))"
  "direct d vfs kMethodRevertProcessedSwPackages = (\<lambda>req us. case on_RevertProcessedSwPackages req us of None \<Rightarrow> (None, us) | Some (r, us') \<Rightarrow> (Some r, us'))"
  "direct d vfs kMethodGetSwPackages = (\<lambda>req us. case on_GetSwPackages req us of None \<Rightarrow> (None, us) | Some (r, us') \<Rightarrow> (Some r, us'))"
  "direct d vfs kMethodGetSwClusterInfo = (\<lambda>req us. case on_GetSwClusterInfo req us of None \<Rightarrow> (None, us) | Some (r, us') \<Rightarrow> (Some r, us'))"
  "direct d vfs kMethodGetSwClusterChangeInfo = (\<lambda>req us. case on_GetSwClusterChangeInfo req us of None \<Rightarrow> (None, us) | Some (r, us') \<Rightarrow> (Some r, us'))"
  "direct d vfs kMethodGetSwClusterDescription = (\<lambda>req us. case on_GetSwClusterDescription req us of None \<Rightarrow> (None, us) | Some (r, us') \<Rightarrow> (Some r, us'))"
  "direct d vfs kMethodGetSwProcessProgress = (\<lambda>req us. case on_GetSwProcessProgress req us of None \<Rightarrow> (None, us) | Some (r, us') \<Rightarrow> (Some r, us'))"
  "direct d vfs kMethodGetHistory = (\<lambda>req us. case on_GetHistory req us of None \<Rightarrow> (None, us) | Some (r, us') \<Rightarrow> (Some r, us'))"
  "direct d vfs kMethodGetId = (\<lambda>req us. case on_GetId req us of None \<Rightarrow> (None, us) | Some (r, us') \<Rightarrow> (Some r, us'))"
  by (simp_all add: direct_def Register_def fun_eq_iff ucm_method_defs)

lemma named_results:
  "named (fst (fst (TransferStart vfs sz us)))" "named (fst (TransferData tid block n us))"
  "named (TransferExit tid us)" "named (fst (DeleteTransfer tid us))" "named (fst (Activate d us))"
  "named (fst (Finish d us))" "named (fst (UcmRollback d us))" "named (RevertProcessedSwPackages us)"
  "ProcessSwPackage d tid us = Some (e, us') \<Longrightarrow> named e"
  by (auto simp: named_def TransferStart_def TransferData_def TransferExit_def DeleteTransfer_def Activate_def
      Finish_def UcmRollback_def RevertProcessedSwPackages_def permitted_def ProcessSwPackage_def Let_def
      split: option.splits prod.splits bool.splits if_splits)

lemma read_id: "fits32 tid \<Longrightarrow> ReadString (AppendString [] tid) 0 = Some (tid, length (AppendString [] tid))"
  by (rule strc.dec_enc_only)

lemma read_data_request:
  fixes n :: u64
  assumes "fits32 tid" and "fits32 block"
  defines "req \<equiv> AppendBytes (AppendU64 (AppendString [] tid) n) block"
  shows "\<exists>p1 p2 p3. ReadString req 0 = Some (tid, p1) \<and> ReadU64 req p1 = Some (n, p2) \<and> ReadBytes req p2 = Some (block, p3)"
proof -
  let ?a = "AppendString [] tid" and ?b = "AppendU64 [] n" and ?c = "AppendBytes [] block"
  have r: "req = ?a @ ?b @ ?c" unfolding req_def by (metis AppendBytes_out AppendU64_out append_assoc)
  have 1: "ReadString (?a @ (?b @ ?c)) 0 = Some (tid, length ?a)" by (rule strc.dec_enc_start [OF assms(1)])
  have 2: "ReadU64 (?a @ ?b @ ?c) (length ?a) = Some (n, length ?a + length ?b)" by (rule u64c.dec_enc) simp
  have 3: "ReadBytes ((?a @ ?b) @ ?c @ []) (length (?a @ ?b)) = Some (block, length (?a @ ?b) + length ?c)"
    by (rule bytesc.dec_enc [OF assms(2)])
  from 1 2 3 show ?thesis unfolding r by auto
qed

lemma to_string_fits: "fits32 (to_string (unat (n :: u64)))"
proof -
  have "unat n < 2 ^ 64" using unsigned_less [of n] by simp
  then have "unat n < 10 ^ Suc 19" by simp
  from length_to_string [OF this] show ?thesis by simp
qed

lemma TransferStart_id: "TransferStart vfs sz us = ((kSuccess, tid, bs), us') \<Longrightarrow> fits32 tid"
  using to_string_fits by (auto simp: TransferStart_def Let_def split: prod.splits if_splits)

text \<open>
  C38: the transfer calls through the proxy are the transfer calls. Over a transport that
  delivers, with names and blocks that fit their 32-bit lengths, each call returns the service's
  error code, and its identifier and block size where there are any, and leaves the service as the
  direct call does.
\<close>

theorem rpc_transfer_transparent:
  assumes "fits32 tid" and "fits32 block" and "TransferStart vfs sz us = ((e, i, bs), us1)"
  shows "proxy_TransferStart (direct d vfs) sz us = ((e, if e = kSuccess then Some (i, bs) else None), us1) \<and>
    proxy_TransferData (direct d vfs) tid block n us = TransferData tid block n us \<and>
    proxy_TransferExit (direct d vfs) tid us = (TransferExit tid us, us) \<and>
    proxy_DeleteTransfer (direct d vfs) tid us = DeleteTransfer tid us \<and>
    proxy_Cancel (direct d vfs) tid us = Cancel tid us"
proof (intro conjI)
  have r: "ReadU64 (AppendU64 [] sz) 0 = Some (sz, 8)" using u64c.dec_enc_only [where v = sz] by simp
  have n: "named e" using named_results(1) [of vfs sz us] assms(3) by simp
  show "proxy_TransferStart (direct d vfs) sz us = ((e, if e = kSuccess then Some (i, bs) else None), us1)"
  proof (cases "e = kSuccess")
    case True
    have app: "AppendU32 (AppendString (AppendErrc [] e) i) bs = AppendErrc [] e @ (\<lambda>(x, y). AppendString [] x @ AppendU32 [] y) (i, bs)"
      using AppendU32_out AppendString_out by (metis append_assoc case_prod_conv)
    have "direct d vfs kMethodTransferStart (AppendU64 [] sz) us =
        (Some (AppendErrc [] kSuccess @ (\<lambda>(x, y). AppendString [] x @ AppendU32 [] y) (i, bs)), us1)"
      using assms(3) True app by (simp add: direct_handler on_TransferStart_def r)
    from call_value_eq [OF codec_pair [OF strc.codec_axioms u32c.codec_axioms], of "(i, bs)" "direct d vfs" kMethodTransferStart "AppendU64 [] sz" us us1] this True
      TransferStart_id [of vfs sz us i bs us1] assms(3) show ?thesis by (simp add: proxy_TransferStart_def)
  next
    case False
    with assms(3) have "direct d vfs kMethodTransferStart (AppendU64 [] sz) us = (Some (AppendErrc [] e), us1)"
      by (simp add: direct_handler on_TransferStart_def r)
    from call_value_error [of "direct d vfs" kMethodTransferStart "AppendU64 [] sz" us e us1] this n False show ?thesis by (simp add: proxy_TransferStart_def)
  qed
  show "proxy_TransferData (direct d vfs) tid block n us = TransferData tid block n us"
    unfolding proxy_TransferData_def
    using read_data_request [OF assms(1,2), of n] named_results(2) [of tid block n us]
    by (auto simp: direct_handler on_TransferData_def case_prod_beta intro!: call_errc_pair)
  show "proxy_TransferExit (direct d vfs) tid us = (TransferExit tid us, us)"
    unfolding proxy_TransferExit_def
    by (rule call_errc_eq) (simp_all add: direct_handler on_TransferExit_def read_id [OF assms(1)] named_results(1-8))
  show "proxy_DeleteTransfer (direct d vfs) tid us = DeleteTransfer tid us"
    unfolding proxy_DeleteTransfer_def
    by (rule call_errc_pair)
       (simp_all add: direct_handler on_DeleteTransfer_def read_id [OF assms(1)] named_results(1-8) case_prod_beta)
  show "proxy_Cancel (direct d vfs) tid us = Cancel tid us"
    unfolding proxy_Cancel_def
    by (rule call_errc_pair)
       (simp_all add: direct_handler on_Cancel_def read_id [OF assms(1)] named_results(1-8) case_prod_beta Cancel_def)
qed

text \<open>
  So are the lifecycle calls: activation, finish, rollback, revert, and processing whenever
  the service answers.
\<close>

theorem rpc_lifecycle_transparent:
  assumes "fits32 tid" and "ProcessSwPackage d tid us = Some (e, us1)"
  shows "proxy_ProcessSwPackage (direct d vfs) tid us = (e, us1) \<and>
    proxy_Activate (direct d vfs) us = Activate d us \<and> proxy_Finish (direct d vfs) us = Finish d us \<and>
    proxy_Rollback (direct d vfs) us = UcmRollback d us \<and>
    proxy_RevertProcessedSwPackages (direct d vfs) us = (RevertProcessedSwPackages us, us)"
proof (intro conjI)
  show "proxy_ProcessSwPackage (direct d vfs) tid us = (e, us1)"
    unfolding proxy_ProcessSwPackage_def
    by (rule call_errc_eq)
       (simp_all add: direct_handler on_ProcessSwPackage_def read_id [OF assms(1)] assms(2) named_results(9) [OF assms(2)])
  show "proxy_Activate (direct d vfs) us = Activate d us"
    unfolding proxy_Activate_def
    by (rule call_errc_pair)
       (simp_all add: direct_handler on_Activate_def named_results(1-8) case_prod_beta)
  show "proxy_Finish (direct d vfs) us = Finish d us"
    unfolding proxy_Finish_def
    by (rule call_errc_pair)
       (simp_all add: direct_handler on_Finish_def named_results(1-8) case_prod_beta)
  show "proxy_Rollback (direct d vfs) us = UcmRollback d us"
    unfolding proxy_Rollback_def
    by (rule call_errc_pair)
       (simp_all add: direct_handler on_Rollback_def named_results(1-8) case_prod_beta)
  show "proxy_RevertProcessedSwPackages (direct d vfs) us = (RevertProcessedSwPackages us, us)"
    unfolding proxy_RevertProcessedSwPackages_def
    by (rule call_errc_eq) (simp_all add: direct_handler on_RevertProcessedSwPackages_def named_results(1-8))
qed

section \<open>Queries and malformed requests\<close>

lemma AppendErrc_list:
  assumes "\<And>out x. app out x = out @ app [] x"
  shows "AppendList app (AppendErrc [] e) xs = AppendErrc [] e @ AppendList app [] xs"
  by (simp add: AppendList_eq [OF assms])

lemma call_list_eq:
  assumes "codec (app []) rd ok" and "\<And>out x. app out x = out @ app [] x" and "length v < 2 ^ 32" and "list_all ok v"
    and "send m req w = (Some (AppendList app (AppendErrc [] kSuccess) v), w')"
  shows "call_value send m req (ReadList rd) w = ((kSuccess, Some v), w')"
  using call_value_eq [OF codec_list [OF assms(1,2)], of v send m req w w'] assms(3-5)
  by (simp add: AppendErrc_list [OF assms(2)])

definition progress_fits :: "progress \<Rightarrow> bool" where
  "progress_fits p \<longleftrightarrow> fits32 (pr_detail p) \<and> - (2 ^ 31) \<le> pr_percent p \<and> pr_percent p < 2 ^ 31"

definition record_fits :: "version_record \<Rightarrow> bool" where
  "record_fits r \<longleftrightarrow> fits32 (vr_from r) \<and> fits32 (vr_to r) \<and> fits32 (vr_result r)"

lemma sint_of_int_u32: "- (2 ^ 31) \<le> i \<Longrightarrow> i < 2 ^ 31 \<Longrightarrow> sint (word_of_int i :: u32) = i"
  by (simp add: int_word_sint)

lemma state_to_string_fits: "length (state_to_string s) \<le> 15"
  by (cases s) simp_all

text \<open>
  The query calls through the proxy return what the service holds: its identifier, package
  and cluster lists, the pending change if the target version differs, the progress with its
  percentage as a signed number, and the update history in order.
\<close>

theorem rpc_queries_transparent:
  assumes "fits32 (us_ucm_id us)" and "fits32 (vm_current (us_versions us))" and "fits32 (vm_target (us_versions us))"
    and "fits32 (vm_history (us_versions us))" and "list_all record_fits (vm_history (us_versions us))"
    and "progress_fits (om_progress (us_manager us))" and "fits32 tid" and "length name + 24 < 2 ^ 32"
  shows "proxy_GetId (direct d vfs) us = ((kSuccess, Some (us_ucm_id us)), us) \<and>
    proxy_GetSwPackages (direct d vfs) us = ((kSuccess, Some (snd (GetSwPackages us))), us) \<and>
    proxy_GetSwClusterInfo (direct d vfs) us = ((kSuccess, Some (snd (GetSwClusterInfo us))), us) \<and>
    proxy_GetSwClusterChangeInfo (direct d vfs) us = ((kSuccess, Some (snd (GetSwClusterChangeInfo us))), us) \<and>
    proxy_GetSwClusterDescription (direct d vfs) name us = ((kSuccess, Some (''demo software cluster: '' @ name)), us) \<and>
    proxy_GetSwProcessProgress (direct d vfs) tid us = ((kSuccess, Some (snd (GetSwProcessProgress us))), us) \<and>
    proxy_GetHistory (direct d vfs) us = ((kSuccess, Some (snd (GetHistory us))), us)"
proof (intro conjI)
  have app: "AppendString (AppendErrc [] kSuccess) x = AppendErrc [] kSuccess @ AppendString [] x" for x
    by (rule AppendString_out)
  show "proxy_GetId (direct d vfs) us = ((kSuccess, Some (us_ucm_id us)), us)"
    unfolding proxy_GetId_def
    by (rule call_value_eq [OF strc.codec_axioms assms(1)]) (simp add: direct_handler on_GetId_def GetId_def app)
  show "proxy_GetSwPackages (direct d vfs) us = ((kSuccess, Some (snd (GetSwPackages us))), us)"
    unfolding proxy_GetSwPackages_def
    by (rule call_list_eq [OF pkgc.codec_axioms AppendPackageInfo_out])
       (use assms(2) in \<open>simp_all add: direct_handler on_GetSwPackages_def GetSwPackages_def\<close>)
  show "proxy_GetSwClusterInfo (direct d vfs) us = ((kSuccess, Some (snd (GetSwClusterInfo us))), us)"
    unfolding proxy_GetSwClusterInfo_def
    by (rule call_list_eq [OF clusterc.codec_axioms AppendClusterInfo_out])
       (use assms(2) in \<open>simp_all add: direct_handler on_GetSwClusterInfo_def GetSwClusterInfo_def\<close>)
  show "proxy_GetSwClusterChangeInfo (direct d vfs) us = ((kSuccess, Some (snd (GetSwClusterChangeInfo us))), us)"
    unfolding proxy_GetSwClusterChangeInfo_def
    by (rule call_list_eq [OF clusterc.codec_axioms AppendClusterInfo_out])
       (use assms(3) in \<open>simp_all add: direct_handler on_GetSwClusterChangeInfo_def GetSwClusterChangeInfo_def\<close>)
  have "fits32 name" using assms(8) by simp
  then show "proxy_GetSwClusterDescription (direct d vfs) name us = ((kSuccess, Some (''demo software cluster: '' @ name)), us)"
    unfolding proxy_GetSwClusterDescription_def using assms(8)
    by (intro call_value_eq [OF strc.codec_axioms])
       (simp_all add: direct_handler on_GetSwClusterDescription_def GetSwClusterDescription_def read_id app)
  show "proxy_GetHistory (direct d vfs) us = ((kSuccess, Some (snd (GetHistory us))), us)"
    unfolding proxy_GetHistory_def
    by (rule call_list_eq [OF historyc.codec_axioms AppendHistoryEntry_out])
       (use assms(4,5) in \<open>simp_all add: direct_handler on_GetHistory_def GetHistory_def list_all_iff record_fits_def\<close>)
  let ?p = "om_progress (us_manager us)"
  let ?enc = "\<lambda>(x, y, z). AppendString [] x @ AppendU32 [] y @ AppendString [] z"
  let ?v = "(state_to_string (pr_state ?p), word_of_int (pr_percent ?p) :: u32, pr_detail ?p)"
  have c: "codec ?enc (dec_triple ReadString ReadU32 ReadString) (\<lambda>(x, y, z). fits32 x \<and> True \<and> fits32 z)"
    by (rule codec_triple [OF strc.codec_axioms u32c.codec_axioms strc.codec_axioms])
  have fit: "fits32 (state_to_string (pr_state ?p))" "fits32 (pr_detail ?p)"
    using state_to_string_fits [of "pr_state ?p"] assms(6) by (simp_all add: progress_fits_def)
  have e: "AppendString (AppendU32 (AppendString (AppendErrc [] kSuccess) (state_to_string (pr_state ?p)))
      (word_of_int (pr_percent ?p))) (pr_detail ?p) = AppendErrc [] kSuccess @ ?enc ?v"
    using AppendString_out AppendU32_out by (metis append_assoc case_prod_conv)
  have "call_value (direct d vfs) kMethodGetSwProcessProgress (AppendString [] tid)
      (dec_triple ReadString ReadU32 ReadString) us = ((kSuccess, Some ?v), us)"
    by (rule call_value_eq [OF c]) (use fit e in \<open>simp_all add: direct_handler on_GetSwProcessProgress_def
        GetSwProcessProgress_def read_id [OF assms(7)] Let_def\<close>)
  moreover have "sint (word_of_int (pr_percent ?p) :: u32) = pr_percent ?p"
    using assms(6) by (intro sint_of_int_u32) (simp_all add: progress_fits_def)
  ultimately show "proxy_GetSwProcessProgress (direct d vfs) tid us = ((kSuccess, Some (snd (GetSwProcessProgress us))), us)"
    by (auto simp: proxy_GetSwProcessProgress_def call_value_def ReadProgressInfo_def GetSwProcessProgress_def Let_def
        split: option.splits prod.splits if_splits)
qed


section \<open>The statements on the small configuration\<close>

theorem rpc_transfer_transparent_witness:
  "proxy_TransferData (direct ex_ucm_deps None) ''1'' [1, 2] 1 ex_started = TransferData ''1'' [1, 2] 1 ex_started \<and>
   proxy_TransferExit (direct ex_ucm_deps None) ''1'' ex_started = (TransferExit ''1'' ex_started, ex_started)"
proof -
  obtain e i bs us1 where "TransferStart None 4 ex_started = ((e, i, bs), us1)" by (metis prod_cases4 prod.collapse)
  from rpc_transfer_transparent [OF _ _ this, of "''1''" "[1, 2]"] show ?thesis by simp
qed

theorem rpc_lifecycle_transparent_witness:
  "fst (proxy_ProcessSwPackage (direct ex_ucm_deps None) ''1'' ex_received) = kSuccess \<and>
   proxy_Activate (direct ex_ucm_deps None) ex_received = Activate ex_ucm_deps ex_received"
  using rpc_lifecycle_transparent [OF _ ex_process] by simp

theorem rpc_queries_transparent_witness:
  "proxy_GetId (direct ex_ucm_deps None) ex_ucm = ((kSuccess, Some ''ucm''), ex_ucm) \<and>
   proxy_GetHistory (direct ex_ucm_deps None) ex_ucm = ((kSuccess, Some []), ex_ucm)"
proof -
  have "us_ucm_id ex_ucm = ''ucm''" "vm_current (us_versions ex_ucm) = ''1''" "vm_target (us_versions ex_ucm) = []"
    "vm_history (us_versions ex_ucm) = []" "om_progress (us_manager ex_ucm) = progress_default"
    by (simp_all add: ex_ucm_def ucm_new_def) (simp_all add: ex_ota_def ota_new_def Let_def)
  then show ?thesis
    using rpc_queries_transparent [of ex_ucm "''1''" "''app''" ex_ucm_deps None]
    by (simp add: progress_fits_def progress_default_def GetHistory_def)
qed


end
