(* ===== verification/VehicleProtocol.thy ===== *)
theory VehicleProtocol
  imports Codec
begin

text \<open>
  The wire format of the VehicleStatus service (src/src/vehicle_status/vehicle_status_protocol.h and
  .cpp): big-endian integers, strings with a 32-bit length in front, and the state report that
  answers and events carry. Error codes and states travel as numbers and are cast back without a
  check; a number without an enumerator is kept as \<open>ErrcOther\<close> or \<open>StateOther\<close>.
\<close>

definition kServiceId :: u16 where "kServiceId = 0x6100"
definition kInstanceId :: u16 where "kInstanceId = 0x0001"
definition kMethodGetStatus :: u16 where "kMethodGetStatus = 0x0001"
definition kMethodStartUpdate :: u16 where "kMethodStartUpdate = 0x0002"
definition kMethodGetProgress :: u16 where "kMethodGetProgress = 0x0003"
definition kMethodVsRollback :: u16 where "kMethodVsRollback = 0x0004"
definition kEventGroupId :: u16 where "kEventGroupId = 0x0001"
definition kEventOtaStateChanged :: u16 where "kEventOtaStateChanged = 0x8001"

lemmas vs_method_defs = kMethodGetStatus_def kMethodStartUpdate_def kMethodGetProgress_def kMethodVsRollback_def

datatype Errc =
  kSuccess | kInvalidArgument | kNotFound | kBusy | kInternalError | kNotReady | kVerifyFailed
| kInstallFailed | kRollbackFailed | ErrcOther u32

fun vs_errc_code :: "Errc \<Rightarrow> u32" where
  "vs_errc_code kSuccess = 0x00"
| "vs_errc_code kInvalidArgument = 0x01"
| "vs_errc_code kNotFound = 0x02"
| "vs_errc_code kBusy = 0x03"
| "vs_errc_code kInternalError = 0x04"
| "vs_errc_code kNotReady = 0x05"
| "vs_errc_code kVerifyFailed = 0x06"
| "vs_errc_code kInstallFailed = 0x07"
| "vs_errc_code kRollbackFailed = 0x08"
| "vs_errc_code (ErrcOther v) = v"

definition vs_errcs :: "Errc list" where
  "vs_errcs = [kSuccess, kInvalidArgument, kNotFound, kBusy, kInternalError, kNotReady, kVerifyFailed,
     kInstallFailed, kRollbackFailed]"

definition vs_errc_cast :: "u32 \<Rightarrow> Errc" where
  "vs_errc_cast v = (case find (\<lambda>e. vs_errc_code e = v) vs_errcs of Some e \<Rightarrow> e | None \<Rightarrow> ErrcOther v)"

datatype OtaState =
  kIdle | kDownloading | kVerifying | kInstalling | kReadyToSwitch | kRebooting | kSuccess_state
| kFailed | kRollback | StateOther byte

fun ota_state_code :: "OtaState \<Rightarrow> byte" where
  "ota_state_code kIdle = 0x00"
| "ota_state_code kDownloading = 0x01"
| "ota_state_code kVerifying = 0x02"
| "ota_state_code kInstalling = 0x03"
| "ota_state_code kReadyToSwitch = 0x04"
| "ota_state_code kRebooting = 0x05"
| "ota_state_code kSuccess_state = 0x06"
| "ota_state_code kFailed = 0x07"
| "ota_state_code kRollback = 0x08"
| "ota_state_code (StateOther v) = v"

definition ota_states :: "OtaState list" where
  "ota_states = [kIdle, kDownloading, kVerifying, kInstalling, kReadyToSwitch, kRebooting, kSuccess_state,
     kFailed, kRollback]"

definition ota_state_cast :: "byte \<Rightarrow> OtaState" where
  "ota_state_cast v = (case find (\<lambda>e. ota_state_code e = v) ota_states of Some e \<Rightarrow> e | None \<Rightarrow> StateOther v)"

section \<open>Writers\<close>

definition AppendU16_be :: "bytes \<Rightarrow> u16 \<Rightarrow> bytes" where
  "AppendU16_be out v = out @ [ucast (drop_bit 8 v AND 0xFF), ucast (v AND 0xFF)]"

definition AppendU32_be :: "bytes \<Rightarrow> u32 \<Rightarrow> bytes" where
  "AppendU32_be out v = out @ [ucast (drop_bit 24 v AND 0xFF), ucast (drop_bit 16 v AND 0xFF),
     ucast (drop_bit 8 v AND 0xFF), ucast (v AND 0xFF)]"

definition AppendU64_be :: "bytes \<Rightarrow> u64 \<Rightarrow> bytes" where
  "AppendU64_be out v = foldl (\<lambda>out shift. out @ [ucast (drop_bit shift v AND 0xFF)]) out [56, 48, 40, 32, 24, 16, 8, 0]"

definition AppendString_be :: "bytes \<Rightarrow> string \<Rightarrow> bytes" where
  "AppendString_be out s = AppendU32_be out (word_of_nat (length s)) @ bytes_of_string s"

definition AppendOtaState :: "bytes \<Rightarrow> OtaState \<Rightarrow> u32 \<Rightarrow> string \<Rightarrow> bytes" where
  "AppendOtaState out state percent detail =
     AppendString_be (AppendU32_be (out @ [ota_state_code state]) percent) detail"

section \<open>Readers\<close>

definition ReadU16_be :: "u16 reader" where
  "ReadU16_be inp pos =
     (if pos + 2 > length inp then None
      else Some (push_bit 8 (ucast (inp ! pos)) OR ucast (inp ! (pos + 1)), pos + 2))"

definition ReadU32_be :: "u32 reader" where
  "ReadU32_be inp pos =
     (if pos + 4 > length inp then None
      else Some (push_bit 24 (ucast (inp ! pos)) OR push_bit 16 (ucast (inp ! (pos + 1))) OR
                 push_bit 8 (ucast (inp ! (pos + 2))) OR ucast (inp ! (pos + 3)), pos + 4))"

definition ReadU64_be :: "u64 reader" where
  "ReadU64_be inp pos =
     (if pos + 8 > length inp then None
      else Some (foldl (\<lambda>v i. push_bit 8 v OR ucast (inp ! (pos + i))) 0 [0..<8], pos + 8))"

definition ReadString_be :: "string reader" where
  "ReadString_be inp pos = (case ReadU32_be inp pos of
     None \<Rightarrow> None
   | Some (len, pos1) \<Rightarrow>
       if pos1 + unat len > length inp then None
       else Some (string_of_bytes (take (unat len) (drop pos1 inp)), pos1 + unat len))"

definition ReadOtaState :: "(OtaState \<times> u32 \<times> string) reader" where
  "ReadOtaState inp pos =
     (if pos + 1 > length inp then None
      else (case ReadU32_be inp (pos + 1) of
          None \<Rightarrow> None
        | Some (percent, pos2) \<Rightarrow> (case ReadString_be inp pos2 of
            None \<Rightarrow> None
          | Some (detail, pos3) \<Rightarrow> Some ((ota_state_cast (inp ! pos), percent, detail), pos3))))"

section \<open>They are codecs\<close>

lemma and_FF_ucast: "ucast (w AND 0xFF) = (ucast w :: byte)" for w :: "'a::len word"
proof -
  have *: "w AND 0xFF = take_bit 8 w" by (simp add: take_bit_eq_mask mask_eq_exp_minus_1)
  show ?thesis unfolding * by (rule bit_word_eqI) (simp add: bit_simps)
qed

lemma AppendU16_be_eq: "AppendU16_be out v = out @ be_bytes 2 v"
  by (simp add: AppendU16_be_def be_bytes_def le_bytes_def and_FF_ucast upt_conv_Cons)

lemma AppendU32_be_eq: "AppendU32_be out v = out @ be_bytes 4 v"
  by (simp add: AppendU32_be_def be_bytes_def le_bytes_def and_FF_ucast upt_conv_Cons)

lemma AppendU64_be_eq: "AppendU64_be out v = out @ be_bytes 8 v"
  by (simp add: AppendU64_be_def be_bytes_def le_bytes_def and_FF_ucast upt_conv_Cons)

lemma be_word_Cons: "be_word (bs @ [b]) = ucast b OR push_bit 8 (be_word bs)"
  by (simp add: be_word_def)

lemma be_word_foldl: "be_word bs = foldl (\<lambda>v b. push_bit 8 v OR ucast b) 0 bs"
proof (induction bs rule: rev_induct)
  case (snoc b bs)
  then show ?case by (simp add: be_word_Cons or.commute)
qed (simp add: be_word_def)

lemma take_drop_map: "p + n \<le> length b \<Longrightarrow> take n (drop p b) = map (\<lambda>i. b ! (p + i)) [0..<n]"
  by (simp add: list_eq_iff_nth_eq)

lemma ReadU16_be_eq: "ReadU16_be b p = (if p + 2 > length b then None else Some (be_word (take 2 (drop p b)), p + 2))"
  using take_drop_map [of p 2 b] by (simp add: ReadU16_be_def be_word_foldl upt_conv_Cons)

lemma ReadU32_be_eq: "ReadU32_be b p = (if p + 4 > length b then None else Some (be_word (take 4 (drop p b)), p + 4))"
  using take_drop_map [of p 4 b] by (simp add: ReadU32_be_def be_word_foldl upt_conv_Cons push_bit_or or.assoc numeral_3_eq_3)

lemma ReadU64_be_eq: "ReadU64_be b p = (if p + 8 > length b then None else Some (be_word (take 8 (drop p b)), p + 8))"
  using take_drop_map [of p 8 b] by (simp add: ReadU64_be_def be_word_foldl foldl_map)

interpretation be16: codec "AppendU16_be []" ReadU16_be "\<lambda>_. True"
  by (rule codec_fixed [where f = be_word and n = 2]) (simp_all add: AppendU16_be_eq ReadU16_be_eq codec_simps)

interpretation be32: codec "AppendU32_be []" ReadU32_be "\<lambda>_. True"
  by (rule codec_fixed [where f = be_word and n = 4]) (simp_all add: AppendU32_be_eq ReadU32_be_eq codec_simps)

interpretation be64: codec "AppendU64_be []" ReadU64_be "\<lambda>_. True"
  by (rule codec_fixed [where f = be_word and n = 8]) (simp_all add: AppendU64_be_eq ReadU64_be_eq codec_simps)

lemma AppendU32_be_out: "AppendU32_be out v = out @ AppendU32_be [] v"
  by (simp add: AppendU32_be_def)

lemma AppendU64_be_out: "AppendU64_be out v = out @ AppendU64_be [] v"
  by (simp add: AppendU64_be_eq)

lemma AppendString_be_out: "AppendString_be out s = out @ AppendString_be [] s"
  by (simp add: AppendString_be_def AppendU32_be_def)

lemma length_AppendU32_be [simp]: "length (AppendU32_be out v) = length out + 4"
  by (simp add: AppendU32_be_def)

abbreviation fits_be :: "'a list \<Rightarrow> bool" where "fits_be xs \<equiv> length xs < 2 ^ 32"

definition read_len_be :: "nat reader" where
  "read_len_be b p = map_option (\<lambda>(w, q). (unat w, q)) (ReadU32_be b p)"

interpretation len_be: codec "\<lambda>n. AppendU32_be [] (word_of_nat n)" read_len_be "\<lambda>n. n < 2 ^ 32"
proof
  fix v pre post
  assume "v < (2 ^ 32 :: nat)"
  then show "read_len_be (pre @ AppendU32_be [] (word_of_nat v) @ post) (length pre) =
      Some (v, length pre + length (AppendU32_be [] (word_of_nat v)))"
    using be32.dec_enc [where v = "word_of_nat v" and pre = pre and post = post] by (simp add: read_len_be_def)
next
  fix b p v q
  assume "read_len_be b p = Some (v, q)"
  then show "p \<le> q \<and> q \<le> length b" using be32.dec_inside by (fastforce simp: read_len_be_def)
qed

interpretation str_be: codec "AppendString_be []" ReadString_be fits_be
proof -
  have "codec (AppendString_be []) ReadString_be (\<lambda>s. length (bytes_of_string s) < 2 ^ 32)"
    by (rule codec_counted [OF len_be.codec_axioms, where g = string_of_bytes])
       (auto simp: ReadString_be_def read_len_be_def AppendString_be_def split: option.splits)
  then show "codec (AppendString_be []) ReadString_be fits_be" by simp
qed

text \<open>The enumerators survive the cast.\<close>

abbreviation named_errc :: "Errc \<Rightarrow> bool" where "named_errc e \<equiv> e \<in> set vs_errcs"
abbreviation named_state :: "OtaState \<Rightarrow> bool" where "named_state st \<equiv> st \<in> set ota_states"

lemma vs_errc_cast_code [simp]: "named_errc e \<Longrightarrow> vs_errc_cast (vs_errc_code e) = e"
  by (auto simp: vs_errcs_def vs_errc_cast_def)

lemma ota_state_cast_code [simp]: "named_state st \<Longrightarrow> ota_state_cast (ota_state_code st) = st"
  by (auto simp: ota_states_def ota_state_cast_def)

lemma vs_errc_code_0: "named_errc e \<Longrightarrow> vs_errc_code e = 0 \<longleftrightarrow> e = kSuccess"
  by (auto simp: vs_errcs_def)

definition read_state :: "OtaState reader" where
  "read_state b p = (if p + 1 > length b then None else Some (ota_state_cast (b ! p), p + 1))"

interpretation statec: codec "\<lambda>st. [ota_state_code st]" read_state named_state
  by unfold_locales (auto simp: read_state_def nth_append split: if_splits)

lemma ReadOtaState_triple: "ReadOtaState = dec_triple read_state ReadU32_be ReadString_be"
  by (auto simp: fun_eq_iff ReadOtaState_def dec_triple_def dec_pair_def read_state_def split: option.splits)

lemma AppendOtaState_eq:
  "AppendOtaState [] st pc dt = [ota_state_code st] @ AppendU32_be [] pc @ AppendString_be [] dt"
  unfolding AppendOtaState_def by (metis AppendU32_be_out AppendString_be_out append_Nil append_assoc)

interpretation otastate: codec "\<lambda>(st, pc, dt). AppendOtaState [] st pc dt" ReadOtaState
  "\<lambda>(st, pc, dt). named_state st \<and> fits_be dt"
  using codec_triple [OF statec.codec_axioms be32.codec_axioms str_be.codec_axioms]
  by (simp add: ReadOtaState_triple AppendOtaState_eq)

end
