(* ===== verification/VehicleStatus.thy ===== *)
theory VehicleStatus
  imports VehicleProtocol OtaManager
begin

text \<open>
  The VehicleStatus service (src/src/vehicle_status/): the service over the OTA manager
  (ota_vehicle_status_service.cpp), its skeleton that decodes requests and encodes answers and
  events (vehicle_status_service_skeleton.cpp) and the proxy of a client
  (vehicle_status_proxy.cpp). A request that makes \<open>start_update\<close> block for ever has no answer:
  the service operation is then \<open>None\<close>. The log output of the skeleton is not modelled.
\<close>

section \<open>Service\<close>

record ('s, 'b) vstatus =
  vs_manager :: "('s, 'b) ota"
  vs_image_path :: string
  vs_active_update_id :: string
  vs_update_counter :: u64

definition vstatus_new :: "('s, 'b) ota \<Rightarrow> string \<Rightarrow> ('s, 'b) vstatus" where
  "vstatus_new manager image_path =
     \<lparr>vs_manager = manager, vs_image_path = image_path, vs_active_update_id = [], vs_update_counter = 0\<rparr>"

fun MapState :: "ota_state \<Rightarrow> OtaState" where
  "MapState Idle = kIdle"
| "MapState Checking = kVerifying"
| "MapState Downloading = kDownloading"
| "MapState Verifying = kVerifying"
| "MapState Installing = kInstalling"
| "MapState ReadyToSwitch = kReadyToSwitch"
| "MapState Rebooting = kRebooting"
| "MapState BootVerify = kRebooting"
| "MapState Success = kSuccess_state"
| "MapState Failed = kFailed"
| "MapState Rollback = kRollback"

definition GetStatus :: "('s, 'b) ota_deps \<Rightarrow> ('s, 'b) vstatus \<Rightarrow> Errc \<times> string \<times> string \<times> OtaState" where
  "GetStatus d vs = (kSuccess, vm_current (om_versions (vs_manager vs)),
     so_current_slot (od_slots d) (om_slots (vs_manager vs)), MapState (pr_state (om_progress (vs_manager vs))))"

definition StartUpdate ::
  "string \<Rightarrow> u64 \<Rightarrow> string \<Rightarrow> ('s, 'b) vstatus \<Rightarrow> ((Errc \<times> string) \<times> ('s, 'b) vstatus) option" where
  "StartUpdate version package_size sha256 vs =
     (case ifs_read (vs_image_path vs) (om_fs (vs_manager vs)) of (content, fs1) \<Rightarrow>
      let vs1 = vs\<lparr>vs_manager := (vs_manager vs)\<lparr>om_fs := fs1\<rparr>\<rparr> in
      case content of
        None \<Rightarrow> Some ((kNotFound, []), vs1)
      | Some d \<Rightarrow>
        if word_of_nat (length d) \<noteq> package_size then Some ((kInvalidArgument, []), vs1)
        else (case start_update \<lparr>jb_image = vs_image_path vs, jb_digest = sha256, jb_version = version\<rparr> (vs_manager vs1) of
            None \<Rightarrow> None
          | Some (False, m) \<Rightarrow> Some ((kBusy, []), vs1\<lparr>vs_manager := m\<rparr>)
          | Some (True, m) \<Rightarrow>
              (let counter = vs_update_counter vs + 1; uid = ''update-'' @ to_string (unat counter)
               in Some ((kSuccess, uid), vs1\<lparr>vs_manager := m, vs_active_update_id := uid, vs_update_counter := counter\<rparr>))))"

definition GetProgress :: "string \<Rightarrow> ('s, 'b) vstatus \<Rightarrow> Errc \<times> OtaState \<times> u32 \<times> string" where
  "GetProgress update_id vs =
     (if vs_active_update_id vs = [] \<or> vs_active_update_id vs \<noteq> update_id then (kNotFound, kIdle, 0, [])
      else (let progress = om_progress (vs_manager vs)
            in (kSuccess, MapState (pr_state progress), word_of_int (pr_percent progress), pr_detail progress)))"

definition VsRollback :: "('s, 'b) ota_deps \<Rightarrow> ('s, 'b) vstatus \<Rightarrow> Errc \<times> ('s, 'b) vstatus" where
  "VsRollback d vs = (case rollback d (vs_manager vs) of
     (ok, m) \<Rightarrow> (if \<not> ok then kRollbackFailed else kSuccess, vs\<lparr>vs_manager := m\<rparr>))"

section \<open>Skeleton\<close>

type_synonym ('s, 'b) vs_handler = "bytes \<Rightarrow> ('s, 'b) vstatus \<Rightarrow> (bytes \<times> ('s, 'b) vstatus) option"

definition on_GetStatus :: "('s, 'b) ota_deps \<Rightarrow> ('s, 'b) vs_handler" where
  "on_GetStatus d request vs = (case GetStatus d vs of (errc, version, current_slot, state) \<Rightarrow>
     let response = AppendU32_be [] (vs_errc_code errc)
     in Some (if errc = kSuccess
              then AppendString_be (AppendString_be response version) current_slot @ [ota_state_code state]
              else response, vs))"

definition on_StartUpdate :: "('s, 'b) vs_handler" where
  "on_StartUpdate request vs =
     (case dec_triple ReadString_be ReadU64_be ReadString_be request 0 of
        None \<Rightarrow> Some (AppendU32_be [] (vs_errc_code kInvalidArgument), vs)
      | Some ((version, package_size, sha256), _) \<Rightarrow>
          (case StartUpdate version package_size sha256 vs of
             None \<Rightarrow> None
           | Some ((errc, update_id), vs1) \<Rightarrow>
               (let response = AppendU32_be [] (vs_errc_code errc)
                in Some (if errc = kSuccess then AppendString_be response update_id else response, vs1))))"

definition on_GetProgress :: "('s, 'b) vs_handler" where
  "on_GetProgress request vs =
     (case ReadString_be request 0 of
        None \<Rightarrow> Some (AppendU32_be [] (vs_errc_code kInvalidArgument), vs)
      | Some (update_id, _) \<Rightarrow>
          (case GetProgress update_id vs of (errc, state, percent, detail) \<Rightarrow>
             let response = AppendU32_be [] (vs_errc_code errc)
             in Some (if errc = kSuccess
                      then AppendString_be (AppendU32_be (response @ [ota_state_code state]) percent) detail
                      else response, vs)))"

definition on_VsRollback :: "('s, 'b) ota_deps \<Rightarrow> ('s, 'b) vs_handler" where
  "on_VsRollback d request vs =
     (case VsRollback d vs of (errc, vs1) \<Rightarrow> Some (AppendU32_be [] (vs_errc_code errc), vs1))"

definition VsRegister :: "('s, 'b) ota_deps \<Rightarrow> u16 \<rightharpoonup> ('s, 'b) vs_handler" where
  "VsRegister d = [kMethodGetStatus \<mapsto> on_GetStatus d, kMethodStartUpdate \<mapsto> on_StartUpdate,
     kMethodGetProgress \<mapsto> on_GetProgress, kMethodVsRollback \<mapsto> on_VsRollback d]"

text \<open>An offered event is its identifier with its event groups; a notification goes to every
  registered binding.\<close>

definition RegisterEvent :: "u16 \<times> u16 list" where
  "RegisterEvent = (kEventOtaStateChanged, [kEventGroupId])"

definition NotifyState :: "OtaState \<Rightarrow> u32 \<Rightarrow> string \<Rightarrow> 'bind list \<Rightarrow> ('bind \<times> u16 \<times> bytes) list" where
  "NotifyState state percent detail binds =
     (let data = AppendOtaState [] state percent detail in map (\<lambda>bind. (bind, kEventOtaStateChanged, data)) binds)"

section \<open>Proxy\<close>

type_synonym 'w vs_transport = "u16 \<Rightarrow> bytes \<Rightarrow> 'w \<Rightarrow> bytes option \<times> 'w"

text \<open>What all calls share: no answer, an answer too short for the code, an error code, a value that
  cannot be read.\<close>

definition vs_call :: "'w vs_transport \<Rightarrow> u16 \<Rightarrow> bytes \<Rightarrow> 'a reader \<Rightarrow> 'w \<Rightarrow> (Errc \<times> 'a option) \<times> 'w" where
  "vs_call send method request rd w = (case send method request w of
     (None, w1) \<Rightarrow> ((kInternalError, None), w1)
   | (Some data, w1) \<Rightarrow> (case ReadU32_be data 0 of
       None \<Rightarrow> ((kInternalError, None), w1)
     | Some (errc, pos) \<Rightarrow>
         if errc \<noteq> 0 then ((vs_errc_cast errc, None), w1)
         else (case rd data pos of
             None \<Rightarrow> ((kInternalError, None), w1)
           | Some (v, _) \<Rightarrow> ((kSuccess, Some v), w1))))"

definition proxy_GetStatus :: "'w vs_transport \<Rightarrow> 'w \<Rightarrow> (Errc \<times> (string \<times> string \<times> OtaState) option) \<times> 'w" where
  "proxy_GetStatus send = vs_call send kMethodGetStatus [] (dec_triple ReadString_be ReadString_be read_state)"

definition proxy_StartUpdate :: "'w vs_transport \<Rightarrow> string \<Rightarrow> u64 \<Rightarrow> string \<Rightarrow> 'w \<Rightarrow> (Errc \<times> string option) \<times> 'w" where
  "proxy_StartUpdate send version package_size sha256 = vs_call send kMethodStartUpdate
     (AppendString_be (AppendU64_be (AppendString_be [] version) package_size) sha256) ReadString_be"

definition proxy_GetProgress :: "'w vs_transport \<Rightarrow> string \<Rightarrow> 'w \<Rightarrow> (Errc \<times> (OtaState \<times> u32 \<times> string) option) \<times> 'w" where
  "proxy_GetProgress send update_id = vs_call send kMethodGetProgress (AppendString_be [] update_id)
     (dec_triple read_state ReadU32_be ReadString_be)"

definition proxy_VsRollback :: "'w vs_transport \<Rightarrow> 'w \<Rightarrow> Errc \<times> 'w" where
  "proxy_VsRollback send w = (case send kMethodVsRollback [] w of
     (None, w1) \<Rightarrow> (kInternalError, w1)
   | (Some data, w1) \<Rightarrow> (case ReadU32_be data 0 of
       None \<Rightarrow> (kInternalError, w1)
     | Some (errc, _) \<Rightarrow> (vs_errc_cast errc, w1)))"

text \<open>The handler of a subscription is called with the decoded event, or not at all.\<close>

definition SubscribeOtaStateChanged :: "(OtaState \<Rightarrow> u32 \<Rightarrow> string \<Rightarrow> 'w \<Rightarrow> 'w) \<Rightarrow> bytes \<Rightarrow> 'w \<Rightarrow> 'w" where
  "SubscribeOtaStateChanged handler data w = (case ReadOtaState data 0 of
     None \<Rightarrow> w
   | Some ((state, percent, detail), _) \<Rightarrow> handler state percent detail w)"

section \<open>A transport that delivers\<close>

definition vs_direct :: "('s, 'b) ota_deps \<Rightarrow> ('s, 'b) vstatus vs_transport" where
  "vs_direct d method request vs = (case VsRegister d method of
     None \<Rightarrow> (None, vs)
   | Some h \<Rightarrow> (case h request vs of None \<Rightarrow> (None, vs) | Some (response, vs1) \<Rightarrow> (Some response, vs1)))"

lemma vs_direct_handler:
  "vs_direct d kMethodGetStatus = (\<lambda>req vs. case on_GetStatus d req vs of None \<Rightarrow> (None, vs) | Some (r, vs') \<Rightarrow> (Some r, vs'))"
  "vs_direct d kMethodStartUpdate = (\<lambda>req vs. case on_StartUpdate req vs of None \<Rightarrow> (None, vs) | Some (r, vs') \<Rightarrow> (Some r, vs'))"
  "vs_direct d kMethodGetProgress = (\<lambda>req vs. case on_GetProgress req vs of None \<Rightarrow> (None, vs) | Some (r, vs') \<Rightarrow> (Some r, vs'))"
  "vs_direct d kMethodVsRollback = (\<lambda>req vs. case on_VsRollback d req vs of None \<Rightarrow> (None, vs) | Some (r, vs') \<Rightarrow> (Some r, vs'))"
  by (simp_all add: vs_direct_def VsRegister_def fun_eq_iff vs_method_defs)

lemma read_errc: "ReadU32_be (AppendU32_be [] v @ rest) 0 = Some (v, 4)"
  using be32.dec_enc_start [where v = v and post = rest] by simp

lemma vs_call_error:
  assumes "send m req w = (Some (AppendU32_be [] (vs_errc_code e)), w')" and "named_errc e" and "e \<noteq> kSuccess"
  shows "vs_call send m req rd w = ((e, None), w')"
  using assms read_errc [of "vs_errc_code e" "[]"] by (simp add: vs_call_def vs_errc_code_0)

lemma vs_call_value:
  assumes "codec enc rd ok" and "ok v" and "send m req w = (Some (AppendU32_be [] (vs_errc_code kSuccess) @ enc v), w')"
  shows "vs_call send m req rd w = ((kSuccess, Some v), w')"
proof -
  have "rd (AppendU32_be [] 0 @ enc v @ []) (length (AppendU32_be [] 0)) =
      Some (v, length (AppendU32_be [] 0) + length (enc v))"
    by (rule codec.dec_enc [OF assms(1,2)])
  then show ?thesis using assms(3) read_errc [of 0 "enc v"] by (simp add: vs_call_def)
qed

lemma named_MapState [simp]: "named_state (MapState st)"
  by (cases st) (simp_all add: ota_states_def)

lemma StartUpdate_results:
  assumes "StartUpdate version n sha vs = Some ((e, uid), vs1)"
  shows "named_errc e" and "e = kSuccess \<Longrightarrow> uid = ''update-'' @ to_string (unat (vs_update_counter vs + 1)) \<and>
      vs_active_update_id vs1 = uid \<and> vs_update_counter vs1 = vs_update_counter vs + 1"
  using assms by (auto simp: StartUpdate_def vs_errcs_def Let_def split: prod.splits option.splits if_splits bool.splits)

lemma update_id_fits: "fits_be (''update-'' @ to_string (unat (n :: u64)))"
proof -
  have "unat n < 2 ^ 64" using unsigned_less [of n] by simp
  then have "unat n < 10 ^ Suc 19" by simp
  from length_to_string [OF this] show ?thesis by simp
qed

lemma read_start_request:
  assumes "fits_be version" and "fits_be sha"
  shows "dec_triple ReadString_be ReadU64_be ReadString_be (AppendString_be (AppendU64_be (AppendString_be [] version) n) sha) 0 =
    Some ((version, n, sha), length (AppendString_be [] version @ AppendU64_be [] n @ AppendString_be [] sha))"
proof -
  have "AppendString_be (AppendU64_be (AppendString_be [] version) n) sha =
      AppendString_be [] version @ AppendU64_be [] n @ AppendString_be [] sha"
    by (metis AppendString_be_out AppendU64_be_out append_assoc)
  then show ?thesis
    using codec.dec_enc_only [OF codec_triple [OF str_be.codec_axioms be64.codec_axioms str_be.codec_axioms], of "(version, n, sha)"] assms
    by simp
qed

section \<open>Calls through the proxy\<close>

lemma rpc_GetStatus:
  assumes "fits_be (vm_current (om_versions (vs_manager vs)))"
    and "fits_be (so_current_slot (od_slots d) (om_slots (vs_manager vs)))"
  shows "proxy_GetStatus (vs_direct d) vs = ((kSuccess, Some (snd (GetStatus d vs))), vs)"
proof -
  let ?v = "snd (GetStatus d vs)"
  have r: "AppendString_be (AppendString_be out x) y @ z = out @ AppendString_be [] x @ AppendString_be [] y @ z" for out x y z
    using AppendString_be_out append_assoc by metis
  have "vs_direct d kMethodGetStatus [] vs = (Some (AppendU32_be [] (vs_errc_code kSuccess) @
      (\<lambda>(x, y, z). AppendString_be [] x @ AppendString_be [] y @ [ota_state_code z]) ?v), vs)"
    by (simp add: vs_direct_handler on_GetStatus_def GetStatus_def Let_def r)
  from vs_call_value [OF codec_triple [OF str_be.codec_axioms str_be.codec_axioms statec.codec_axioms], where v = ?v and send = "vs_direct d" and m = kMethodGetStatus and req = "[]" and w = vs, OF _ this] assms
  show ?thesis by (simp add: proxy_GetStatus_def GetStatus_def)
qed

lemma rpc_StartUpdate:
  assumes "fits_be version" and "fits_be sha"
  shows "proxy_StartUpdate (vs_direct d) version n sha vs = (case StartUpdate version n sha vs of
        None \<Rightarrow> ((kInternalError, None), vs)
      | Some ((e, uid), vs1) \<Rightarrow> ((e, if e = kSuccess then Some uid else None), vs1))"
proof (cases "StartUpdate version n sha vs")
  case None
  then show ?thesis
    by (simp add: proxy_StartUpdate_def vs_call_def vs_direct_handler on_StartUpdate_def read_start_request [OF assms])
next
  case (Some a)
  let ?req = "AppendString_be (AppendU64_be (AppendString_be [] version) n) sha"
  obtain e uid vs1 where a: "a = ((e, uid), vs1)" by (metis surj_pair)
  note res = StartUpdate_results [OF Some [unfolded a]]
  have send: "vs_direct d kMethodStartUpdate ?req vs =
      (Some (if e = kSuccess then AppendString_be (AppendU32_be [] (vs_errc_code e)) uid else AppendU32_be [] (vs_errc_code e)), vs1)"
    by (simp add: vs_direct_handler on_StartUpdate_def read_start_request [OF assms] Some a Let_def)
  show ?thesis
  proof (cases "e = kSuccess")
    case True
    have "vs_direct d kMethodStartUpdate ?req vs = (Some (AppendU32_be [] (vs_errc_code kSuccess) @ AppendString_be [] uid), vs1)"
      using send True by (simp add: AppendString_be_out [of "AppendU32_be [] 0"])
    from vs_call_value [OF str_be.codec_axioms, where v = uid and send = "vs_direct d" and m = kMethodStartUpdate and req = ?req and w = vs, OF _ this] res(2) [OF True] update_id_fits [of "vs_update_counter vs + 1"] True
    show ?thesis by (simp add: proxy_StartUpdate_def Some a)
  next
    case False
    with send have "vs_direct d kMethodStartUpdate ?req vs = (Some (AppendU32_be [] (vs_errc_code e)), vs1)" by simp
    from vs_call_error [where send = "vs_direct d" and m = kMethodStartUpdate and req = ?req and w = vs, OF this res(1) False] False show ?thesis by (simp add: proxy_StartUpdate_def Some a)
  qed
qed

lemma rpc_GetProgress:
  assumes "fits_be update_id" and "fits_be (pr_detail (om_progress (vs_manager vs)))"
  shows "proxy_GetProgress (vs_direct d) update_id vs =
      ((fst (GetProgress update_id vs), if fst (GetProgress update_id vs) = kSuccess then Some (snd (GetProgress update_id vs)) else None), vs)"
proof -
  have i: "ReadString_be (AppendString_be [] update_id) 0 = Some (update_id, length (AppendString_be [] update_id))"
    by (rule str_be.dec_enc_only [OF assms(1)])
  show ?thesis
  proof (cases "vs_active_update_id vs = [] \<or> vs_active_update_id vs \<noteq> update_id")
    case True
    then have "vs_direct d kMethodGetProgress (AppendString_be [] update_id) vs = (Some (AppendU32_be [] (vs_errc_code kNotFound)), vs)"
      by (auto simp: vs_direct_handler on_GetProgress_def i GetProgress_def)
    from vs_call_error [where send = "vs_direct d" and m = kMethodGetProgress and req = "AppendString_be [] update_id" and w = vs, OF this] True show ?thesis by (auto simp: proxy_GetProgress_def GetProgress_def vs_errcs_def)
  next
    case False
    let ?val = "snd (GetProgress update_id vs)"
    have o: "AppendString_be (AppendU32_be (out @ [x]) pc) dt = out @ [x] @ AppendU32_be [] pc @ AppendString_be [] dt" for out x pc dt
      using AppendString_be_out AppendU32_be_out append_assoc by metis
    have "vs_direct d kMethodGetProgress (AppendString_be [] update_id) vs =
        (Some (AppendU32_be [] (vs_errc_code kSuccess) @ (\<lambda>(st, pc, dt). [ota_state_code st] @ AppendU32_be [] pc @ AppendString_be [] dt) ?val), vs)"
      using False by (auto simp: vs_direct_handler on_GetProgress_def i GetProgress_def Let_def o)
    from vs_call_value [OF codec_triple [OF statec.codec_axioms be32.codec_axioms str_be.codec_axioms], where v = ?val and send = "vs_direct d" and m = kMethodGetProgress
      and req = "AppendString_be [] update_id" and w = vs, OF _ this] False assms(2)
    show ?thesis by (auto simp: proxy_GetProgress_def GetProgress_def Let_def)
  qed
qed

text \<open>
  The calls of a client through proxy and skeleton are the calls of the service. Over a transport that delivers
  answers, with strings that fit their 32-bit lengths, every call returns the service's error code
  and, on success, its values, and leaves the service as the direct call does; an update request
  on which the service blocks is reported as an internal error.
\<close>

theorem vehicle_rpc_transparent:
  assumes "fits_be version" and "fits_be sha" and "fits_be update_id"
    and "fits_be (vm_current (om_versions (vs_manager vs)))"
    and "fits_be (so_current_slot (od_slots d) (om_slots (vs_manager vs)))"
    and "fits_be (pr_detail (om_progress (vs_manager vs)))"
  shows "proxy_GetStatus (vs_direct d) vs = ((kSuccess, Some (snd (GetStatus d vs))), vs) \<and>
    proxy_StartUpdate (vs_direct d) version n sha vs = (case StartUpdate version n sha vs of
        None \<Rightarrow> ((kInternalError, None), vs)
      | Some ((e, uid), vs1) \<Rightarrow> ((e, if e = kSuccess then Some uid else None), vs1)) \<and>
    proxy_GetProgress (vs_direct d) update_id vs =
      ((fst (GetProgress update_id vs), if fst (GetProgress update_id vs) = kSuccess then Some (snd (GetProgress update_id vs)) else None), vs) \<and>
    proxy_VsRollback (vs_direct d) vs = VsRollback d vs"
proof -
  have "proxy_VsRollback (vs_direct d) vs = VsRollback d vs"
    using read_errc [of _ "[]"]
    by (auto simp: proxy_VsRollback_def vs_direct_handler on_VsRollback_def VsRollback_def vs_errcs_def split: prod.split)
  then show ?thesis
    using rpc_GetStatus [OF assms(4,5)] rpc_StartUpdate [OF assms(1,2)] rpc_GetProgress [OF assms(3,6)] by blast
qed

definition ex_vstatus :: "(mock_slots, mock_boot) vstatus" where
  "ex_vstatus = vstatus_new ex_ota ''/i''"

theorem vehicle_rpc_transparent_witness:
  "proxy_StartUpdate (vs_direct ex_deps) ''2'' 4 ''01020304'' ex_vstatus = (case StartUpdate ''2'' 4 ''01020304'' ex_vstatus of
        None \<Rightarrow> ((kInternalError, None), ex_vstatus)
      | Some ((e, uid), vs1) \<Rightarrow> ((e, if e = kSuccess then Some uid else None), vs1)) \<and>
   map_option (\<lambda>r. fst (fst r)) (StartUpdate ''2'' 4 ''01020304'' ex_vstatus) = Some kSuccess"
proof -
  have "pr_detail (om_progress (vs_manager ex_vstatus)) = []" by code_simp
  moreover have "map_option (\<lambda>r. fst (fst r)) (StartUpdate ''2'' 4 ''01020304'' ex_vstatus) = Some kSuccess" by code_simp
  moreover have "vm_current (om_versions (vs_manager ex_vstatus)) = ''1''"
    "so_current_slot (od_slots ex_deps) (om_slots (vs_manager ex_vstatus)) = ''A''"
    by (simp_all add: ex_vstatus_def vstatus_new_def ex_deps_def mock_ops_def)
  ultimately show ?thesis
    using vehicle_rpc_transparent [of "''2''" "''01020304''" "[]" ex_vstatus ex_deps 4] by simp
qed

section \<open>Events and update identifiers\<close>

text \<open>Every binding of the service is notified, and a subscriber gets the state that was reported.\<close>

lemma notification_arrives:
  assumes "named_state st" and "fits_be dt" and "(bind, ev, data) \<in> set (NotifyState st pc dt binds)"
  shows "bind \<in> set binds \<and> ev = fst RegisterEvent \<and> SubscribeOtaStateChanged h data w = h st pc dt w"
  using assms otastate.dec_enc_only [of "(st, pc, dt)"]
  by (auto simp: NotifyState_def RegisterEvent_def SubscribeOtaStateChanged_def)

definition vstatus_inv :: "('s, 'b) vstatus \<Rightarrow> bool" where
  "vstatus_inv vs \<longleftrightarrow> vs_active_update_id vs = [] \<or>
     vs_active_update_id vs = ''update-'' @ to_string (unat (vs_update_counter vs))"

text \<open>
  An accepted update request hands the image to the OTA manager as one job with the given digest and
  version, only if the image has the announced size, and returns a new identifier; from then on
  progress is reported under that identifier only, and it is the manager's progress. The invariant on
  the identifiers is kept by every call.
\<close>

theorem accepted_update_is_tracked:
  assumes "StartUpdate version n sha vs = Some ((e, uid), vs1)" and "vstatus_inv vs"
  shows "vstatus_inv vs1 \<and> vstatus_inv (snd (VsRollback d vs)) \<and>
    (e = kSuccess \<longrightarrow> uid \<noteq> vs_active_update_id vs \<and>
       (\<exists>content fs1. ifs_read (vs_image_path vs) (om_fs (vs_manager vs)) = (Some content, fs1) \<and> word_of_nat (length content) = n \<and>
          start_update \<lparr>jb_image = vs_image_path vs, jb_digest = sha, jb_version = version\<rparr> ((vs_manager vs)\<lparr>om_fs := fs1\<rparr>) =
            Some (True, vs_manager vs1)) \<and>
       (\<forall>u. GetProgress u vs1 = (if u = uid
          then (kSuccess, MapState (pr_state (om_progress (vs_manager vs1))), word_of_int (pr_percent (om_progress (vs_manager vs1))),
                pr_detail (om_progress (vs_manager vs1)))
          else (kNotFound, kIdle, 0, [])))) \<and>
    (e \<noteq> kSuccess \<longrightarrow> vs_active_update_id vs1 = vs_active_update_id vs \<and> om_worker (vs_manager vs1) = om_worker (vs_manager vs))"
proof -
  have fresh: "''update-'' @ to_string (unat (vs_update_counter vs + 1)) \<noteq> vs_active_update_id vs"
    using assms(2) by (auto simp: vstatus_inv_def simp flip: word_unat_eq_iff)
  have "vstatus_inv (snd (VsRollback d vs))"
    using assms(2) by (simp add: vstatus_inv_def VsRollback_def split: prod.split)
  moreover have "vstatus_inv vs1"
    using assms by (auto simp: StartUpdate_def vstatus_inv_def Let_def split: prod.splits option.splits if_splits bool.splits)
  moreover have "e \<noteq> kSuccess \<Longrightarrow> vs_active_update_id vs1 = vs_active_update_id vs \<and> om_worker (vs_manager vs1) = om_worker (vs_manager vs)"
    using assms(1) by (auto simp: StartUpdate_def start_update_def Let_def split: prod.splits option.splits if_splits bool.splits)
  moreover have "\<exists>content fs1. ifs_read (vs_image_path vs) (om_fs (vs_manager vs)) = (Some content, fs1) \<and> word_of_nat (length content) = n \<and>
      start_update \<lparr>jb_image = vs_image_path vs, jb_digest = sha, jb_version = version\<rparr> ((vs_manager vs)\<lparr>om_fs := fs1\<rparr>) =
        Some (True, vs_manager vs1)" if "e = kSuccess"
    using assms(1) that by (auto simp: StartUpdate_def Let_def split: prod.splits option.splits if_splits bool.splits)
  ultimately show ?thesis
    using StartUpdate_results(2) [OF assms(1)] fresh by (auto simp: GetProgress_def Let_def)
qed

theorem accepted_update_is_tracked_witness:
  "\<exists>uid vs1. StartUpdate ''2'' 4 ''01020304'' ex_vstatus = Some ((kSuccess, uid), vs1) \<and> uid \<noteq> [] \<and>
     fst (GetProgress uid vs1) = kSuccess \<and> fst (GetProgress ''update-7'' vs1) = kNotFound"
proof -
  have "map_option (\<lambda>r. fst r) (StartUpdate ''2'' 4 ''01020304'' ex_vstatus) = Some (kSuccess, ''update-1'')" by code_simp
  then obtain vs1 where s: "StartUpdate ''2'' 4 ''01020304'' ex_vstatus = Some ((kSuccess, ''update-1''), vs1)" by auto
  have i: "vstatus_inv ex_vstatus" by (simp add: ex_vstatus_def vstatus_new_def vstatus_inv_def)
  from accepted_update_is_tracked [OF s i] s show ?thesis by auto
qed

end
