(* ===== verification/DoipFrame.thy ===== *)
theory DoipFrame
  imports Codec
begin

text \<open>
  DoIP frames and the receive side of a connection (src/src/doip/doip_frame.h and .cpp,
  doip_types.h, doip_connection.h and .cpp). Frames are lists of bytes; \<open>build_frame\<close> returns
  the bytes it wrote, none when the buffer is too small. Clock readings are milliseconds and are
  given to the operations that take them.
\<close>

section \<open>Constants\<close>

definition kProtocolVersion :: byte where "kProtocolVersion = 0x02"
definition kHeaderSize :: nat where "kHeaderSize = 8"
definition kMaxPayloadLength :: u32 where "kMaxPayloadLength = 0x00FFFFFF"

datatype PayloadType =
  kGenericNack | kVehicleIdentificationRequest | kVehicleIdentificationRequestEid
| kVehicleIdentificationRequestVin | kVehicleAnnouncement | kRoutingActivationRequest
| kRoutingActivationResponse | kAliveCheckRequest | kAliveCheckResponse | kEntityStatusRequest
| kEntityStatusResponse | kPowerModeRequest | kPowerModeResponse | kDiagMessage
| kDiagMessagePositiveAck | kDiagMessageNegativeAck

fun payload_code :: "PayloadType \<Rightarrow> u16" where
  "payload_code kGenericNack = 0x0000"
| "payload_code kVehicleIdentificationRequest = 0x0001"
| "payload_code kVehicleIdentificationRequestEid = 0x0002"
| "payload_code kVehicleIdentificationRequestVin = 0x0003"
| "payload_code kVehicleAnnouncement = 0x0004"
| "payload_code kRoutingActivationRequest = 0x0005"
| "payload_code kRoutingActivationResponse = 0x0006"
| "payload_code kAliveCheckRequest = 0x0007"
| "payload_code kAliveCheckResponse = 0x0008"
| "payload_code kEntityStatusRequest = 0x4001"
| "payload_code kEntityStatusResponse = 0x4002"
| "payload_code kPowerModeRequest = 0x4003"
| "payload_code kPowerModeResponse = 0x4004"
| "payload_code kDiagMessage = 0x8001"
| "payload_code kDiagMessagePositiveAck = 0x8002"
| "payload_code kDiagMessageNegativeAck = 0x8003"

datatype GenericNackCode =
  kInvalidProtocolVersion | kUnsupportedPayloadType | kGenericMessageTooLarge | kGenericOutOfMemory
| kInvalidPayloadLength

fun generic_nack_code :: "GenericNackCode \<Rightarrow> byte" where
  "generic_nack_code kInvalidProtocolVersion = 0x00"
| "generic_nack_code kUnsupportedPayloadType = 0x01"
| "generic_nack_code kGenericMessageTooLarge = 0x02"
| "generic_nack_code kGenericOutOfMemory = 0x03"
| "generic_nack_code kInvalidPayloadLength = 0x04"

datatype RoutingActivationCode =
  kUnknownSourceAddress | kAllSocketsActive | kDifferentSourceOnSocket | kSourceAlreadyActive
| kMissingAuthentication | kRejectedConfirmation | kUnsupportedActivationType | kRequiresTls
| kRoutingSuccess | kConfirmationRequired

fun routing_code :: "RoutingActivationCode \<Rightarrow> byte" where
  "routing_code kUnknownSourceAddress = 0x00"
| "routing_code kAllSocketsActive = 0x01"
| "routing_code kDifferentSourceOnSocket = 0x02"
| "routing_code kSourceAlreadyActive = 0x03"
| "routing_code kMissingAuthentication = 0x04"
| "routing_code kRejectedConfirmation = 0x05"
| "routing_code kUnsupportedActivationType = 0x06"
| "routing_code kRequiresTls = 0x07"
| "routing_code kRoutingSuccess = 0x10"
| "routing_code kConfirmationRequired = 0x11"

datatype DiagNackCode =
  kInvalidSourceAddress | kUnknownTargetAddress | kDiagMessageTooLarge | kDiagOutOfMemory
| kTargetUnreachable | kUnknownNetwork | kTransportProtocolError

fun diag_nack_code :: "DiagNackCode \<Rightarrow> byte" where
  "diag_nack_code kInvalidSourceAddress = 0x02"
| "diag_nack_code kUnknownTargetAddress = 0x03"
| "diag_nack_code kDiagMessageTooLarge = 0x04"
| "diag_nack_code kDiagOutOfMemory = 0x05"
| "diag_nack_code kTargetUnreachable = 0x06"
| "diag_nack_code kUnknownNetwork = 0x07"
| "diag_nack_code kTransportProtocolError = 0x08"

section \<open>Frames\<close>

record Header =
  hd_version :: byte
  hd_inverse_version :: byte
  hd_payload_type :: u16
  hd_payload_length :: u32

definition parse_header :: "bytes \<Rightarrow> Header option" where
  "parse_header data =
     (if length data < kHeaderSize then None
      else Some \<lparr>hd_version = data ! 0, hd_inverse_version = data ! 1,
        hd_payload_type = push_bit 8 (ucast (data ! 2)) OR ucast (data ! 3),
        hd_payload_length = push_bit 24 (ucast (data ! 4)) OR push_bit 16 (ucast (data ! 5)) OR
          push_bit 8 (ucast (data ! 6)) OR ucast (data ! 7)\<rparr>)"

definition frame_header :: "u16 \<Rightarrow> u64 \<Rightarrow> bytes" where
  "frame_header payload_type payload_len =
     [kProtocolVersion, NOT kProtocolVersion, ucast (drop_bit 8 payload_type), ucast (payload_type AND 0xFF),
      ucast (drop_bit 24 payload_len AND 0xFF), ucast (drop_bit 16 payload_len AND 0xFF),
      ucast (drop_bit 8 payload_len AND 0xFF), ucast (payload_len AND 0xFF)]"

definition build_frame :: "nat \<Rightarrow> u16 \<Rightarrow> bytes \<Rightarrow> bytes" where
  "build_frame capacity payload_type payload =
     (if capacity < kHeaderSize + length payload then []
      else frame_header payload_type (word_of_nat (length payload)) @ payload)"

definition read_be16 :: "bytes \<Rightarrow> u16" where
  "read_be16 p = push_bit 8 (ucast (p ! 0)) OR ucast (p ! 1)"

definition write_be16 :: "u16 \<Rightarrow> bytes" where
  "write_be16 v = [ucast (drop_bit 8 v), ucast (v AND 0xFF)]"

definition write_be32 :: "u32 \<Rightarrow> bytes" where
  "write_be32 v = [ucast (drop_bit 24 v AND 0xFF), ucast (drop_bit 16 v AND 0xFF),
     ucast (drop_bit 8 v AND 0xFF), ucast (v AND 0xFF)]"

text \<open>The test of the two version bytes, as it is written in the TCP and the UDP path.\<close>

definition version_ok :: "Header \<Rightarrow> bool" where
  "version_ok h \<longleftrightarrow> \<not> (hd_version h \<noteq> kProtocolVersion \<or> hd_inverse_version h \<noteq> NOT (hd_version h))"

section \<open>Connections\<close>

datatype DoipConnectionState = kInitialized | kAuthentication | kConfirmation | kActive | kFinalize

record DoipFrame =
  fr_payload_type :: u16
  fr_payload :: bytes

record DoipConnection =
  dc_fd :: int
  dc_rx :: bytes
  dc_state :: DoipConnectionState
  dc_tester_address :: u16
  dc_activation_type :: byte
  dc_initial_deadline :: int
  dc_general_deadline :: int
  dc_alive_sent_at :: int
  dc_alive_pending :: bool

definition conn_new :: "int \<Rightarrow> DoipConnection" where
  "conn_new fd = \<lparr>dc_fd = fd, dc_rx = [], dc_state = kInitialized, dc_tester_address = 0,
     dc_activation_type = 0, dc_initial_deadline = 0, dc_general_deadline = 0, dc_alive_sent_at = 0,
     dc_alive_pending = False\<rparr>"

definition conn_append :: "bytes \<Rightarrow> DoipConnection \<Rightarrow> DoipConnection" where
  "conn_append data c = c\<lparr>dc_rx := dc_rx c @ data\<rparr>"

definition peek_header :: "DoipConnection \<Rightarrow> Header option" where
  "peek_header c = (if length (dc_rx c) < kHeaderSize then None else parse_header (dc_rx c))"

definition next_frame :: "DoipConnection \<Rightarrow> DoipFrame option" where
  "next_frame c = (case peek_header c of
     None \<Rightarrow> None
   | Some h \<Rightarrow>
       if hd_payload_length h > kMaxPayloadLength then None
       else (let total = kHeaderSize + unat (hd_payload_length h) in
         if length (dc_rx c) < total then None
         else Some \<lparr>fr_payload_type = hd_payload_type h,
                    fr_payload = take (total - kHeaderSize) (drop kHeaderSize (dc_rx c))\<rparr>))"

definition next_frame_total :: "DoipConnection \<Rightarrow> nat" where
  "next_frame_total c = (case peek_header c of
     None \<Rightarrow> 0
   | Some h \<Rightarrow> if hd_payload_length h > kMaxPayloadLength then 0
              else kHeaderSize + unat (hd_payload_length h))"

definition consume :: "nat \<Rightarrow> DoipConnection \<Rightarrow> DoipConnection" where
  "consume n c = (if n \<ge> length (dc_rx c) then c\<lparr>dc_rx := []\<rparr> else c\<lparr>dc_rx := drop n (dc_rx c)\<rparr>)"

definition routing_active :: "DoipConnection \<Rightarrow> bool" where
  "routing_active c \<longleftrightarrow> dc_state c = kActive"

definition set_state :: "DoipConnectionState \<Rightarrow> DoipConnection \<Rightarrow> DoipConnection" where
  "set_state st c = c\<lparr>dc_state := st\<rparr>"

definition set_routing_active :: "u16 \<Rightarrow> byte \<Rightarrow> DoipConnection \<Rightarrow> DoipConnection" where
  "set_routing_active tester activation_type c =
     c\<lparr>dc_state := kActive, dc_tester_address := tester, dc_activation_type := activation_type\<rparr>"

definition arm_initial_inactivity :: "int \<Rightarrow> int \<Rightarrow> DoipConnection \<Rightarrow> DoipConnection" where
  "arm_initial_inactivity now duration c = c\<lparr>dc_initial_deadline := now + duration\<rparr>"

definition arm_general_inactivity :: "int \<Rightarrow> int \<Rightarrow> DoipConnection \<Rightarrow> DoipConnection" where
  "arm_general_inactivity now duration c = c\<lparr>dc_general_deadline := now + duration\<rparr>"

definition touch :: "int \<Rightarrow> int \<Rightarrow> DoipConnection \<Rightarrow> DoipConnection" where
  "touch now general_inactivity c =
     (if dc_state c = kActive then arm_general_inactivity now general_inactivity c else c)"

definition arm_alive_check :: "int \<Rightarrow> int \<Rightarrow> DoipConnection \<Rightarrow> DoipConnection" where
  "arm_alive_check now duration c =
     c\<lparr>dc_alive_pending := True, dc_alive_sent_at := now, dc_general_deadline := now + duration\<rparr>"

definition clear_alive_check :: "DoipConnection \<Rightarrow> DoipConnection" where
  "clear_alive_check c = c\<lparr>dc_alive_pending := False, dc_alive_sent_at := 0\<rparr>"

definition initial_inactivity_expired :: "int \<Rightarrow> DoipConnection \<Rightarrow> bool" where
  "initial_inactivity_expired now c \<longleftrightarrow> now \<ge> dc_initial_deadline c"

definition general_inactivity_expired :: "int \<Rightarrow> DoipConnection \<Rightarrow> bool" where
  "general_inactivity_expired now c \<longleftrightarrow> now \<ge> dc_general_deadline c"

definition alive_timeout :: "int \<Rightarrow> int \<Rightarrow> DoipConnection \<Rightarrow> bool" where
  "alive_timeout now duration c \<longleftrightarrow> dc_alive_pending c \<and> now \<ge> dc_alive_sent_at c + duration"

section \<open>Round trips\<close>

lemma ucast_and_FF: "ucast (w AND 0xFF) = (ucast w :: byte)" for w :: "'a::len word"
proof -
  have *: "w AND 0xFF = take_bit 8 w" by (simp add: take_bit_eq_mask mask_eq_exp_minus_1)
  show ?thesis unfolding * by (rule bit_word_eqI) (simp add: bit_simps)
qed

lemma bytes_of_word32:
  fixes v :: u32
  shows "push_bit 24 (ucast (ucast (drop_bit 24 v) :: byte)) OR push_bit 16 (ucast (ucast (drop_bit 16 v) :: byte)) OR
    push_bit 8 (ucast (ucast (drop_bit 8 v) :: byte)) OR ucast (ucast v :: byte) = v" (is "?l = v")
proof (rule bit_word_eqI)
  fix n assume "n < LENGTH(32)"
  then have n: "n < 32" by simp
  consider "n < 8" | "8 \<le> n" "n < 16" | "16 \<le> n" "n < 24" | "24 \<le> n" by linarith
  then show "bit ?l n = bit v n"
    using n by cases (auto simp: bit_simps)
qed

lemma bytes_of_word16:
  fixes v :: u16
  shows "push_bit 8 (ucast (ucast (drop_bit 8 v) :: byte)) OR ucast (ucast v :: byte) = v" (is "?l = v")
proof (rule bit_word_eqI)
  fix n assume "n < LENGTH(16)"
  then have n: "n < 16" by simp
  consider "n < 8" | "8 \<le> n" by linarith
  then show "bit ?l n = bit v n"
    using n by cases (auto simp: bit_simps)
qed

lemma read_write_be16 [simp]: "read_be16 (write_be16 v @ rest) = v"
  using bytes_of_word16 [of v] by (simp add: read_be16_def write_be16_def ucast_and_FF)

lemma length_frame_header [simp]: "length (frame_header t n) = 8"
  by (simp add: frame_header_def)

lemma parse_frame_header:
  assumes "n < 2 ^ 32"
  shows "parse_header (frame_header t (word_of_nat n) @ rest) =
    Some \<lparr>hd_version = kProtocolVersion, hd_inverse_version = NOT kProtocolVersion, hd_payload_type = t,
          hd_payload_length = word_of_nat n\<rparr>"
proof -
  let ?w = "word_of_nat n :: u32"
  have b: "(ucast (drop_bit k (word_of_nat n :: u64)) :: byte) = ucast (drop_bit k ?w)" if "k \<le> 24" for k
    using that by (simp add: bit_eq_iff bit_simps)
  show ?thesis
    using b [of 24] b [of 16] b [of 8] b [of 0] bytes_of_word32 [of ?w] bytes_of_word16 [of t]
    by (simp add: parse_header_def frame_header_def kHeaderSize_def ucast_and_FF)
qed

lemma next_frame_built:
  assumes "length payload \<le> 0xFFFFFF" and "dc_rx c = frame_header t (word_of_nat (length payload)) @ payload @ rest"
  shows "next_frame c = Some \<lparr>fr_payload_type = t, fr_payload = payload\<rparr> \<and>
    next_frame_total c = 8 + length payload \<and> dc_rx (consume (next_frame_total c) c) = rest"
proof -
  have l: "length payload < 2 ^ 32" using assms(1) by simp
  have u: "unat (word_of_nat (length payload) :: u32) = length payload" using l by (rule unat_of_nat_u32)
  have m: "\<not> kMaxPayloadLength < word_of_nat (length payload)"
    using assms(1) u by (simp add: kMaxPayloadLength_def word_less_nat_alt)
  have p: "peek_header c = Some \<lparr>hd_version = kProtocolVersion, hd_inverse_version = NOT kProtocolVersion,
      hd_payload_type = t, hd_payload_length = word_of_nat (length payload)\<rparr>"
    using parse_frame_header [OF l, of t "payload @ rest"] assms(2) by (simp add: peek_header_def kHeaderSize_def)
  show ?thesis
    using m assms(2) by (simp add: next_frame_def next_frame_total_def p u kHeaderSize_def Let_def consume_def)
qed

text \<open>
  A frame that fits its buffer is received as it was sent: the header parses to the protocol
  version, the payload type and the length; a connection whose buffer starts with it delivers
  exactly that frame and, after consuming it, continues with the bytes that follow. A payload that
  does not fit is not sent at all.
\<close>

theorem doip_frame_roundtrip:
  assumes "length payload \<le> 0xFFFFFF" and "dc_rx c = build_frame capacity t payload @ rest"
    and "8 + length payload \<le> capacity"
  shows "next_frame c = Some \<lparr>fr_payload_type = t, fr_payload = payload\<rparr> \<and>
    dc_rx (consume (next_frame_total c) c) = rest \<and>
    (\<exists>h. peek_header c = Some h \<and> version_ok h \<and> hd_payload_type h = t \<and>
         unat (hd_payload_length h) = length payload) \<and>
    (capacity' < 8 + length payload \<longrightarrow> build_frame capacity' t payload = [])"
proof -
  have r: "dc_rx c = frame_header t (word_of_nat (length payload)) @ payload @ rest"
    using assms(2,3) by (simp add: build_frame_def kHeaderSize_def)
  have l: "length payload < 2 ^ 32" using assms(1) by simp
  have "peek_header c = Some \<lparr>hd_version = kProtocolVersion, hd_inverse_version = NOT kProtocolVersion,
      hd_payload_type = t, hd_payload_length = word_of_nat (length payload)\<rparr>"
    using parse_frame_header [OF l, of t "payload @ rest"] r by (simp add: peek_header_def kHeaderSize_def)
  then show ?thesis
    using next_frame_built [OF assms(1) r] l by (auto simp: version_ok_def build_frame_def kHeaderSize_def)
qed

theorem doip_frame_roundtrip_witness:
  "next_frame ((conn_new 3)\<lparr>dc_rx := build_frame 100 0x8001 [1, 2, 3] @ [9]\<rparr>) =
     Some \<lparr>fr_payload_type = 0x8001, fr_payload = [1, 2, 3]\<rparr> \<and> build_frame 10 0x8001 [1, 2, 3] = []"
  using doip_frame_roundtrip [of "[1, 2, 3]" "(conn_new 3)\<lparr>dc_rx := build_frame 100 0x8001 [1, 2, 3] @ [9]\<rparr>" 100 "0x8001" "[9]" 10]
  by simp

end
