(* ===== verification/DoipRouting.thy ===== *)
theory DoipRouting
  imports DoipFrame "HOL-Library.AList"
begin

text \<open>
  The routing table of the DoIP server (src/src/doip/doip_routing_table.h and .cpp): two hash
  maps, tester address to socket and socket to tester address. What the server relies on is the
  locale \<open>routing\<close>: the two maps are inverse to each other, so an address is active on at most one
  socket and a socket has at most one address, and the count is the number of active sockets.
\<close>

record DoipRoutingTable =
  rt_address_to_fd :: "(u16 \<times> int) list"
  rt_fd_to_address :: "(int \<times> u16) list"

definition rt_empty :: DoipRoutingTable where
  "rt_empty = \<lparr>rt_address_to_fd = [], rt_fd_to_address = []\<rparr>"

definition rt_is_active :: "u16 \<Rightarrow> DoipRoutingTable \<Rightarrow> bool" where
  "rt_is_active tester t \<longleftrightarrow> map_of (rt_address_to_fd t) tester \<noteq> None"

definition fd_for :: "u16 \<Rightarrow> DoipRoutingTable \<Rightarrow> int" where
  "fd_for tester t = (case map_of (rt_address_to_fd t) tester of None \<Rightarrow> -1 | Some fd \<Rightarrow> fd)"

definition deactivate :: "int \<Rightarrow> DoipRoutingTable \<Rightarrow> DoipRoutingTable" where
  "deactivate fd t = (case map_of (rt_fd_to_address t) fd of
     None \<Rightarrow> t
   | Some a \<Rightarrow> \<lparr>rt_address_to_fd = AList.delete a (rt_address_to_fd t),
               rt_fd_to_address = AList.delete fd (rt_fd_to_address t)\<rparr>)"

definition deactivate_address :: "u16 \<Rightarrow> DoipRoutingTable \<Rightarrow> DoipRoutingTable" where
  "deactivate_address tester t = (case map_of (rt_address_to_fd t) tester of
     None \<Rightarrow> t
   | Some fd \<Rightarrow> \<lparr>rt_address_to_fd = AList.delete tester (rt_address_to_fd t),
                rt_fd_to_address = AList.delete fd (rt_fd_to_address t)\<rparr>)"

definition activate :: "int \<Rightarrow> u16 \<Rightarrow> DoipRoutingTable \<Rightarrow> DoipRoutingTable" where
  "activate fd tester t =
     (let t2 = deactivate_address tester (deactivate fd t)
      in \<lparr>rt_address_to_fd = AList.update tester fd (rt_address_to_fd t2),
          rt_fd_to_address = AList.update fd tester (rt_fd_to_address t2)\<rparr>)"

definition active_count :: "DoipRoutingTable \<Rightarrow> nat" where
  "active_count t = length (rt_address_to_fd t)"

definition at_capacity :: "byte \<Rightarrow> DoipRoutingTable \<Rightarrow> bool" where
  "at_capacity max_open_sockets t \<longleftrightarrow> active_count t \<ge> unat max_open_sockets"

section \<open>What the server relies on\<close>

locale routing =
  fixes addr_of :: "'t \<Rightarrow> int \<rightharpoonup> u16"
    and fd_of :: "'t \<Rightarrow> u16 \<rightharpoonup> int"
    and count :: "'t \<Rightarrow> nat"
    and act :: "int \<Rightarrow> u16 \<Rightarrow> 't \<Rightarrow> 't"
    and deact :: "int \<Rightarrow> 't \<Rightarrow> 't"
    and inv :: "'t \<Rightarrow> bool"
  assumes inverse: "inv t \<Longrightarrow> fd_of t a = Some fd \<longleftrightarrow> addr_of t fd = Some a"
    and count_card: "inv t \<Longrightarrow> finite (dom (addr_of t)) \<and> count t = card (dom (addr_of t))"
    and inv_act: "inv t \<Longrightarrow> inv (act fd a t)"
    and inv_deact: "inv t \<Longrightarrow> inv (deact fd t)"
    and addr_act: "inv t \<Longrightarrow> addr_of (act fd a t) =
      (\<lambda>f. if f = fd then Some a else if addr_of t f = Some a then None else addr_of t f)"
    and addr_deact: "inv t \<Longrightarrow> addr_of (deact fd t) = (addr_of t)(fd := None)"
begin

lemma one_socket_per_address: "inv t \<Longrightarrow> addr_of t f = Some a \<Longrightarrow> addr_of t g = Some a \<Longrightarrow> f = g"
  using inverse [of t a f] inverse [of t a g] by simp

lemma count_deact: "inv t \<Longrightarrow> count (deact fd t) \<le> count t"
proof -
  assume i: "inv t"
  have "dom (addr_of (deact fd t)) \<subseteq> dom (addr_of t)" by (auto simp: addr_deact [OF i])
  then show ?thesis using count_card [OF i] count_card [OF inv_deact [OF i]] by (simp add: card_mono)
qed

lemma count_act_new: "inv t \<Longrightarrow> count (act fd a t) \<le> Suc (count t)"
proof -
  assume i: "inv t"
  have "dom (addr_of (act fd a t)) \<subseteq> insert fd (dom (addr_of t))" by (auto simp: addr_act [OF i] split: if_splits)
  then have "card (dom (addr_of (act fd a t))) \<le> card (insert fd (dom (addr_of t)))"
    using count_card [OF i] by (intro card_mono) auto
  also have "\<dots> \<le> Suc (card (dom (addr_of t)))" using count_card [OF i] by (simp add: card_insert_if)
  finally show ?thesis using count_card [OF i] count_card [OF inv_act [OF i]] by simp
qed

lemma count_act_again: "inv t \<Longrightarrow> addr_of t fd \<noteq> None \<Longrightarrow> count (act fd a t) \<le> count t"
proof -
  assume i: "inv t" and a: "addr_of t fd \<noteq> None"
  have "dom (addr_of (act fd a t)) \<subseteq> dom (addr_of t)" using a by (auto simp: addr_act [OF i] split: if_splits)
  then show ?thesis using count_card [OF i] count_card [OF inv_act [OF i]] by (simp add: card_mono)
qed

end

section \<open>The two hash maps provide it\<close>

definition rt_inv :: "DoipRoutingTable \<Rightarrow> bool" where
  "rt_inv t \<longleftrightarrow> distinct (map fst (rt_address_to_fd t)) \<and> distinct (map fst (rt_fd_to_address t)) \<and>
     (\<forall>a fd. map_of (rt_address_to_fd t) a = Some fd \<longleftrightarrow> map_of (rt_fd_to_address t) fd = Some a)"

lemma inverse_delete:
  assumes "\<forall>a f. A a = Some f \<longleftrightarrow> F f = Some a" and "F fd = Some x"
  shows "\<forall>a f. (A(x := None)) a = Some f \<longleftrightarrow> (F(fd := None)) f = Some a"
  using assms by (metis fun_upd_apply option.distinct(1) option.inject)

lemma rt_inv_deactivate:
  assumes "rt_inv t"
  shows "rt_inv (deactivate fd t) \<and> map_of (rt_fd_to_address (deactivate fd t)) = (map_of (rt_fd_to_address t))(fd := None)"
proof (cases "map_of (rt_fd_to_address t) fd")
  case None
  with assms show ?thesis by (auto simp: deactivate_def)
next
  case (Some a)
  have "\<forall>a f. map_of (rt_address_to_fd t) a = Some f \<longleftrightarrow> map_of (rt_fd_to_address t) f = Some a"
    using assms unfolding rt_inv_def by blast
  from inverse_delete [OF this Some] Some assms show ?thesis
    by (simp add: rt_inv_def deactivate_def delete_conv' distinct_delete del: map_of_eq_Some_iff fun_upd_apply)
qed

lemma rt_inv_deactivate_address:
  assumes "rt_inv t"
  shows "rt_inv (deactivate_address a t) \<and> map_of (rt_fd_to_address (deactivate_address a t)) =
    (\<lambda>f. if map_of (rt_fd_to_address t) f = Some a then None else map_of (rt_fd_to_address t) f)"
proof (cases "map_of (rt_address_to_fd t) a")
  case None
  have "map_of (rt_fd_to_address t) f \<noteq> Some a" for f using None assms unfolding rt_inv_def by fastforce
  with None assms show ?thesis by (simp add: deactivate_address_def fun_eq_iff)
next
  case (Some fd)
  have i: "\<forall>a f. map_of (rt_address_to_fd t) a = Some f \<longleftrightarrow> map_of (rt_fd_to_address t) f = Some a"
    using assms unfolding rt_inv_def by blast
  then have fd: "map_of (rt_fd_to_address t) fd = Some a" using Some by blast
  then have "(map_of (rt_fd_to_address t))(fd := None) =
      (\<lambda>f. if map_of (rt_fd_to_address t) f = Some a then None else map_of (rt_fd_to_address t) f)"
    using i by (auto simp: fun_eq_iff simp del: map_of_eq_Some_iff) (metis option.inject)
  moreover have d: "deactivate_address a t = \<lparr>rt_address_to_fd = AList.delete a (rt_address_to_fd t),
      rt_fd_to_address = AList.delete fd (rt_fd_to_address t)\<rparr>" by (simp add: deactivate_address_def Some)
  moreover have "distinct (map fst (rt_address_to_fd t))" "distinct (map fst (rt_fd_to_address t))"
    using assms by (simp_all add: rt_inv_def)
  ultimately show ?thesis
    using inverse_delete [OF i fd] unfolding d
    by (simp add: rt_inv_def delete_conv' distinct_delete del: map_of_eq_Some_iff fun_upd_apply)
qed

lemma rt_inv_insert:
  assumes "rt_inv t" and "map_of (rt_fd_to_address t) fd = None" and "map_of (rt_address_to_fd t) a = None"
  shows "rt_inv \<lparr>rt_address_to_fd = AList.update a fd (rt_address_to_fd t),
                 rt_fd_to_address = AList.update fd a (rt_fd_to_address t)\<rparr>"
  using assms by (auto simp: rt_inv_def update_conv' distinct_update)

lemma rt_inv_activate:
  assumes "rt_inv t"
  shows "rt_inv (activate fd a t) \<and> map_of (rt_fd_to_address (activate fd a t)) =
    (\<lambda>f. if f = fd then Some a else if map_of (rt_fd_to_address t) f = Some a then None else map_of (rt_fd_to_address t) f)"
proof -
  let ?t2 = "deactivate_address a (deactivate fd t)"
  note 1 = rt_inv_deactivate [OF assms, of fd]
  note 2 = rt_inv_deactivate_address [OF conjunct1 [OF 1], of a]
  have n: "map_of (rt_fd_to_address ?t2) fd = None" using 1 2 by simp
  have "map_of (rt_address_to_fd ?t2) a = None"
  proof (rule ccontr)
    assume "map_of (rt_address_to_fd ?t2) a \<noteq> None"
    then obtain f where "map_of (rt_fd_to_address ?t2) f = Some a" using 2 by (auto simp: rt_inv_def)
    then show False using 2 by (auto split: if_splits)
  qed
  from rt_inv_insert [OF conjunct1 [OF 2] n this] 1 2 show ?thesis
    by (auto simp: activate_def Let_def update_conv' fun_eq_iff)
qed

lemma rt_count:
  assumes "rt_inv t"
  shows "finite (dom (map_of (rt_fd_to_address t))) \<and> active_count t = card (dom (map_of (rt_fd_to_address t)))"
proof -
  let ?A = "map_of (rt_address_to_fd t)" and ?F = "map_of (rt_fd_to_address t)"
  have "card (dom ?A) = length (rt_address_to_fd t)"
    using assms distinct_card [of "map fst (rt_address_to_fd t)"]
    by (simp add: rt_inv_def dom_map_of_conv_image_fst)
  moreover have "bij_betw (\<lambda>a. the (?A a)) (dom ?A) (dom ?F)"
    using assms by (intro bij_betw_byWitness [where f' = "\<lambda>f. the (?F f)"]) (auto simp: rt_inv_def)
  ultimately show ?thesis by (simp add: active_count_def finite_dom_map_of bij_betw_same_card)
qed

interpretation rt: routing "\<lambda>t. map_of (rt_fd_to_address t)" "\<lambda>t. map_of (rt_address_to_fd t)" active_count activate deactivate rt_inv
proof
  show "rt_inv t \<Longrightarrow> (map_of (rt_address_to_fd t) a = Some fd) = (map_of (rt_fd_to_address t) fd = Some a)" for t a fd
    by (simp add: rt_inv_def)
qed (simp_all add: rt_count rt_inv_activate rt_inv_deactivate)

end
