(* ===== verification/DoipServer.thy ===== *)
theory DoipServer
  imports DoipRouting
begin

text \<open>
  The DoIP server (src/src/doip/doip_server.h and .cpp), its UDP discovery (doip_discovery.cpp) and
  the channel objects through which UDS answers (doip_channel.cpp). The state is the record
  \<open>DoipServer\<close>; what the server does to the outside is recorded in it: the bytes the kernel
  accepted from \<open>send\<close> per call of \<open>send_frame\<close>, the datagrams given to \<open>sendto\<close>, the sockets
  that were shut down and the requests handed to the UDS server. \<open>ds_sends\<close> are the results of
  the coming \<open>send\<close> calls (when it is empty the kernel takes everything). The hash map of the
  connections is an association list; its order stands for the iteration order.
\<close>

record VehicleIdentity =
  vi_vin :: bytes
  vi_logical_address :: u16
  vi_eid :: bytes
  vi_gid :: bytes
  vi_further_action :: byte
  vi_node_type :: byte
  vi_max_open_sockets :: byte
  vi_max_data_size :: u32
  vi_power_mode :: byte
  vi_announcement_addr :: string
  vi_announcement_interval :: int
  vi_initial_inactivity_timeout :: int
  vi_general_inactivity_timeout :: int
  vi_alive_check_timeout :: int

definition identity_default :: VehicleIdentity where
  "identity_default = \<lparr>vi_vin = replicate 17 0, vi_logical_address = 0x0E80, vi_eid = replicate 6 0,
     vi_gid = replicate 6 0, vi_further_action = 0, vi_node_type = 1, vi_max_open_sockets = 1,
     vi_max_data_size = 4096, vi_power_mode = 1, vi_announcement_addr = ''255.255.255.255'',
     vi_announcement_interval = 5000, vi_initial_inactivity_timeout = 2000,
     vi_general_inactivity_timeout = 5000, vi_alive_check_timeout = 3000\<rparr>"

record DoipChannel =
  ch_fd :: int
  ch_sa :: u16

record uds_request =
  uq_source :: u16
  uq_target :: u16
  uq_physical :: bool
  uq_body :: bytes
  uq_channel :: DoipChannel

type_synonym sockaddr = "u32 \<times> u16"

record DoipServer =
  ds_identity :: VehicleIdentity
  ds_functional :: "u16 list"
  ds_uds :: bool
  ds_routing :: DoipRoutingTable
  ds_connections :: "(int \<times> DoipConnection) list"
  ds_channels :: "(int \<times> DoipChannel) list"
  ds_sends :: "int list"
  ds_sent :: "(int \<times> bytes) list"
  ds_udp :: "(sockaddr \<times> bytes) list"
  ds_shutdown :: "int list"
  ds_uds_calls :: "uds_request list"

definition server_new :: "VehicleIdentity \<Rightarrow> u16 list \<Rightarrow> bool \<Rightarrow> DoipServer" where
  "server_new ident functional uds =
     \<lparr>ds_identity = ident, ds_functional = functional, ds_uds = uds, ds_routing = rt_empty,
      ds_connections = [], ds_channels = [], ds_sends = [], ds_sent = [], ds_udp = [], ds_shutdown = [],
      ds_uds_calls = []\<rparr>"

abbreviation conn_of :: "DoipServer \<Rightarrow> int \<rightharpoonup> DoipConnection" where
  "conn_of s \<equiv> map_of (ds_connections s)"

definition update_conn :: "int \<Rightarrow> (DoipConnection \<Rightarrow> DoipConnection) \<Rightarrow> DoipServer \<Rightarrow> DoipServer" where
  "update_conn fd f s = (case conn_of s fd of
     None \<Rightarrow> s
   | Some c \<Rightarrow> s\<lparr>ds_connections := AList.update fd (f c) (ds_connections s)\<rparr>)"

section \<open>Sending\<close>

text \<open>The \<open>send\<close> loop: the bytes accepted until everything is sent or a call fails.\<close>

fun send_loop :: "int list \<Rightarrow> bytes \<Rightarrow> bytes \<times> int list" where
  "send_loop ws [] = ([], ws)"
| "send_loop [] data = (data, [])"
| "send_loop (w # ws) data =
     (if w \<le> 0 then ([], ws)
      else (let n = min (nat w) (length data) in
        case send_loop ws (drop n data) of (rest, ws') \<Rightarrow> (take n data @ rest, ws')))"

definition send_frame :: "int \<Rightarrow> PayloadType \<Rightarrow> bytes \<Rightarrow> DoipServer \<Rightarrow> DoipServer" where
  "send_frame fd payload_type payload s =
     (let buf = build_frame (kHeaderSize + 4096) (payload_code payload_type) payload in
      if buf = [] then s
      else (case send_loop (ds_sends s) buf of (accepted, ws) \<Rightarrow>
        s\<lparr>ds_sent := ds_sent s @ [(fd, accepted)], ds_sends := ws\<rparr>))"

definition udp_send_frame :: "PayloadType \<Rightarrow> bytes \<Rightarrow> sockaddr \<Rightarrow> DoipServer \<Rightarrow> DoipServer" where
  "udp_send_frame payload_type payload dst s =
     (let buf = build_frame (kHeaderSize + 4096) (payload_code payload_type) payload in
      if buf = [] then s else s\<lparr>ds_udp := ds_udp s @ [(dst, buf)]\<rparr>)"

definition request_close :: "int \<Rightarrow> DoipServer \<Rightarrow> DoipServer" where
  "request_close fd s = s\<lparr>ds_shutdown := ds_shutdown s @ [fd]\<rparr>"

definition send_generic_nack :: "int \<Rightarrow> GenericNackCode \<Rightarrow> DoipServer \<Rightarrow> DoipServer" where
  "send_generic_nack fd code s = send_frame fd kGenericNack [generic_nack_code code] s"

definition send_routing_activation_response ::
  "int \<Rightarrow> u16 \<Rightarrow> RoutingActivationCode \<Rightarrow> DoipServer \<Rightarrow> DoipServer" where
  "send_routing_activation_response fd tester code s =
     send_frame fd kRoutingActivationResponse
       (write_be16 tester @ write_be16 (vi_logical_address (ds_identity s)) @ [routing_code code] @ replicate 4 0) s"

definition send_diag_nack :: "int \<Rightarrow> DiagNackCode \<Rightarrow> u16 \<Rightarrow> u16 \<Rightarrow> DoipServer \<Rightarrow> DoipServer" where
  "send_diag_nack fd code source_addr target_addr s =
     send_frame fd kDiagMessageNegativeAck (write_be16 source_addr @ write_be16 target_addr @ [diag_nack_code code]) s"

definition SendDiagMessage :: "int \<Rightarrow> u16 \<Rightarrow> u16 \<Rightarrow> bytes \<Rightarrow> DoipServer \<Rightarrow> bool \<times> DoipServer" where
  "SendDiagMessage fd source_addr target_addr body s =
     (True, send_frame fd kDiagMessage
        ([ucast (drop_bit 8 source_addr), ucast (source_addr AND 0xFF),
          ucast (drop_bit 8 target_addr), ucast (target_addr AND 0xFF)] @ body) s)"

section \<open>Request handlers\<close>

definition identification_payload :: "VehicleIdentity \<Rightarrow> bytes" where
  "identification_payload i =
     vi_vin i @ write_be16 (vi_logical_address i) @ vi_eid i @ vi_gid i @ [vi_further_action i]"

definition identification_matches :: "VehicleIdentity \<Rightarrow> u16 \<Rightarrow> bytes \<Rightarrow> bool" where
  "identification_matches i request_type payload =
     (if request_type = payload_code kVehicleIdentificationRequestEid
      then \<not> (length payload < length (vi_eid i) \<or> take (length (vi_eid i)) payload \<noteq> vi_eid i)
      else if request_type = payload_code kVehicleIdentificationRequestVin
      then \<not> (length payload < length (vi_vin i) \<or> take (length (vi_vin i)) payload \<noteq> vi_vin i)
      else True)"

definition handle_vehicle_identification :: "int \<Rightarrow> u16 \<Rightarrow> bytes \<Rightarrow> DoipServer \<Rightarrow> DoipServer" where
  "handle_vehicle_identification fd request_type payload s =
     (if \<not> identification_matches (ds_identity s) request_type payload then s
      else send_frame fd kVehicleAnnouncement (identification_payload (ds_identity s)) s)"

definition handle_routing_activation :: "int \<Rightarrow> int \<Rightarrow> bytes \<Rightarrow> DoipServer \<Rightarrow> DoipServer" where
  "handle_routing_activation now fd payload s =
     (if length payload \<noteq> 7 \<and> length payload \<noteq> 11 then send_generic_nack fd kInvalidPayloadLength s
      else (let tester = read_be16 payload; activation_type = payload ! 2 in
        case conn_of s fd of
          None \<Rightarrow> s
        | Some conn \<Rightarrow>
          if routing_active conn \<and> dc_tester_address conn \<noteq> tester
          then request_close fd (send_routing_activation_response fd tester kDifferentSourceOnSocket s)
          else (let active_fd = fd_for tester (ds_routing s) in
            if active_fd \<ge> 0 \<and> active_fd \<noteq> fd
            then request_close fd (send_routing_activation_response fd tester kSourceAlreadyActive s)
            else if \<not> routing_active conn \<and> at_capacity (vi_max_open_sockets (ds_identity s)) (ds_routing s)
            then request_close fd (send_routing_activation_response fd tester kAllSocketsActive s)
            else if activation_type \<noteq> 0
            then request_close fd (send_routing_activation_response fd tester kUnsupportedActivationType s)
            else (let s1 = s\<lparr>ds_routing := activate fd tester (ds_routing s)\<rparr>;
                      s2 = update_conn fd (set_routing_active tester activation_type) s1;
                      s3 = s2\<lparr>ds_channels := AList.update fd \<lparr>ch_fd = fd, ch_sa = tester\<rparr> (ds_channels s2)\<rparr>;
                      s4 = update_conn fd (arm_general_inactivity now
                             (vi_general_inactivity_timeout (ds_identity s3))) s3
                  in send_routing_activation_response fd tester kRoutingSuccess s4))))"

definition handle_alive_check :: "int \<Rightarrow> int \<Rightarrow> DoipServer \<Rightarrow> DoipServer" where
  "handle_alive_check now fd s =
     (let s1 = update_conn fd (\<lambda>c. arm_general_inactivity now (vi_general_inactivity_timeout (ds_identity s))
                                     (clear_alive_check c)) s
      in send_frame fd kAliveCheckResponse (write_be16 (vi_logical_address (ds_identity s1))) s1)"

definition handle_diag_message :: "int \<Rightarrow> bytes \<Rightarrow> DoipServer \<Rightarrow> DoipServer" where
  "handle_diag_message fd payload s =
     (case conn_of s fd of
        None \<Rightarrow> s
      | Some conn \<Rightarrow>
        if \<not> routing_active conn then s
        else if \<not> ds_uds s then s
        else if length payload < 5 then send_generic_nack fd kInvalidPayloadLength s
        else (let source_addr = read_be16 payload; target_addr = read_be16 (drop 2 payload) in
          if source_addr \<noteq> dc_tester_address conn
          then send_diag_nack fd kInvalidSourceAddress target_addr source_addr s
          else (let physical = (target_addr = vi_logical_address (ds_identity s)) in
            if \<not> physical \<and> target_addr \<notin> set (ds_functional s)
            then send_diag_nack fd kUnknownTargetAddress target_addr source_addr s
            else if length payload - 4 > unat (vi_max_data_size (ds_identity s))
            then send_diag_nack fd kDiagMessageTooLarge target_addr source_addr s
            else (case map_of (ds_channels s) fd of
                None \<Rightarrow> s
              | Some ch \<Rightarrow>
                  s\<lparr>ds_uds_calls := ds_uds_calls s @
                      [\<lparr>uq_source = source_addr, uq_target = target_addr, uq_physical = physical,
                        uq_body = drop 4 payload, uq_channel = ch\<rparr>]\<rparr>))))"

definition entity_status_payload :: "DoipServer \<Rightarrow> bytes" where
  "entity_status_payload s =
     [vi_node_type (ds_identity s), vi_max_open_sockets (ds_identity s), word_of_nat (active_count (ds_routing s))] @
     write_be32 (vi_max_data_size (ds_identity s))"

definition handle_entity_status_request :: "int \<Rightarrow> DoipServer \<Rightarrow> DoipServer" where
  "handle_entity_status_request fd s = send_frame fd kEntityStatusResponse (entity_status_payload s) s"

definition handle_power_mode_request :: "int \<Rightarrow> DoipServer \<Rightarrow> DoipServer" where
  "handle_power_mode_request fd s = send_frame fd kPowerModeResponse [vi_power_mode (ds_identity s)] s"

definition dispatch :: "int \<Rightarrow> int \<Rightarrow> u16 \<Rightarrow> bytes \<Rightarrow> DoipServer \<Rightarrow> DoipServer" where
  "dispatch now fd payload_type payload s =
     (if payload_type \<in> {payload_code kVehicleIdentificationRequest, payload_code kVehicleIdentificationRequestEid,
           payload_code kVehicleIdentificationRequestVin}
      then handle_vehicle_identification fd payload_type payload s
      else if payload_type = payload_code kRoutingActivationRequest then handle_routing_activation now fd payload s
      else if payload_type = payload_code kAliveCheckRequest then handle_alive_check now fd s
      else if payload_type = payload_code kEntityStatusRequest then handle_entity_status_request fd s
      else if payload_type = payload_code kPowerModeRequest then handle_power_mode_request fd s
      else if payload_type = payload_code kDiagMessage then handle_diag_message fd payload s
      else send_generic_nack fd kUnsupportedPayloadType s)"

section \<open>TCP data\<close>

text \<open>
  The frame loop of \<open>on_data\<close>. \<open>rx\<close> is the receive buffer of the connection, which no handler
  touches; every round stores what is left of it in the connection before it dispatches.
\<close>

function on_data_loop :: "int \<Rightarrow> int \<Rightarrow> bytes \<Rightarrow> DoipServer \<Rightarrow> DoipServer" where
  "on_data_loop now fd rx s =
     (let conn = (conn_new fd)\<lparr>dc_rx := rx\<rparr> in
      case peek_header conn of
        None \<Rightarrow> s
      | Some header \<Rightarrow>
        if \<not> version_ok header then request_close fd (send_generic_nack fd kInvalidProtocolVersion s)
        else if hd_payload_length header > kMaxPayloadLength
        then request_close fd (send_generic_nack fd kGenericMessageTooLarge s)
        else (case next_frame conn of
            None \<Rightarrow> s
          | Some frame \<Rightarrow>
              (let consumed = next_frame_total conn in
               if consumed = 0 then s
               else (let rest = dc_rx (consume consumed conn) in
                 on_data_loop now fd rest
                   (dispatch now fd (fr_payload_type frame) (fr_payload frame)
                     (update_conn fd (\<lambda>c. c\<lparr>dc_rx := rest\<rparr>) s))))))"
  by pat_completeness auto
termination
  by (relation "measure (\<lambda>(now, fd, rx, s). length rx)")
     (auto simp: consume_def next_frame_total_def peek_header_def kHeaderSize_def split: if_splits option.splits)

declare on_data_loop.simps [simp del]

definition on_data :: "int \<Rightarrow> int \<Rightarrow> bytes \<Rightarrow> DoipServer \<Rightarrow> DoipServer" where
  "on_data now fd data s =
     (let i = ds_identity s;
          s1 = (case conn_of s fd of
                  None \<Rightarrow> s\<lparr>ds_connections := AList.update fd
                            (arm_initial_inactivity now (vi_initial_inactivity_timeout i) (conn_new fd)) (ds_connections s)\<rparr>
                | Some _ \<Rightarrow> s);
          s2 = update_conn fd (\<lambda>c. touch now (vi_general_inactivity_timeout i) (conn_append data c)) s1
      in case conn_of s2 fd of None \<Rightarrow> s2 | Some c \<Rightarrow> on_data_loop now fd (dc_rx c) s2)"

definition erase_client :: "int \<Rightarrow> DoipServer \<Rightarrow> DoipServer" where
  "erase_client fd s =
     s\<lparr>ds_routing := deactivate fd (ds_routing s), ds_channels := AList.delete fd (ds_channels s),
       ds_connections := AList.delete fd (ds_connections s)\<rparr>"

section \<open>Timers\<close>

fun maintain_loop :: "int \<Rightarrow> (int \<times> DoipConnection) list \<Rightarrow> DoipServer \<Rightarrow> int list \<times> DoipServer" where
  "maintain_loop now [] s = ([], s)"
| "maintain_loop now ((fd, conn) # conns) s =
     (if \<not> routing_active conn \<and> initial_inactivity_expired now conn
      then (case maintain_loop now conns s of (cl, s') \<Rightarrow> (fd # cl, s'))
      else if routing_active conn \<and> alive_timeout now (vi_alive_check_timeout (ds_identity s)) conn
      then (case maintain_loop now conns s of (cl, s') \<Rightarrow> (fd # cl, s'))
      else if routing_active conn \<and> general_inactivity_expired now conn \<and> \<not> dc_alive_pending conn
      then maintain_loop now conns
             (update_conn fd (arm_alive_check now (vi_alive_check_timeout (ds_identity s)))
               (send_frame fd kAliveCheckRequest [] s))
      else maintain_loop now conns s)"

definition maintain_connections :: "int \<Rightarrow> bool \<Rightarrow> DoipServer \<Rightarrow> DoipServer" where
  "maintain_connections now timer_read s =
     (if \<not> timer_read then s
      else (case maintain_loop now (ds_connections s) s of (to_close, s') \<Rightarrow> foldl (\<lambda>s fd. request_close fd s) s' to_close))"

section \<open>UDP\<close>

definition handle_vehicle_identification_udp :: "u16 \<Rightarrow> bytes \<Rightarrow> sockaddr \<Rightarrow> DoipServer \<Rightarrow> DoipServer" where
  "handle_vehicle_identification_udp request_type payload src s =
     (if \<not> identification_matches (ds_identity s) request_type payload then s
      else udp_send_frame kVehicleAnnouncement (identification_payload (ds_identity s)) src s)"

definition handle_entity_status_udp :: "sockaddr \<Rightarrow> DoipServer \<Rightarrow> DoipServer" where
  "handle_entity_status_udp src s = udp_send_frame kEntityStatusResponse (entity_status_payload s) src s"

definition handle_power_mode_udp :: "sockaddr \<Rightarrow> DoipServer \<Rightarrow> DoipServer" where
  "handle_power_mode_udp src s = udp_send_frame kPowerModeResponse [vi_power_mode (ds_identity s)] src s"

definition send_generic_nack_udp :: "GenericNackCode \<Rightarrow> sockaddr \<Rightarrow> DoipServer \<Rightarrow> DoipServer" where
  "send_generic_nack_udp code dst s = udp_send_frame kGenericNack [generic_nack_code code] dst s"

definition on_udp_packet :: "bytes \<Rightarrow> sockaddr \<Rightarrow> DoipServer \<Rightarrow> DoipServer" where
  "on_udp_packet data src s =
     (if length data < kHeaderSize then s
      else (case parse_header data of
          None \<Rightarrow> send_generic_nack_udp kInvalidProtocolVersion src s
        | Some header \<Rightarrow>
          if \<not> version_ok header then send_generic_nack_udp kInvalidProtocolVersion src s
          else if length data < kHeaderSize + unat (hd_payload_length header) then s
          else (let payload = take (unat (hd_payload_length header)) (drop kHeaderSize data);
                    t = hd_payload_type header in
            if t \<in> {payload_code kGenericNack, payload_code kVehicleAnnouncement} then s
            else if t \<in> {payload_code kVehicleIdentificationRequest, payload_code kVehicleIdentificationRequestEid,
                         payload_code kVehicleIdentificationRequestVin}
            then handle_vehicle_identification_udp t payload src s
            else if t = payload_code kEntityStatusRequest then handle_entity_status_udp src s
            else if t = payload_code kPowerModeRequest then handle_power_mode_udp src s
            else send_generic_nack_udp kUnsupportedPayloadType src s)))"

text \<open>\<open>recvfrom\<close> results, and the read loop of the discovery socket.\<close>

datatype recv_result = RecvData bytes sockaddr | RecvAgain | RecvIntr | RecvError

fun on_udp_read :: "recv_result list \<Rightarrow> DoipServer \<Rightarrow> DoipServer" where
  "on_udp_read [] s = s"
| "on_udp_read (RecvData data src # rs) s = on_udp_read rs (on_udp_packet (take 4096 data) src s)"
| "on_udp_read (RecvAgain # rs) s = s"
| "on_udp_read (RecvIntr # rs) s = on_udp_read rs s"
| "on_udp_read (RecvError # rs) s = s"

definition send_announcement :: "(string \<Rightarrow> u32 option) \<Rightarrow> u16 \<Rightarrow> DoipServer \<Rightarrow> DoipServer" where
  "send_announcement inet_pton port s =
     (case inet_pton (vi_announcement_addr (ds_identity s)) of
        None \<Rightarrow> s
      | Some addr \<Rightarrow> udp_send_frame kVehicleAnnouncement (identification_payload (ds_identity s) @ [0]) (addr, port) s)"

definition on_announcement_timer :: "(string \<Rightarrow> u32 option) \<Rightarrow> u16 \<Rightarrow> bool \<Rightarrow> DoipServer \<Rightarrow> DoipServer" where
  "on_announcement_timer inet_pton port timer_read s =
     (if \<not> timer_read then s else send_announcement inet_pton port s)"

section \<open>Channels\<close>

text \<open>An answer of the UDS server: source, target and body; a null answer is \<open>None\<close>.\<close>

definition Respond :: "DoipChannel \<Rightarrow> (u16 \<times> u16 \<times> bytes) option \<Rightarrow> DoipServer \<Rightarrow> bool \<times> DoipServer" where
  "Respond ch response s = (case response of
     None \<Rightarrow> (False, s)
   | Some (sa, ta, body) \<Rightarrow> if ch_fd ch < 0 then (False, s) else SendDiagMessage (ch_fd ch) sa ta body s)"

definition Respond_all :: "DoipChannel \<Rightarrow> (u16 \<times> u16 \<times> bytes) option list \<Rightarrow> DoipServer \<Rightarrow> DoipServer" where
  "Respond_all ch responses s = foldl (\<lambda>s r. snd (Respond ch r s)) s responses"

definition channel_close :: "DoipChannel \<Rightarrow> DoipChannel" where
  "channel_close ch = ch\<lparr>ch_fd := -1\<rparr>"

definition GetMaxPayloadLength :: nat where
  "GetMaxPayloadLength = 4096"

end
