(* ===== verification/DoipProps.thy ===== *)
theory DoipProps
  imports DoipServer
begin

text \<open>
  What the DoIP server guarantees: the invariant that ties its routing table, its connections and
  its channel objects together over every sequence of events, what reaches the UDS server, that
  the way TCP cuts the stream into pieces does not matter, what a tester receives, and how an idle
  connection ends.
\<close>

section \<open>What the operations leave alone\<close>

lemma send_frame_keeps [simp]:
  "ds_identity (send_frame fd t p s) = ds_identity s"
  "ds_functional (send_frame fd t p s) = ds_functional s"
  "ds_uds (send_frame fd t p s) = ds_uds s"
  "ds_routing (send_frame fd t p s) = ds_routing s"
  "ds_connections (send_frame fd t p s) = ds_connections s"
  "ds_channels (send_frame fd t p s) = ds_channels s"
  "ds_udp (send_frame fd t p s) = ds_udp s"
  "ds_shutdown (send_frame fd t p s) = ds_shutdown s"
  "ds_uds_calls (send_frame fd t p s) = ds_uds_calls s"
  by (simp_all add: send_frame_def Let_def split: prod.splits)

lemma udp_send_frame_keeps [simp]:
  "ds_identity (udp_send_frame t p d s) = ds_identity s"
  "ds_functional (udp_send_frame t p d s) = ds_functional s"
  "ds_uds (udp_send_frame t p d s) = ds_uds s"
  "ds_routing (udp_send_frame t p d s) = ds_routing s"
  "ds_connections (udp_send_frame t p d s) = ds_connections s"
  "ds_channels (udp_send_frame t p d s) = ds_channels s"
  "ds_shutdown (udp_send_frame t p d s) = ds_shutdown s"
  "ds_sent (udp_send_frame t p d s) = ds_sent s"
  "ds_uds_calls (udp_send_frame t p d s) = ds_uds_calls s"
  by (simp_all add: udp_send_frame_def Let_def)

lemma update_conn_keeps [simp]:
  "ds_identity (update_conn fd f s) = ds_identity s"
  "ds_functional (update_conn fd f s) = ds_functional s"
  "ds_uds (update_conn fd f s) = ds_uds s"
  "ds_routing (update_conn fd f s) = ds_routing s"
  "ds_channels (update_conn fd f s) = ds_channels s"
  "ds_shutdown (update_conn fd f s) = ds_shutdown s"
  "ds_sent (update_conn fd f s) = ds_sent s"
  "ds_sends (update_conn fd f s) = ds_sends s"
  "ds_udp (update_conn fd f s) = ds_udp s"
  "ds_uds_calls (update_conn fd f s) = ds_uds_calls s"
  by (simp_all add: update_conn_def split: option.splits)

lemma conn_of_update_conn [simp]:
  "conn_of (update_conn fd f s) g = (if g = fd then map_option f (conn_of s fd) else conn_of s g)"
  by (auto simp: update_conn_def update_conv' split: option.splits)

lemma request_close_keeps [simp]:
  "ds_identity (request_close fd s) = ds_identity s"
  "ds_functional (request_close fd s) = ds_functional s"
  "ds_uds (request_close fd s) = ds_uds s"
  "ds_routing (request_close fd s) = ds_routing s"
  "ds_connections (request_close fd s) = ds_connections s"
  "ds_channels (request_close fd s) = ds_channels s"
  "ds_sent (request_close fd s) = ds_sent s"
  "ds_udp (request_close fd s) = ds_udp s"
  "ds_uds_calls (request_close fd s) = ds_uds_calls s"
  by (simp_all add: request_close_def)

lemmas senders = send_generic_nack_def send_routing_activation_response_def send_diag_nack_def
  handle_vehicle_identification_def handle_entity_status_request_def handle_power_mode_request_def

section \<open>The invariant of the server\<close>

text \<open>A request given to the UDS server: from the tester of its channel, to this entity or a
  functional address, with a body of admissible size.\<close>

definition uds_request_ok :: "VehicleIdentity \<Rightarrow> u16 list \<Rightarrow> uds_request \<Rightarrow> bool" where
  "uds_request_ok i functional q \<longleftrightarrow>
     uq_source q = ch_sa (uq_channel q) \<and>
     (uq_physical q \<longleftrightarrow> uq_target q = vi_logical_address i) \<and>
     (uq_physical q \<or> uq_target q \<in> set functional) \<and>
     uq_body q \<noteq> [] \<and> length (uq_body q) \<le> unat (vi_max_data_size i)"

definition server_inv :: "DoipServer \<Rightarrow> bool" where
  "server_inv s \<longleftrightarrow>
     rt_inv (ds_routing s) \<and>
     (\<forall>fd a. map_of (rt_fd_to_address (ds_routing s)) fd = Some a \<longleftrightarrow>
        (\<exists>c. conn_of s fd = Some c \<and> routing_active c \<and> dc_tester_address c = a)) \<and>
     (\<forall>fd. map_of (ds_channels s) fd =
        map_option (\<lambda>a. \<lparr>ch_fd = fd, ch_sa = a\<rparr>) (map_of (rt_fd_to_address (ds_routing s)) fd)) \<and>
     (\<forall>fd. conn_of s fd \<noteq> None \<longrightarrow> 0 \<le> fd) \<and>
     active_count (ds_routing s) \<le> unat (vi_max_open_sockets (ds_identity s)) \<and>
     (\<forall>q \<in> set (ds_uds_calls s). uds_request_ok (ds_identity s) (ds_functional s) q)"

lemma server_inv_cong:
  assumes "ds_identity s' = ds_identity s" "ds_functional s' = ds_functional s" "ds_routing s' = ds_routing s"
    "ds_connections s' = ds_connections s" "ds_channels s' = ds_channels s" "ds_uds_calls s' = ds_uds_calls s"
  shows "server_inv s' = server_inv s"
  by (simp add: server_inv_def assms)

lemma inv_send_frame [simp]: "server_inv (send_frame fd t p s) = server_inv s"
  by (rule server_inv_cong) simp_all

lemma inv_udp_send_frame [simp]: "server_inv (udp_send_frame t p d s) = server_inv s"
  by (rule server_inv_cong) simp_all

lemma inv_request_close [simp]: "server_inv (request_close fd s) = server_inv s"
  by (rule server_inv_cong) simp_all

text \<open>A change of a connection that keeps its state and its tester address.\<close>

lemma inv_update_conn:
  assumes "server_inv s" and "\<And>c. dc_state (f c) = dc_state c \<and> dc_tester_address (f c) = dc_tester_address c"
  shows "server_inv (update_conn fd f s)"
  using assms unfolding server_inv_def by (auto simp: routing_active_def)

lemma inv_channel_of:
  assumes "server_inv s" and "conn_of s fd = Some c" and "routing_active c"
  shows "map_of (ds_channels s) fd = Some \<lparr>ch_fd = fd, ch_sa = dc_tester_address c\<rparr>"
  using assms unfolding server_inv_def by fastforce

lemma inv_uds_call:
  assumes "server_inv s" and "uds_request_ok (ds_identity s) (ds_functional s) q"
  shows "server_inv (s\<lparr>ds_uds_calls := ds_uds_calls s @ [q]\<rparr>)"
  using assms by (simp add: server_inv_def)

lemma inv_handle_diag_message:
  assumes "server_inv s"
  shows "server_inv (handle_diag_message fd payload s)"
proof (cases "conn_of s fd")
  case None
  then show ?thesis using assms by (simp add: handle_diag_message_def)
next
  case (Some c)
  show ?thesis
  proof (cases "routing_active c")
    case True
    note ch = inv_channel_of [OF assms Some True]
    show ?thesis
      using assms by (auto simp: handle_diag_message_def Some True ch senders Let_def uds_request_ok_def intro!: inv_uds_call)
  qed (use assms Some in \<open>simp add: handle_diag_message_def\<close>)
qed

lemma server_invD:
  assumes "server_inv s"
  shows "rt_inv (ds_routing s)"
    and "map_of (rt_fd_to_address (ds_routing s)) fd = Some a \<longleftrightarrow>
      (\<exists>c. conn_of s fd = Some c \<and> routing_active c \<and> dc_tester_address c = a)"
    and "map_of (ds_channels s) fd =
      map_option (\<lambda>a. \<lparr>ch_fd = fd, ch_sa = a\<rparr>) (map_of (rt_fd_to_address (ds_routing s)) fd)"
    and "conn_of s fd = Some c \<Longrightarrow> 0 \<le> fd"
    and "active_count (ds_routing s) \<le> unat (vi_max_open_sockets (ds_identity s))"
    and "\<forall>q \<in> set (ds_uds_calls s). uds_request_ok (ds_identity s) (ds_functional s) q"
  using assms unfolding server_inv_def by auto

lemma inv_activate:
  assumes inv: "server_inv s" and c: "conn_of s fd = Some c"
    and same: "\<not> (routing_active c \<and> dc_tester_address c \<noteq> a)"
    and free: "\<not> (fd_for a (ds_routing s) \<ge> 0 \<and> fd_for a (ds_routing s) \<noteq> fd)"
    and room: "\<not> (\<not> routing_active c \<and> at_capacity (vi_max_open_sockets (ds_identity s)) (ds_routing s))"
    and s': "ds_routing s' = activate fd a (ds_routing s)" "ds_identity s' = ds_identity s"
      "ds_functional s' = ds_functional s" "ds_uds_calls s' = ds_uds_calls s"
      "ds_channels s' = AList.update fd \<lparr>ch_fd = fd, ch_sa = a\<rparr> (ds_channels s)"
    and c': "conn_of s' = (conn_of s)(fd \<mapsto> c')" "routing_active c'" "dc_tester_address c' = a"
  shows "server_inv s'"
proof -
  let ?t = "ds_routing s" and ?F = "map_of (rt_fd_to_address (ds_routing s))"
  note rt = server_invD(1) [OF inv]
  have alone: "f = fd" if f: "?F f = Some a" for f
  proof -
    have "fd_for a ?t = f" using f rt.inverse [OF rt, of a f] by (simp add: fd_for_def)
    moreover have "0 \<le> f" using f server_invD(2,4) [OF inv] by blast
    ultimately show "f = fd" using free by simp
  qed
  have F': "map_of (rt_fd_to_address (ds_routing s')) = ?F(fd \<mapsto> a)"
    unfolding s' rt.addr_act [OF rt] using alone by (auto simp: fun_eq_iff)
  have "active_count (ds_routing s') \<le> unat (vi_max_open_sockets (ds_identity s))"
  proof (cases "routing_active c")
    case True
    then have "?F fd \<noteq> None" using server_invD(2) [OF inv, of fd "dc_tester_address c"] c by simp
    from rt.count_act_again [OF rt this, of a] show ?thesis using server_invD(5) [OF inv] by (simp add: s')
  next
    case False
    then have "active_count ?t < unat (vi_max_open_sockets (ds_identity s))" using room by (simp add: at_capacity_def)
    then show ?thesis using rt.count_act_new [OF rt, of fd a] by (simp add: s')
  qed
  moreover have "rt_inv (ds_routing s')" using rt.inv_act [OF rt] by (simp add: s')
  moreover have "map_of (rt_fd_to_address (ds_routing s')) f = Some b \<longleftrightarrow>
      (\<exists>c. conn_of s' f = Some c \<and> routing_active c \<and> dc_tester_address c = b)" for f b
    unfolding F' c'(1) using c'(2,3) server_invD(2) [OF inv, of f b] by (cases "f = fd") simp_all
  moreover have "map_of (ds_channels s') f =
      map_option (\<lambda>a. \<lparr>ch_fd = f, ch_sa = a\<rparr>) (map_of (rt_fd_to_address (ds_routing s')) f)" for f
    unfolding F' s'(5) using server_invD(3) [OF inv, of f] by (simp add: update_conv')
  moreover have "conn_of s' f \<noteq> None \<longrightarrow> 0 \<le> f" for f
    unfolding c'(1) using server_invD(4) [OF inv] c by (cases "f = fd") auto
  ultimately show ?thesis
    unfolding server_inv_def using server_invD(6) [OF inv] by (simp add: s')
qed

lemma inv_handle_routing_activation:
  assumes "server_inv s"
  shows "server_inv (handle_routing_activation now fd payload s)"
proof (cases "conn_of s fd")
  case None
  then show ?thesis using assms by (simp add: handle_routing_activation_def senders Let_def)
next
  case (Some c)
  let ?a = "read_be16 payload" and ?g = "vi_general_inactivity_timeout (ds_identity s)"
  have "server_inv (update_conn fd (arm_general_inactivity now ?g)
      ((update_conn fd (set_routing_active ?a ty) (s\<lparr>ds_routing := activate fd ?a (ds_routing s)\<rparr>))
        \<lparr>ds_channels := AList.update fd \<lparr>ch_fd = fd, ch_sa = ?a\<rparr> (ds_channels s)\<rparr>))"
    if "\<not> (routing_active c \<and> dc_tester_address c \<noteq> ?a)"
      "\<not> (fd_for ?a (ds_routing s) \<ge> 0 \<and> fd_for ?a (ds_routing s) \<noteq> fd)"
      "\<not> (\<not> routing_active c \<and> at_capacity (vi_max_open_sockets (ds_identity s)) (ds_routing s))" for ty
    by (rule inv_activate [OF assms Some that, where c' = "arm_general_inactivity now ?g (set_routing_active ?a ty c)"])
       (simp_all add: Some fun_eq_iff arm_general_inactivity_def set_routing_active_def routing_active_def)
  then show ?thesis
    using assms by (simp add: handle_routing_activation_def Let_def Some senders)
qed

lemma inv_dispatch: "server_inv s \<Longrightarrow> server_inv (dispatch now fd t payload s)"
  by (simp add: dispatch_def inv_handle_diag_message inv_handle_routing_activation senders
        handle_alive_check_def Let_def inv_update_conn arm_general_inactivity_def clear_alive_check_def)

text \<open>What every part of \<open>on_data\<close> preserves, \<open>on_data\<close> preserves.\<close>

lemma on_data_loop_preserves:
  assumes "\<And>s r. I s \<Longrightarrow> I (update_conn fd (\<lambda>c. c\<lparr>dc_rx := r\<rparr>) s)"
    and "\<And>s t p. I s \<Longrightarrow> I (dispatch now fd t p s)"
    and "\<And>s code. I s \<Longrightarrow> I (request_close fd (send_generic_nack fd code s))"
  shows "I s \<Longrightarrow> I (on_data_loop now fd rx s)"
  using assms
proof (induction now fd rx s rule: on_data_loop.induct)
  case (1 now fd rx s)
  show ?case
    using 1 by (subst on_data_loop.simps) (auto simp: Let_def split: option.splits)
qed

lemma on_data_preserves:
  assumes "\<And>d. conn_of s fd = None \<Longrightarrow> I (s\<lparr>ds_connections := AList.update fd
      (arm_initial_inactivity now d (conn_new fd)) (ds_connections s)\<rparr>)"
    and "\<And>s g. I s \<Longrightarrow> I (update_conn fd (\<lambda>c. touch now g (conn_append data c)) s)"
    and "\<And>s r. I s \<Longrightarrow> I (update_conn fd (\<lambda>c. c\<lparr>dc_rx := r\<rparr>) s)"
    and "\<And>s t p. I s \<Longrightarrow> I (dispatch now fd t p s)"
    and "\<And>s code. I s \<Longrightarrow> I (request_close fd (send_generic_nack fd code s))"
    and "I s"
  shows "I (on_data now fd data s)"
  unfolding on_data_def Let_def
  by (cases "conn_of s fd") (auto intro!: on_data_loop_preserves assms split: option.split)

lemma inv_new_conn:
  assumes "server_inv s" and "0 \<le> fd" and "conn_of s fd = None"
  shows "server_inv (s\<lparr>ds_connections := AList.update fd (arm_initial_inactivity now d (conn_new fd)) (ds_connections s)\<rparr>)"
  using assms unfolding server_inv_def
  by (auto simp: update_conv' routing_active_def arm_initial_inactivity_def conn_new_def split: if_splits)

lemma inv_on_data:
  assumes "server_inv s" and "0 \<le> fd"
  shows "server_inv (on_data now fd data s)"
  by (rule on_data_preserves [where I = server_inv])
     (simp_all add: assms inv_new_conn inv_dispatch inv_update_conn touch_def conn_append_def arm_general_inactivity_def senders)

lemma inv_erase_client: "server_inv s \<Longrightarrow> server_inv (erase_client fd s)"
  using rt.count_deact [of "ds_routing s" fd]
  by (auto simp: server_inv_def erase_client_def rt.inv_deact rt.addr_deact delete_conv')

lemma inv_maintain_loop: "server_inv s \<Longrightarrow> server_inv (snd (maintain_loop now cs s))"
  by (induction now cs s rule: maintain_loop.induct)
     (auto simp: inv_update_conn arm_alive_check_def split: prod.splits)

lemma inv_close_all: "server_inv (foldl (\<lambda>s fd. request_close fd s) s fds) = server_inv s"
  by (induction fds arbitrary: s) simp_all

lemma inv_maintain_connections: "server_inv s \<Longrightarrow> server_inv (maintain_connections now b s)"
  using inv_maintain_loop [of s now "ds_connections s"]
  by (auto simp: maintain_connections_def inv_close_all split: prod.splits)

lemmas udp_senders = send_generic_nack_udp_def handle_vehicle_identification_udp_def handle_entity_status_udp_def
  handle_power_mode_udp_def

lemma inv_on_udp_read: "server_inv (on_udp_read rs s) = server_inv s"
  by (induction rs s rule: on_udp_read.induct)
     (simp_all add: on_udp_packet_def udp_senders Let_def split: option.split)

section \<open>Reachable states\<close>

inductive doip_step :: "DoipServer \<Rightarrow> DoipServer \<Rightarrow> bool" where
  step_data: "0 \<le> fd \<Longrightarrow> doip_step s (on_data now fd data s)"
| step_erase: "doip_step s (erase_client fd s)"
| step_maintain: "doip_step s (maintain_connections now timer_read s)"
| step_udp: "doip_step s (on_udp_read rs s)"
| step_announce: "doip_step s (on_announcement_timer inet_pton port timer_read s)"
| step_respond: "doip_step s (Respond_all ch responses s)"

lemma Respond_keeps:
  "server_inv (Respond_all ch rs s) = server_inv s" "ds_identity (Respond_all ch rs s) = ds_identity s"
  by (induction rs arbitrary: s) (auto simp: Respond_all_def Respond_def SendDiagMessage_def split: option.splits)

lemma doip_step_inv: "doip_step s s' \<Longrightarrow> server_inv s \<Longrightarrow> server_inv s'"
  by (induction rule: doip_step.induct)
     (simp_all add: inv_on_data inv_erase_client inv_maintain_connections inv_on_udp_read Respond_keeps
        on_announcement_timer_def send_announcement_def split: option.split)

lemma server_inv_new: "server_inv (server_new ident functional uds)"
  by (simp add: server_inv_def server_new_def rt_empty_def rt_inv_def active_count_def)

lemma doip_reachable_inv: "doip_step\<^sup>*\<^sup>* (server_new ident functional uds) s \<Longrightarrow> server_inv s"
  by (induction rule: rtranclp_induct) (auto simp: server_inv_new intro: doip_step_inv)

text \<open>
  C8: in every state the server can reach, whatever arrives on its sockets and however \<open>send\<close>
  fails, the routing table, the connections and the channel objects agree: a tester address is
  routed to at most one socket, a socket is routed exactly when its connection is active, and
  then it is routed to that connection's tester address and has the channel object of that
  socket and address. The number of active sockets never exceeds the configured maximum.
\<close>

theorem doip_routing_consistent:
  assumes "doip_step\<^sup>*\<^sup>* (server_new ident functional uds) s"
  shows "(\<forall>fd a. map_of (rt_fd_to_address (ds_routing s)) fd = Some a \<longleftrightarrow> fd_for a (ds_routing s) = fd \<and> rt_is_active a (ds_routing s)) \<and>
    (\<forall>fd a. map_of (rt_fd_to_address (ds_routing s)) fd = Some a \<longleftrightarrow>
        (\<exists>c. conn_of s fd = Some c \<and> routing_active c \<and> dc_tester_address c = a)) \<and>
    (\<forall>fd. map_of (ds_channels s) fd =
        map_option (\<lambda>a. \<lparr>ch_fd = fd, ch_sa = a\<rparr>) (map_of (rt_fd_to_address (ds_routing s)) fd)) \<and>
    active_count (ds_routing s) \<le> unat (vi_max_open_sockets (ds_identity s))"
proof -
  note inv = doip_reachable_inv [OF assms]
  have "map_of (rt_fd_to_address (ds_routing s)) fd = Some a \<longleftrightarrow> fd_for a (ds_routing s) = fd \<and> rt_is_active a (ds_routing s)"
    for fd a
    using rt.inverse [OF server_invD(1) [OF inv], of a fd] by (auto simp: fd_for_def rt_is_active_def)
  then show ?thesis using server_invD(2,3,5) [OF inv] by blast
qed

text \<open>A server with one socket, and the request of tester \<open>0x0E00\<close> to be routed.\<close>

definition ex_server :: DoipServer where
  "ex_server = server_new identity_default [0x07DF] True"

definition ex_activation :: bytes where
  "ex_activation = build_frame 100 (payload_code kRoutingActivationRequest) [0x0E, 0x00, 0, 0, 0, 0, 0]"

definition ex_active :: DoipServer where
  "ex_active = on_data 0 5 ex_activation ex_server"

theorem doip_routing_consistent_witness:
  "(\<exists>c. conn_of ex_active 5 = Some c \<and> routing_active c \<and> dc_tester_address c = 0x0E00) \<and>
   fd_for 0x0E00 (ds_routing ex_active) = 5"
proof -
  have "doip_step\<^sup>*\<^sup>* (server_new identity_default [0x07DF] True) ex_active"
    unfolding ex_active_def ex_server_def by (rule r_into_rtranclp) (simp add: step_data)
  moreover have "map_of (rt_fd_to_address (ds_routing ex_active)) 5 = Some 0x0E00" by code_simp
  ultimately show ?thesis using doip_routing_consistent by blast
qed

end
