(* ===== verification/DoipStream.thy ===== *)
theory DoipStream
  imports DoipProps
begin

text \<open>
  TCP delivers the bytes of a tester in pieces of any size and at any time. What the server does
  with them depends only on the frames they make up: \<open>tester_view\<close> is the state of the server
  without the receive buffers and the clock readings in its connections, and every way of
  cutting a sequence of frames into pieces leads to the view that handling the frames one by
  one leads to.
\<close>

definition conn_view :: "DoipConnection \<Rightarrow> DoipConnection" where
  "conn_view c = c\<lparr>dc_rx := [], dc_initial_deadline := 0, dc_general_deadline := 0, dc_alive_sent_at := 0\<rparr>"

definition tester_view :: "DoipServer \<Rightarrow> DoipServer" where
  "tester_view s = s\<lparr>ds_connections := map (\<lambda>(fd, c). (fd, conn_view c)) (ds_connections s)\<rparr>"

lemma map_values_update:
  "map (\<lambda>(k, v). (k, h v)) (AList.update k v al) = AList.update k (h v) (map (\<lambda>(k, v). (k, h v)) al)"
  by (induction al) auto

lemma update_update [simp]: "AList.update k v (AList.update k w al) = AList.update k v al"
  by (induction al) auto

lemma update_conn_update_conn: "update_conn fd f (update_conn fd g s) = update_conn fd (\<lambda>c. f (g c)) s"
  by (simp add: update_conn_def update_conv' split: option.splits)

lemma view_fields [simp]:
  "ds_identity (tester_view s) = ds_identity s" "ds_functional (tester_view s) = ds_functional s"
  "ds_uds (tester_view s) = ds_uds s" "ds_routing (tester_view s) = ds_routing s"
  "ds_channels (tester_view s) = ds_channels s" "ds_sends (tester_view s) = ds_sends s"
  "ds_sent (tester_view s) = ds_sent s" "ds_udp (tester_view s) = ds_udp s"
  "ds_shutdown (tester_view s) = ds_shutdown s" "ds_uds_calls (tester_view s) = ds_uds_calls s"
  by (simp_all add: tester_view_def)

lemma conn_of_view [simp]: "conn_of (tester_view s) fd = map_option conn_view (conn_of s fd)"
  by (simp add: tester_view_def map_of_map)

lemma conn_view_fields [simp]:
  "routing_active (conn_view c) = routing_active c" "dc_tester_address (conn_view c) = dc_tester_address c"
  "conn_view (conn_view c) = conn_view c"
  by (simp_all add: conn_view_def routing_active_def)

lemma view_view [simp]: "tester_view (tester_view s) = tester_view s"
  by (simp add: tester_view_def case_prod_unfold comp_def)

lemma view_send_frame: "tester_view (send_frame fd t p s) = send_frame fd t p (tester_view s)"
  by (simp add: tester_view_def send_frame_def Let_def split: prod.split)

lemma view_request_close: "tester_view (request_close fd s) = request_close fd (tester_view s)"
  by (simp add: tester_view_def request_close_def)

lemma view_set_connections:
  "tester_view (s\<lparr>ds_connections := AList.update fd c cs\<rparr>) =
     s\<lparr>ds_connections := AList.update fd (conn_view c) (map (\<lambda>(fd, c). (fd, conn_view c)) cs)\<rparr>"
  by (simp add: tester_view_def map_values_update)

lemma view_connections: "map (\<lambda>(fd, c). (fd, conn_view c)) (ds_connections (tester_view s)) = ds_connections (tester_view s)"
  by (simp add: tester_view_def case_prod_unfold comp_def)

lemma view_update_conn:
  assumes "\<And>c. conn_view (f c) = conn_view (g (conn_view c))"
  shows "tester_view (update_conn fd f s) = tester_view (update_conn fd g (tester_view s))"
proof (cases "conn_of s fd")
  case None
  then show ?thesis by (simp add: update_conn_def)
next
  case (Some c)
  then show ?thesis
    using assms [of c] view_connections [of s]
    by (simp add: update_conn_def view_set_connections) (simp add: tester_view_def)
qed

lemma update_same: "map_of al k = Some v \<Longrightarrow> AList.update k v al = al"
  by (induction al) (auto split: if_splits)

lemma view_update_conn_same:
  assumes "\<And>c. conn_view (f c) = conn_view c"
  shows "tester_view (update_conn fd f s) = tester_view s"
proof (cases "conn_of s fd")
  case (Some c)
  then have "AList.update fd (conn_view c) (ds_connections (tester_view s)) = ds_connections (tester_view s)"
    by (intro update_same) simp
  with Some assms show ?thesis
    by (simp add: update_conn_def view_set_connections) (simp add: tester_view_def)
qed (simp add: update_conn_def)

lemma update_conn_other:
  "update_conn fd f (s\<lparr>ds_routing := R\<rparr>) = (update_conn fd f s)\<lparr>ds_routing := R\<rparr>"
  "update_conn fd f (s\<lparr>ds_channels := C\<rparr>) = (update_conn fd f s)\<lparr>ds_channels := C\<rparr>"
  "tester_view (s\<lparr>ds_routing := R\<rparr>) = (tester_view s)\<lparr>ds_routing := R\<rparr>"
  "tester_view (s\<lparr>ds_channels := C\<rparr>) = (tester_view s)\<lparr>ds_channels := C\<rparr>"
  by (simp_all add: update_conn_def tester_view_def split: option.split)

lemma view_handle_routing_activation:
  "tester_view (handle_routing_activation now fd p s) = tester_view (handle_routing_activation 0 fd p (tester_view s))"
proof -
  let ?a = "read_be16 p" and ?g = "vi_general_inactivity_timeout (ds_identity s)"
  have "tester_view (update_conn fd (arm_general_inactivity now ?g)
      ((update_conn fd (set_routing_active ?a ty) (s\<lparr>ds_routing := R\<rparr>))\<lparr>ds_channels := C\<rparr>)) =
    tester_view (update_conn fd (arm_general_inactivity 0 ?g)
      ((update_conn fd (set_routing_active ?a ty) ((tester_view s)\<lparr>ds_routing := R\<rparr>))\<lparr>ds_channels := C\<rparr>))" for ty R C
    unfolding update_conn_other update_conn_update_conn
    by (subst view_update_conn [where g = "\<lambda>c. arm_general_inactivity 0 ?g (set_routing_active ?a ty c)"])
       (simp_all add: arm_general_inactivity_def set_routing_active_def conn_view_def)
  then show ?thesis
    by (cases "conn_of s fd") (simp_all add: handle_routing_activation_def Let_def senders view_send_frame
        view_request_close if_distrib [of tester_view] cong: if_cong split del: if_split)
qed

lemma view_handle_diag_message:
  "tester_view (handle_diag_message fd p s) = handle_diag_message fd p (tester_view s)"
  by (simp add: handle_diag_message_def Let_def senders view_send_frame split: option.split)
     (simp add: tester_view_def)

lemma view_handle_alive_check:
  "tester_view (handle_alive_check now fd s) = tester_view (handle_alive_check 0 fd (tester_view s))"
  by (simp add: handle_alive_check_def Let_def view_send_frame)
     (subst view_update_conn, auto simp: arm_general_inactivity_def clear_alive_check_def conn_view_def)

lemma view_dispatch: "tester_view (dispatch now fd t p s) = tester_view (dispatch 0 fd t p (tester_view s))"
  unfolding dispatch_def if_distrib [of tester_view]
    view_handle_routing_activation [of now] view_handle_alive_check [of now]
  by (simp add: senders view_send_frame view_handle_diag_message entity_status_payload_def
      if_distrib [of tester_view] cong: if_cong split del: if_split)

lemma view_dispatch_cong:
  "tester_view s = tester_view s' \<Longrightarrow> tester_view (dispatch now fd t p s) = tester_view (dispatch now' fd t p s')"
  by (metis view_dispatch)

definition handle_frames :: "int \<Rightarrow> int \<Rightarrow> (u16 \<times> bytes) list \<Rightarrow> DoipServer \<Rightarrow> DoipServer" where
  "handle_frames now fd fs s = foldl (\<lambda>s (t, p). dispatch now fd t p s) s fs"

lemma handle_frames_simps [simp]:
  "handle_frames now fd [] s = s"
  "handle_frames now fd ((t, p) # fs) s = handle_frames now fd fs (dispatch now fd t p s)"
  "handle_frames now fd (fs @ gs) s = handle_frames now fd gs (handle_frames now fd fs s)"
  by (simp_all add: handle_frames_def)

lemma view_handle_frames_cong:
  "tester_view s = tester_view s' \<Longrightarrow> tester_view (handle_frames now fd fs s) = tester_view (handle_frames now' fd fs s')"
proof (induction fs arbitrary: s s')
  case (Cons f fs)
  obtain t p where "f = (t, p)" by force
  then show ?case using Cons.IH [OF view_dispatch_cong [OF Cons.prems]] by simp
qed simp

section \<open>No handler touches a receive buffer\<close>

lemma conn_rx_dispatch:
  "map_option dc_rx (conn_of (dispatch now fd t p s) g) = map_option dc_rx (conn_of s g)"
proof -
  have routing: "map_option dc_rx (conn_of (handle_routing_activation now fd p s) g) = map_option dc_rx (conn_of s g)"
    by (auto simp: handle_routing_activation_def Let_def senders arm_general_inactivity_def set_routing_active_def
        split: option.split)
  have "ds_connections (handle_diag_message fd p s) = ds_connections s"
    by (simp add: handle_diag_message_def Let_def senders split: option.split)
  with routing show ?thesis
    by (auto simp: dispatch_def senders handle_alive_check_def Let_def arm_general_inactivity_def clear_alive_check_def
        option.map_comp comp_def)
qed

section \<open>The frame loop\<close>

abbreviation frame_bytes :: "u16 \<times> bytes \<Rightarrow> bytes" where
  "frame_bytes \<equiv> \<lambda>(t, p). frame_header t (word_of_nat (length p)) @ p"

abbreviation frame_fits :: "u16 \<times> bytes \<Rightarrow> bool" where
  "frame_fits \<equiv> \<lambda>(t, p). length p \<le> 0xFFFFFF"

text \<open>A buffer without a complete frame that is the beginning of one.\<close>

definition incomplete :: "bytes \<Rightarrow> bool" where
  "incomplete r \<longleftrightarrow> r = [] \<or> (\<exists>f r'. frame_fits f \<and> frame_bytes f = r @ r' \<and> r' \<noteq> [])"

abbreviation frames_bytes :: "(u16 \<times> bytes) list \<Rightarrow> bytes" where
  "frames_bytes fs \<equiv> concat (map frame_bytes fs)"

lemma on_data_loop_frame:
  assumes "frame_fits (t, p)"
  shows "on_data_loop now fd (frame_bytes (t, p) @ rest) s =
    on_data_loop now fd rest (dispatch now fd t p (update_conn fd (\<lambda>c. c\<lparr>dc_rx := rest\<rparr>) s))"
proof -
  let ?c = "(conn_new fd)\<lparr>dc_rx := frame_bytes (t, p) @ rest\<rparr>"
  have l: "length p < 2 ^ 32" and m: "length p \<le> 0xFFFFFF" using assms by simp_all
  have rx: "dc_rx ?c = frame_header t (word_of_nat (length p)) @ p @ rest" by simp
  have h: "peek_header ?c = Some \<lparr>hd_version = kProtocolVersion, hd_inverse_version = NOT kProtocolVersion,
      hd_payload_type = t, hd_payload_length = word_of_nat (length p)\<rparr>"
    using parse_frame_header [OF l, of t "p @ rest"] by (simp add: peek_header_def kHeaderSize_def)
  have "\<not> kMaxPayloadLength < word_of_nat (length p)"
    using m unat_of_nat_u32 [OF l] by (simp add: kMaxPayloadLength_def word_less_nat_alt)
  moreover have "next_frame ?c = Some \<lparr>fr_payload_type = t, fr_payload = p\<rparr>" "next_frame_total ?c = 8 + length p"
    using next_frame_built [OF m rx] by simp_all
  moreover have "dc_rx (consume (8 + length p) ?c) = rest" by (simp add: consume_def)
  ultimately show ?thesis using h by (subst on_data_loop.simps) (simp add: Let_def version_ok_def)
qed

lemma on_data_loop_incomplete:
  assumes "incomplete r"
  shows "on_data_loop now fd r s = s"
proof (cases "length r < kHeaderSize")
  case True
  then show ?thesis by (subst on_data_loop.simps) (simp add: peek_header_def Let_def)
next
  case False
  then obtain t p r' where f: "length p \<le> 0xFFFFFF" "frame_header t (word_of_nat (length p)) @ p = r @ r'" "r' \<noteq> []"
    using assms by (auto simp: incomplete_def kHeaderSize_def)
  have l: "length p < 2 ^ 32" using f(1) by simp
  obtain q where q: "r = frame_header t (word_of_nat (length p)) @ q" "p = q @ r'"
  proof
    have k: "8 \<le> length r" using False by (simp add: kHeaderSize_def)
    show "p = drop 8 r @ r'" using arg_cong [OF f(2), of "drop 8"] k by simp
    have "take 8 r = frame_header t (word_of_nat (length p))"
      using arg_cong [OF f(2), of "take 8"] k by simp
    then show "r = frame_header t (word_of_nat (length p)) @ drop 8 r" by (metis append_take_drop_id)
  qed
  let ?c = "(conn_new fd)\<lparr>dc_rx := r\<rparr>"
  have h: "peek_header ?c = Some \<lparr>hd_version = kProtocolVersion, hd_inverse_version = NOT kProtocolVersion,
      hd_payload_type = t, hd_payload_length = word_of_nat (length p)\<rparr>"
    using parse_frame_header [OF l, of t q] q(1) by (simp add: peek_header_def kHeaderSize_def)
  have u: "unat (word_of_nat (length p) :: u32) = length p" by (rule unat_of_nat_u32 [OF l])
  have m: "\<not> kMaxPayloadLength < word_of_nat (length p)"
    using f(1) u by (simp add: kMaxPayloadLength_def word_less_nat_alt)
  have "length r < 8 + length p" using q f(3) by simp
  with h m u show ?thesis
    by (subst on_data_loop.simps) (simp add: Let_def version_ok_def next_frame_def kHeaderSize_def)
qed

lemma incomplete_no_frame:
  assumes "frame_fits f" shows "\<not> incomplete (frame_bytes f @ x)"
proof
  assume "incomplete (frame_bytes f @ x)"
  obtain t p where f: "f = (t, p)" by force
  have "frame_bytes f @ x \<noteq> []" by (simp add: f frame_header_def)
  with \<open>incomplete _\<close> obtain t' p' r' where g: "length p' \<le> 0xFFFFFF" "r' \<noteq> []"
      "frame_header t' (word_of_nat (length p')) @ p' = frame_header t (word_of_nat (length p)) @ p @ x @ r'"
    by (auto simp: incomplete_def f)
  have "parse_header (frame_header t' (word_of_nat (length p')) @ p') = parse_header (frame_header t (word_of_nat (length p)) @ p @ x @ r')"
    by (simp only: g(3))
  then have "word_of_nat (length p') = (word_of_nat (length p) :: u32)"
    using g(1) assms by (simp add: parse_frame_header f)
  then have "unat (word_of_nat (length p') :: u32) = unat (word_of_nat (length p) :: u32)" by simp
  then have "length p' = length p" using g(1) assms by (simp add: f unat_of_nat_u32)
  moreover have "p' = p @ x @ r'" using arg_cong [OF g(3), of "drop 8"] by simp
  ultimately show False using g(2) by simp
qed

lemma append_split:
  assumes "a @ b = F @ G"
  shows "(\<exists>v. a = F @ v \<and> v @ b = G) \<or> (\<exists>us. a @ us = F \<and> b = us @ G \<and> us \<noteq> [])"
proof -
  obtain us where "a = F @ us \<and> us @ b = G \<or> a @ us = F \<and> b = us @ G"
    using assms unfolding append_eq_append_conv2 by blast
  then show ?thesis by (cases "us = []") auto
qed

lemma split_at_frames:
  assumes "a @ b = frames_bytes fs" and "list_all frame_fits fs"
  shows "\<exists>fs1 fs2 rest. fs = fs1 @ fs2 \<and> a = frames_bytes fs1 @ rest \<and> incomplete rest \<and> rest @ b = frames_bytes fs2"
  using assms
proof (induction fs arbitrary: a)
  case Nil
  then have "a = []" "b = []" by simp_all
  then show ?case by (auto simp: incomplete_def)
next
  case (Cons f fs)
  have "a @ b = frame_bytes f @ frames_bytes fs" using Cons.prems(1) by simp
  from append_split [OF this] consider us where "a = frame_bytes f @ us" "us @ b = frames_bytes fs"
    | us where "a @ us = frame_bytes f" "b = us @ frames_bytes fs" "us \<noteq> []"
    by blast
  then show ?case
  proof cases
    case (1 us)
    obtain fs1 fs2 rest where "fs = fs1 @ fs2" "us = frames_bytes fs1 @ rest" "incomplete rest" "rest @ b = frames_bytes fs2"
      using Cons.IH [OF 1(2)] Cons.prems(2) by auto
    then show ?thesis using 1(1) by (intro exI [of _ "f # fs1"] exI [of _ fs2] exI [of _ rest]) simp
  next
    case (2 us)
    then have "incomplete a" using Cons.prems(2) unfolding incomplete_def
      by (intro disjI2 exI [of _ f] exI [of _ us]) simp
    moreover have "a @ b = frames_bytes (f # fs)" by (rule Cons.prems(1))
    ultimately show ?thesis by (intro exI [of _ "[]"] exI [of _ "f # fs"] exI [of _ a]) simp
  qed
qed

lemma on_data_loop_frames:
  assumes "list_all frame_fits fs" and "incomplete rest" and "map_option dc_rx (conn_of s fd) = Some (frames_bytes fs @ rest)"
  shows "tester_view (on_data_loop now fd (frames_bytes fs @ rest) s) = tester_view (handle_frames 0 fd fs s) \<and>
    map_option dc_rx (conn_of (on_data_loop now fd (frames_bytes fs @ rest) s) fd) = Some rest"
  using assms
proof (induction fs arbitrary: s)
  case Nil
  then show ?case by (simp add: on_data_loop_incomplete)
next
  case (Cons f fs)
  obtain t p where f: "f = (t, p)" by force
  let ?u = "update_conn fd (\<lambda>c. c\<lparr>dc_rx := frames_bytes fs @ rest\<rparr>) s"
  let ?s = "dispatch now fd t p ?u"
  have u: "tester_view ?u = tester_view s"
    by (rule view_update_conn_same) (simp add: conn_view_def)
  have "map_option dc_rx (conn_of ?s fd) = Some (frames_bytes fs @ rest)"
    using Cons.prems(3) by (auto simp: conn_rx_dispatch)
  note IH = Cons.IH [OF _ Cons.prems(2) this]
  show ?case
    using IH Cons.prems(1) view_handle_frames_cong [OF view_dispatch_cong [OF u, of now fd t p 0], of 0 fd fs 0]
      on_data_loop_frame [of t p now fd "frames_bytes fs @ rest" s]
    by (simp add: f)
qed

definition receive :: "int \<Rightarrow> (int \<times> bytes) list \<Rightarrow> DoipServer \<Rightarrow> DoipServer" where
  "receive fd chunks s = foldl (\<lambda>s (now, data). on_data now fd data s) s chunks"

lemma receive_simps [simp]:
  "receive fd [] s = s"
  "receive fd ((now, data) # chunks) s = receive fd chunks (on_data now fd data s)"
  by (simp_all add: receive_def)

lemma on_data_known:
  assumes "conn_of s fd = Some c"
  shows "on_data now fd data s = on_data_loop now fd (dc_rx c @ data)
    (update_conn fd (\<lambda>c. touch now (vi_general_inactivity_timeout (ds_identity s)) (conn_append data c)) s)"
  using assms by (simp add: on_data_def Let_def touch_def conn_append_def arm_general_inactivity_def)

lemma receive_frames:
  assumes "map_option dc_rx (conn_of s fd) = Some r" and "incomplete r" and "list_all frame_fits fs"
    and "r @ concat (map snd chunks) = frames_bytes fs"
  shows "tester_view (receive fd chunks s) = tester_view (handle_frames 0 fd fs s)"
  using assms
proof (induction chunks arbitrary: s r fs)
  case Nil
  have "fs = []"
  proof (cases fs)
    case (Cons f gs)
    then show ?thesis using Nil incomplete_no_frame [of f "frames_bytes gs"] by simp
  qed
  then show ?case by simp
next
  case (Cons ch chunks)
  obtain now data where ch: "ch = (now, data)" by force
  obtain c where c: "conn_of s fd = Some c" "dc_rx c = r" using Cons.prems(1) by auto
  let ?u = "update_conn fd (\<lambda>c. touch now (vi_general_inactivity_timeout (ds_identity s)) (conn_append data c)) s"
  have u: "tester_view ?u = tester_view s"
    by (rule view_update_conn_same) (simp add: conn_view_def touch_def conn_append_def arm_general_inactivity_def)
  have rx: "map_option dc_rx (conn_of ?u fd) = Some (r @ data)"
    using c by (simp add: touch_def conn_append_def arm_general_inactivity_def)
  have "(r @ data) @ concat (map snd chunks) = frames_bytes fs" using Cons.prems(4) by (simp add: ch)
  from split_at_frames [OF this Cons.prems(3)] obtain fs1 fs2 rest where
    s: "fs = fs1 @ fs2" "r @ data = frames_bytes fs1 @ rest" "incomplete rest" "rest @ concat (map snd chunks) = frames_bytes fs2"
    by blast
  have f: "list_all frame_fits fs1" "list_all frame_fits fs2" using Cons.prems(3) s(1) by simp_all
  note loop = on_data_loop_frames [OF f(1) s(3), of ?u fd now, folded s(2), OF rx]
  have d: "on_data now fd data s = on_data_loop now fd (r @ data) ?u" using on_data_known [OF c(1)] c(2) by simp
  have "tester_view (receive fd chunks (on_data now fd data s)) = tester_view (handle_frames 0 fd fs2 (on_data now fd data s))"
    using loop f(2) s(3,4) unfolding d by (intro Cons.IH [of _ rest]) simp_all
  also have "\<dots> = tester_view (handle_frames 0 fd fs2 (handle_frames 0 fd fs1 s))"
    using loop view_handle_frames_cong [OF u, of 0 fd fs1 0] unfolding d by (intro view_handle_frames_cong) simp
  finally show ?case by (simp add: ch s(1))
qed

lemma on_data_new:
  assumes "conn_of s fd = None"
  shows "on_data now fd data s = on_data now fd data
    (s\<lparr>ds_connections := AList.update fd (arm_initial_inactivity now (vi_initial_inactivity_timeout (ds_identity s)) (conn_new fd)) (ds_connections s)\<rparr>)"
  using assms by (simp add: on_data_def Let_def update_conv')

text \<open>
  C18: the frames a tester sends are handled one by one in the order they were sent, and nothing else happens,
  however TCP cuts them into pieces and whenever the pieces arrive: the state the tester and the
  UDS server can observe (what was sent, which sockets were shut down, which requests the UDS server
  got, routing table, channels and connection states) is the one that results from dispatching
  the frames. This holds for a connected socket without buffered bytes and for a new one.
\<close>

theorem doip_stream_framing:
  assumes "list_all (\<lambda>(t, p). length p \<le> 0xFFFFFF) fs"
    and "concat (map snd chunks) = concat (map (\<lambda>(t, p). build_frame (8 + length p) t p) fs)"
    and "case conn_of s fd of None \<Rightarrow> chunks \<noteq> [] | Some c \<Rightarrow> dc_rx c = []"
  shows "tester_view (receive fd chunks s) = tester_view (handle_frames 0 fd fs (on_data 0 fd [] s))"
proof -
  have b: "concat (map snd chunks) = frames_bytes fs"
    using assms(2) by (simp add: build_frame_def kHeaderSize_def case_prod_unfold)
  have known: "tester_view (receive fd chunks s') = tester_view (handle_frames 0 fd fs (on_data 0 fd [] s'))"
    if "conn_of s' fd = Some c" "dc_rx c = []" for s' c
  proof -
    have "on_data 0 fd [] s' = update_conn fd (\<lambda>c. touch 0 (vi_general_inactivity_timeout (ds_identity s')) (conn_append [] c)) s'"
      using on_data_known [OF that(1)] that(2) by (simp add: on_data_loop_incomplete incomplete_def)
    moreover have "tester_view (update_conn fd (\<lambda>c. touch 0 g (conn_append [] c)) s') = tester_view s'" for g
      by (rule view_update_conn_same) (simp add: conn_view_def touch_def conn_append_def arm_general_inactivity_def)
    ultimately have "tester_view (on_data 0 fd [] s') = tester_view s'" by simp
    moreover have "tester_view (receive fd chunks s') = tester_view (handle_frames 0 fd fs s')"
      using that assms(1) b by (intro receive_frames [of _ _ "[]"]) (simp_all add: incomplete_def)
    ultimately show ?thesis using view_handle_frames_cong by metis
  qed
  show ?thesis
  proof (cases "conn_of s fd")
    case None
    then obtain now data rest where ch: "chunks = (now, data) # rest" using assms(3) by (cases chunks) auto
    let ?add = "\<lambda>now. s\<lparr>ds_connections := AList.update fd (arm_initial_inactivity now
        (vi_initial_inactivity_timeout (ds_identity s)) (conn_new fd)) (ds_connections s)\<rparr>"
    have v: "tester_view (?add now) = tester_view (?add 0)"
      by (simp add: view_set_connections conn_view_def arm_initial_inactivity_def)
    have c: "conn_of (?add n) fd = Some (arm_initial_inactivity n (vi_initial_inactivity_timeout (ds_identity s)) (conn_new fd))" for n
      by (simp add: update_conv')
    have "receive fd chunks s = receive fd chunks (?add now)" using on_data_new [OF None, of now data] by (simp add: ch)
    moreover have "on_data 0 fd [] s = on_data 0 fd [] (?add 0)" by (rule on_data_new [OF None])
    moreover have "tester_view (receive fd chunks (?add now)) = tester_view (handle_frames 0 fd fs (?add now))" 
      using c [of now] assms(1) b by (intro receive_frames [of _ _ "[]"]) (simp_all add: incomplete_def arm_initial_inactivity_def conn_new_def)
    moreover have "tester_view (receive fd chunks (?add 0)) = tester_view (handle_frames 0 fd fs (?add 0))" 
      using c [of 0] assms(1) b by (intro receive_frames [of _ _ "[]"]) (simp_all add: incomplete_def arm_initial_inactivity_def conn_new_def)
    moreover have "tester_view (receive fd chunks (?add 0)) = tester_view (handle_frames 0 fd fs (on_data 0 fd [] (?add 0)))"
      using known [OF c [of 0]] by (simp add: arm_initial_inactivity_def conn_new_def)
    ultimately show ?thesis using view_handle_frames_cong [OF v, of 0 fd fs 0] by simp
  next
    case (Some c)
    then show ?thesis using known assms(3) by simp
  qed
qed

theorem doip_stream_framing_witness:
  "tester_view (receive 5 [(0, take 3 ex_activation), (7, drop 3 ex_activation)] ex_server) =
   tester_view (dispatch 0 5 0x0005 [0x0E, 0x00, 0, 0, 0, 0, 0] (on_data 0 5 [] ex_server))"
  using doip_stream_framing [of "[(0x0005, [0x0E, 0x00, 0, 0, 0, 0, 0])]"
      "[(0, take 3 ex_activation), (7, drop 3 ex_activation)]" ex_server 5]
  by (simp add: ex_activation_def build_frame_def kHeaderSize_def ex_server_def server_new_def)

end
