(* ===== verification/DoipTraffic.thy ===== *)
theory DoipTraffic
  imports DoipStream
begin

text \<open>
  What passes between a tester and the UDS server: which requests are handed over, how an answer
  arrives at the tester, and what happens to a tester that is checked for being alive.
\<close>

section \<open>Requests\<close>

lemma dispatch_identity: "ds_identity (dispatch now fd t p s) = ds_identity s"
proof -
  have "ds_identity (handle_routing_activation now fd p s) = ds_identity s"
    by (simp add: handle_routing_activation_def Let_def senders split: option.split)
  moreover have "ds_identity (handle_diag_message fd p s) = ds_identity s"
    by (simp add: handle_diag_message_def Let_def senders split: option.split)
  ultimately show ?thesis by (simp add: dispatch_def senders handle_alive_check_def Let_def)
qed

lemma on_data_identity: "ds_identity (on_data now fd data s) = ds_identity s"
  by (rule on_data_preserves [where I = "\<lambda>s'. ds_identity s' = ds_identity s"])
     (simp_all add: dispatch_identity senders)

text \<open>The requests one frame adds, and the tester address a socket keeps while it is open.\<close>

abbreviation routed :: "DoipServer \<Rightarrow> int \<rightharpoonup> u16" where
  "routed s \<equiv> map_of (rt_fd_to_address (ds_routing s))"

definition new_requests_ok :: "int \<Rightarrow> DoipServer \<Rightarrow> DoipServer \<Rightarrow> bool" where
  "new_requests_ok fd s s' \<longleftrightarrow> (\<exists>new. ds_uds_calls s' = ds_uds_calls s @ new \<and>
     (\<forall>q \<in> set new. ch_fd (uq_channel q) = fd \<and> routed s' fd = Some (uq_source q))) \<and>
     (\<forall>a. routed s fd = Some a \<longrightarrow> routed s' fd = Some a)"

lemma new_requests_okI:
  assumes "ds_uds_calls s' = ds_uds_calls s" and "\<And>a. routed s fd = Some a \<Longrightarrow> routed s' fd = Some a"
  shows "new_requests_ok fd s s'"
  using assms by (simp add: new_requests_ok_def)

lemma new_requests_ok_trans:
  assumes "new_requests_ok fd s t" and "new_requests_ok fd t u"
  shows "new_requests_ok fd s u"
proof -
  obtain n1 n2 where "ds_uds_calls t = ds_uds_calls s @ n1" "ds_uds_calls u = ds_uds_calls t @ n2"
    "\<forall>q \<in> set n1. ch_fd (uq_channel q) = fd \<and> routed t fd = Some (uq_source q)"
    "\<forall>q \<in> set n2. ch_fd (uq_channel q) = fd \<and> routed u fd = Some (uq_source q)"
    using assms unfolding new_requests_ok_def by blast
  then show ?thesis
    using assms unfolding new_requests_ok_def by (intro conjI exI [of _ "n1 @ n2"]) auto
qed

lemma diag_message_requests:
  assumes "server_inv s"
  shows "new_requests_ok fd s (handle_diag_message fd p s)"
proof (cases "conn_of s fd")
  case None
  then show ?thesis by (simp add: handle_diag_message_def new_requests_okI)
next
  case (Some c)
  show ?thesis
  proof (cases "routing_active c")
    case True
    note ch = inv_channel_of [OF assms Some True]
    have "routed s fd = Some (dc_tester_address c)" using server_invD(2) [OF assms] Some True by blast
    then show ?thesis
      by (auto simp: handle_diag_message_def Some True ch Let_def senders new_requests_ok_def)
  qed (simp add: handle_diag_message_def Some new_requests_okI)
qed

lemma routing_activation_requests:
  assumes "server_inv s"
  shows "new_requests_ok fd s (handle_routing_activation now fd p s)"
proof (rule new_requests_okI)
  show "ds_uds_calls (handle_routing_activation now fd p s) = ds_uds_calls s"
    by (simp add: handle_routing_activation_def Let_def senders split: option.split)
  fix a assume a: "routed s fd = Some a"
  then obtain c where c: "conn_of s fd = Some c" "routing_active c" "dc_tester_address c = a"
    using server_invD(2) [OF assms] by blast
  then show "routed (handle_routing_activation now fd p s) fd = Some a"
    using a by (simp add: handle_routing_activation_def Let_def senders rt.addr_act [OF server_invD(1) [OF assms]])
qed

lemma dispatch_requests:
  assumes "server_inv s"
  shows "new_requests_ok fd s (dispatch now fd t p s)"
  using diag_message_requests [OF assms, of fd p] routing_activation_requests [OF assms, of fd now p]
  by (simp add: dispatch_def senders new_requests_okI handle_alive_check_def Let_def)

lemma on_data_requests:
  assumes "server_inv s" and "0 \<le> fd"
  shows "new_requests_ok fd s (on_data now fd data s)"
proof -
  have "server_inv (on_data now fd data s) \<and> new_requests_ok fd s (on_data now fd data s)"
  proof (rule on_data_preserves [where I = "\<lambda>s'. server_inv s' \<and> new_requests_ok fd s s'"])
    have k: "new_requests_ok fd t (update_conn fd f t)" "new_requests_ok fd t (request_close fd (send_generic_nack fd code t))" for t f code
      by (simp_all add: new_requests_okI senders)
    show "server_inv (s\<lparr>ds_connections := AList.update fd (arm_initial_inactivity now d (conn_new fd)) (ds_connections s)\<rparr>) \<and>
        new_requests_ok fd s (s\<lparr>ds_connections := AList.update fd (arm_initial_inactivity now d (conn_new fd)) (ds_connections s)\<rparr>)"
      if "conn_of s fd = None" for d
      using inv_new_conn [OF assms that] by (simp add: new_requests_okI)
    fix t assume t: "server_inv t \<and> new_requests_ok fd s t"
    show "server_inv (update_conn fd (\<lambda>c. touch now g (conn_append data c)) t) \<and>
        new_requests_ok fd s (update_conn fd (\<lambda>c. touch now g (conn_append data c)) t)" for g
      using t k new_requests_ok_trans by (auto simp: inv_update_conn touch_def conn_append_def arm_general_inactivity_def)
    show "server_inv (update_conn fd (\<lambda>c. c\<lparr>dc_rx := r\<rparr>) t) \<and> new_requests_ok fd s (update_conn fd (\<lambda>c. c\<lparr>dc_rx := r\<rparr>) t)" for r
      using t k new_requests_ok_trans by (auto simp: inv_update_conn)
    show "server_inv (dispatch now fd ty p t) \<and> new_requests_ok fd s (dispatch now fd ty p t)" for ty p
      using t dispatch_requests new_requests_ok_trans by (blast intro: inv_dispatch)
    show "server_inv (request_close fd (send_generic_nack fd code t)) \<and>
        new_requests_ok fd s (request_close fd (send_generic_nack fd code t))" for code
      using t k new_requests_ok_trans by (auto simp: senders)
  qed (simp add: assms(1) new_requests_okI)
  then show ?thesis ..
qed

text \<open>
  C11: whatever a socket delivers, a request reaches the UDS server only when routing is active
  on that socket: its source address is the address the socket is routed to, its channel answers
  on that socket, its target is this entity or a functional address, and its body is neither
  empty nor longer than the configured maximum. Requests that were handed over before stay as they are.
\<close>

theorem uds_requests_are_authorised:
  assumes "doip_step\<^sup>*\<^sup>* (server_new ident functional uds) s" and "0 \<le> fd"
  shows "\<exists>new. ds_uds_calls (on_data now fd data s) = ds_uds_calls s @ new \<and>
    (\<forall>q \<in> set new. ch_fd (uq_channel q) = fd \<and> routed (on_data now fd data s) fd = Some (uq_source q) \<and>
       uds_request_ok (ds_identity (on_data now fd data s)) (ds_functional (on_data now fd data s)) q)"
proof -
  note inv = doip_reachable_inv [OF assms(1)]
  note server_invD(6) [OF inv_on_data [OF inv assms(2), of now data]]
  then show ?thesis
    using on_data_requests [OF inv assms(2), of now data] unfolding new_requests_ok_def by fastforce
qed

theorem uds_requests_are_authorised_witness:
  "\<exists>q. ds_uds_calls (on_data 3 5 (build_frame 100 0x8001 [0x0E, 0x00, 0x0E, 0x80, 0x3E, 0x00]) ex_active) = [q] \<and>
     uq_source q = 0x0E00 \<and> routed (on_data 3 5 (build_frame 100 0x8001 [0x0E, 0x00, 0x0E, 0x80, 0x3E, 0x00]) ex_active) 5 = Some 0x0E00"
proof -
  let ?s = "on_data 3 5 (build_frame 100 0x8001 [0x0E, 0x00, 0x0E, 0x80, 0x3E, 0x00]) ex_active"
  have r: "doip_step\<^sup>*\<^sup>* (server_new identity_default [0x07DF] True) ex_active"
    unfolding ex_active_def ex_server_def by (rule r_into_rtranclp) (simp add: step_data)
  have q: "map uq_source (ds_uds_calls ?s) = [0x0E00] \<and> ds_uds_calls ex_active = []" by code_simp
  then obtain q where "ds_uds_calls ?s = [q]" "uq_source q = 0x0E00" by auto
  with uds_requests_are_authorised [OF r, of 5 3 "build_frame 100 0x8001 [0x0E, 0x00, 0x0E, 0x80, 0x3E, 0x00]"] q
  show ?thesis by auto
qed

section \<open>Answers\<close>

lemma send_loop_all: "send_loop [] data = (data, [])"
  by (cases data) simp_all

lemma SendDiagMessage_payload:
  "SendDiagMessage fd sa ta body s = (True, send_frame fd kDiagMessage (write_be16 sa @ write_be16 ta @ body) s)"
  by (simp add: SendDiagMessage_def write_be16_def)

text \<open>
  An answer of the UDS server with a body of at most 4092 bytes is sent as one diagnostic
  message: when the socket takes it, the tester that reads the bytes gets exactly one frame with
  source, target and body. A longer body, although the channel announces a maximal payload
  of 4096 bytes, is not sent at all and still reported as sent.
\<close>

theorem answer_reaches_tester:
  assumes "0 \<le> ch_fd ch" and "ds_sends s = []"
  shows "(length body \<le> 4092 \<longrightarrow>
      (\<exists>bytes. Respond ch (Some (sa, ta, body)) s = (True, s\<lparr>ds_sent := ds_sent s @ [(ch_fd ch, bytes)]\<rparr>) \<and>
        next_frame ((conn_new 0)\<lparr>dc_rx := bytes @ tail\<rparr>) =
          Some \<lparr>fr_payload_type = payload_code kDiagMessage, fr_payload = write_be16 sa @ write_be16 ta @ body\<rparr> \<and>
        dc_rx (consume (next_frame_total ((conn_new 0)\<lparr>dc_rx := bytes @ tail\<rparr>)) ((conn_new 0)\<lparr>dc_rx := bytes @ tail\<rparr>)) = tail)) \<and>
    (4092 < length body \<longrightarrow> Respond ch (Some (sa, ta, body)) s = (True, s)) \<and>
    4092 < GetMaxPayloadLength"
proof -
  let ?p = "write_be16 sa @ write_be16 ta @ body"
  let ?b = "frame_header (payload_code kDiagMessage) (word_of_nat (length ?p)) @ ?p"
  have l: "length ?p = 4 + length body" by (simp add: write_be16_def)
  have r: "Respond ch (Some (sa, ta, body)) s = (True, send_frame (ch_fd ch) kDiagMessage ?p s)"
    using assms(1) by (simp add: Respond_def SendDiagMessage_payload)
  have long: "send_frame (ch_fd ch) kDiagMessage ?p s = s" if "4092 < length body"
    using that l by (simp add: send_frame_def build_frame_def kHeaderSize_def)
  have short: "send_frame (ch_fd ch) kDiagMessage ?p s = s\<lparr>ds_sent := ds_sent s @ [(ch_fd ch, ?b)]\<rparr>" if "length body \<le> 4092"
  proof -
    have "build_frame (kHeaderSize + 4096) (payload_code kDiagMessage) ?p = ?b"
      using that l by (simp add: build_frame_def kHeaderSize_def)
    moreover have "?b \<noteq> []" by (simp add: frame_header_def)
    ultimately show ?thesis unfolding send_frame_def using assms(2) by (simp add: send_loop_all Let_def)
  qed
  have m: "length ?p \<le> 0xFFFFFF" if "length body \<le> 4092" using that l by simp
  have n: "next_frame ((conn_new 0)\<lparr>dc_rx := ?b @ tail\<rparr>) =
        Some \<lparr>fr_payload_type = payload_code kDiagMessage, fr_payload = ?p\<rparr> \<and>
      dc_rx (consume (next_frame_total ((conn_new 0)\<lparr>dc_rx := ?b @ tail\<rparr>)) ((conn_new 0)\<lparr>dc_rx := ?b @ tail\<rparr>)) = tail"
    if "length body \<le> 4092"
  proof -
    have "dc_rx ((conn_new 0)\<lparr>dc_rx := ?b @ tail\<rparr>) = frame_header (payload_code kDiagMessage) (word_of_nat (length ?p)) @ ?p @ tail"
      by simp
    from next_frame_built [OF m [OF that] this] show ?thesis by blast
  qed
  show ?thesis
    unfolding r using long short n by (auto simp: GetMaxPayloadLength_def)
qed

theorem answer_reaches_tester_witness:
  "\<exists>bytes. Respond \<lparr>ch_fd = 5, ch_sa = 0x0E00\<rparr> (Some (0x0E80, 0x0E00, [0x7E, 0x00])) ex_active =
     (True, ex_active\<lparr>ds_sent := ds_sent ex_active @ [(5, bytes)]\<rparr>)"
proof -
  have "ds_sends ex_active = []" by code_simp
  with answer_reaches_tester [of "\<lparr>ch_fd = 5, ch_sa = 0x0E00\<rparr>" ex_active "[0x7E, 0x00]" "0x0E80" "0x0E00" "[]"]
  show ?thesis by auto
qed

text \<open>
  On a non-blocking socket whose buffer is full \<open>send\<close> fails in the middle of a frame, and the
  server drops the rest of it without closing the connection. The tester then reads the beginning
  of the next answer as the missing bytes: here it gets a message that no one sent.
\<close>

theorem partial_send_corrupts_answers:
  "\<exists>s ch a b s1 s2 frame.
     Respond ch (Some (0x0E80, 0x0E00, a)) s = (True, s1) \<and> Respond ch (Some (0x0E80, 0x0E00, b)) s1 = (True, s2) \<and>
     ds_shutdown s2 = ds_shutdown s \<and>
     next_frame ((conn_new 0)\<lparr>dc_rx := concat (map snd (drop (length (ds_sent s)) (ds_sent s2)))\<rparr>) = Some frame \<and>
     fr_payload frame \<noteq> write_be16 0x0E80 @ write_be16 0x0E00 @ a \<and>
     fr_payload frame \<noteq> write_be16 0x0E80 @ write_be16 0x0E00 @ b"
proof -
  let ?s = "ex_active\<lparr>ds_sends := [13, -1]\<rparr>"
  let ?ch = "\<lparr>ch_fd = 5, ch_sa = 0x0E00\<rparr>"
  let ?s1 = "snd (Respond ?ch (Some (0x0E80, 0x0E00, [0x62, 0xF1, 0x90])) ?s)"
  let ?s2 = "snd (Respond ?ch (Some (0x0E80, 0x0E00, [0x7E, 0x00])) ?s1)"
  let ?f = "next_frame ((conn_new 0)\<lparr>dc_rx := concat (map snd (drop (length (ds_sent ?s)) (ds_sent ?s2)))\<rparr>)"
  have "fst (Respond ?ch (Some (0x0E80, 0x0E00, [0x62, 0xF1, 0x90])) ?s) \<and>
      fst (Respond ?ch (Some (0x0E80, 0x0E00, [0x7E, 0x00])) ?s1) \<and> ds_shutdown ?s2 = ds_shutdown ?s \<and>
      map_option fr_payload ?f = Some [0x0E, 0x80, 0x0E, 0x00, 0x62, 0x02, 0xFD]"
    by code_simp
  then obtain frame where "?f = Some frame" "fr_payload frame = [0x0E, 0x80, 0x0E, 0x00, 0x62, 0x02, 0xFD]"
    and r: "Respond ?ch (Some (0x0E80, 0x0E00, [0x62, 0xF1, 0x90])) ?s = (True, ?s1)"
      "Respond ?ch (Some (0x0E80, 0x0E00, [0x7E, 0x00])) ?s1 = (True, ?s2)" "ds_shutdown ?s2 = ds_shutdown ?s"
    by (auto simp: prod_eq_iff)
  then show ?thesis
    by (intro exI [of _ ?s] exI [of _ ?ch] exI [of _ "[0x62, 0xF1, 0x90]"] exI [of _ "[0x7E, 0x00]"] exI [of _ ?s1]
        exI [of _ ?s2] exI [of _ frame]) (simp add: write_be16_def)
qed

section \<open>Alive checks\<close>

text \<open>Only an alive check request of the tester clears a pending alive check.\<close>

abbreviation alive_of :: "DoipServer \<Rightarrow> int \<Rightarrow> (bool \<times> bool \<times> int) option" where
  "alive_of s fd \<equiv> map_option (\<lambda>c. (routing_active c, dc_alive_pending c, dc_alive_sent_at c)) (conn_of s fd)"

lemma alive_of_dispatch:
  assumes "t \<noteq> payload_code kAliveCheckRequest" and "alive_of s fd = Some (True, True, a)"
  shows "alive_of (dispatch now fd t p s) fd = Some (True, True, a)"
proof -
  obtain c where c: "conn_of s fd = Some c" "routing_active c" "dc_alive_pending c" "dc_alive_sent_at c = a"
    using assms(2) by auto
  have "alive_of (handle_routing_activation now fd p s) fd = Some (True, True, a)"
    using c by (auto simp: handle_routing_activation_def Let_def senders arm_general_inactivity_def
        set_routing_active_def routing_active_def)
  moreover have "ds_connections (handle_diag_message fd p s) = ds_connections s"
    by (simp add: handle_diag_message_def Let_def senders split: option.split)
  ultimately show ?thesis using assms by (auto simp: dispatch_def senders)
qed

lemma alive_of_loop:
  assumes "list_all frame_fits fs" and "\<forall>(t, p) \<in> set fs. t \<noteq> payload_code kAliveCheckRequest"
    and "alive_of s fd = Some (True, True, a)"
  shows "alive_of (on_data_loop now fd (frames_bytes fs) s) fd = Some (True, True, a)"
  using assms
proof (induction fs arbitrary: s)
  case Nil
  then show ?case by (simp add: on_data_loop_incomplete incomplete_def)
next
  case (Cons f fs)
  obtain t p where f: "f = (t, p)" by force
  have "alive_of (update_conn fd (\<lambda>c. c\<lparr>dc_rx := frames_bytes fs\<rparr>) s) fd = Some (True, True, a)"
    using Cons.prems(3) by (auto simp: routing_active_def)
  with Cons show ?case
    using on_data_loop_frame [of t p now fd "frames_bytes fs" s] alive_of_dispatch by (simp add: f)
qed

lemma shutdown_close_all: "ds_shutdown (foldl (\<lambda>s fd. request_close fd s) s fds) = ds_shutdown s @ fds"
  by (induction fds arbitrary: s) (simp_all add: request_close_def)

lemma maintain_loop_closes:
  assumes "(fd, c) \<in> set cs" and "routing_active c" and "alive_timeout now (vi_alive_check_timeout (ds_identity s)) c"
  shows "fd \<in> set (fst (maintain_loop now cs s))"
  using assms
  by (induction now cs s rule: maintain_loop.induct) (auto split: prod.splits)

lemma maintain_closes:
  assumes "alive_of s fd = Some (True, True, a)" and "a + vi_alive_check_timeout (ds_identity s) \<le> now"
  shows "fd \<in> set (ds_shutdown (maintain_connections now True s))"
proof -
  obtain c where c: "conn_of s fd = Some c" "routing_active c" "dc_alive_pending c" "dc_alive_sent_at c = a"
    using assms(1) by auto
  have "fd \<in> set (fst (maintain_loop now (ds_connections s) s))"
    using c assms(2) map_of_SomeD [OF c(1)] by (intro maintain_loop_closes [of fd c]) (simp_all add: alive_timeout_def)
  then show ?thesis by (auto simp: maintain_connections_def shutdown_close_all split: prod.split)
qed

text \<open>
  Once the server has sent an alive check, the connection is lost: whatever frames the tester
  sends short of an alive check request of its own, diagnostic messages and the alive check response
  included, the next maintenance after the timeout shuts the socket down. The alive check response itself is
  answered with a negative acknowledge for an unsupported payload type.
\<close>

theorem alive_check_ends_connection:
  assumes "conn_of s fd = Some c" and "routing_active c" and "dc_alive_pending c" and "dc_rx c = []"
    and "list_all (\<lambda>(t, p). length p \<le> 0xFFFFFF \<and> t \<noteq> payload_code kAliveCheckRequest) fs"
    and "dc_alive_sent_at c + vi_alive_check_timeout (ds_identity s) \<le> later"
  shows "fd \<in> set (ds_shutdown (maintain_connections later True
      (on_data now fd (concat (map (\<lambda>(t, p). build_frame (8 + length p) t p) fs)) s))) \<and>
    dispatch now fd (payload_code kAliveCheckResponse) p s = send_generic_nack fd kUnsupportedPayloadType s"
proof -
  have b: "concat (map (\<lambda>(t, p). build_frame (8 + length p) t p) fs) = frames_bytes fs"
    by (simp add: build_frame_def kHeaderSize_def case_prod_unfold)
  let ?u = "update_conn fd (\<lambda>c. touch now (vi_general_inactivity_timeout (ds_identity s)) (conn_append (frames_bytes fs) c)) s"
  have f: "list_all frame_fits fs" "\<forall>(t, p) \<in> set fs. t \<noteq> payload_code kAliveCheckRequest"
    using assms(5) by (auto simp: list_all_iff)
  have "alive_of ?u fd = Some (True, True, dc_alive_sent_at c)"
    using assms(1-3) by (simp add: touch_def conn_append_def arm_general_inactivity_def routing_active_def)
  note loop = alive_of_loop [OF f this, of now]
  have d: "on_data now fd (frames_bytes fs) s = on_data_loop now fd (frames_bytes fs) ?u"
    using on_data_known [OF assms(1)] assms(4) by simp
  have "ds_identity (on_data now fd (frames_bytes fs) s) = ds_identity s" by (rule on_data_identity)
  then show ?thesis
    unfolding b using maintain_closes [OF loop, of later] assms(6) by (simp add: d dispatch_def)
qed

theorem alive_check_ends_connection_witness:
  "5 \<in> set (ds_shutdown (maintain_connections 9000 True (on_data 6001 5
      (build_frame 10 (payload_code kAliveCheckResponse) [0x0E, 0x00]) (maintain_connections 6000 True ex_active))))"
proof -
  let ?s = "maintain_connections 6000 True ex_active"
  have "map_option (\<lambda>c. (routing_active c, dc_alive_pending c, dc_rx c, dc_alive_sent_at c)) (conn_of ?s 5) = Some (True, True, [], 6000)"
    by code_simp
  then obtain c where "conn_of ?s 5 = Some c" "routing_active c" "dc_alive_pending c" "dc_rx c = []" "dc_alive_sent_at c = 6000"
    by auto
  moreover have "vi_alive_check_timeout (ds_identity ?s) = 3000" by code_simp
  ultimately show ?thesis
    using alive_check_ends_connection [of ?s 5 c "[(payload_code kAliveCheckResponse, [0x0E, 0x00])]" 9000 6001] by simp
qed

end
