(* ===== verification/UdsCommon.thy ===== *)
theory UdsCommon
  imports Prelude
begin

text \<open>
  What the UDS services share (src/src/uds/capi/isoft-uds/src/server): the negative response codes,
  the \<open>Serialize\<close> cursor over a message body (common/serialize.h), the response statuses and
  the construction of responses (common/request_context.cpp).

  A cursor is a body and a position. A read that does not fit returns zero and leaves the position
  where it was; a read of zero bytes moves it by the size of the result type, as in the code. The
  position never passes the end of the body before a read in the services modelled here, so
  subtracting it from the size does not wrap.
\<close>

section \<open>Negative response codes\<close>

text \<open>An enumeration over \<open>uint8_t\<close> that the code casts from and to any byte: a byte with names.\<close>

type_synonym NrcErrc = byte

definition kSuccess_nrc :: NrcErrc where "kSuccess_nrc = 0x00"
definition kGeneralReject :: NrcErrc where "kGeneralReject = 0x10"
definition kServiceNotSupported :: NrcErrc where "kServiceNotSupported = 0x11"
definition kSubfunctionNotSupported :: NrcErrc where "kSubfunctionNotSupported = 0x12"
definition kIncorrectMessageLengthOrInvalidFormat :: NrcErrc where "kIncorrectMessageLengthOrInvalidFormat = 0x13"
definition kResponseTooLong :: NrcErrc where "kResponseTooLong = 0x14"
definition kBusyRepeatRequest :: NrcErrc where "kBusyRepeatRequest = 0x21"
definition kConditionsNotCorrect :: NrcErrc where "kConditionsNotCorrect = 0x22"
definition kRequestSequenceError :: NrcErrc where "kRequestSequenceError = 0x24"
definition kNoResponseFromSubnetComponent :: NrcErrc where "kNoResponseFromSubnetComponent = 0x25"
definition kFailurePreventsExecutionOfRequestedAction :: NrcErrc where "kFailurePreventsExecutionOfRequestedAction = 0x26"
definition kRequestOutOfRange :: NrcErrc where "kRequestOutOfRange = 0x31"
definition kSecurityAccessDenied :: NrcErrc where "kSecurityAccessDenied = 0x33"
definition kAuthenticationRequired :: NrcErrc where "kAuthenticationRequired = 0x34"
definition kInvalidKey :: NrcErrc where "kInvalidKey = 0x35"
definition kExceedNumberOfAttempts :: NrcErrc where "kExceedNumberOfAttempts = 0x36"
definition kRequiredTimeDelayNotExpired :: NrcErrc where "kRequiredTimeDelayNotExpired = 0x37"
definition kCertificateVerificationFailedInvalidTimePeriod :: NrcErrc where "kCertificateVerificationFailedInvalidTimePeriod = 0x50"
definition kCertificateVerificationFailedInvalidSignature :: NrcErrc where "kCertificateVerificationFailedInvalidSignature = 0x51"
definition kCertificateVerificationFailedInvalidChainOfTrust :: NrcErrc where "kCertificateVerificationFailedInvalidChainOfTrust = 0x52"
definition kCertificateVerificationFailedInvalidType :: NrcErrc where "kCertificateVerificationFailedInvalidType = 0x53"
definition kCertificateVerificationFailedInvalidFormat :: NrcErrc where "kCertificateVerificationFailedInvalidFormat = 0x54"
definition kCertificateVerificationFailedInvalidContent :: NrcErrc where "kCertificateVerificationFailedInvalidContent = 0x55"
definition kCertificateVerificationFailedInvalidScope :: NrcErrc where "kCertificateVerificationFailedInvalidScope = 0x56"
definition kCertificateVerificationFailedInvalidCertificateRevoked :: NrcErrc where "kCertificateVerificationFailedInvalidCertificateRevoked = 0x57"
definition kOwnershipVerificationFailed :: NrcErrc where "kOwnershipVerificationFailed = 0x58"
definition kChallengeCalculationFailed :: NrcErrc where "kChallengeCalculationFailed = 0x59"
definition kSettingAccessRightsFailed :: NrcErrc where "kSettingAccessRightsFailed = 0x5A"
definition kSessionKeyCreationDerivationFailed :: NrcErrc where "kSessionKeyCreationDerivationFailed = 0x5B"
definition kConfigurationDataUsageFailed :: NrcErrc where "kConfigurationDataUsageFailed = 0x5C"
definition kDeAuthenticationFailed :: NrcErrc where "kDeAuthenticationFailed = 0x5D"
definition kUploadDownloadNotAccepted :: NrcErrc where "kUploadDownloadNotAccepted = 0x70"
definition kTransferDataSuspended :: NrcErrc where "kTransferDataSuspended = 0x71"
definition kGeneralProgrammingFailure :: NrcErrc where "kGeneralProgrammingFailure = 0x72"
definition kWrongBlockSequenceCounter :: NrcErrc where "kWrongBlockSequenceCounter = 0x73"
definition kRequestCorrectlyReceivedResponsePending :: NrcErrc where "kRequestCorrectlyReceivedResponsePending = 0x78"
definition kSubFunctionNotSupportedInActiveSession :: NrcErrc where "kSubFunctionNotSupportedInActiveSession = 0x7E"
definition kServiceNotSupportedInActiveSession :: NrcErrc where "kServiceNotSupportedInActiveSession = 0x7F"
definition kRpmTooHigh :: NrcErrc where "kRpmTooHigh = 0x81"
definition kRpmTooLow :: NrcErrc where "kRpmTooLow = 0x82"
definition kEngineIsRunning :: NrcErrc where "kEngineIsRunning = 0x83"
definition kEngineIsNotRunning :: NrcErrc where "kEngineIsNotRunning = 0x84"
definition kEngineRunTimeTooLow :: NrcErrc where "kEngineRunTimeTooLow = 0x85"
definition kTemperatureTooHigh :: NrcErrc where "kTemperatureTooHigh = 0x86"
definition kTemperatureTooLow :: NrcErrc where "kTemperatureTooLow = 0x87"
definition kVehicleSpeedTooHigh :: NrcErrc where "kVehicleSpeedTooHigh = 0x88"
definition kVehicleSpeedTooLow :: NrcErrc where "kVehicleSpeedTooLow = 0x89"
definition kThrottlePedalTooHigh :: NrcErrc where "kThrottlePedalTooHigh = 0x8A"
definition kThrottlePedalTooLow :: NrcErrc where "kThrottlePedalTooLow = 0x8B"
definition kTransmissionRangeNotInNeutral :: NrcErrc where "kTransmissionRangeNotInNeutral = 0x8C"
definition kTransmissionRangeNotInGear :: NrcErrc where "kTransmissionRangeNotInGear = 0x8D"
definition kBrakeSwitchNotClosed :: NrcErrc where "kBrakeSwitchNotClosed = 0x8F"
definition kShifterLeverNotInPark :: NrcErrc where "kShifterLeverNotInPark = 0x90"
definition kTorqueConverterClutchLocked :: NrcErrc where "kTorqueConverterClutchLocked = 0x91"
definition kVoltageTooHigh :: NrcErrc where "kVoltageTooHigh = 0x92"
definition kVoltageTooLow :: NrcErrc where "kVoltageTooLow = 0x93"
definition kResourceTemporarilyNotAvailable :: NrcErrc where "kResourceTemporarilyNotAvailable = 0x94"
definition kNoProcessingNoResponse_nrc :: NrcErrc where "kNoProcessingNoResponse_nrc = 0xFF"

definition nrc_code :: "NrcErrc \<Rightarrow> byte" where
  "nrc_code nrc = nrc"

lemmas nrc_defs = nrc_code_def
  kSuccess_nrc_def kGeneralReject_def kServiceNotSupported_def kSubfunctionNotSupported_def
  kIncorrectMessageLengthOrInvalidFormat_def kResponseTooLong_def kBusyRepeatRequest_def
  kConditionsNotCorrect_def kRequestSequenceError_def kNoResponseFromSubnetComponent_def
  kFailurePreventsExecutionOfRequestedAction_def kRequestOutOfRange_def kSecurityAccessDenied_def
  kAuthenticationRequired_def kInvalidKey_def kExceedNumberOfAttempts_def
  kRequiredTimeDelayNotExpired_def kCertificateVerificationFailedInvalidTimePeriod_def
  kCertificateVerificationFailedInvalidSignature_def
  kCertificateVerificationFailedInvalidChainOfTrust_def kCertificateVerificationFailedInvalidType_def
  kCertificateVerificationFailedInvalidFormat_def kCertificateVerificationFailedInvalidContent_def
  kCertificateVerificationFailedInvalidScope_def
  kCertificateVerificationFailedInvalidCertificateRevoked_def kOwnershipVerificationFailed_def
  kChallengeCalculationFailed_def kSettingAccessRightsFailed_def
  kSessionKeyCreationDerivationFailed_def kConfigurationDataUsageFailed_def
  kDeAuthenticationFailed_def kUploadDownloadNotAccepted_def kTransferDataSuspended_def
  kGeneralProgrammingFailure_def kWrongBlockSequenceCounter_def
  kRequestCorrectlyReceivedResponsePending_def kSubFunctionNotSupportedInActiveSession_def
  kServiceNotSupportedInActiveSession_def kRpmTooHigh_def kRpmTooLow_def kEngineIsRunning_def
  kEngineIsNotRunning_def kEngineRunTimeTooLow_def kTemperatureTooHigh_def kTemperatureTooLow_def
  kVehicleSpeedTooHigh_def kVehicleSpeedTooLow_def kThrottlePedalTooHigh_def kThrottlePedalTooLow_def
  kTransmissionRangeNotInNeutral_def kTransmissionRangeNotInGear_def kBrakeSwitchNotClosed_def
  kShifterLeverNotInPark_def kTorqueConverterClutchLocked_def kVoltageTooHigh_def kVoltageTooLow_def
  kResourceTemporarilyNotAvailable_def kNoProcessingNoResponse_nrc_def

text \<open>\<open>Result\<close>: an error number or a value.\<close>

type_synonym 'a uds_result = "int + 'a"

abbreviation uds_error :: "NrcErrc \<Rightarrow> 'a uds_result" where
  "uds_error nrc \<equiv> Inl (uint (nrc_code nrc))"

section \<open>The cursor\<close>

definition ReadUint8 :: "bytes \<Rightarrow> nat \<Rightarrow> byte \<times> nat" where
  "ReadUint8 data pos = (if length data - pos < 1 then (0, pos) else (data ! pos, pos + 1))"

definition ReadUint16 :: "bytes \<Rightarrow> nat \<Rightarrow> u16 \<times> nat" where
  "ReadUint16 data pos = (if length data - pos < 2 then (0, pos) else (be_word (take 2 (drop pos data)), pos + 2))"

definition ReadUint32 :: "nat \<Rightarrow> bytes \<Rightarrow> nat \<Rightarrow> u32 \<times> nat" where
  "ReadUint32 n data pos =
     (if length data - pos < n then (0, pos)
      else (be_word (take n (drop pos data)), pos + (if 0 < n \<and> n < 4 then n else 4)))"

definition ReadUint64 :: "nat \<Rightarrow> bytes \<Rightarrow> nat \<Rightarrow> u64 \<times> nat" where
  "ReadUint64 n data pos =
     (if length data - pos < n then (0, pos)
      else (be_word (take n (drop pos data)), pos + (if 0 < n \<and> n < 8 then n else 8)))"

definition ReadUint :: "nat \<Rightarrow> bytes \<Rightarrow> nat \<Rightarrow> u64 \<times> nat" where
  "ReadUint n data pos =
     (if n = 1 then map_prod ucast id (ReadUint8 data pos)
      else if n = 2 then map_prod ucast id (ReadUint16 data pos)
      else if n \<le> 4 then map_prod ucast id (ReadUint32 n data pos)
      else if n \<le> 8 then ReadUint64 n data pos
      else (0, pos))"

definition ReadAll :: "bytes \<Rightarrow> nat \<Rightarrow> bytes" where
  "ReadAll data pos = drop pos data"

definition ReadString_uds :: "nat \<Rightarrow> bytes \<Rightarrow> nat \<Rightarrow> string \<times> nat" where
  "ReadString_uds n data pos =
     (if length data - pos < n then (replicate n (CHR 0x0A), pos)
      else (string_of_bytes (take n (drop pos data)), pos + n))"

definition Write_u8 :: "byte \<Rightarrow> bytes \<Rightarrow> bytes" where "Write_u8 v data = data @ [v]"
definition Write_u16 :: "u16 \<Rightarrow> bytes \<Rightarrow> bytes" where "Write_u16 v data = data @ be_bytes 2 v"
definition Write_u32 :: "u32 \<Rightarrow> bytes \<Rightarrow> bytes" where "Write_u32 v data = data @ be_bytes 4 v"
definition Write_u64 :: "u64 \<Rightarrow> bytes \<Rightarrow> bytes" where "Write_u64 v data = data @ be_bytes 8 v"
definition Write_bytes :: "bytes \<Rightarrow> bytes \<Rightarrow> bytes" where "Write_bytes v data = data @ v"

section \<open>Responses\<close>

datatype ResponseStatusType =
  kResPosOk | kResPosNotOk | kResNegOk | kResNegNotOk | kResPosSuppressed | kResNegSuppressed
| kCanceled | kNoProcessingNoResponse

definition kResponseServiceIdMask :: byte where "kResponseServiceIdMask = 0x40"
definition kNegativeResponseServiceId :: byte where "kNegativeResponseServiceId = 0x7F"

definition CreateResponse :: "byte \<Rightarrow> bytes" where
  "CreateResponse sid = [sid OR kResponseServiceIdMask]"

definition CreateNegativeResponse :: "byte \<Rightarrow> byte \<Rightarrow> bytes" where
  "CreateNegativeResponse sid nrc = [0x7F, sid, nrc]"

definition isNegtiveType :: "bytes \<Rightarrow> bool" where
  "isNegtiveType body \<longleftrightarrow> hd body = kNegativeResponseServiceId"

end
