(* ===== verification/UdsContext.thy ===== *)
theory UdsContext
  imports UdsCommon
begin

text \<open>
  A UDS request under way (\<open>RequestContext\<close>,
  src/src/uds/capi/isoft-uds/src/server/src/common/request_context.h and .cpp): how it is answered,
  when answers are suppressed, and what the P2 and P4 timers send meanwhile.

  The timers are their running flags. When the P2 timer expires, \<open>_timeout\<close> is submitted to a
  thread pool and runs later (\<open>rc_submitted\<close>); when P4 expires, \<open>_p4Timeout\<close> runs at once. Starting a
  timer is taken to succeed. \<open>rc_channel\<close> are the results of the coming sends (true when the list is
  used up), \<open>rc_sent\<close> the messages given to the channel and \<open>rc_confirmed\<close> the statuses given to
  the confirmation callback.

  \<open>Respond\<close> reads the response code of a negative answer from index 5 of its body, which has three
  bytes: \<open>stray\<close> is whatever is read there.
\<close>

datatype RequestContextState = kRequest_ctx | kResponse_ctx | kConfirm_ctx | kCanceled_ctx | kEnd_ctx

record request_context =
  rc_sid :: byte
  rc_body :: bytes
  rc_ta :: u16
  rc_functional :: "u16 list"
  rc_state :: RequestContextState
  rc_pending :: bool
  rc_max :: byte
  rc_number :: byte
  rc_p2 :: u32
  rc_p2_star :: u32
  rc_p4 :: u32
  rc_p2_running :: bool
  rc_p4_running :: bool
  rc_submitted :: nat
  rc_channel :: "bool list"
  rc_sent :: "bytes list"
  rc_confirmed :: "ResponseStatusType list"

definition rc_new :: "byte \<Rightarrow> bytes \<Rightarrow> u16 \<Rightarrow> u16 list \<Rightarrow> bool list \<Rightarrow> request_context" where
  "rc_new sid body ta functional channel = \<lparr>rc_sid = sid, rc_body = body, rc_ta = ta, rc_functional = functional,
     rc_state = kRequest_ctx, rc_pending = False, rc_max = 0, rc_number = 0, rc_p2 = 0, rc_p2_star = 0, rc_p4 = 0,
     rc_p2_running = False, rc_p4_running = False, rc_submitted = 0, rc_channel = channel, rc_sent = [],
     rc_confirmed = []\<rparr>"

definition changeState :: "RequestContextState \<Rightarrow> request_context \<Rightarrow> request_context" where
  "changeState state rc = (if rc_state rc \<noteq> kCanceled_ctx then rc\<lparr>rc_state := state\<rparr> else rc)"

definition channel_Respond :: "bytes \<Rightarrow> request_context \<Rightarrow> bool \<times> request_context" where
  "channel_Respond msg rc = (case rc_channel rc of
     [] \<Rightarrow> (True, rc\<lparr>rc_sent := rc_sent rc @ [msg]\<rparr>)
   | ok # oks \<Rightarrow> (ok, rc\<lparr>rc_sent := rc_sent rc @ [msg], rc_channel := oks\<rparr>))"

definition confirm :: "ResponseStatusType \<Rightarrow> request_context \<Rightarrow> request_context" where
  "confirm status rc = rc\<lparr>rc_confirmed := rc_confirmed rc @ [status]\<rparr>"

definition RcCancelled :: "request_context \<Rightarrow> request_context" where
  "RcCancelled rc = changeState kCanceled_ctx rc"

definition RcEnd :: "request_context \<Rightarrow> request_context" where
  "RcEnd rc = changeState kEnd_ctx rc"

text \<open>The P4 time of the service of the request, \<open>0\<close> when it has none; a routine request that is too
  short to name its routine starts no P4 timer.\<close>

definition startP4ServerMax :: "u32 \<Rightarrow> request_context \<Rightarrow> request_context" where
  "startP4ServerMax p4ServerMax rc =
     (if rc_sid rc = 0x31 \<and> length (rc_body rc) < 4 then rc
      else if p4ServerMax = 0 then rc
      else rc\<lparr>rc_p4_running := True, rc_p4 := p4ServerMax\<rparr>)"

definition StartP2ServerTimer :: "u32 \<Rightarrow> u32 \<Rightarrow> byte \<Rightarrow> u32 \<Rightarrow> request_context \<Rightarrow> request_context" where
  "StartP2ServerTimer p2ServerMax p2StarServerMax max_pending p4ServerMax rc =
     (let rc1 = (changeState kRequest_ctx rc)\<lparr>rc_p2 := p2ServerMax, rc_p2_star := p2StarServerMax, rc_max := max_pending\<rparr>
      in (startP4ServerMax p4ServerMax rc1)\<lparr>rc_p2_running := True\<rparr>)"

definition StopP2ServerTimer :: "request_context \<Rightarrow> request_context" where
  "StopP2ServerTimer rc = rc\<lparr>rc_p4_running := False, rc_p2_running := False\<rparr>"

definition isFunctionalAddress :: "request_context \<Rightarrow> bool" where
  "isFunctionalAddress rc \<longleftrightarrow> rc_ta rc \<in> set (rc_functional rc)"

definition suppressNegtive :: "byte \<Rightarrow> request_context \<Rightarrow> bool" where
  "suppressNegtive nrc rc \<longleftrightarrow> \<not> rc_pending rc \<and> isFunctionalAddress rc \<and>
     (nrc = kServiceNotSupported \<or> nrc = kSubfunctionNotSupported \<or> nrc = kRequestOutOfRange \<or>
      nrc = kServiceNotSupportedInActiveSession \<or> nrc = kSubFunctionNotSupportedInActiveSession)"

text \<open>Nine services are listed in an array of ten, so the last entry is zero. A request of a listed
  service that has no second byte is read past its end; the value is left open here.\<close>

definition supportSubfunctionSidTable :: "byte list" where
  "supportSubfunctionSidTable = [0x10, 0x11, 0x19, 0x28, 0x2C, 0x3E, 0x38, 0x85, 0x86, 0]"

definition suppressPositive :: "request_context \<Rightarrow> bool" where
  "suppressPositive rc =
     (if rc_sid rc \<notin> set supportSubfunctionSidTable then False
      else if (rc_body rc ! 1) AND 0x80 \<noteq> 0 then \<not> rc_pending rc
      else False)"

definition RcRespond :: "byte \<Rightarrow> bytes \<Rightarrow> request_context \<Rightarrow> request_context" where
  "RcRespond stray msg rc0 =
     (let rc1 = changeState kResponse_ctx rc0 in
      if rc_state rc1 = kCanceled_ctx then confirm kCanceled rc1
      else (let rc2 = StopP2ServerTimer rc1 in
        if isNegtiveType msg then
          (let nrc = (if length msg > 5 then msg ! 5 else stray) in
           if suppressNegtive nrc rc2 then confirm kResNegSuppressed (changeState kCanceled_ctx rc2)
           else (case channel_Respond msg rc2 of (ok, rc3) \<Rightarrow>
             confirm (if ok then kResNegOk else kResNegNotOk) (changeState kConfirm_ctx rc3)))
        else if suppressPositive rc2 then changeState kConfirm_ctx (confirm kResPosSuppressed rc2)
        else (case channel_Respond msg rc2 of (ok, rc3) \<Rightarrow>
          confirm (if ok then kResPosOk else kResPosNotOk) (changeState kConfirm_ctx rc3))))"

definition pending_message :: "byte \<Rightarrow> bytes" where
  "pending_message sid = CreateNegativeResponse sid kRequestCorrectlyReceivedResponsePending"

definition reject_message :: "byte \<Rightarrow> bytes" where
  "reject_message sid = CreateNegativeResponse sid kGeneralReject"

definition RcTimeout :: "request_context \<Rightarrow> request_context" where
  "RcTimeout rc =
     (if rc_p4 rc \<noteq> 0 \<and> rc_p4 rc = rc_p2 rc then rc
      else if rc_max rc \<noteq> 255 \<and> rc_max rc = rc_number rc
      then RcCancelled (snd (channel_Respond (reject_message (rc_sid rc)) rc))
      else (let rc1 = (if rc_max rc \<noteq> 255 then rc\<lparr>rc_number := rc_number rc + 1\<rparr> else rc) in
        case channel_Respond (pending_message (rc_sid rc1)) rc1 of (ok, rc2) \<Rightarrow>
          if ok then rc2\<lparr>rc_p2_running := True, rc_pending := True\<rparr> else RcCancelled rc2))"

definition RcP4Timeout :: "request_context \<Rightarrow> request_context" where
  "RcP4Timeout rc = StopP2ServerTimer (RcCancelled (snd (channel_Respond (reject_message (rc_sid rc)) rc)))"

section \<open>Everything that happens to a request\<close>

datatype rc_event = P2Expires | TimeoutRuns | P4Expires | Answer byte bytes | CancelRequest | EndRequest

fun rc_handle :: "rc_event \<Rightarrow> request_context \<Rightarrow> request_context" where
  "rc_handle P2Expires rc =
     (if rc_p2_running rc then rc\<lparr>rc_p2_running := False, rc_submitted := Suc (rc_submitted rc)\<rparr> else rc)"
| "rc_handle TimeoutRuns rc =
     (case rc_submitted rc of 0 \<Rightarrow> rc | Suc n \<Rightarrow> RcTimeout (rc\<lparr>rc_submitted := n\<rparr>))"
| "rc_handle P4Expires rc = (if rc_p4_running rc then RcP4Timeout (rc\<lparr>rc_p4_running := False\<rparr>) else rc)"
| "rc_handle (Answer stray msg) rc = RcRespond stray msg rc"
| "rc_handle CancelRequest rc = RcCancelled rc"
| "rc_handle EndRequest rc = RcEnd rc"

definition rc_run :: "rc_event list \<Rightarrow> request_context \<Rightarrow> request_context" where
  "rc_run evs rc = fold rc_handle evs rc"

lemmas rc_defs = changeState_def confirm_def RcCancelled_def RcEnd_def StopP2ServerTimer_def RcTimeout_def
  RcP4Timeout_def RcRespond_def channel_Respond_def


section \<open>How many times a tester is asked to wait\<close>

lemma messages_differ: "reject_message sid \<noteq> pending_message sid"
  by (simp add: reject_message_def pending_message_def CreateNegativeResponse_def nrc_defs)

definition waits :: "request_context \<Rightarrow> nat" where
  "waits rc = count_list (rc_sent rc) (pending_message (rc_sid rc))"

text \<open>When the number is limited, it counts the messages sent.\<close>

definition wait_inv :: "request_context \<Rightarrow> bool" where
  "wait_inv rc \<longleftrightarrow> rc_max rc \<noteq> 255 \<longrightarrow> waits rc \<le> unat (rc_number rc) \<and> rc_number rc \<le> rc_max rc"

fun answers_finally :: "byte \<Rightarrow> rc_event \<Rightarrow> bool" where
  "answers_finally sid (Answer stray msg) \<longleftrightarrow> msg \<noteq> pending_message sid"
| "answers_finally sid _ \<longleftrightarrow> True"

lemma wait_inv_Timeout:
  assumes "wait_inv rc"
  shows "wait_inv (RcTimeout rc)"
proof (cases "rc_max rc \<noteq> 255 \<and> rc_max rc \<noteq> rc_number rc")
  case True
  with assms have "rc_number rc < rc_max rc" by (auto simp: wait_inv_def order_less_le)
  then have lt: "unat (rc_number rc) < unat (rc_max rc)" by (simp add: word_less_nat_alt)
  then have "Suc (unat (rc_number rc)) < 256" using unat_byte_less [of "rc_max rc"] by linarith
  then have "unat (rc_number rc + 1) = Suc (unat (rc_number rc))" by (simp add: unat_word_ariths)
  with lt have n: "unat (rc_number rc + 1) = Suc (unat (rc_number rc))" "rc_number rc + 1 \<le> rc_max rc"
    by (simp_all add: word_le_nat_alt)
  with assms True show ?thesis
    by (auto simp: wait_inv_def waits_def rc_defs Let_def messages_differ split: list.split)
next
  case False
  with assms show ?thesis
    by (auto simp: wait_inv_def waits_def rc_defs Let_def messages_differ split: list.split)
qed


lemma wait_inv_handle:
  assumes "wait_inv rc" and "answers_finally (rc_sid rc) ev"
  shows "wait_inv (rc_handle ev rc)"
proof (cases ev)
  case TimeoutRuns
  have "wait_inv (rc\<lparr>rc_submitted := n\<rparr>)" for n using assms(1) by (simp add: wait_inv_def waits_def)
  then show ?thesis using TimeoutRuns assms(1) by (simp add: wait_inv_Timeout split: nat.split)
qed (use assms in \<open>auto simp: wait_inv_def waits_def rc_defs Let_def messages_differ split: list.split\<close>)

lemma rc_handle_keeps: "rc_sid (rc_handle ev rc) = rc_sid rc \<and> rc_max (rc_handle ev rc) = rc_max rc"
  by (cases ev) (auto simp: rc_defs Let_def split: list.split nat.split)

lemma wait_inv_run:
  "wait_inv rc \<Longrightarrow> list_all (answers_finally (rc_sid rc)) evs \<Longrightarrow> wait_inv (rc_run evs rc) \<and> rc_max (rc_run evs rc) = rc_max rc \<and>
   rc_sid (rc_run evs rc) = rc_sid rc"
proof (induction evs arbitrary: rc)
  case (Cons ev evs)
  then have "wait_inv (rc_handle ev rc)" by (simp add: wait_inv_handle)
  with Cons.IH [of "rc_handle ev rc"] Cons.prems(2) rc_handle_keeps [of ev rc] show ?case by (simp add: rc_run_def)
qed (simp add: rc_run_def)

lemma rc_started:
  assumes "rc = StartP2ServerTimer p2 p2_star limit p4 (rc_new sid body ta functional channel)"
  shows "rc_sid rc = sid" "rc_max rc = limit" "rc_sent rc = []" "rc_number rc = 0" "rc_submitted rc = 0" "rc_p2_running rc"
    "rc_p2 rc = p2" "rc_p4 rc = p4 \<or> rc_p4 rc = 0"
  by (simp_all add: assms StartP2ServerTimer_def startP4ServerMax_def changeState_def rc_new_def Let_def)



section \<open>A request that takes longer than P2\<close>

text \<open>With a limit of zero a request that is cancelled only ever sends the general reject.\<close>

definition rejected :: "request_context \<Rightarrow> bool" where
  "rejected rc \<longleftrightarrow> rc_state rc = kCanceled_ctx \<and> rc_max rc = 0 \<and> rc_number rc = 0 \<and>
     set (rc_sent rc) = {reject_message (rc_sid rc)}"

lemma rejected_handle: "rejected rc \<Longrightarrow> rejected (rc_handle ev rc)"
  by (cases ev) (auto simp: rejected_def rc_defs Let_def split: list.split nat.split)

lemma rejected_run: "rejected rc \<Longrightarrow> rejected (rc_run evs rc)"
  unfolding rc_run_def by (induction evs arbitrary: rc) (simp_all add: rejected_handle)

lemma first_timeout_rejects:
  assumes "rc_p2_running rc" "rc_submitted rc = 0" "rc_max rc = 0" "rc_number rc = 0" "rc_sent rc = []"
    and "\<not> (rc_p4 rc \<noteq> 0 \<and> rc_p4 rc = rc_p2 rc)"
  shows "rejected (rc_handle TimeoutRuns (rc_handle P2Expires rc))"
  using assms by (auto simp: rejected_def rc_defs split: list.split)

text \<open>
  The answer of a request that takes longer than P2 is lost. The diagnostic server sets the limit
  of pending responses to zero. Then, unless the P2 and P4 times are equal, the first run of the P2
  timeout rejects the request, and whatever happens afterwards, in particular the answer the service
  gives when it is done, the tester receives nothing but general rejects. The service itself is not
  stopped: the update routine, which sleeps 50 ms between two polls, still switches the slots.
\<close>

theorem slow_request_is_rejected:
  assumes "p4 = 0 \<or> p4 \<noteq> p2"
  shows "set (rc_sent (rc_run (P2Expires # TimeoutRuns # evs)
      (StartP2ServerTimer p2 p2_star 0 p4 (rc_new sid body ta functional channel)))) = {reject_message sid}"
proof -
  let ?rc = "StartP2ServerTimer p2 p2_star 0 p4 (rc_new sid body ta functional channel)"
  let ?rc2 = "rc_handle TimeoutRuns (rc_handle P2Expires ?rc)"
  note s = rc_started [OF refl, of p2 p2_star 0 p4 sid body ta functional channel]
  have "rejected ?rc2" using assms s by (intro first_timeout_rejects) auto
  moreover have "rc_sid ?rc2 = sid" using s(1) by (simp only: rc_handle_keeps)
  moreover have "rc_sid (rc_run evs rc) = rc_sid rc" for rc
    unfolding rc_run_def by (induction evs arbitrary: rc) (simp_all add: rc_handle_keeps)
  ultimately show ?thesis using rejected_run [of ?rc2 evs] by (simp add: rejected_def rc_run_def)
qed

theorem slow_request_is_rejected_witness:
  "set (rc_sent (rc_run [P2Expires, TimeoutRuns, Answer 0 [0x71, 1, 0x11, 0], P4Expires]
      (StartP2ServerTimer 50 5000 0 10000 (rc_new 0x31 [0x31, 1, 0x11, 0] 0x0E80 [] [])))) = {[0x7F, 0x31, 0x10]}"
  using slow_request_is_rejected [of 10000 50 "[Answer 0 [0x71, 1, 0x11, 0], P4Expires]" 5000 "0x31" "[0x31, 1, 0x11, 0]" "0x0E80" "[]" "[]"]
  by (simp add: reject_message_def CreateNegativeResponse_def nrc_defs)

end
