(* ===== verification/UdsAccess.thy ===== *)
theory UdsAccess
  imports UdsContext
begin

text \<open>
  Who may call a UDS service (src/src/uds/capi/isoft-uds/src/server/src): sessions
  (session_management/session_manager.h and .cpp), security levels
  (security_access_management/security_level_manager.h and .cpp) and the validators that check them
  (session_management/session_validator.h, security_access_management/securityLevel_validator.h).

  A callback registered with a manager is a value of a type \<open>'cb\<close> that stands for it; a change of
  session or level yields the callbacks in the order in which the code calls them, with their
  arguments, and whoever owns the state they act on runs them. Tables that the code only searches are
  maps; the tables of callbacks, which it walks through, are lists sorted by key. Objects are
  allocated successfully, and the managers the services are given are not null.
\<close>

section \<open>Callback tables\<close>

text \<open>The first free identifier, searched upwards; \<open>0xFFFFFFFF\<close> when all others are taken.\<close>

function free_id :: "u32 list \<Rightarrow> u32 \<Rightarrow> u32" where
  "free_id ids i = (if i < 0xFFFFFFFF then (if i \<in> set ids then free_id ids (i + 1) else i) else i)"
  by auto
termination
proof (relation "measure (\<lambda>(ids, i). 2 ^ 32 - unat i)")
  fix ids :: "u32 list" and i :: u32
  assume "i < 0xFFFFFFFF"
  then have "unat i < 0xFFFFFFFF" by (simp add: word_less_nat_alt)
  moreover from this have "unat (i + 1) = Suc (unat i)" by (simp add: unat_word_ariths)
  ultimately show "((ids, i + 1), (ids, i)) \<in> measure (\<lambda>(ids, i). 2 ^ 32 - unat i)" by simp
qed simp

declare free_id.simps [simp del]

definition add_callback :: "'cb \<Rightarrow> (u32 \<times> 'cb) list \<Rightarrow> u32 \<times> (u32 \<times> 'cb) list" where
  "add_callback cb tab =
     (let i = free_id (map fst tab) 0 in (i, if i < 0xFFFFFFFF then insort_key fst (i, cb) tab else tab))"

definition remove_callback :: "u32 \<Rightarrow> (u32 \<times> 'cb) list \<Rightarrow> (u32 \<times> 'cb) list" where
  "remove_callback i tab = filter (\<lambda>e. fst e \<noteq> i) tab"

lemma free_id_fresh: "free_id ids i < 0xFFFFFFFF \<Longrightarrow> free_id ids i \<notin> set ids"
proof (induction ids i rule: free_id.induct)
  case (1 ids i)
  then show ?case by (subst free_id.simps, subst (asm) (2) free_id.simps) (auto split: if_splits)
qed

definition callbacks_ok :: "(u32 \<times> 'cb) list \<Rightarrow> bool" where
  "callbacks_ok tab \<longleftrightarrow> sorted (map fst tab) \<and> distinct (map fst tab)"

lemma add_callback_ok: "callbacks_ok tab \<Longrightarrow> callbacks_ok (snd (add_callback cb tab))"
  using free_id_fresh [of "map fst tab" 0]
  by (simp add: callbacks_ok_def add_callback_def Let_def sorted_insort_key distinct_insort_key)

text \<open>What registration promises: unless the table is full, the callback is there under the returned
  identifier, and all others stay where they are.\<close>

lemma add_callback_found:
  assumes "callbacks_ok tab" and "fst (add_callback cb tab) < 0xFFFFFFFF"
  shows "map_of (snd (add_callback cb tab)) = (map_of tab)(fst (add_callback cb tab) \<mapsto> cb)"
proof -
  let ?i = "free_id (map fst tab) 0"
  from assms(2) have i: "?i < 0xFFFFFFFF" "?i \<notin> fst ` set tab"
    using free_id_fresh [of "map fst tab" 0] by (simp_all add: add_callback_def Let_def)
  have ok: "callbacks_ok (insort_key fst (?i, cb) tab)"
    using add_callback_ok [OF assms(1), of cb] i by (simp add: add_callback_def Let_def)
  have "map_of (insort_key fst (?i, cb) tab) k = ((map_of tab)(?i \<mapsto> cb)) k" for k
  proof -
    have "map_of (insort_key fst (?i, cb) tab) k = Some v \<longleftrightarrow> ((map_of tab)(?i \<mapsto> cb)) k = Some v" for v
      using ok assms(1) i by (auto simp: callbacks_ok_def set_insort_key map_of_eq_Some_iff rev_image_eqI)
    then show ?thesis by (metis not_Some_eq)
  qed
  with i show ?thesis by (auto simp: add_callback_def Let_def)
qed

lemma remove_callback_ok: "callbacks_ok tab \<Longrightarrow> callbacks_ok (remove_callback i tab)"
  by (auto simp: callbacks_ok_def remove_callback_def sorted_filter distinct_map_filter)

lemma remove_callback_found: "map_of (remove_callback i tab) = (map_of tab)(i := None)"
  by (rule ext) (induction tab, auto simp: remove_callback_def)

section \<open>Sessions\<close>

record SessionModel =
  se_shortName :: string
  se_id :: byte
  se_p2ServerMax :: u16
  se_p2StarServerMax :: u16

record 'cb session_manager =
  sm_table :: "byte \<rightharpoonup> SessionModel"
  sm_current :: byte
  sm_client :: u16
  sm_callbacks :: "(u32 \<times> 'cb) list"

definition sm_new :: "'cb session_manager" where
  "sm_new = \<lparr>sm_table = Map.empty, sm_current = 1, sm_client = 0, sm_callbacks = []\<rparr>"

definition Session_Check :: "SessionModel \<Rightarrow> 'cb session_manager \<Rightarrow> bool" where
  "Session_Check session sm \<longleftrightarrow> se_id session = sm_current sm"

definition sm_Initialize :: "SessionModel list \<Rightarrow> 'cb session_manager \<Rightarrow> int \<times> 'cb session_manager" where
  "sm_Initialize model sm =
     (if model = [] then (-1, sm)
      else (0, fold (\<lambda>c sm. sm\<lparr>sm_table := (sm_table sm)(se_id c \<mapsto> c)\<rparr>) model sm))"

definition AddNotifyOfSessionChange :: "'cb \<Rightarrow> 'cb session_manager \<Rightarrow> u32 \<times> 'cb session_manager" where
  "AddNotifyOfSessionChange cb sm =
     (case add_callback cb (sm_callbacks sm) of (i, tab) \<Rightarrow> (i, sm\<lparr>sm_callbacks := tab\<rparr>))"

definition RemoveNotifyOfSessionChange :: "u32 \<Rightarrow> 'cb session_manager \<Rightarrow> 'cb session_manager" where
  "RemoveNotifyOfSessionChange i sm = sm\<lparr>sm_callbacks := remove_callback i (sm_callbacks sm)\<rparr>"

definition SetSession :: "byte \<Rightarrow> u16 \<Rightarrow> 'cb session_manager \<Rightarrow> ('cb \<times> byte \<times> byte) list \<times> 'cb session_manager" where
  "SetSession i client sm =
     (map (\<lambda>(_, cb). (cb, sm_current sm, i)) (sm_callbacks sm),
      sm\<lparr>sm_current := i, sm_client := (if i = 1 then 0 else client)\<rparr>)"

definition GetSession :: "byte \<Rightarrow> 'cb session_manager \<Rightarrow> SessionModel option" where
  "GetSession i sm = sm_table sm i"

section \<open>Security levels\<close>

record SecurityLevelConfig =
  sl_shortName :: string
  sl_accessDataRecordSize :: nat
  sl_keySize :: nat
  sl_numFailedSecurityAccess :: nat
  sl_securityDelayTime :: u32
  sl_seedSize :: nat
  sl_id :: byte

definition SecurityLevel_Initialize :: "SecurityLevelConfig \<Rightarrow> int" where
  "SecurityLevel_Initialize config =
     (if sl_keySize config = 0 then -1
      else if sl_seedSize config = 0 then -1
      else if sl_numFailedSecurityAccess config = 0 then -1
      else if sl_securityDelayTime config = 0 then -1
      else 0)"

record 'cb security_manager =
  lm_current :: byte
  lm_table :: "byte \<rightharpoonup> SecurityLevelConfig"
  lm_callbacks :: "(u32 \<times> 'cb) list"
  lm_timer_elapsed :: bool

definition lm_new :: "'cb security_manager" where
  "lm_new = \<lparr>lm_current = 0, lm_table = Map.empty, lm_callbacks = [], lm_timer_elapsed = False\<rparr>"

definition SecurityLevel_Check :: "SecurityLevelConfig \<Rightarrow> 'cb security_manager \<Rightarrow> bool" where
  "SecurityLevel_Check level lm \<longleftrightarrow> sl_id level = lm_current lm"

fun lm_init_loop :: "SecurityLevelConfig list \<Rightarrow> 'cb security_manager \<Rightarrow> int \<times> 'cb security_manager" where
  "lm_init_loop [] lm = (0, lm)"
| "lm_init_loop (c # cs) lm =
     (if lm_table lm (sl_id c) = None
      then (if SecurityLevel_Initialize c \<noteq> 0 then (SecurityLevel_Initialize c, lm)
            else lm_init_loop cs (lm\<lparr>lm_table := (lm_table lm)(sl_id c \<mapsto> c)\<rparr>))
      else (-1, lm))"

text \<open>\<open>Initialize\<close> registers \<open>lock\<close>, which is \<open>lock_on_session_change\<close>, with the sessions.\<close>

definition lm_Initialize ::
  "'s \<Rightarrow> SecurityLevelConfig list \<Rightarrow> 's session_manager \<Rightarrow> 'cb security_manager
     \<Rightarrow> int \<times> 's session_manager \<times> 'cb security_manager" where
  "lm_Initialize lock securityLevelTable sm lm =
     (if securityLevelTable = [] then (-1, sm, lm)
      else (case lm_init_loop securityLevelTable lm of (result, lm') \<Rightarrow>
        (result, snd (AddNotifyOfSessionChange lock sm), lm')))"

definition SetSecurityLevel :: "byte \<Rightarrow> 'cb security_manager \<Rightarrow> ('cb \<times> byte) list \<times> 'cb security_manager" where
  "SetSecurityLevel i lm = (map (\<lambda>(_, cb). (cb, i)) (lm_callbacks lm), lm\<lparr>lm_current := i\<rparr>)"

definition lock_on_session_change ::
  "byte \<Rightarrow> byte \<Rightarrow> 'cb security_manager \<Rightarrow> ('cb \<times> byte) list \<times> 'cb security_manager" where
  "lock_on_session_change oldSession newSession lm =
     (if oldSession \<noteq> newSession \<or> newSession = 1 then SetSecurityLevel 0 lm else ([], lm))"

definition GetSecurityLevel :: "byte \<Rightarrow> 'cb security_manager \<Rightarrow> SecurityLevelConfig option" where
  "GetSecurityLevel i lm = lm_table lm i"

definition AddNotifyOfSecurityLevelChange :: "'cb \<Rightarrow> 'cb security_manager \<Rightarrow> u32 \<times> 'cb security_manager" where
  "AddNotifyOfSecurityLevelChange cb lm =
     (case add_callback cb (lm_callbacks lm) of (i, tab) \<Rightarrow> (i, lm\<lparr>lm_callbacks := tab\<rparr>))"

definition RemoveNotifyOfSecurityLevelChange :: "u32 \<Rightarrow> 'cb security_manager \<Rightarrow> 'cb security_manager" where
  "RemoveNotifyOfSecurityLevelChange i lm = lm\<lparr>lm_callbacks := remove_callback i (lm_callbacks lm)\<rparr>"

definition SetSecurityTimerElapsed :: "bool \<Rightarrow> 'cb security_manager \<Rightarrow> 'cb security_manager" where
  "SetSecurityTimerElapsed elapsed lm = lm\<lparr>lm_timer_elapsed := elapsed\<rparr>"

section \<open>Validators\<close>

text \<open>A session validator holds the sessions in which its subfunction is allowed. It can not be set up
  without a session or with an unknown one.\<close>

type_synonym session_validator = "SessionModel list"

definition SessionValidator_Initialize :: "byte list \<Rightarrow> 'cb session_manager \<Rightarrow> session_validator option" where
  "SessionValidator_Initialize config sm =
     (if config = [] \<or> (\<exists>i \<in> set config. GetSession i sm = None) then None
      else Some (map (\<lambda>i. the (GetSession i sm)) config))"

definition SessionValidator_Validate :: "'cb session_manager \<Rightarrow> session_validator \<Rightarrow> bool" where
  "SessionValidator_Validate sm v = list_ex (\<lambda>session. Session_Check session sm) v"

text \<open>A security level validator keeps the identifiers it was given and the levels found for them, up
  to the first unknown one. When no level was found, \<open>Validate\<close> looks them up again through a pointer
  that is never set: the value \<open>None\<close> stands for that null dereference.\<close>

record level_validator =
  lv_config :: "byte list"
  lv_table :: "SecurityLevelConfig list"

definition LevelValidator_Initialize :: "byte list \<Rightarrow> 'cb security_manager \<Rightarrow> level_validator" where
  "LevelValidator_Initialize config lm =
     \<lparr>lv_config = config,
      lv_table = map (\<lambda>i. the (GetSecurityLevel i lm)) (takeWhile (\<lambda>i. GetSecurityLevel i lm \<noteq> None) config)\<rparr>"

definition LevelValidator_Validate :: "'cb security_manager \<Rightarrow> level_validator \<Rightarrow> bool option" where
  "LevelValidator_Validate lm v =
     (if lv_table v = [] then (if lv_config v = [] then Some True else None)
      else Some (list_ex (\<lambda>level. SecurityLevel_Check level lm) (lv_table v)))"

text \<open>The validators of a whole service: one of its subfunctions has to be allowed. Without any
  subfunction sessions are refused and security levels are granted.\<close>

definition RegisterSubfunctionLevel :: "'i \<Rightarrow> 'v \<Rightarrow> ('i \<times> 'v) list \<Rightarrow> ('i :: linorder \<times> 'v) list option" where
  "RegisterSubfunctionLevel i v tab =
     (if i \<in> fst ` set tab then None else Some (insort_key fst (i, v) tab))"

definition ServerSession_Validate :: "'cb session_manager \<Rightarrow> ('i \<times> session_validator) list \<Rightarrow> bool" where
  "ServerSession_Validate sm tab = list_ex (\<lambda>(_, v). SessionValidator_Validate sm v) tab"

fun ServerLevel_loop :: "'cb security_manager \<Rightarrow> bool \<Rightarrow> ('i \<times> level_validator) list \<Rightarrow> bool option" where
  "ServerLevel_loop lm result [] = Some result"
| "ServerLevel_loop lm result ((_, v) # tab) = (case LevelValidator_Validate lm v of
     None \<Rightarrow> None
   | Some True \<Rightarrow> Some True
   | Some False \<Rightarrow> ServerLevel_loop lm False tab)"

definition ServerLevel_Validate :: "'cb security_manager \<Rightarrow> ('i \<times> level_validator) list \<Rightarrow> bool option" where
  "ServerLevel_Validate lm tab = ServerLevel_loop lm True tab"

subsection \<open>What the validators decide\<close>

definition sessions_ok :: "'cb session_manager \<Rightarrow> bool" where
  "sessions_ok sm \<longleftrightarrow> (\<forall>i c. sm_table sm i = Some c \<longrightarrow> se_id c = i)"

definition levels_ok :: "'cb security_manager \<Rightarrow> bool" where
  "levels_ok lm \<longleftrightarrow> (\<forall>i c. lm_table lm i = Some c \<longrightarrow> sl_id c = i \<and> SecurityLevel_Initialize c = 0)"

lemma sessions_ok_insert: "sessions_ok sm \<Longrightarrow> sessions_ok (sm\<lparr>sm_table := (sm_table sm)(se_id c \<mapsto> c)\<rparr>)"
  unfolding sessions_ok_def by auto

lemma sessions_ok_Initialize: "sessions_ok sm \<Longrightarrow> sessions_ok (snd (sm_Initialize model sm))"
proof -
  have "sessions_ok sm \<Longrightarrow> sessions_ok (fold (\<lambda>c sm. sm\<lparr>sm_table := (sm_table sm)(se_id c \<mapsto> c)\<rparr>) model sm)" for sm :: "'a session_manager"
    by (induction model arbitrary: sm) (simp_all add: sessions_ok_insert)
  then show "sessions_ok sm \<Longrightarrow> ?thesis" by (simp add: sm_Initialize_def)
qed

lemma sessions_ok_keeps [simp]:
  "sessions_ok (snd (SetSession i client sm)) = sessions_ok sm"
  "sessions_ok (snd (AddNotifyOfSessionChange cb sm)) = sessions_ok sm"
  "sessions_ok (RemoveNotifyOfSessionChange k sm) = sessions_ok sm"
  by (simp_all add: sessions_ok_def SetSession_def AddNotifyOfSessionChange_def RemoveNotifyOfSessionChange_def
      split: prod.split)

lemma levels_ok_insert:
  "levels_ok lm \<Longrightarrow> SecurityLevel_Initialize c = 0 \<Longrightarrow> levels_ok (lm\<lparr>lm_table := (lm_table lm)(sl_id c \<mapsto> c)\<rparr>)"
  unfolding levels_ok_def by auto

lemma levels_ok_Initialize: "levels_ok lm \<Longrightarrow> levels_ok (snd (lm_init_loop cs lm))"
  by (induction cs lm rule: lm_init_loop.induct) (simp_all add: levels_ok_insert)

lemma session_validator_decides:
  assumes "sessions_ok sm" and "SessionValidator_Initialize config sm = Some v"
  shows "SessionValidator_Validate sm' v \<longleftrightarrow> sm_current sm' \<in> set config"
  using assms
  by (auto simp: SessionValidator_Initialize_def SessionValidator_Validate_def sessions_ok_def Session_Check_def
      GetSession_def list_ex_iff Bex_def split: if_splits)

lemma level_validator_decides:
  assumes "levels_ok lm" and "\<forall>i \<in> set config. GetSecurityLevel i lm \<noteq> None"
  shows "LevelValidator_Validate lm' (LevelValidator_Initialize config lm) = Some (config = [] \<or> lm_current lm' \<in> set config)"
proof -
  have t: "takeWhile (\<lambda>i. GetSecurityLevel i lm \<noteq> None) config = config" using assms(2) by (simp add: takeWhile_eq_all_conv)
  have i: "sl_id (the (GetSecurityLevel i lm)) = i" if "i \<in> set config" for i
    using assms that by (auto simp: levels_ok_def GetSecurityLevel_def)
  show ?thesis
    unfolding LevelValidator_Initialize_def LevelValidator_Validate_def t
    by (auto simp: SecurityLevel_Check_def list_ex_iff i)
qed

end
