(* ===== verification/UdsAuth.thy ===== *)
theory UdsAuth
  imports UdsAccess
begin

text \<open>
  Authentication of testers
  (src/src/uds/capi/isoft-uds/src/server/src/authentication_management): what one tester may do
  (client_authentication.h and .cpp), the testers that take part (authentication_manager.h and .cpp), the
  validators that ask for a role (auth_validator.h) and the service 0x29 (service_x29.h and .cpp).

  The timer of a client is its duration while it runs. \<open>ca_notified\<close> are the states given to the
  notifier. A new client registers its session callback, which \<open>obs\<close> names; nothing in the code ever
  removes a client. Certificates and ownership are checked by the application, which is a record of
  functions over its own state.
\<close>

section \<open>One client\<close>

datatype AuthState = kDeAuthenticated | kAuthenticated

record AuthRole =
  ar_shortName :: string
  ar_bitPosition :: byte
  ar_isDefault :: bool

datatype RuleItem = kWildcard | kRange byte byte | kValue byte

type_synonym ServiceDynamicAccess = "RuleItem list"

record client_auth =
  ca_address :: u16
  ca_state :: AuthState
  ca_session :: byte
  ca_roles :: "string list"
  ca_config :: "AuthRole list"
  ca_access :: "ServiceDynamicAccess list"
  ca_authTimeout :: u32
  ca_notifier :: bool
  ca_notified :: "AuthState list"
  ca_timer :: "u32 option"
  ca_override :: bool
  ca_overrideTimeout :: u32

definition ca_notify :: "client_auth \<Rightarrow> client_auth" where
  "ca_notify c = (if ca_notifier c then c\<lparr>ca_notified := ca_notified c @ [ca_state c]\<rparr> else c)"

lemma ca_notify_keeps [simp]:
  "ca_state (ca_notify c) = ca_state c" "ca_override (ca_notify c) = ca_override c" "ca_access (ca_notify c) = ca_access c"
  "ca_roles (ca_notify c) = ca_roles c" "ca_config (ca_notify c) = ca_config c" "ca_timer (ca_notify c) = ca_timer c"
  by (simp_all add: ca_notify_def)

definition known_roles :: "string list \<Rightarrow> AuthRole list \<Rightarrow> string list" where
  "known_roles userRoles config = filter (\<lambda>r. r \<in> ar_shortName ` set config) userRoles"

definition Authenticate :: "string list \<Rightarrow> client_auth \<Rightarrow> client_auth" where
  "Authenticate userRoles c =
     (let c1 = c\<lparr>ca_state := kAuthenticated, ca_override := False, ca_access := [],
                 ca_roles := known_roles userRoles (ca_config c)\<rparr>
      in if ca_roles c1 = [] then c1 else ca_notify c1)"

definition OverrideDefaultState :: "string list \<Rightarrow> u32 \<Rightarrow> client_auth \<Rightarrow> client_auth" where
  "OverrideDefaultState userRoles timeout c =
     (let c1 = c\<lparr>ca_state := kDeAuthenticated, ca_override := True, ca_overrideTimeout := timeout, ca_access := [],
                 ca_roles := known_roles userRoles (ca_config c)\<rparr>
      in if ca_roles c1 = [] then c1 else ca_notify c1)"

definition SetServiceDynamicAccessList :: "ServiceDynamicAccess list \<Rightarrow> client_auth \<Rightarrow> client_auth" where
  "SetServiceDynamicAccessList rules c = c\<lparr>ca_access := rules\<rparr>"

definition AppendServiceDynamicAccessList :: "ServiceDynamicAccess list \<Rightarrow> client_auth \<Rightarrow> client_auth" where
  "AppendServiceDynamicAccessList rules c = c\<lparr>ca_access := ca_access c @ rules\<rparr>"

definition ca_Stop :: "client_auth \<Rightarrow> client_auth" where
  "ca_Stop c = c\<lparr>ca_timer := None\<rparr>"

definition ca_Refresh :: "client_auth \<Rightarrow> client_auth" where
  "ca_Refresh c =
     (let c1 = ca_Stop c in
      if ca_state c1 = kAuthenticated
      then (if ca_session c1 = 1 then c1\<lparr>ca_timer := Some (ca_authTimeout c1)\<rparr> else c1)
      else if ca_override c1 then c1\<lparr>ca_timer := Some (ca_overrideTimeout c1)\<rparr> else c1)"

definition ca_Default :: "client_auth \<Rightarrow> client_auth" where
  "ca_Default c = ca_notify (c\<lparr>ca_state := kDeAuthenticated, ca_override := False, ca_access := [],
     ca_roles := map ar_shortName (filter ar_isDefault (ca_config c))\<rparr>)"

definition ca_timeout :: "client_auth \<Rightarrow> client_auth" where
  "ca_timeout c = ca_Default (c\<lparr>ca_timer := None\<rparr>)"

definition ca_on_session_change :: "byte \<Rightarrow> client_auth \<Rightarrow> client_auth" where
  "ca_on_session_change next c =
     (if next = 1 then (if ca_session c \<noteq> next then c\<lparr>ca_session := next\<rparr> else c) else c\<lparr>ca_session := next\<rparr>)"

fun rule_item_match :: "byte \<Rightarrow> RuleItem \<Rightarrow> bool" where
  "rule_item_match b kWildcard \<longleftrightarrow> True"
| "rule_item_match b (kRange minVal maxVal) \<longleftrightarrow> minVal \<le> b \<and> b \<le> maxVal"
| "rule_item_match b (kValue v) \<longleftrightarrow> b = v"

fun auth_match :: "bytes \<Rightarrow> nat \<Rightarrow> ServiceDynamicAccess list \<Rightarrow> int" where
  "auth_match data ruleIdx [] = -1"
| "auth_match data ruleIdx (rule # rules) =
     (if length rule = length data \<and> list_all2 rule_item_match data rule then int ruleIdx
      else auth_match data (Suc ruleIdx) rules)"

definition ca_Validate :: "bytes \<Rightarrow> string list \<Rightarrow> client_auth \<Rightarrow> byte" where
  "ca_Validate body supportAuthRoles c =
     (if \<exists>r \<in> set supportAuthRoles. r \<in> set (ca_roles c) then 0
      else if auth_match body 0 (ca_access c) \<ge> 0 then 0
      else kConditionsNotCorrect)"

section \<open>All clients\<close>

record auth_manager =
  am_roles :: "AuthRole list"
  am_timeout :: u32
  am_external :: "(u16 \<times> u16) list"
  am_clients :: "u16 \<rightharpoonup> client_auth"
  am_verified :: "u16 \<rightharpoonup> bool"

definition am_Initialize :: "AuthRole list \<Rightarrow> u32 \<Rightarrow> (u16 \<times> u16) list \<Rightarrow> auth_manager" where
  "am_Initialize authRoleList authenticationTimeout externalAuthenticationList =
     \<lparr>am_roles = authRoleList, am_timeout = authenticationTimeout, am_external = externalAuthenticationList,
      am_clients = Map.empty, am_verified = Map.empty\<rparr>"

definition client_auth_new :: "auth_manager \<Rightarrow> u16 \<Rightarrow> client_auth" where
  "client_auth_new am clientAddress = ca_Default
     \<lparr>ca_address = clientAddress, ca_state = kDeAuthenticated, ca_session = 1, ca_roles = [], ca_config = am_roles am,
      ca_access = [], ca_authTimeout = am_timeout am, ca_notifier = False, ca_notified = [], ca_timer = None,
      ca_override = False, ca_overrideTimeout = 0\<rparr>"

text \<open>Addresses are admitted by code and mask.\<close>

definition GetClientAuthentication ::
  "(u16 \<Rightarrow> 's) \<Rightarrow> u16 \<Rightarrow> 's session_manager \<times> auth_manager \<Rightarrow> client_auth option \<times> 's session_manager \<times> auth_manager" where
  "GetClientAuthentication obs clientAddress = (\<lambda>(sm, am).
     if \<exists>(code, mask) \<in> set (am_external am). mask AND clientAddress = code
     then (case am_clients am clientAddress of
         Some c \<Rightarrow> (Some c, sm, am)
       | None \<Rightarrow> (let c = client_auth_new am clientAddress in
           (Some c, snd (AddNotifyOfSessionChange (obs clientAddress) sm),
            am\<lparr>am_clients := (am_clients am)(clientAddress \<mapsto> c)\<rparr>)))
     else (None, sm, am))"

definition update_client :: "u16 \<Rightarrow> (client_auth \<Rightarrow> client_auth) \<Rightarrow> auth_manager \<Rightarrow> auth_manager" where
  "update_client a f am = am\<lparr>am_clients := (am_clients am)(a := map_option f (am_clients am a))\<rparr>"

definition SetVerifyCertificateState :: "u16 \<Rightarrow> bool \<Rightarrow> auth_manager \<Rightarrow> auth_manager" where
  "SetVerifyCertificateState a state am = am\<lparr>am_verified := (am_verified am)(a \<mapsto> state)\<rparr>"

definition GetVerifyCertificateState :: "u16 \<Rightarrow> auth_manager \<Rightarrow> bool" where
  "GetVerifyCertificateState a am = (case am_verified am a of None \<Rightarrow> False | Some b \<Rightarrow> b)"

section \<open>Validators\<close>

type_synonym 's auth_state = "'s session_manager \<times> auth_manager"

definition AuthValidator_Validate ::
  "(u16 \<Rightarrow> 's) \<Rightarrow> u16 \<Rightarrow> bytes \<Rightarrow> string list \<Rightarrow> 's auth_state \<Rightarrow> bool \<times> 's auth_state" where
  "AuthValidator_Validate obs sa body supportRoles st =
     (case GetClientAuthentication obs sa st of
        (None, st') \<Rightarrow> (False, st')
      | (Some c, st') \<Rightarrow> (ca_Validate body supportRoles c = 0, st'))"

fun ServerAuth_Validate ::
  "(u16 \<Rightarrow> 's) \<Rightarrow> u16 \<Rightarrow> bytes \<Rightarrow> ('i \<times> string list) list \<Rightarrow> 's auth_state \<Rightarrow> bool \<times> 's auth_state" where
  "ServerAuth_Validate obs sa body [] st = (False, st)"
| "ServerAuth_Validate obs sa body ((_, roles) # tab) st =
     (case AuthValidator_Validate obs sa body roles st of (ok, st') \<Rightarrow>
        if ok then (True, st') else ServerAuth_Validate obs sa body tab st')"

section \<open>Service 0x29\<close>

text \<open>\<open>ReadVector\<close> of the cursor: when fewer bytes are left than asked for, all of them are returned and
  the cursor stays.\<close>

definition ReadVector :: "nat \<Rightarrow> bytes \<Rightarrow> nat \<Rightarrow> bytes \<times> nat" where
  "ReadVector n data pos =
     (if n + pos > length data then (drop pos data, pos) else (take n (drop pos data), pos + n))"

definition kDeAuthenticate :: byte where "kDeAuthenticate = 0x00"
definition kVerifyCertificateUnidirectional :: byte where "kVerifyCertificateUnidirectional = 0x01"
definition kVerifyCertificateBidirectional :: byte where "kVerifyCertificateBidirectional = 0x02"
definition kProofOfOwnership :: byte where "kProofOfOwnership = 0x03"
definition kTransmitCertificate :: byte where "kTransmitCertificate = 0x04"
definition kAuthenticationConfiguration :: byte where "kAuthenticationConfiguration = 0x08"

lemmas x29_ids = kDeAuthenticate_def kVerifyCertificateUnidirectional_def kVerifyCertificateBidirectional_def
  kProofOfOwnership_def kTransmitCertificate_def kAuthenticationConfiguration_def

text \<open>The application: a unidirectional check returns challenge and key of the server, a
  bidirectional one challenge, certificate, proof and key.\<close>

record 'w auth_app =
  aa_VerifyUnidirectional :: "byte \<Rightarrow> bytes \<Rightarrow> bytes \<Rightarrow> 'w \<Rightarrow> (bytes \<times> bytes) uds_result \<times> 'w"
  aa_VerifyBidirectional :: "byte \<Rightarrow> bytes \<Rightarrow> bytes \<Rightarrow> 'w \<Rightarrow> (bytes \<times> bytes \<times> bytes \<times> bytes) uds_result \<times> 'w"
  aa_VerifyOwnership :: "bytes \<Rightarrow> bytes \<Rightarrow> 'w \<Rightarrow> bytes uds_result \<times> 'w"
  aa_TransmitCertificate :: "bytes \<Rightarrow> 'w \<Rightarrow> unit uds_result \<times> 'w"

type_synonym ('s, 'w) x29_result = "bytes option \<times> 's auth_state \<times> 'w"

definition x29_reject :: "byte \<Rightarrow> 's auth_state \<Rightarrow> 'w \<Rightarrow> ('s, 'w) x29_result" where
  "x29_reject nrc st w = (Some (CreateNegativeResponse 0x29 nrc), st, w)"

definition x29_respond :: "byte \<Rightarrow> byte \<Rightarrow> bytes \<Rightarrow> 's auth_state \<Rightarrow> 'w \<Rightarrow> ('s, 'w) x29_result" where
  "x29_respond subfunction returnParameter rest st w = (Some (CreateResponse 0x29 @ [subfunction, returnParameter] @ rest), st, w)"

definition write_sized :: "bytes \<Rightarrow> bytes" where
  "write_sized v = be_bytes 2 (word_of_nat (length v) :: u16) @ v"

definition x29_DeAuthenticate ::
  "(u16 \<Rightarrow> 's) \<Rightarrow> u16 \<Rightarrow> bytes \<Rightarrow> 's auth_state \<Rightarrow> 'w \<Rightarrow> ('s, 'w) x29_result" where
  "x29_DeAuthenticate obs sa body st w =
     (if length body \<noteq> 2 then x29_reject kIncorrectMessageLengthOrInvalidFormat st w
      else (case GetClientAuthentication obs sa st of
          (None, st') \<Rightarrow> x29_respond 0x00 0x10 [] st' w
        | (Some c, (sm, am)) \<Rightarrow> x29_respond 0x00 0x10 [] (sm, update_client sa ca_Default am) w))"

text \<open>Both certificate checks read communication configuration, certificate and challenge.\<close>

definition parse_certificate_request :: "bytes \<Rightarrow> NrcErrc + byte \<times> byte \<times> bytes \<times> bytes" where
  "parse_certificate_request body =
     (if length body < 7 then Inl kIncorrectMessageLengthOrInvalidFormat
      else (case ReadUint8 body 0 of (_, p1) \<Rightarrow>
        case ReadUint8 body p1 of (subfunction, p2) \<Rightarrow>
        case ReadUint8 body p2 of (communicationConfiguration, p3) \<Rightarrow>
        case ReadUint16 body p3 of (lengthOfCertificateClient, p4) \<Rightarrow>
        let totalLength = 7 + unat lengthOfCertificateClient in
        if length body < totalLength then Inl kIncorrectMessageLengthOrInvalidFormat
        else (case ReadVector (unat lengthOfCertificateClient) body p4 of (certificateClient, p5) \<Rightarrow>
          case ReadUint16 body p5 of (lengthOfChallengeClient, p6) \<Rightarrow>
          if length body \<noteq> totalLength + unat lengthOfChallengeClient then Inl kIncorrectMessageLengthOrInvalidFormat
          else (case ReadVector (unat lengthOfChallengeClient) body p6 of (challengeClient, p7) \<Rightarrow>
            Inr (subfunction, communicationConfiguration, certificateClient, challengeClient)))))"

definition x29_VerifyUnidirectional ::
  "'w auth_app \<Rightarrow> u16 \<Rightarrow> bytes \<Rightarrow> 's auth_state \<Rightarrow> 'w \<Rightarrow> ('s, 'w) x29_result" where
  "x29_VerifyUnidirectional app sa body st w =
     (case parse_certificate_request body of
        Inl nrc \<Rightarrow> x29_reject nrc st w
      | Inr (subfunction, conf, certificate, challenge) \<Rightarrow>
          (case aa_VerifyUnidirectional app conf certificate challenge w of
             (Inr (challengeServer, keyServer), w') \<Rightarrow>
               x29_respond subfunction 0x11 (write_sized challengeServer @ write_sized keyServer)
                 (fst st, SetVerifyCertificateState sa True (snd st)) w'
           | (Inl err, w') \<Rightarrow> x29_reject (word_of_int err) st w'))"

definition x29_VerifyBidirectional ::
  "'w auth_app \<Rightarrow> u16 \<Rightarrow> bytes \<Rightarrow> 's auth_state \<Rightarrow> 'w \<Rightarrow> ('s, 'w) x29_result" where
  "x29_VerifyBidirectional app sa body st w =
     (case parse_certificate_request body of
        Inl nrc \<Rightarrow> x29_reject nrc st w
      | Inr (subfunction, conf, certificate, challenge) \<Rightarrow>
          (case aa_VerifyBidirectional app conf certificate challenge w of
             (Inr (challengeServer, certificateServer, proofServer, keyServer), w') \<Rightarrow>
               x29_respond subfunction 0x11
                 (write_sized challengeServer @ write_sized certificateServer @ write_sized proofServer @ write_sized keyServer)
                 (fst st, SetVerifyCertificateState sa True (snd st)) w'
           | (Inl err, w') \<Rightarrow> x29_reject (word_of_int err) st w'))"

definition x29_ProofOfOwnership ::
  "'w auth_app \<Rightarrow> u16 \<Rightarrow> bytes \<Rightarrow> 's auth_state \<Rightarrow> 'w \<Rightarrow> ('s, 'w) x29_result" where
  "x29_ProofOfOwnership app sa body st w =
     (if length body < 6 then x29_reject kIncorrectMessageLengthOrInvalidFormat st w
      else (case ReadUint8 body 0 of (_, p1) \<Rightarrow>
        case ReadUint8 body p1 of (subfunction, p2) \<Rightarrow>
        case ReadUint16 body p2 of (lengthOfProof, p3) \<Rightarrow>
        let totalLength = 6 + unat lengthOfProof in
        if length body < totalLength then x29_reject kIncorrectMessageLengthOrInvalidFormat st w
        else (case ReadVector (unat lengthOfProof) body p3 of (proof, p4) \<Rightarrow>
          case ReadUint16 body p4 of (lengthOfKey, p5) \<Rightarrow>
          if length body \<noteq> totalLength + unat lengthOfKey then x29_reject kIncorrectMessageLengthOrInvalidFormat st w
          else if \<not> GetVerifyCertificateState sa (snd st) then x29_reject kRequestSequenceError st w
          else (case ReadVector (unat lengthOfKey) body p5 of (key, p6) \<Rightarrow>
            case aa_VerifyOwnership app proof key w of
              (Inr sessionKeyInfo, w') \<Rightarrow>
                x29_respond subfunction 0x12 (write_sized sessionKeyInfo)
                  (fst st, SetVerifyCertificateState sa False (snd st)) w'
            | (Inl err, w') \<Rightarrow> x29_reject (word_of_int err) st w'))))"

definition x29_TransmitCertificate ::
  "'w auth_app \<Rightarrow> u16 list \<Rightarrow> bytes \<Rightarrow> 's auth_state \<Rightarrow> 'w \<Rightarrow> ('s, 'w) x29_result" where
  "x29_TransmitCertificate app evaluations body st w =
     (if length body < 5 then x29_reject kIncorrectMessageLengthOrInvalidFormat st w
      else (case ReadUint8 body 0 of (_, p1) \<Rightarrow>
        case ReadUint8 body p1 of (subfunction, p2) \<Rightarrow>
        case ReadUint16 body p2 of (certificateEvaluationId, p3) \<Rightarrow>
        case ReadUint16 body p3 of (lengthOfCertificateData, p4) \<Rightarrow>
        if length body \<noteq> 5 + unat lengthOfCertificateData then x29_reject kIncorrectMessageLengthOrInvalidFormat st w
        else if certificateEvaluationId \<notin> set evaluations then x29_reject kRequestOutOfRange st w
        else (case ReadVector (unat lengthOfCertificateData) body p4 of (certificateData, p5) \<Rightarrow>
          case aa_TransmitCertificate app certificateData w of
            (Inr _, w') \<Rightarrow> x29_respond subfunction 0x13 [] st w'
          | (Inl err, w') \<Rightarrow> x29_reject (word_of_int err) st w')))"

definition x29_AuthenticationConfiguration :: "bytes \<Rightarrow> 's auth_state \<Rightarrow> 'w \<Rightarrow> ('s, 'w) x29_result" where
  "x29_AuthenticationConfiguration body st w =
     (if length body \<noteq> 2 then x29_reject kIncorrectMessageLengthOrInvalidFormat st w
      else x29_respond 0x08 0x02 [] st w)"

definition x29_IsSupport :: "u16 list \<Rightarrow> byte \<Rightarrow> bool" where
  "x29_IsSupport evaluations subfunction \<longleftrightarrow>
     subfunction \<in> {kDeAuthenticate, kVerifyCertificateUnidirectional, kVerifyCertificateBidirectional,
       kProofOfOwnership, kAuthenticationConfiguration} \<or> subfunction = kTransmitCertificate \<and> evaluations \<noteq> []"

definition x29_Process ::
  "(u16 \<Rightarrow> 's) \<Rightarrow> 'w auth_app \<Rightarrow> u16 list \<Rightarrow> u16 \<Rightarrow> bytes \<Rightarrow> 's auth_state \<Rightarrow> 'w \<Rightarrow> ('s, 'w) x29_result" where
  "x29_Process obs app evaluations sa body st w =
     (if length body < 2 then x29_reject kIncorrectMessageLengthOrInvalidFormat st w
      else (case ReadUint8 body 0 of (_, p1) \<Rightarrow>
        case ReadUint8 body p1 of (subfunction, p2) \<Rightarrow>
        if \<not> x29_IsSupport evaluations subfunction then x29_reject kSubfunctionNotSupported st w
        else if subfunction = kDeAuthenticate then x29_DeAuthenticate obs sa body st w
        else if subfunction = kVerifyCertificateUnidirectional then x29_VerifyUnidirectional app sa body st w
        else if subfunction = kVerifyCertificateBidirectional then x29_VerifyBidirectional app sa body st w
        else if subfunction = kProofOfOwnership then x29_ProofOfOwnership app sa body st w
        else if subfunction = kTransmitCertificate then x29_TransmitCertificate app evaluations body st w
        else if subfunction = kAuthenticationConfiguration then x29_AuthenticationConfiguration body st w
        else (None, st, w)))"

section \<open>Which roles a client holds\<close>

datatype client_event = AuthenticateE "string list" | OverrideE "string list" u32 | SetRules "ServiceDynamicAccess list"
  | AppendRules "ServiceDynamicAccess list" | StartTimer | StopTimer | Expires | Deauthenticate | SessionE byte

fun client_handle :: "client_event \<Rightarrow> client_auth \<Rightarrow> client_auth" where
  "client_handle (AuthenticateE roles) c = Authenticate roles c"
| "client_handle (OverrideE roles timeout) c = OverrideDefaultState roles timeout c"
| "client_handle (SetRules rules) c = SetServiceDynamicAccessList rules c"
| "client_handle (AppendRules rules) c = AppendServiceDynamicAccessList rules c"
| "client_handle StartTimer c = ca_Refresh c"
| "client_handle StopTimer c = ca_Stop c"
| "client_handle Expires c = (if ca_timer c = None then c else ca_timeout c)"
| "client_handle Deauthenticate c = ca_Default c"
| "client_handle (SessionE next) c = ca_on_session_change next c"

definition default_roles :: "AuthRole list \<Rightarrow> string list" where
  "default_roles config = map ar_shortName (filter ar_isDefault config)"

definition roles_inv :: "AuthRole list \<Rightarrow> client_auth \<Rightarrow> bool" where
  "roles_inv config c \<longleftrightarrow> ca_config c = config \<and> set (ca_roles c) \<subseteq> ar_shortName ` set config \<and>
     (ca_state c = kDeAuthenticated \<and> \<not> ca_override c \<longrightarrow> ca_roles c = default_roles config)"

lemma roles_inv_handle: "roles_inv config c \<Longrightarrow> roles_inv config (client_handle e c)"
  by (cases e)
     (auto simp: roles_inv_def Authenticate_def OverrideDefaultState_def SetServiceDynamicAccessList_def
        AppendServiceDynamicAccessList_def ca_Refresh_def ca_Stop_def ca_timeout_def ca_Default_def ca_notify_def
        ca_on_session_change_def known_roles_def default_roles_def Let_def)

lemma roles_inv_run: "roles_inv config c \<Longrightarrow> roles_inv config (fold client_handle es c)"
  by (induction es arbitrary: c) (simp_all add: roles_inv_handle)

lemma roles_inv_new: "roles_inv (am_roles am) (client_auth_new am a)"
  by (auto simp: roles_inv_def client_auth_new_def ca_Default_def ca_notify_def default_roles_def)

lemma auth_match_granted: "auth_match data k rules \<ge> 0 \<longleftrightarrow> (\<exists>rule \<in> set rules. list_all2 rule_item_match data rule)"
  by (induction data k rules rule: auth_match.induct) (auto dest: list_all2_lengthD)

lemma ca_Validate_granted:
  "ca_Validate body roles c = 0 \<longleftrightarrow> set roles \<inter> set (ca_roles c) \<noteq> {} \<or>
     (\<exists>rule \<in> set (ca_access c). list_all2 rule_item_match body rule)"
  by (auto simp: ca_Validate_def auth_match_granted nrc_defs)

text \<open>A client that is not authenticated and was not given anything, and events that give it nothing.\<close>

definition plain :: "client_auth \<Rightarrow> bool" where
  "plain c \<longleftrightarrow> ca_state c = kDeAuthenticated \<and> ca_access c = [] \<and> \<not> ca_override c"

fun grants_nothing :: "client_event \<Rightarrow> bool" where
  "grants_nothing (AuthenticateE roles) \<longleftrightarrow> False"
| "grants_nothing (OverrideE roles timeout) \<longleftrightarrow> False"
| "grants_nothing (SetRules rules) \<longleftrightarrow> False"
| "grants_nothing (AppendRules rules) \<longleftrightarrow> False"
| "grants_nothing _ \<longleftrightarrow> True"

lemma plain_Default: "plain (ca_Default c)"
  by (simp add: plain_def ca_Default_def)

lemma plain_handle: "plain c \<Longrightarrow> grants_nothing e \<Longrightarrow> plain (client_handle e c)"
  by (cases e) (auto simp: ca_timeout_def ca_Default_def ca_Refresh_def ca_Stop_def ca_on_session_change_def plain_def Let_def)

lemma plain_run: "plain c \<Longrightarrow> list_all grants_nothing es \<Longrightarrow> plain (fold client_handle es c)"
  by (induction es arbitrary: c) (simp_all add: plain_handle)

text \<open>
  C31: authentication ends. Whatever a client did before, once its timer runs out, and until it is
  authenticated again or its default roles are overridden or it is given access rules, a request that
  needs one of some roles is let through only when one of them is a default role of the configuration.
\<close>

theorem expired_client_has_default_roles:
  assumes "ca_timer (fold client_handle before (client_auth_new am a)) \<noteq> None" and "list_all grants_nothing after"
  shows "ca_Validate body roles (fold client_handle (before @ Expires # after) (client_auth_new am a)) = 0 \<longleftrightarrow>
    set roles \<inter> set (default_roles (am_roles am)) \<noteq> {}"
proof -
  have "plain (client_handle Expires (fold client_handle before (client_auth_new am a)))"
    using assms(1) by (auto simp: ca_timeout_def plain_Default)
  then have "plain (fold client_handle (before @ Expires # after) (client_auth_new am a))"
    using plain_run [OF _ assms(2)] by (simp del: client_handle.simps)
  with roles_inv_run [OF roles_inv_new [of am a], of "before @ Expires # after"] show ?thesis
    by (simp add: ca_Validate_granted roles_inv_def plain_def del: client_handle.simps)
qed

theorem expired_client_has_default_roles_witness:
  "ca_Validate [0x31, 1, 0x11, 0] [''Workshop'']
     (fold client_handle [AuthenticateE [''Workshop''], StartTimer, Expires, SessionE 3]
       (client_auth_new (am_Initialize [\<lparr>ar_shortName = ''Workshop'', ar_bitPosition = 1, ar_isDefault = False\<rparr>] 5000 []) 0x0E80))
   \<noteq> 0 \<and>
   ca_Validate [0x31, 1, 0x11, 0] [''Workshop'']
     (fold client_handle [AuthenticateE [''Workshop''], StartTimer]
       (client_auth_new (am_Initialize [\<lparr>ar_shortName = ''Workshop'', ar_bitPosition = 1, ar_isDefault = False\<rparr>] 5000 []) 0x0E80))
   = 0"
proof -
  let ?am = "am_Initialize [\<lparr>ar_shortName = ''Workshop'', ar_bitPosition = 1, ar_isDefault = False\<rparr>] 5000 []"
  have "ca_timer (fold client_handle [AuthenticateE [''Workshop''], StartTimer] (client_auth_new ?am 0x0E80)) \<noteq> None"
    "set [''Workshop''] \<inter> set (default_roles (am_roles ?am)) = {}" by code_simp+
  moreover have "ca_Validate [0x31, 1, 0x11, 0] [''Workshop'']
      (fold client_handle [AuthenticateE [''Workshop''], StartTimer] (client_auth_new ?am 0x0E80)) = 0" by code_simp
  ultimately show ?thesis
    using expired_client_has_default_roles [of "[AuthenticateE [''Workshop''], StartTimer]" ?am "0x0E80" "[SessionE 3]"
        "[0x31, 1, 0x11, 0]" "[''Workshop'']"]
    by simp
qed

section \<open>Certificates can not be transmitted\<close>

lemma be_word_u16: "be_word (be_bytes 2 (v :: u16)) = v"
  by (simp add: codec_simps)

lemma ReadUint16_at: "ReadUint16 (pre @ be_bytes 2 v @ post) (length pre) = (v, length pre + 2)"
  by (simp add: ReadUint16_def be_word_u16)

text \<open>
  \<open>transmitCertificate\<close> never works as documented. A request made of the service, the
  subfunction, an evaluation identifier, the two length bytes and exactly that many certificate
  bytes is refused for its length, or as unsupported when no evaluation is configured, whatever the application is, because
  the header is taken to have five bytes instead of six.
\<close>

theorem transmit_certificate_is_refused:
  assumes "length certificate < 2 ^ 16"
  shows "x29_Process obs app evaluations sa
      ([0x29, kTransmitCertificate] @ be_bytes 2 (eval_id :: u16) @ be_bytes 2 (word_of_nat (length certificate) :: u16) @ certificate) st w =
    (Some [0x7F, 0x29, if evaluations = [] then kSubfunctionNotSupported else kIncorrectMessageLengthOrInvalidFormat], st, w)"
proof -
  let ?n = "word_of_nat (length certificate) :: u16"
  let ?body = "[0x29, kTransmitCertificate] @ be_bytes 2 eval_id @ be_bytes 2 ?n @ certificate"
  have r1: "ReadUint16 ?body 2 = (eval_id, 4)"
    using ReadUint16_at [of "[0x29, kTransmitCertificate]" eval_id "be_bytes 2 ?n @ certificate"] by (simp add: numeral_eq_Suc)
  have r2: "ReadUint16 ?body 4 = (?n, 6)"
    using ReadUint16_at [of "[0x29, kTransmitCertificate] @ be_bytes 2 eval_id" ?n certificate] by (simp add: numeral_eq_Suc)
  have n: "unat ?n = length certificate" using assms by (simp add: unat_of_nat take_bit_nat_eq_self)
  have "x29_TransmitCertificate app evaluations ?body st w = x29_reject kIncorrectMessageLengthOrInvalidFormat st w"
    using r1 r2 n by (simp add: x29_TransmitCertificate_def ReadUint8_def numeral_2_eq_2)
  then show ?thesis
    by (simp add: x29_Process_def ReadUint8_def x29_IsSupport_def x29_ids x29_reject_def CreateNegativeResponse_def nrc_defs)
qed

theorem transmit_certificate_is_refused_witness:
  "fst (x29_Process (\<lambda>a. a) \<lparr>aa_VerifyUnidirectional = \<lambda>_ _ _ w. (Inl 0x10, w), aa_VerifyBidirectional = \<lambda>_ _ _ w. (Inl 0x10, w),
       aa_VerifyOwnership = \<lambda>_ _ w. (Inl 0x10, w), aa_TransmitCertificate = \<lambda>_ w. (Inr (), w)\<rparr> [7] 0x0E80
     ([0x29, kTransmitCertificate] @ be_bytes 2 (7 :: u16) @ be_bytes 2 (word_of_nat 2 :: u16) @ [0xAA, 0xBB])
     (sm_new, am_Initialize [] 0 []) ()) = Some [0x7F, 0x29, 0x13]"
  using transmit_certificate_is_refused [of "[0xAA, 0xBB]" "\<lambda>a. a" "\<lparr>aa_VerifyUnidirectional = \<lambda>_ _ _ w. (Inl 0x10, w),
      aa_VerifyBidirectional = \<lambda>_ _ _ w. (Inl 0x10, w), aa_VerifyOwnership = \<lambda>_ _ w. (Inl 0x10, w),
      aa_TransmitCertificate = \<lambda>_ w. (Inr (), w)\<rparr>" "[7]" "0x0E80" 7 "(sm_new, am_Initialize [] 0 [])" "()"]
  by (simp add: nrc_defs)

end
