(* ===== verification/UdsGeneral.thy ===== *)
theory UdsGeneral
  imports UdsAuth
begin

text \<open>
  The checks every request passes before its service acts on it: the validators of the whole
  service, which \<open>ServerImpl\<close> runs (\<open>GetSidValidator\<close> of the services), and
  \<open>GeneralService::Process\<close>, which checks a subfunction
  (src/src/uds/capi/isoft-uds/src/server/src/common/general_service.h and .cpp); and the
  persistence service (common/persistence_service.h and .cpp).

  A check ends in one of three ways: granted, refused with a response code, or in the null
  dereference of the security level validator.
\<close>

datatype check = Granted | Refused NrcErrc | Crashed

section \<open>Validators of a whole service\<close>

record 'i sid_validators =
  vs_auth :: "('i \<times> string list) list option"
  vs_session :: "('i \<times> session_validator) list"
  vs_level :: "('i \<times> level_validator) list"

text \<open>Authentication when it is enabled, then session, then security level; each refuses with a code of
  its own.\<close>

definition sid_check ::
  "(u16 \<Rightarrow> 's) \<Rightarrow> u16 \<Rightarrow> bytes \<Rightarrow> 'i sid_validators \<Rightarrow> 'l security_manager \<Rightarrow> 's auth_state \<Rightarrow> check \<times> 's auth_state" where
  "sid_check obs sa body vs lm st =
     (case (case vs_auth vs of None \<Rightarrow> (True, st) | Some tab \<Rightarrow> ServerAuth_Validate obs sa body tab st) of
        (ok, st') \<Rightarrow>
          (if \<not> ok then Refused kAuthenticationRequired
           else if \<not> ServerSession_Validate (fst st') (vs_session vs) then Refused kServiceNotSupportedInActiveSession
           else (case ServerLevel_Validate lm (vs_level vs) of
                   None \<Rightarrow> Crashed | Some True \<Rightarrow> Granted | Some False \<Rightarrow> Refused kSecurityAccessDenied), st'))"

text \<open>\<open>std::map\<close> as a list sorted by key: insertion leaves an entry that is there alone.\<close>

definition table_insert :: "'k :: linorder \<Rightarrow> 'v \<Rightarrow> ('k \<times> 'v) list \<Rightarrow> ('k \<times> 'v) list" where
  "table_insert k v tab = (if k \<in> fst ` set tab then tab else insort_key fst (k, v) tab)"

definition table_update :: "'k \<Rightarrow> ('v \<Rightarrow> 'v) \<Rightarrow> ('k \<times> 'v) list \<Rightarrow> ('k \<times> 'v) list" where
  "table_update k f tab = map (\<lambda>(k', v). (k', if k' = k then f v else v)) tab"

definition table_erase :: "'k \<Rightarrow> ('k \<times> 'v) list \<Rightarrow> ('k \<times> 'v) list" where
  "table_erase k tab = filter (\<lambda>e. fst e \<noteq> k) tab"

definition table_ok :: "('k :: linorder \<times> 'v) list \<Rightarrow> bool" where
  "table_ok tab \<longleftrightarrow> sorted (map fst tab) \<and> distinct (map fst tab)"

lemma table_ok_Nil [simp]: "table_ok []"
  by (simp add: table_ok_def)

lemma table_insert_ok: "table_ok tab \<Longrightarrow> table_ok (table_insert k v tab)"
  by (simp add: table_ok_def table_insert_def sorted_insort_key distinct_insort_key)

lemma keys_table_update [simp]: "map fst (table_update k f tab) = map fst tab"
  by (simp add: table_update_def case_prod_unfold comp_def)

lemma table_update_ok: "table_ok tab \<Longrightarrow> table_ok (table_update k f tab)"
  by (simp add: table_ok_def)

lemma table_erase_ok: "table_ok tab \<Longrightarrow> table_ok (table_erase k tab)"
  by (simp add: table_ok_def table_erase_def sorted_filter distinct_map_filter)

lemma set_table_insert: "set (table_insert k v tab) = (if k \<in> fst ` set tab then set tab else insert (k, v) (set tab))"
  by (simp add: table_insert_def set_insort_key)

lemma set_table_update: "set (table_update k f tab) = (\<lambda>(k', v). (k', if k' = k then f v else v)) ` set tab"
  by (simp add: table_update_def)

lemma map_of_table_update: "map_of (table_update k f tab) k' = (if k' = k then map_option f (map_of tab k') else map_of tab k')"
  by (induction tab) (auto simp: table_update_def)

lemma map_of_table_erase: "map_of (table_erase k tab) = (map_of tab)(k := None)"
  by (rule ext) (induction tab, auto simp: table_erase_def)

lemma table_insert_found: "table_ok tab \<Longrightarrow> map_of (table_insert k v tab) k' = (if k' = k \<and> k \<notin> fst ` set tab then Some v else map_of tab k')"
proof -
  assume ok: "table_ok tab"
  have "map_of (table_insert k v tab) k' = Some w \<longleftrightarrow> (if k' = k \<and> k \<notin> fst ` set tab then Some v else map_of tab k') = Some w" for w
    using ok table_insert_ok [OF ok, of k v]
    by (auto simp: table_ok_def set_table_insert map_of_eq_Some_iff rev_image_eqI)
  then show ?thesis by (metis not_Some_eq)
qed

text \<open>How every service registers the validators of one instance: authentication when it is enabled, then
  session, then security level. A repeated identifier, no session or an unknown one are refused.\<close>

definition register_validators ::
  "'i :: linorder \<Rightarrow> string list option \<Rightarrow> byte list \<Rightarrow> byte list \<Rightarrow> 's session_manager \<Rightarrow> 'l security_manager \<Rightarrow>
     'i sid_validators \<Rightarrow> ('i sid_validators \<times> session_validator \<times> level_validator) option" where
  "register_validators i auth sessions levels sm lm vs =
     (case (case auth of None \<Rightarrow> Some (vs_auth vs)
            | Some roles \<Rightarrow> map_option Some (RegisterSubfunctionLevel i roles (case vs_auth vs of None \<Rightarrow> [] | Some t \<Rightarrow> t))) of
        None \<Rightarrow> None
      | Some auths \<Rightarrow>
      case SessionValidator_Initialize sessions sm of
        None \<Rightarrow> None
      | Some sv \<Rightarrow>
      case RegisterSubfunctionLevel i sv (vs_session vs) of
        None \<Rightarrow> None
      | Some svs \<Rightarrow>
      let lv = LevelValidator_Initialize levels lm in
      case RegisterSubfunctionLevel i lv (vs_level vs) of
        None \<Rightarrow> None
      | Some lvs \<Rightarrow> Some (\<lparr>vs_auth = auths, vs_session = svs, vs_level = lvs\<rparr>, sv, lv))"

definition no_validators :: "'i sid_validators" where
  "no_validators = \<lparr>vs_auth = None, vs_session = [], vs_level = []\<rparr>"

text \<open>What a service does with a request: it answers, it stays silent, or it dereferences a null
  pointer.\<close>

datatype reply = Reply bytes | Silent | Crash

definition reject :: "byte \<Rightarrow> NrcErrc \<Rightarrow> reply" where
  "reject sid nrc = Reply (CreateNegativeResponse sid nrc)"

section \<open>Validators of one subfunction\<close>

text \<open>What a service derived from \<open>GeneralService\<close> implements.\<close>

record general_service =
  gs_GetMinimumSize :: "byte \<Rightarrow> nat"
  gs_IsSupport :: "byte \<Rightarrow> bool"
  gs_GetSubfunctionAuth :: "byte \<Rightarrow> string list option"
  gs_GetSubfunctionSession :: "byte \<Rightarrow> session_validator option"
  gs_SupportSecurityLevel :: bool
  gs_GetSubfunctionSecurityLevel :: "byte \<Rightarrow> level_validator option"

definition subfunction_of :: "bytes \<Rightarrow> byte" where
  "subfunction_of body = fst (ReadUint8 body 1) AND 0x7F"

definition GeneralService_check ::
  "(u16 \<Rightarrow> 's) \<Rightarrow> u16 \<Rightarrow> bytes \<Rightarrow> general_service \<Rightarrow> 'l security_manager \<Rightarrow> 's auth_state \<Rightarrow> check \<times> 's auth_state" where
  "GeneralService_check obs sa body gs lm st =
     (if length body < 2 then (Refused kIncorrectMessageLengthOrInvalidFormat, st)
      else (let subfunction = subfunction_of body in
        if gs_GetMinimumSize gs subfunction > length body then (Refused kIncorrectMessageLengthOrInvalidFormat, st)
        else if \<not> gs_IsSupport gs subfunction then (Refused kSubfunctionNotSupported, st)
        else (case (case gs_GetSubfunctionAuth gs subfunction of
                      None \<Rightarrow> (True, st) | Some roles \<Rightarrow> AuthValidator_Validate obs sa body roles st) of
          (ok, st') \<Rightarrow>
            (if \<not> ok then Refused kAuthenticationRequired
             else (case gs_GetSubfunctionSession gs subfunction of
                 None \<Rightarrow> Refused kSubFunctionNotSupportedInActiveSession
               | Some v \<Rightarrow>
                   if \<not> SessionValidator_Validate (fst st') v then Refused kSubFunctionNotSupportedInActiveSession
                   else if \<not> gs_SupportSecurityLevel gs then Granted
                   else (case gs_GetSubfunctionSecurityLevel gs subfunction of
                       None \<Rightarrow> Granted
                     | Some lv \<Rightarrow> (case LevelValidator_Validate lm lv of
                         None \<Rightarrow> Crashed | Some True \<Rightarrow> Granted | Some False \<Rightarrow> Refused kSecurityAccessDenied))), st'))))"

text \<open>Checks only ever create a client record: who is in which session and level is not changed by them.\<close>

lemma GetClientAuthentication_keeps:
  "sm_current (fst (snd (GetClientAuthentication obs sa st))) = sm_current (fst st)"
  by (auto simp: GetClientAuthentication_def AddNotifyOfSessionChange_def Let_def case_prod_unfold split: option.split)

lemma AuthValidator_keeps: "sm_current (fst (snd (AuthValidator_Validate obs sa body roles st))) = sm_current (fst st)"
  using GetClientAuthentication_keeps [of obs sa st]
  by (auto simp: AuthValidator_Validate_def split: prod.split option.split)

lemma AuthValidator_current:
  "AuthValidator_Validate obs sa body roles st = (ok, sm, am) \<Longrightarrow> sm_current sm = sm_current (fst st)"
  using AuthValidator_keeps [of obs sa body roles st] by simp

lemma ServerAuth_keeps: "sm_current (fst (snd (ServerAuth_Validate obs sa body tab st))) = sm_current (fst st)"
  by (induction obs sa body tab st rule: ServerAuth_Validate.induct) (auto split: prod.split dest: AuthValidator_current)

lemma GeneralService_check_keeps:
  "sm_current (fst (snd (GeneralService_check obs sa body gs lm st))) = sm_current (fst st)"
  by (auto simp: GeneralService_check_def Let_def split: prod.split option.split dest: AuthValidator_current)

lemma SessionValidator_current:
  "sm_current sm = sm_current sm' \<Longrightarrow> SessionValidator_Validate sm v \<longleftrightarrow> SessionValidator_Validate sm' v"
  by (simp add: SessionValidator_Validate_def Session_Check_def)

text \<open>A granted subfunction was called in one of its sessions and, if the service asks for it, in one of
  its security levels.\<close>

lemma GeneralService_granted:
  assumes "fst (GeneralService_check obs sa body gs lm st) = Granted"
  shows "2 \<le> length body" and "gs_GetMinimumSize gs (subfunction_of body) \<le> length body"
    and "gs_IsSupport gs (subfunction_of body)"
    and "\<exists>v. gs_GetSubfunctionSession gs (subfunction_of body) = Some v \<and> SessionValidator_Validate (fst st) v"
    and "gs_SupportSecurityLevel gs \<Longrightarrow> gs_GetSubfunctionSecurityLevel gs (subfunction_of body) = Some lv \<Longrightarrow>
       LevelValidator_Validate lm lv = Some True"
  using assms
  by (auto simp: GeneralService_check_def Let_def not_less split: if_splits option.splits bool.splits prod.splits
      dest!: AuthValidator_current SessionValidator_current)

section \<open>Persistence\<close>

text \<open>Keys are qualified with the address of the server. Without a registered store nothing is kept.\<close>

record persistence =
  ps_serverAddr :: u16
  ps_store :: "(string \<rightharpoonup> bytes) option"

definition server_key :: "persistence \<Rightarrow> string \<Rightarrow> string" where
  "server_key ps key = ''udsServer|'' @ to_string (unat (ps_serverAddr ps)) @ ''|'' @ key"

definition SaveData :: "string \<Rightarrow> bytes \<Rightarrow> persistence \<Rightarrow> persistence" where
  "SaveData key value ps = ps\<lparr>ps_store := map_option (\<lambda>m. m(server_key ps key \<mapsto> value)) (ps_store ps)\<rparr>"

definition LoadData :: "string \<Rightarrow> persistence \<Rightarrow> bytes" where
  "LoadData key ps = (case ps_store ps of
     None \<Rightarrow> [] | Some m \<Rightarrow> (case m (server_key ps key) of None \<Rightarrow> [] | Some v \<Rightarrow> v))"

definition RemoveData :: "string \<Rightarrow> persistence \<Rightarrow> persistence" where
  "RemoveData key ps = ps\<lparr>ps_store := map_option (\<lambda>m. m(server_key ps key := None)) (ps_store ps)\<rparr>"

lemma LoadData_SaveData: "ps_store ps \<noteq> None \<Longrightarrow> LoadData k (SaveData k' v ps) = (if k = k' then v else LoadData k ps)"
  by (auto simp: LoadData_def SaveData_def server_key_def)

lemma SaveData_keeps [simp]: "(ps_store (SaveData k v ps) = None) = (ps_store ps = None)"
  by (simp add: SaveData_def)

end
