(* ===== verification/UdsData.thy ===== *)
theory UdsData
  imports UdsGeneral
begin

text \<open>
  Data identifiers of the UDS server (src/src/uds/capi/isoft-uds/src/server/src/data_management):
  \<open>DiagnosticDataManager\<close> (diagnostic_data_manager.h and .cpp) with the identifiers that testers define
  themselves and their storage, and the conditions on data elements under which a service may be
  used (environmental_condition.h and .cpp, environmental_condition_manager.h and .cpp).

  Data is read and written by the application, functions over the state \<open>'w\<close> of the rest of the server;
  the interface for single elements may be missing, and so may the value of a result whose error
  number is zero. Where the code then dereferences a null pointer, reads past the end of a list or
  recurses without end the result is \<open>None\<close>. Element values of one, two and four bytes and arrays of
  bytes are compared as in the code; how floating point numbers and arrays of wider elements compare
  is an argument.
\<close>

section \<open>Configuration\<close>

datatype DataType = kInt8 | kUint8 | kInt16 | kUint16 | kInt32 | kUint32 | kFloat

datatype DiagnosticDataElementProvider = kUnused | kExternal | kDcmSession | kDcmSecurityLevel

datatype DiagnosticDataReadMethod = kUseReadMothod | kUseReadElementMothod

record DiagnosticDataElementModel =
  em_dataType :: DataType
  em_array :: "(bool \<times> u32) option"
  em_provider :: DiagnosticDataElementProvider
  em_id :: u32

record DiagnosticDataModel =
  dd_id :: u16
  dd_nSize :: u32
  dd_details :: "(u32 \<times> DiagnosticDataElementModel) list"
  dd_readType :: DiagnosticDataReadMethod

record SourceData =
  so_id :: u16
  so_nPos :: byte
  so_nSize :: byte

record DiagnosticDynamicDataModel =
  dy_id :: u16
  dy_record :: "SourceData list"

record 'w data_app =
  ap_Read :: "u16 list \<Rightarrow> 'w \<Rightarrow> (u16 \<times> bytes) list uds_result \<times> 'w"
  ap_Write :: "u16 \<times> bytes \<Rightarrow> 'w \<Rightarrow> unit uds_result \<times> 'w"
  ap_element :: "(u32 list \<Rightarrow> 'w \<Rightarrow> (u32 \<times> bytes) list uds_result \<times> 'w) option"

record data_manager =
  dm_table :: "(u16 \<times> DiagnosticDataModel) list"
  dm_dynamic :: "(u16 \<times> DiagnosticDynamicDataModel) list"
  dm_edr :: "(u32 \<times> DiagnosticDataElementModel) list"
  dm_available :: "u16 list"
  dm_storage :: persistence
  dm_store :: bool
  dm_session :: byte
  dm_level :: byte

definition dm_new :: "persistence \<Rightarrow> data_manager" where
  "dm_new ps = \<lparr>dm_table = [], dm_dynamic = [], dm_edr = [], dm_available = [], dm_storage = ps, dm_store = False,
     dm_session = 0, dm_level = 0\<rparr>"

definition IsDynamic :: "u16 \<Rightarrow> data_manager \<Rightarrow> bool" where
  "IsDynamic i dm \<longleftrightarrow> list_ex (\<lambda>d. d = i) (dm_available dm)"

section \<open>Storage of the identifiers defined by testers\<close>

definition model_key :: "u16 \<Rightarrow> string" where
  "model_key i = ''dynamicModel_'' @ to_string (unat i)"

definition source_bytes :: "SourceData \<Rightarrow> bytes" where
  "source_bytes s = be_bytes 2 (so_id s) @ [so_nPos s, so_nSize s]"

definition saveStoreDynamicModel :: "data_manager \<Rightarrow> data_manager" where
  "saveStoreDynamicModel dm = dm\<lparr>dm_storage :=
     SaveData ''dynamicIdTable'' (concat (map (\<lambda>(i, _). be_bytes 2 i) (dm_dynamic dm)))
       (fold (\<lambda>(i, m). SaveData (model_key i) (concat (map source_bytes (dy_record m)))) (dm_dynamic dm) (dm_storage dm))\<rparr>"

definition clearStoreDynamicModel :: "u16 \<Rightarrow> data_manager \<Rightarrow> data_manager" where
  "clearStoreDynamicModel did dm = dm\<lparr>dm_storage := RemoveData (model_key did) (dm_storage dm)\<rparr>"

text \<open>The stored sources of an identifier; nothing when the last one is cut short.\<close>

fun load_sources :: "bytes \<Rightarrow> SourceData list option" where
  "load_sources (a # b # c # d # rest) =
     map_option (Cons \<lparr>so_id = be_word [a, b], so_nPos = c, so_nSize = d\<rparr>) (load_sources rest)"
| "load_sources [a, b, c] = None"
| "load_sources [a, b] = None"
| "load_sources _ = Some []"

text \<open>An identifier that is no longer configured is loaded without sources; a damaged one ends the loading.\<close>

fun load_models :: "bytes \<Rightarrow> data_manager \<Rightarrow> data_manager" where
  "load_models (a # b # rest) dm =
     (let dynamicId = be_word [a, b] in
      case (if IsDynamic dynamicId dm
            then map_option (\<lambda>r. \<lparr>dy_id = dynamicId, dy_record = r\<rparr>) (load_sources (LoadData (model_key dynamicId) (dm_storage dm)))
            else Some \<lparr>dy_id = 0, dy_record = []\<rparr>) of
        None \<Rightarrow> dm
      | Some m \<Rightarrow> load_models rest (dm\<lparr>dm_dynamic := table_insert dynamicId m (dm_dynamic dm)\<rparr>))"
| "load_models _ dm = dm"

definition loadStoreDynamicModel :: "data_manager \<Rightarrow> data_manager" where
  "loadStoreDynamicModel dm = load_models (LoadData ''dynamicIdTable'' (dm_storage dm)) dm"

section \<open>Setting up\<close>

record DiagnosticDataModelManager =
  mm_staticData :: "DiagnosticDataModel list"
  mm_edrElement :: "(u32 \<times> DiagnosticDataElementModel) list"
  mm_dynamicData :: "u16 list"
  mm_storeDynamicDataModel :: bool

fun check_details :: "DiagnosticDataModel \<Rightarrow> (u32 \<times> DiagnosticDataElementModel) list \<Rightarrow> int" where
  "check_details d [] = 0"
| "check_details d ((offset, e) # ps) =
     (if (case em_array e of None \<Rightarrow> False | Some (_, maxNumberOfElements) \<Rightarrow> maxNumberOfElements = 0) then -5
      else if dd_readType d = kUseReadMothod \<and> em_provider e \<noteq> kUnused then -8
      else check_details d ps)"

fun add_static :: "DiagnosticDataModel list \<Rightarrow> data_manager \<Rightarrow> int \<times> data_manager" where
  "add_static [] dm = (0, dm)"
| "add_static (d # ds) dm =
     (if dd_nSize d = 0 then (-2, dm)
      else if check_details d (dd_details d) \<noteq> 0 then (check_details d (dd_details d), dm)
      else if dd_id d \<in> fst ` set (dm_table dm) then (-6, dm)
      else add_static ds (dm\<lparr>dm_table := table_insert (dd_id d) d (dm_table dm)\<rparr>))"

definition dm_Initialize ::
  "'s \<Rightarrow> 'l \<Rightarrow> DiagnosticDataModelManager \<Rightarrow> 's session_manager \<Rightarrow> 'l security_manager \<Rightarrow> data_manager
     \<Rightarrow> int \<times> 's session_manager \<times> 'l security_manager \<times> data_manager" where
  "dm_Initialize session_cb level_cb config sm lm dm =
     (if mm_staticData config = [] then (-1, sm, lm, dm)
      else (let sm' = snd (AddNotifyOfSessionChange session_cb sm);
                lm' = snd (AddNotifyOfSecurityLevelChange level_cb lm) in
        case add_static (mm_staticData config) dm of (result, dm1) \<Rightarrow>
          if result \<noteq> 0 then (result, sm', lm', dm1)
          else if list_ex (\<lambda>i. i < 0xF200 \<or> i > 0xF3FF) (mm_dynamicData config) then (-6, sm', lm', dm1)
          else (let dm2 = dm1\<lparr>dm_edr := fold (\<lambda>(_, e). table_insert (em_id e) e) (mm_edrElement config) (dm_edr dm1),
                               dm_available := sort (remdups (dm_available dm1 @ mm_dynamicData config)),
                               dm_store := mm_storeDynamicDataModel config\<rparr>
                in (0, sm', lm', if mm_storeDynamicDataModel config then loadStoreDynamicModel dm2 else dm2))))"

definition dm_on_session_change :: "byte \<Rightarrow> data_manager \<Rightarrow> data_manager" where
  "dm_on_session_change newSessionId dm = dm\<lparr>dm_session := newSessionId\<rparr>"

definition dm_on_level_change :: "byte \<Rightarrow> data_manager \<Rightarrow> data_manager" where
  "dm_on_level_change i dm = dm\<lparr>dm_level := i\<rparr>"

section \<open>Questions about identifiers\<close>

definition HasDataIdentifier :: "u16 \<Rightarrow> data_manager \<Rightarrow> bool" where
  "HasDataIdentifier i dm \<longleftrightarrow> map_of (dm_table dm) i \<noteq> None \<or> i \<in> set (dm_available dm)"

definition GetDataSize :: "u16 \<Rightarrow> data_manager \<Rightarrow> nat" where
  "GetDataSize did dm = (case map_of (dm_table dm) did of
     Some d \<Rightarrow> unat (dd_nSize d)
   | None \<Rightarrow> (case map_of (dm_dynamic dm) did of None \<Rightarrow> 0 | Some m \<Rightarrow> sum_list (map (\<lambda>s. unat (so_nSize s)) (dy_record m))))"

definition GetCountOfSource :: "u16 \<Rightarrow> data_manager \<Rightarrow> nat" where
  "GetCountOfSource did dm = (case map_of (dm_dynamic dm) did of None \<Rightarrow> 0 | Some m \<Rightarrow> length (dy_record m))"

fun GetElementModel_loop :: "u32 \<Rightarrow> (u16 \<times> DiagnosticDataModel) list \<Rightarrow> DiagnosticDataElementModel option" where
  "GetElementModel_loop i [] = None"
| "GetElementModel_loop i ((_, d) # tab) = (case find (\<lambda>(_, e). em_id e = i) (dd_details d) of
     Some (_, e) \<Rightarrow> Some e | None \<Rightarrow> GetElementModel_loop i tab)"

definition GetDiagnosticDataElementModel :: "u32 \<Rightarrow> data_manager \<Rightarrow> DiagnosticDataElementModel option" where
  "GetDiagnosticDataElementModel i dm = (case GetElementModel_loop i (dm_table dm) of
     Some e \<Rightarrow> Some e | None \<Rightarrow> map_of (dm_edr dm) i)"

section \<open>Identifiers defined by testers\<close>

definition source_fits :: "data_manager \<Rightarrow> SourceData \<Rightarrow> bool" where
  "source_fits dm s = (case map_of (dm_table dm) (so_id s) of
     None \<Rightarrow> False | Some d \<Rightarrow> unat (so_nPos s) + unat (so_nSize s) \<le> unat (dd_nSize d))"

definition Defined :: "DiagnosticDynamicDataModel \<Rightarrow> bool \<Rightarrow> data_manager \<Rightarrow> byte \<times> data_manager" where
  "Defined data store dm =
     (if \<not> list_all (source_fits dm) (dy_record data) then (-1, dm)
      else if dy_id data \<notin> set (dm_available dm) then (-1, dm)
      else (let dm1 = dm\<lparr>dm_dynamic :=
                (if map_of (dm_dynamic dm) (dy_id data) = None then table_insert (dy_id data) data (dm_dynamic dm)
                 else table_update (dy_id data) (\<lambda>m. m\<lparr>dy_record := dy_record m @ dy_record data\<rparr>) (dm_dynamic dm))\<rparr>
            in (0, if store then saveStoreDynamicModel dm1 else dm1)))"

definition ClearDefined :: "u16 \<Rightarrow> data_manager \<Rightarrow> byte \<times> data_manager" where
  "ClearDefined did dm =
     (if map_of (dm_dynamic dm) did = None then (-1, dm)
      else (0, saveStoreDynamicModel (clearStoreDynamicModel did (dm\<lparr>dm_dynamic := table_erase did (dm_dynamic dm)\<rparr>))))"

definition ClearAllDefined :: "data_manager \<Rightarrow> byte \<times> data_manager" where
  "ClearAllDefined dm =
     (0, saveStoreDynamicModel ((fold (\<lambda>(i, _). clearStoreDynamicModel i) (dm_dynamic dm) dm)\<lparr>dm_dynamic := []\<rparr>))"

section \<open>Reading and writing\<close>

definition insert_at :: "nat \<Rightarrow> bytes \<Rightarrow> bytes \<Rightarrow> bytes option" where
  "insert_at offset xs r = (if offset \<le> length r then Some (take offset r @ xs @ drop offset r) else None)"

fun insert_elements :: "nat \<Rightarrow> bytes list \<Rightarrow> bytes \<Rightarrow> bytes option" where
  "insert_elements offset [] r = Some r"
| "insert_elements offset (x # xs) r = (case insert_at offset x r of None \<Rightarrow> None | Some r' \<Rightarrow> insert_elements offset xs r')"

fun fill_details ::
  "data_manager \<Rightarrow> (u32 \<times> bytes) list \<Rightarrow> (u32 \<times> DiagnosticDataElementModel) list \<Rightarrow> bytes \<Rightarrow> bytes option" where
  "fill_details dm elementList [] r = Some r"
| "fill_details dm elementList ((offset, e) # ps) r =
     (case (case em_provider e of
              kExternal \<Rightarrow> insert_elements (unat offset) (map snd (filter (\<lambda>(i, _). i = em_id e) elementList)) r
            | kDcmSession \<Rightarrow> insert_at (unat offset) [dm_session dm] r
            | kDcmSecurityLevel \<Rightarrow> insert_at (unat offset) [dm_level dm] r
            | kUnused \<Rightarrow> Some r) of
        None \<Rightarrow> None | Some r' \<Rightarrow> fill_details dm elementList ps r')"

text \<open>The identifiers among the given ones that are put together from elements.\<close>

definition element_models :: "data_manager \<Rightarrow> u16 list \<Rightarrow> (u16 \<times> DiagnosticDataModel) list" where
  "element_models dm ids = List.map_filter (\<lambda>i. case map_of (dm_table dm) i of
     Some d \<Rightarrow> if dd_readType d = kUseReadElementMothod then Some (i, d) else None | None \<Rightarrow> None) ids"

definition external_elements :: "(u16 \<times> DiagnosticDataModel) list \<Rightarrow> u32 list" where
  "external_elements ms = concat (map (\<lambda>(_, d). map (em_id \<circ> snd) (filter (\<lambda>(_, e). em_provider e = kExternal) (dd_details d))) ms)"

fun fill_models :: "data_manager \<Rightarrow> (u32 \<times> bytes) list \<Rightarrow> (u16 \<times> DiagnosticDataModel) list \<Rightarrow> (u16 \<times> bytes) list option" where
  "fill_models dm elementList [] = Some []"
| "fill_models dm elementList ((i, d) # ms) = (case fill_details dm elementList (dd_details d) [] of
     None \<Rightarrow> None | Some r \<Rightarrow> map_option (Cons (i, r)) (fill_models dm elementList ms))"

definition readByElement ::
  "'w data_app \<Rightarrow> data_manager \<Rightarrow> u16 list \<Rightarrow> 'w \<Rightarrow> ((u16 \<times> bytes) list uds_result \<times> 'w) option" where
  "readByElement app dm ids w =
     (let ms = element_models dm ids in
      case ap_element app of None \<Rightarrow> None | Some rd \<Rightarrow>
      (case rd (external_elements ms) w of
         (Inl err, w') \<Rightarrow> if err = 0 then None else Some (Inl err, w')
       | (Inr elementList, w') \<Rightarrow> (case fill_models dm elementList ms of
           None \<Rightarrow> None
         | Some [] \<Rightarrow> Some (Inl (-1), w')
         | Some l \<Rightarrow> Some (Inr l, w'))))"

fun read_sources ::
  "(u16 \<Rightarrow> 'w \<Rightarrow> ((u16 \<times> bytes) list uds_result \<times> 'w) option) \<Rightarrow> SourceData list \<Rightarrow> bytes \<Rightarrow> 'w \<Rightarrow> (bytes \<times> 'w) option" where
  "read_sources rd [] r w = Some (r, w)"
| "read_sources rd (s # ss) r w = (case rd (so_id s) w of
     None \<Rightarrow> None
   | Some (Inl err, w') \<Rightarrow> read_sources rd ss r w'
   | Some (Inr [], w') \<Rightarrow> None
   | Some (Inr ((_, d) # _), w') \<Rightarrow>
       if unat (so_nPos s) + unat (so_nSize s) \<le> length d
       then read_sources rd ss (r @ take (unat (so_nSize s)) (drop (unat (so_nPos s)) d)) w' else None)"

fun readDynamic ::
  "(u16 \<Rightarrow> 'w \<Rightarrow> ((u16 \<times> bytes) list uds_result \<times> 'w) option) \<Rightarrow> data_manager \<Rightarrow> u16 list \<Rightarrow> 'w \<Rightarrow> ((u16 \<times> bytes) list \<times> 'w) option" where
  "readDynamic rd dm [] w = Some ([], w)"
| "readDynamic rd dm (i # ids) w =
     (case (case map_of (dm_dynamic dm) i of None \<Rightarrow> Some ([], w) | Some m \<Rightarrow> read_sources rd (dy_record m) [] w) of
        None \<Rightarrow> None
      | Some (r, w') \<Rightarrow> (case readDynamic rd dm ids w' of None \<Rightarrow> None | Some (l, w'') \<Rightarrow> Some ((i, r) # l, w'')))"

definition reads_directly :: "data_manager \<Rightarrow> DiagnosticDataReadMethod \<Rightarrow> u16 \<Rightarrow> bool" where
  "reads_directly dm m i \<longleftrightarrow> \<not> IsDynamic i dm \<and> (case map_of (dm_table dm) i of None \<Rightarrow> False | Some d \<Rightarrow> dd_readType d = m)"

text \<open>\<open>Read\<close> and \<open>_readDynamic\<close> call each other; the first argument bounds the depth of the calls, and
  \<open>None\<close> is also the stack that overflows.\<close>

fun dm_Read ::
  "nat \<Rightarrow> 'w data_app \<Rightarrow> data_manager \<Rightarrow> u16 list \<Rightarrow> 'w \<Rightarrow> ((u16 \<times> bytes) list uds_result \<times> 'w) option" where
  "dm_Read 0 app dm ids w = None"
| "dm_Read (Suc depth) app dm ids w =
     (case (if list_ex (reads_directly dm kUseReadMothod) ids
            then (case ap_Read app ids w of
                    (Inr l, w1) \<Rightarrow> Some (l, 0, w1)
                  | (Inl err, w1) \<Rightarrow> if err = 0 then None else Some ([], err, w1))
            else Some ([], 0, w)) of
        None \<Rightarrow> None
      | Some (l1, err1, w1) \<Rightarrow>
     case (if list_ex (\<lambda>i. IsDynamic i dm) ids
           then readDynamic (\<lambda>i. dm_Read depth app dm [i]) dm (filter (\<lambda>i. IsDynamic i dm) ids) w1
           else Some ([], w1)) of
        None \<Rightarrow> None
      | Some (l2, w2) \<Rightarrow>
     case (if list_ex (reads_directly dm kUseReadElementMothod) ids then readByElement app dm ids w2 else Some (Inr [], w2)) of
        None \<Rightarrow> None
      | Some (Inl err3, w3) \<Rightarrow> Some (Inl err3, w3)
      | Some (Inr l3, w3) \<Rightarrow> Some (if err1 \<noteq> 0 then Inl err1 else Inr (l1 @ l2 @ l3), w3))"

definition dm_Write :: "'w data_app \<Rightarrow> u16 \<times> bytes \<Rightarrow> 'w \<Rightarrow> unit uds_result \<times> 'w" where
  "dm_Write app data w = ap_Write app data w"

text \<open>Single elements. The second of two equal tests of the source, for the security level, never
  holds; values that the server knows itself are added to a list the application returned only when
  that is not empty.\<close>

definition internal_elements :: "data_manager \<Rightarrow> u32 list \<Rightarrow> (u32 \<times> bytes) list" where
  "internal_elements dm ids = List.map_filter (\<lambda>i. case GetDiagnosticDataElementModel i dm of
     Some e \<Rightarrow> if em_provider e = kDcmSession then Some (i, [dm_session dm]) else None | None \<Rightarrow> None) ids"

definition ReadDataElements ::
  "'w data_app \<Rightarrow> data_manager \<Rightarrow> u32 list \<Rightarrow> 'w \<Rightarrow> ((u32 \<times> bytes) list uds_result \<times> 'w) option" where
  "ReadDataElements app dm idTable w =
     (let externalTable = filter (\<lambda>i. case GetDiagnosticDataElementModel i dm of
                                         None \<Rightarrow> False | Some e \<Rightarrow> em_provider e = kExternal) idTable;
          internal = internal_elements dm idTable in
      case ap_element app of None \<Rightarrow> None | Some rd \<Rightarrow>
      (case rd externalTable w of
         (Inr l, w') \<Rightarrow> Some (Inr (if internal \<noteq> [] \<and> l \<noteq> [] then l @ internal else l), w')
       | (Inl err, w') \<Rightarrow> if err = 0 then None
                         else Some (if internal \<noteq> [] then Inr internal else Inl err, w')))"

definition ReadDataElement ::
  "'w data_app \<Rightarrow> data_manager \<Rightarrow> u32 \<Rightarrow> 'w \<Rightarrow> (bytes uds_result \<times> 'w) option" where
  "ReadDataElement app dm i w = (case ReadDataElements app dm [i] w of
     None \<Rightarrow> None
   | Some (Inr ((_, r) # _), w') \<Rightarrow> Some (Inr r, w')
   | Some (Inr [], w') \<Rightarrow> Some (uds_error kGeneralReject, w')
   | Some (Inl err, w') \<Rightarrow> Some (Inl err, w'))"

definition ReadEdrElement ::
  "'w data_app \<Rightarrow> data_manager \<Rightarrow> u32 list \<Rightarrow> 'w \<Rightarrow> ((u32 \<times> bytes) list uds_result \<times> 'w) option" where
  "ReadEdrElement app dm idTable w = map_option (\<lambda>rd.
     rd (filter (\<lambda>i. case map_of (dm_edr dm) i of None \<Rightarrow> False | Some e \<Rightarrow> em_provider e = kExternal) idTable) w) (ap_element app)"

section \<open>Conditions\<close>

datatype DiagnosticLogicalOperatorEnum = kLogicalAnd | kLogicalOr

datatype DiagnosticCompareTypeEnum = kIsEqual | kIsNotEqual | kIsLessThan | kIsLessOrEqual | kIsGreaterThan | kIsGreaterOrEqual

record ValueSpecification =
  va_isArray :: bool
  va_type :: DataType
  va_data :: bytes

text \<open>A part of a formula: a comparison, a formula of its own, or an object of the base class.\<close>

datatype env_part =
  EnvDataCondition DiagnosticCompareTypeEnum ValueSpecification u32
| EnvConditionFormula byte DiagnosticLogicalOperatorEnum "env_part list"
| OtherPart

type_synonym compare_fun = "DataType \<Rightarrow> bool \<Rightarrow> DiagnosticCompareTypeEnum \<Rightarrow> bytes \<Rightarrow> bytes \<Rightarrow> bool"

fun compare_int :: "DiagnosticCompareTypeEnum \<Rightarrow> int \<Rightarrow> int \<Rightarrow> bool" where
  "compare_int kIsEqual a b \<longleftrightarrow> a = b"
| "compare_int kIsGreaterOrEqual a b \<longleftrightarrow> a \<ge> b"
| "compare_int kIsGreaterThan a b \<longleftrightarrow> a > b"
| "compare_int kIsLessOrEqual a b \<longleftrightarrow> a \<le> b"
| "compare_int kIsLessThan a b \<longleftrightarrow> a < b"
| "compare_int kIsNotEqual a b \<longleftrightarrow> a \<noteq> b"

fun compare_bytes :: "DiagnosticCompareTypeEnum \<Rightarrow> bytes \<Rightarrow> bytes \<Rightarrow> bool" where
  "compare_bytes kIsEqual a b \<longleftrightarrow> a = b"
| "compare_bytes kIsNotEqual a b \<longleftrightarrow> a \<noteq> b"
| "compare_bytes _ a b \<longleftrightarrow> False"

text \<open>A value that is too short is read as zero.\<close>

definition read_scalar :: "DataType \<Rightarrow> bytes \<Rightarrow> int" where
  "read_scalar t bs = (case t of
     kUint8 \<Rightarrow> (if length bs < 1 then 0 else uint (be_word (take 1 bs) :: byte))
   | kInt8 \<Rightarrow> (if length bs < 1 then 0 else sint (be_word (take 1 bs) :: byte))
   | kUint16 \<Rightarrow> (if length bs < 2 then 0 else uint (be_word (take 2 bs) :: u16))
   | kInt16 \<Rightarrow> (if length bs < 2 then 0 else sint (be_word (take 2 bs) :: u16))
   | kUint32 \<Rightarrow> (if length bs < 4 then 0 else uint (be_word (take 4 bs) :: u32))
   | kInt32 \<Rightarrow> (if length bs < 4 then 0 else sint (be_word (take 4 bs) :: u32))
   | kFloat \<Rightarrow> 0)"

definition compareValue ::
  "compare_fun \<Rightarrow> bytes \<Rightarrow> DiagnosticCompareTypeEnum \<Rightarrow> ValueSpecification \<Rightarrow> bool option" where
  "compareValue cmp elementData compareType v =
     (if va_type v = kFloat \<or> va_isArray v \<and> va_type v \<noteq> kUint8
      then Some (cmp (va_type v) (va_isArray v) compareType elementData (va_data v))
      else if va_isArray v then Some (compare_bytes compareType elementData (va_data v))
      else if va_type v = kUint8 \<and> va_data v = [] then None
      else Some (compare_int compareType (read_scalar (va_type v) elementData) (read_scalar (va_type v) (va_data v))))"

definition checkDataCondition ::
  "compare_fun \<Rightarrow> 'w data_app \<Rightarrow> data_manager \<Rightarrow> DiagnosticCompareTypeEnum \<Rightarrow> ValueSpecification \<Rightarrow> u32 \<Rightarrow> 'w \<Rightarrow> (bool \<times> 'w) option" where
  "checkDataCondition cmp app dm compareType v element w = (case ReadDataElement app dm element w of
     None \<Rightarrow> None
   | Some (Inl err, w') \<Rightarrow> Some (False, w')
   | Some (Inr r, w') \<Rightarrow> if r = [] then Some (False, w')
                        else map_option (\<lambda>ok. (ok, w')) (compareValue cmp r compareType v))"

text \<open>The parts in order; the second argument is the value \<open>resultValue\<close> so far.\<close>

fun checkConditionFormula ::
  "compare_fun \<Rightarrow> 'w data_app \<Rightarrow> data_manager \<Rightarrow> byte \<Rightarrow> DiagnosticLogicalOperatorEnum \<Rightarrow> byte \<Rightarrow> env_part list \<Rightarrow> 'w \<Rightarrow> (byte \<times> 'w) option" where
  "checkConditionFormula cmp app dm nrcValue op result [] w = Some (result, w)"
| "checkConditionFormula cmp app dm nrcValue op result (EnvDataCondition ct v e # ps) w =
     (case checkDataCondition cmp app dm ct v e w of
        None \<Rightarrow> None
      | Some (ok, w') \<Rightarrow>
          if op = kLogicalAnd
          then (if \<not> ok then Some (nrcValue, w') else checkConditionFormula cmp app dm nrcValue op result ps w')
          else (if ok then Some (0, w') else checkConditionFormula cmp app dm nrcValue op nrcValue ps w'))"
| "checkConditionFormula cmp app dm nrcValue op result (EnvConditionFormula n o' qs # ps) w =
     (case checkConditionFormula cmp app dm n o' 0 qs w of
        None \<Rightarrow> None
      | Some (r, w') \<Rightarrow>
          if r \<noteq> 0 \<and> op = kLogicalAnd then Some (r, w')
          else if op = kLogicalOr \<and> r = 0 then Some (r, w')
          else checkConditionFormula cmp app dm nrcValue op r ps w')"
| "checkConditionFormula cmp app dm nrcValue op result (OtherPart # ps) w =
     checkConditionFormula cmp app dm nrcValue op result ps w"

record EnvironmentalConditionModel =
  ec_nrcValue :: byte
  ec_op :: DiagnosticLogicalOperatorEnum
  ec_parts :: "env_part list"
  ec_id :: int

definition condition_new :: EnvironmentalConditionModel where
  "condition_new = \<lparr>ec_nrcValue = 0, ec_op = kLogicalAnd, ec_parts = [], ec_id = 0\<rparr>"

definition Condition_Check ::
  "compare_fun \<Rightarrow> 'w data_app \<Rightarrow> data_manager \<Rightarrow> EnvironmentalConditionModel \<Rightarrow> 'w \<Rightarrow> (byte \<times> 'w) option" where
  "Condition_Check cmp app dm c w = checkConditionFormula cmp app dm (ec_nrcValue c) (ec_op c) 0 (ec_parts c) w"

text \<open>The types of the parts are compared with the type of the pointer that refers to them, so no part
  is ever looked at.\<close>

definition Condition_Initialize :: "EnvironmentalConditionModel \<Rightarrow> EnvironmentalConditionModel option" where
  "Condition_Initialize model = (if ec_id model < 0 then None else if ec_parts model = [] then None else Some model)"

fun Conditions_Initialize ::
  "EnvironmentalConditionModel list \<Rightarrow> (int \<rightharpoonup> EnvironmentalConditionModel) \<Rightarrow> (int \<rightharpoonup> EnvironmentalConditionModel) option" where
  "Conditions_Initialize [] tab = Some tab"
| "Conditions_Initialize (m # ms) tab = (case Condition_Initialize m of
     None \<Rightarrow> None
   | Some c \<Rightarrow> Conditions_Initialize ms (if tab (ec_id m) = None then tab(ec_id m \<mapsto> c) else tab))"

section \<open>What the storage keeps\<close>

lemma load_sources_bytes [simp]: "load_sources (concat (map source_bytes r)) = Some r"
proof (induction r)
  case (Cons s r)
  obtain a b where ab: "be_bytes 2 (so_id s) = [a, b]"
    by (metis (no_types, opaque_lifting) Suc_1 length_0_conv length_Suc_conv length_be_bytes One_nat_def)
  then have "be_word [a, b] = so_id s" using be_word_be_bytes [of 2 "so_id s"] by simp
  with Cons ab show ?case by (simp add: source_bytes_def)
qed simp

lemma model_key_inject [simp]: "model_key i = model_key j \<longleftrightarrow> i = j"
  by (simp add: model_key_def word_unat_eq_iff)

lemma model_key_table [simp]: "model_key i \<noteq> ''dynamicIdTable''"
  by (simp add: model_key_def)

lemma fold_SaveData_store [simp]:
  "(ps_store (fold (\<lambda>(i, m). SaveData (model_key i) (f m)) tab ps) = None) = (ps_store ps = None)"
  by (induction tab arbitrary: ps) (simp_all add: case_prod_beta)

lemma LoadData_fold_SaveData:
  assumes "ps_store ps \<noteq> None" and "distinct (map fst tab)"
  shows "LoadData (model_key i) (fold (\<lambda>(i, m). SaveData (model_key i) (f m)) tab ps) =
     (case map_of tab i of None \<Rightarrow> LoadData (model_key i) ps | Some m \<Rightarrow> f m)"
  using assms
proof (induction tab arbitrary: ps)
  case (Cons e tab)
  obtain k m where e: "e = (k, m)" by fastforce
  with Cons.prems have "map_of tab k = None" by (simp add: map_of_eq_None_iff)
  moreover have "ps_store (SaveData (model_key k) (f m) ps) \<noteq> None" using Cons.prems(1) by simp
  ultimately show ?case using Cons.IH [of "SaveData (model_key k) (f m) ps"] Cons.prems e
    by (auto simp: LoadData_SaveData split: option.split)
qed simp

text \<open>The table as it is loaded into a manager without identifiers.\<close>

definition restarted :: "data_manager \<Rightarrow> data_manager" where
  "restarted dm = loadStoreDynamicModel (dm\<lparr>dm_dynamic := []\<rparr>)"

definition dynamic_ok :: "data_manager \<Rightarrow> bool" where
  "dynamic_ok dm \<longleftrightarrow> table_ok (dm_dynamic dm) \<and> (\<forall>(i, m) \<in> set (dm_dynamic dm). i \<in> set (dm_available dm) \<and> dy_id m = i)
     \<and> ps_store (dm_storage dm) \<noteq> None"

lemma insert_last: "table_ok (xs @ [(k, v)]) \<Longrightarrow> table_insert k v xs = xs @ [(k, v)]"
proof -
  assume "table_ok (xs @ [(k, v)])"
  then have "k \<notin> fst ` set xs" "\<forall>x \<in> set xs. fst x \<le> k" by (force simp: table_ok_def sorted_append)+
  then have "insort_key fst (k, v) xs = xs @ [(k, v)]" by (induction xs) auto
  with \<open>k \<notin> _\<close> show ?thesis by (simp add: table_insert_def)
qed

lemma load_models_all:
  assumes "table_ok (dm_dynamic dm @ tab)" and "\<forall>(i, m) \<in> set tab. IsDynamic i dm \<and> dy_id m = i"
    and "\<forall>(i, m) \<in> set tab. LoadData (model_key i) (dm_storage dm) = concat (map source_bytes (dy_record m))"
  shows "load_models (concat (map (\<lambda>(i, _). be_bytes 2 i) tab)) dm = dm\<lparr>dm_dynamic := dm_dynamic dm @ tab\<rparr>"
  using assms
proof (induction tab arbitrary: dm)
  case (Cons e tab)
  obtain i m where e: "e = (i, m)" by fastforce
  obtain a b where ab: "be_bytes 2 i = [a, b]"
    by (metis (no_types, opaque_lifting) Suc_1 length_0_conv length_Suc_conv length_be_bytes One_nat_def)
  then have i: "be_word [a, b] = i" using be_word_be_bytes [of 2 i] by simp
  let ?dm = "dm\<lparr>dm_dynamic := dm_dynamic dm @ [(i, m)]\<rparr>"
  from Cons.prems(1) e have "table_ok (dm_dynamic dm @ [(i, m)])" by (simp add: table_ok_def sorted_append)
  then have ins: "table_insert i m (dm_dynamic dm) = dm_dynamic dm @ [(i, m)]" by (rule insert_last)
  have "\<lparr>dy_id = i, dy_record = dy_record m\<rparr> = m" using Cons.prems(2) e by (cases m) simp
  with ins have m: "table_insert i \<lparr>dy_id = i, dy_record = dy_record m\<rparr> (dm_dynamic dm) = dm_dynamic dm @ [(i, m)]" by simp
  have "load_models (concat (map (\<lambda>(i, _). be_bytes 2 i) tab)) ?dm = ?dm\<lparr>dm_dynamic := dm_dynamic ?dm @ tab\<rparr>"
    using Cons.prems e by (intro Cons.IH) (auto simp: IsDynamic_def)
  with Cons.prems(2,3) e ab i m show ?case by (simp add: Let_def)
qed simp

lemma saveStore_keeps [simp]: "dm_dynamic (saveStoreDynamicModel dm) = dm_dynamic dm"
  "dm_available (saveStoreDynamicModel dm) = dm_available dm" "dm_table (saveStoreDynamicModel dm) = dm_table dm"
  "(ps_store (dm_storage (saveStoreDynamicModel dm)) = None) = (ps_store (dm_storage dm) = None)"
  by (simp_all add: saveStoreDynamicModel_def)

lemma restarted_save:
  assumes "dynamic_ok dm"
  shows "restarted (saveStoreDynamicModel dm) = saveStoreDynamicModel dm"
proof -
  let ?dm = "saveStoreDynamicModel dm"
  have some: "ps_store (fold (\<lambda>(i, m). SaveData (model_key i) (concat (map source_bytes (dy_record m)))) (dm_dynamic dm) (dm_storage dm)) \<noteq> None"
    using assms by (simp add: dynamic_ok_def)
  have ids: "LoadData ''dynamicIdTable'' (dm_storage ?dm) = concat (map (\<lambda>(i, _). be_bytes 2 i) (dm_dynamic dm))"
    using some by (simp add: saveStoreDynamicModel_def LoadData_SaveData)
  have "LoadData (model_key i) (dm_storage ?dm) = concat (map source_bytes (dy_record m))" if "(i, m) \<in> set (dm_dynamic dm)" for i m
    using some that assms
    by (simp add: saveStoreDynamicModel_def LoadData_SaveData LoadData_fold_SaveData dynamic_ok_def table_ok_def)
  then have "load_models (concat (map (\<lambda>(i, _). be_bytes 2 i) (dm_dynamic dm))) (?dm\<lparr>dm_dynamic := []\<rparr>) =
      ?dm\<lparr>dm_dynamic := dm_dynamic dm\<rparr>"
    using assms by (subst load_models_all) (auto simp: dynamic_ok_def IsDynamic_def list_ex_iff)
  then show ?thesis using ids by (simp add: restarted_def loadStoreDynamicModel_def saveStoreDynamicModel_def)
qed

datatype dynamic_op = Define DiagnosticDynamicDataModel | Clear u16 | ClearAll

fun dynamic_step :: "dynamic_op \<Rightarrow> data_manager \<Rightarrow> data_manager" where
  "dynamic_step (Define m) dm = snd (Defined m True dm)"
| "dynamic_step (Clear i) dm = snd (ClearDefined i dm)"
| "dynamic_step ClearAll dm = snd (ClearAllDefined dm)"

lemma clearStore_keeps [simp]: "dm_dynamic (clearStoreDynamicModel i dm) = dm_dynamic dm"
  "dm_available (clearStoreDynamicModel i dm) = dm_available dm"
  "(ps_store (dm_storage (clearStoreDynamicModel i dm)) = None) = (ps_store (dm_storage dm) = None)"
  by (simp_all add: clearStoreDynamicModel_def RemoveData_def)

lemma fold_clearStore_keeps [simp]:
  "dm_available (fold (\<lambda>(i, _). clearStoreDynamicModel i) tab dm) = dm_available dm"
  "(ps_store (dm_storage (fold (\<lambda>(i, _). clearStoreDynamicModel i) tab dm)) = None) = (ps_store (dm_storage dm) = None)"
  by (induction tab arbitrary: dm) auto

lemma dynamic_ok_save: "dynamic_ok dm \<Longrightarrow> dynamic_ok (saveStoreDynamicModel dm)"
  by (simp add: dynamic_ok_def)

lemma Defined_ok:
  assumes "dynamic_ok dm"
  shows "snd (Defined m True dm) = dm \<or> (\<exists>dm'. dynamic_ok dm' \<and> snd (Defined m True dm) = saveStoreDynamicModel dm')"
proof (cases "list_all (source_fits dm) (dy_record m) \<and> dy_id m \<in> set (dm_available dm)")
  case True
  let ?tab = "if map_of (dm_dynamic dm) (dy_id m) = None then table_insert (dy_id m) m (dm_dynamic dm)
     else table_update (dy_id m) (\<lambda>m'. m'\<lparr>dy_record := dy_record m' @ dy_record m\<rparr>) (dm_dynamic dm)"
  have "dynamic_ok (dm\<lparr>dm_dynamic := ?tab\<rparr>)"
    using assms True
    by (auto simp: dynamic_ok_def table_insert_ok table_update_ok set_table_insert set_table_update)
  with True show ?thesis by (auto simp: Defined_def Let_def)
qed (auto simp: Defined_def)

lemma dynamic_step_saves:
  assumes "dynamic_ok dm"
  shows "dynamic_step op dm = dm \<or> (\<exists>dm'. dynamic_ok dm' \<and> dynamic_step op dm = saveStoreDynamicModel dm')"
proof (cases op)
  case (Clear i)
  have "dynamic_ok (clearStoreDynamicModel i (dm\<lparr>dm_dynamic := table_erase i (dm_dynamic dm)\<rparr>))"
    using assms by (auto simp: dynamic_ok_def table_erase_ok) (auto simp: table_erase_def)
  then show ?thesis by (auto simp: Clear ClearDefined_def)
next
  case ClearAll
  have "dynamic_ok ((fold (\<lambda>(i, _). clearStoreDynamicModel i) (dm_dynamic dm) dm)\<lparr>dm_dynamic := []\<rparr>)"
    using assms by (simp add: dynamic_ok_def)
  then show ?thesis by (auto simp: ClearAll ClearAllDefined_def)
qed (use assms Defined_ok in auto)

lemma dynamic_run_restarts:
  "dynamic_ok dm \<Longrightarrow> restarted dm = dm \<Longrightarrow> restarted (fold dynamic_step ops dm) = fold dynamic_step ops dm"
proof (induction ops arbitrary: dm)
  case (Cons op ops)
  from dynamic_step_saves [OF Cons.prems(1), of op] Cons.prems
  have "dynamic_ok (dynamic_step op dm) \<and> restarted (dynamic_step op dm) = dynamic_step op dm"
    by (auto simp: dynamic_ok_save restarted_save)
  with Cons.IH show ?case by simp
qed simp

text \<open>
  C28: the data identifiers that testers define survive a restart. Starting from a manager without such
  identifiers over a store without a list of them, after any sequence of definitions (kept in the
  store), removals and removals of all, loading the store into an empty manager gives the very
  identifiers and sources the manager has.
\<close>

theorem dynamic_identifiers_survive_restart:
  assumes "dm_dynamic dm = []" and "ps_store (dm_storage dm) \<noteq> None" and "LoadData ''dynamicIdTable'' (dm_storage dm) = []"
  shows "loadStoreDynamicModel ((fold dynamic_step ops dm)\<lparr>dm_dynamic := []\<rparr>) = fold dynamic_step ops dm"
proof -
  from assms have "dynamic_ok dm" by (simp add: dynamic_ok_def)
  moreover from assms have "restarted dm = dm" by (simp add: restarted_def loadStoreDynamicModel_def)
  ultimately show ?thesis using dynamic_run_restarts [of dm ops] by (simp add: restarted_def)
qed

definition vin_model :: DiagnosticDataModel where
  "vin_model = \<lparr>dd_id = 0xF190, dd_nSize = 17, dd_details = [], dd_readType = kUseReadMothod\<rparr>"

definition demo_manager :: data_manager where
  "demo_manager = (dm_new \<lparr>ps_serverAddr = 1, ps_store = Some Map.empty\<rparr>)\<lparr>dm_table := [(0xF190, vin_model)], dm_available := [0xF200, 0xF201]\<rparr>"

theorem dynamic_identifiers_survive_restart_witness:
  "dm_dynamic (loadStoreDynamicModel ((fold dynamic_step
      [Define \<lparr>dy_id = 0xF201, dy_record = [\<lparr>so_id = 0xF190, so_nPos = 2, so_nSize = 3\<rparr>]\<rparr>, Define \<lparr>dy_id = 0xF200, dy_record = []\<rparr>,
       Clear 0xF200] demo_manager)\<lparr>dm_dynamic := []\<rparr>)) =
   [(0xF201, \<lparr>dy_id = 0xF201, dy_record = [\<lparr>so_id = 0xF190, so_nPos = 2, so_nSize = 3\<rparr>]\<rparr>)]"
  by (subst dynamic_identifiers_survive_restart)
    (simp_all add: demo_manager_def vin_model_def dm_new_def LoadData_def Defined_def ClearDefined_def source_fits_def table_insert_def
      table_erase_def)

section \<open>Reading an identifier defined by a tester\<close>

text \<open>The application reads every configured identifier, at its configured size.\<close>

definition reads_as :: "'w data_app \<Rightarrow> data_manager \<Rightarrow> (u16 \<Rightarrow> bytes) \<Rightarrow> bool" where
  "reads_as app dm value_of \<longleftrightarrow> (\<forall>(i, d) \<in> set (dm_table dm). dd_readType d = kUseReadMothod \<and> length (value_of i) = unat (dd_nSize d) \<and>
     (\<forall>w. ap_Read app [i] w = (Inr [(i, value_of i)], w)))"

definition slice :: "(u16 \<Rightarrow> bytes) \<Rightarrow> SourceData \<Rightarrow> bytes" where
  "slice value_of s = take (unat (so_nSize s)) (drop (unat (so_nPos s)) (value_of (so_id s)))"

lemma dm_Read_static:
  assumes "reads_as app dm value_of" and "(i, d) \<in> set (dm_table dm)" and "table_ok (dm_table dm)" and "\<not> IsDynamic i dm"
  shows "dm_Read (Suc depth) app dm [i] w = Some (Inr [(i, value_of i)], w)"
proof -
  have d: "map_of (dm_table dm) i = Some d" using assms(2,3) by (simp add: table_ok_def)
  from assms(1,2) have "dd_readType d = kUseReadMothod" "ap_Read app [i] w = (Inr [(i, value_of i)], w)"
    by (auto simp: reads_as_def)
  with d assms(4) show ?thesis by (simp add: reads_directly_def)
qed

lemma read_sources_slices:
  assumes "reads_as app dm value_of" and "table_ok (dm_table dm)" and "\<forall>i \<in> set (dm_available dm). map_of (dm_table dm) i = None"
    and "list_all (source_fits dm) ss"
  shows "read_sources (\<lambda>i. dm_Read (Suc depth) app dm [i]) ss r w = Some (r @ concat (map (slice value_of) ss), w)"
  using assms(4)
proof (induction ss arbitrary: r)
  case (Cons s ss)
  then obtain d where d: "map_of (dm_table dm) (so_id s) = Some d" "unat (so_nPos s) + unat (so_nSize s) \<le> unat (dd_nSize d)"
    by (auto simp: source_fits_def split: option.splits)
  then have "(so_id s, d) \<in> set (dm_table dm)" by (simp add: map_of_SomeD)
  moreover from d assms(3) have "\<not> IsDynamic (so_id s) dm" by (auto simp: IsDynamic_def list_ex_iff)
  ultimately have "dm_Read (Suc depth) app dm [so_id s] w = Some (Inr [(so_id s, value_of (so_id s))], w)"
    using assms(1,2) by (intro dm_Read_static)
  moreover have "length (value_of (so_id s)) = unat (dd_nSize d)"
    using assms(1) \<open>(so_id s, d) \<in> _\<close> by (auto simp: reads_as_def)
  ultimately show ?case using Cons d(2) by (simp add: slice_def del: dm_Read.simps)
qed simp

text \<open>
  C29: reading an identifier that a tester has defined returns the slices it was defined from, one after
  the other. Provided no identifier is both configured and available for definition, and the
  application reads every configured identifier at its configured size, two levels of calls are
  enough: after an accepted definition of an identifier that was not defined before, \<open>Read\<close> of it gives
  the concatenation of the slices of its sources.
\<close>

theorem defined_identifier_reads_slices:
  assumes "reads_as app dm value_of" and "table_ok (dm_table dm)" and "table_ok (dm_dynamic dm)"
    and "\<forall>i \<in> set (dm_available dm). map_of (dm_table dm) i = None"
    and "map_of (dm_dynamic dm) (dy_id m) = None" and "Defined m store dm = (0, dm')"
  shows "dm_Read (Suc (Suc depth)) app dm' [dy_id m] w = Some (Inr [(dy_id m, concat (map (slice value_of) (dy_record m)))], w)"
proof -
  from assms(6) have fits: "list_all (source_fits dm) (dy_record m)" and av: "dy_id m \<in> set (dm_available dm)"
    and dm': "dm_table dm' = dm_table dm" "dm_available dm' = dm_available dm" "dm_dynamic dm' = table_insert (dy_id m) m (dm_dynamic dm)"
    using assms(5) by (auto simp: Defined_def Let_def split: if_splits)
  have sf: "source_fits dm' = source_fits dm" by (rule ext) (simp add: source_fits_def dm')
  have "map_of (dm_dynamic dm') (dy_id m) = Some m"
    using assms(3,5) by (simp add: dm' table_insert_found map_of_eq_None_iff)
  moreover have "read_sources (\<lambda>i. dm_Read (Suc depth) app dm' [i]) (dy_record m) [] w =
      Some ([] @ concat (map (slice value_of) (dy_record m)), w)"
    using assms(1,2,4) fits sf by (intro read_sources_slices) (simp_all add: reads_as_def dm')
  moreover have "IsDynamic (dy_id m) dm'" using av by (simp add: IsDynamic_def list_ex_iff dm')
  ultimately show ?thesis by (subst dm_Read.simps) (simp add: reads_directly_def del: dm_Read.simps)
qed

definition demo_value :: bytes where
  "demo_value = [1, 2, 3, 4, 5, 6, 7, 8, 9, 10, 11, 12, 13, 14, 15, 16, 17]"

definition demo_app :: "unit data_app" where
  "demo_app = \<lparr>ap_Read = (\<lambda>ids w. (Inr (map (\<lambda>i. (i, demo_value)) ids), w)), ap_Write = (\<lambda>d w. (Inr (), w)), ap_element = None\<rparr>"

definition demo_definition :: DiagnosticDynamicDataModel where
  "demo_definition = \<lparr>dy_id = 0xF201, dy_record =
     [\<lparr>so_id = 0xF190, so_nPos = 2, so_nSize = 3\<rparr>, \<lparr>so_id = 0xF190, so_nPos = 0, so_nSize = 1\<rparr>]\<rparr>"

theorem defined_identifier_reads_slices_witness:
  "dm_Read 2 demo_app (snd (Defined demo_definition True demo_manager)) [0xF201] () = Some (Inr [(0xF201, [3, 4, 5, 1])], ())"
proof -
  have "Defined demo_definition True demo_manager = (0, snd (Defined demo_definition True demo_manager))"
    by (simp add: Defined_def demo_definition_def demo_manager_def dm_new_def source_fits_def vin_model_def Let_def)
  moreover have "reads_as demo_app demo_manager (\<lambda>_. demo_value)"
    by (simp add: reads_as_def demo_app_def demo_manager_def vin_model_def demo_value_def)
  ultimately have "dm_Read (Suc (Suc 0)) demo_app (snd (Defined demo_definition True demo_manager)) [dy_id demo_definition] () =
      Some (Inr [(dy_id demo_definition, concat (map (slice (\<lambda>_. demo_value)) (dy_record demo_definition)))], ())"
    by (intro defined_identifier_reads_slices) (simp_all add: demo_manager_def dm_new_def table_ok_def)
  then show ?thesis
    by (simp add: demo_definition_def slice_def demo_value_def flip: numeral_2_eq_2 del: dm_Read.simps)
qed

text \<open>Where an identifier is both configured and available for definition, a tester can define it from
  itself; reading it then never returns, whatever the depth of calls.\<close>

theorem self_defined_identifier_never_reads:
  assumes "IsDynamic i dm" and "map_of (dm_dynamic dm) i = Some m" and "dy_record m = s # ss" and "so_id s = i"
  shows "dm_Read depth app dm [i] w = None"
proof (induction depth arbitrary: w)
  case (Suc depth)
  have "reads_directly dm k i = False" for k using assms(1) by (simp add: reads_directly_def)
  with assms Suc show ?case by (simp del: dm_Read.simps add: dm_Read.simps(2))
qed simp

section \<open>What a condition decides\<close>

text \<open>The meaning of a formula: all of its parts, or one of them, parts of neither kind left aside.\<close>

fun holds :: "(DiagnosticCompareTypeEnum \<Rightarrow> ValueSpecification \<Rightarrow> u32 \<Rightarrow> bool) \<Rightarrow> env_part \<Rightarrow> bool" where
  "holds data (EnvDataCondition ct v e) \<longleftrightarrow> data ct v e"
| "holds data (EnvConditionFormula n op ps) \<longleftrightarrow>
     (let qs = filter (\<lambda>p. p \<noteq> OtherPart) ps in
      if op = kLogicalAnd then (\<forall>p \<in> set ps. p \<noteq> OtherPart \<longrightarrow> holds data p)
      else qs = [] \<or> (\<exists>p \<in> set ps. p \<noteq> OtherPart \<and> holds data p))"
| "holds data OtherPart \<longleftrightarrow> True"

text \<open>Every formula has a response code of its own.\<close>

fun codes_ok :: "env_part \<Rightarrow> bool" where
  "codes_ok (EnvConditionFormula n op ps) \<longleftrightarrow> n \<noteq> 0 \<and> (\<forall>p \<in> set ps. codes_ok p)"
| "codes_ok _ \<longleftrightarrow> True"

text \<open>The comparisons of a formula have an outcome, and no effect.\<close>

fun compares_as ::
  "compare_fun \<Rightarrow> 'w data_app \<Rightarrow> data_manager \<Rightarrow> (DiagnosticCompareTypeEnum \<Rightarrow> ValueSpecification \<Rightarrow> u32 \<Rightarrow> bool) \<Rightarrow> env_part \<Rightarrow> bool" where
  "compares_as cmp app dm data (EnvDataCondition ct v e) \<longleftrightarrow> (\<forall>w. checkDataCondition cmp app dm ct v e w = Some (data ct v e, w))"
| "compares_as cmp app dm data (EnvConditionFormula n op ps) \<longleftrightarrow> (\<forall>p \<in> set ps. compares_as cmp app dm data p)"
| "compares_as cmp app dm data OtherPart \<longleftrightarrow> True"

definition formula_ok :: "DiagnosticLogicalOperatorEnum \<Rightarrow> (env_part \<Rightarrow> bool) \<Rightarrow> byte \<Rightarrow> env_part list \<Rightarrow> bool" where
  "formula_ok op h result ps \<longleftrightarrow>
     (let qs = filter (\<lambda>p. p \<noteq> OtherPart) ps in
      if op = kLogicalAnd then result = 0 \<and> list_all h qs else (qs = [] \<and> result = 0) \<or> list_ex h qs)"

lemma checkConditionFormula_holds:
  assumes "list_all (compares_as cmp app dm data) ps"
    and "nrcValue \<noteq> 0" and "list_all codes_ok ps" and "op = kLogicalAnd \<longrightarrow> result = 0"
  shows "\<exists>r. checkConditionFormula cmp app dm nrcValue op result ps w = Some (r, w) \<and> (r = 0 \<longleftrightarrow> formula_ok op (holds data) result ps)"
  using assms
proof (induction cmp app dm nrcValue op result ps w rule: checkConditionFormula.induct)
  case (1 cmp app dm nrcValue op result w)
  then show ?case by (auto simp: formula_ok_def)
next
  case (2 cmp app dm nrcValue op result ct v e ps w)
  then show ?case by (cases op) (auto simp: formula_ok_def Let_def)
next
  case (3 cmp app dm nrcValue op result n o' qs ps w)
  from 3(1) 3(3,5) obtain r where r: "checkConditionFormula cmp app dm n o' 0 qs w = Some (r, w)"
    "r = 0 \<longleftrightarrow> formula_ok o' (holds data) 0 qs" by (auto simp: list_all_iff)
  have h: "r = 0 \<longleftrightarrow> holds data (EnvConditionFormula n o' qs)"
    using r(2) by (auto simp: formula_ok_def Let_def list_all_iff list_ex_iff filter_empty_conv)
  show ?case
  proof (cases "r \<noteq> 0 \<and> op = kLogicalAnd \<or> op = kLogicalOr \<and> r = 0")
    case True
    with r(1) h show ?thesis by (auto simp: formula_ok_def Let_def)
  next
    case False
    with 3(2) [OF r(1) refl] 3(3-6) obtain r' where "checkConditionFormula cmp app dm nrcValue op r ps w = Some (r', w)"
      "r' = 0 \<longleftrightarrow> formula_ok op (holds data) r ps" by auto
    with False r(1) h 3(6) show ?thesis by (cases op) (auto simp: formula_ok_def Let_def)
  qed
next
  case (4 cmp app dm nrcValue op result ps w)
  then show ?case by (auto simp: formula_ok_def Let_def)
qed

text \<open>
  C30: a condition is the boolean formula it is configured as. When every formula in it has a response
  code other than zero and comparing elements has an outcome and no effect, \<open>Check\<close> is zero exactly
  if the formula holds, however deep its formulas are nested.
\<close>

theorem condition_is_its_formula:
  assumes "compares_as cmp app dm data (EnvConditionFormula (ec_nrcValue c) (ec_op c) (ec_parts c))"
    and "codes_ok (EnvConditionFormula (ec_nrcValue c) (ec_op c) (ec_parts c))"
  shows "\<exists>r. Condition_Check cmp app dm c w = Some (r, w) \<and>
     (r = 0 \<longleftrightarrow> holds data (EnvConditionFormula (ec_nrcValue c) (ec_op c) (ec_parts c)))"
proof -
  from assms obtain r where r: "Condition_Check cmp app dm c w = Some (r, w)"
    "r = 0 \<longleftrightarrow> formula_ok (ec_op c) (holds data) 0 (ec_parts c)"
    using checkConditionFormula_holds [of cmp app dm data "ec_parts c" "ec_nrcValue c" "ec_op c" 0 w]
    by (auto simp: Condition_Check_def list_all_iff)
  then show ?thesis by (auto simp: formula_ok_def Let_def list_all_iff list_ex_iff filter_empty_conv)
qed

definition speed_app :: "unit data_app" where
  "speed_app = demo_app\<lparr>ap_element := Some (\<lambda>ids w. (Inr [(7, [0, 3])], w))\<rparr>"

definition speed_condition :: EnvironmentalConditionModel where
  "speed_condition = \<lparr>ec_nrcValue = 0x88, ec_op = kLogicalOr, ec_parts =
     [EnvDataCondition kIsGreaterThan \<lparr>va_isArray = False, va_type = kUint16, va_data = [0, 5]\<rparr> 7,
      EnvConditionFormula 0x22 kLogicalAnd [OtherPart, EnvDataCondition kIsEqual \<lparr>va_isArray = True, va_type = kUint8, va_data = [0, 3]\<rparr> 7]],
     ec_id = 1\<rparr>"

theorem condition_is_its_formula_witness:
  "Condition_Check (\<lambda>_ _ _ _ _. False) speed_app demo_manager speed_condition () = Some (0, ())"
proof -
  let ?data = "\<lambda>ct v e. (case compareValue (\<lambda>_ _ _ _ _. False) [0, 3] ct v of None \<Rightarrow> False | Some ok \<Rightarrow> ok)"
  have d: "checkDataCondition (\<lambda>_ _ _ _ _. False) speed_app demo_manager ct v e w =
      map_option (\<lambda>ok. (ok, w)) (compareValue (\<lambda>_ _ _ _ _. False) [0, 3] ct v)" for ct v e w
    by (simp add: checkDataCondition_def ReadDataElement_def ReadDataElements_def internal_elements_def speed_app_def demo_app_def
        GetDiagnosticDataElementModel_def demo_manager_def vin_model_def dm_new_def map_filter_def)
  have "\<exists>r. Condition_Check (\<lambda>_ _ _ _ _. False) speed_app demo_manager speed_condition () = Some (r, ()) \<and>
      (r = 0 \<longleftrightarrow> holds ?data (EnvConditionFormula (ec_nrcValue speed_condition) (ec_op speed_condition) (ec_parts speed_condition)))"
    by (rule condition_is_its_formula) (simp_all add: speed_condition_def d compareValue_def)
  then show ?thesis by (simp add: speed_condition_def compareValue_def)
qed

end
