(* ===== verification/UdsServices.thy ===== *)
theory UdsServices
  imports UdsData
begin

text \<open>
  The services of the UDS server that the diagnostic server configures beside the transfer services
  (src/src/uds/capi/isoft-uds/src/server/src): session control 0x10 (session_management/service_x10),
  routine control 0x31 (routine_management/service_x31), and reading and writing data by
  identifier, 0x22 and 0x2E (data_management/service_x22, service_x2e).

  A service maps a request to its reply; the reply is sent, and \<open>Confirm\<close> called with the result, by
  the server. Sets of the configuration are lists in ascending order. Setting up a service fails
  when the code returns a negative number, and crashes where it dereferences the null pointer that stands for
  the conditions when none are configured.
\<close>

datatype 'a init = Started 'a | NotStarted | InitCrashed

fun init_bind :: "'a init \<Rightarrow> ('a \<Rightarrow> 'b init) \<Rightarrow> 'b init" where
  "init_bind (Started a) f = f a"
| "init_bind NotStarted f = NotStarted"
| "init_bind InitCrashed f = InitCrashed"

definition init_of :: "'a option \<Rightarrow> 'a init" where
  "init_of r = (case r of None \<Rightarrow> NotStarted | Some a \<Rightarrow> Started a)"

section \<open>Session control\<close>

record SessionControlInstanceConfig =
  ci_id :: byte
  ci_auth :: "string list option"
  ci_sessions :: "byte list"
  ci_levels :: "byte list"

record x10_instance =
  xi_id :: SessionModel
  xi_auth :: "string list option"
  xi_session :: session_validator

record x10 =
  x10_validators :: "byte sid_validators"
  x10_table :: "byte \<rightharpoonup> x10_instance"
  x10_newSession :: byte
  x10_p4 :: u32

definition x10_new :: x10 where
  "x10_new = \<lparr>x10_validators = no_validators, x10_table = Map.empty, x10_newSession = 0, x10_p4 = 0\<rparr>"

fun x10_add ::
  "'s session_manager \<Rightarrow> 'l security_manager \<Rightarrow> SessionControlInstanceConfig list \<Rightarrow> x10 \<Rightarrow> x10 option" where
  "x10_add sm lm [] x = Some x"
| "x10_add sm lm (c # cs) x =
     (case GetSession (ci_id c) sm of None \<Rightarrow> None | Some session \<Rightarrow>
      case register_validators (ci_id c) (ci_auth c) (ci_sessions c) (ci_levels c) sm lm (x10_validators x) of
        None \<Rightarrow> None
      | Some (vs, sv, lv) \<Rightarrow>
          x10_add sm lm cs (x\<lparr>x10_validators := vs,
            x10_table := (if x10_table x (ci_id c) = None
                          then (x10_table x)(ci_id c \<mapsto> \<lparr>xi_id = session, xi_auth = ci_auth c, xi_session = sv\<rparr>) else x10_table x)\<rparr>))"

definition x10_Initialize ::
  "SessionControlInstanceConfig list \<Rightarrow> u32 \<Rightarrow> 's session_manager \<Rightarrow> 'l security_manager \<Rightarrow> x10 \<Rightarrow> x10 option" where
  "x10_Initialize table p4ServerMax sm lm x = map_option (\<lambda>x. x\<lparr>x10_p4 := p4ServerMax\<rparr>) (x10_add sm lm table x)"

definition x10_service :: "x10 \<Rightarrow> general_service" where
  "x10_service x = \<lparr>
     gs_GetMinimumSize = \<lambda>_. 2,
     gs_IsSupport = \<lambda>s. x10_table x s \<noteq> None,
     gs_GetSubfunctionAuth = \<lambda>s. (case x10_table x s of None \<Rightarrow> None | Some i \<Rightarrow> xi_auth i),
     gs_GetSubfunctionSession = \<lambda>s. map_option xi_session (x10_table x s),
     gs_SupportSecurityLevel = False,
     gs_GetSubfunctionSecurityLevel = \<lambda>_. None\<rparr>"

definition x10_ParseAndResponse :: "bytes \<Rightarrow> x10 \<Rightarrow> reply \<times> x10" where
  "x10_ParseAndResponse body x =
     (if length body \<noteq> 2 then (reject 0x10 kIncorrectMessageLengthOrInvalidFormat, x)
      else (let newSession = fst (ReadUint8 body 1) AND 0x7F in
        case x10_table x newSession of
          None \<Rightarrow> (reject 0x10 kRequestOutOfRange, x)
        | Some i \<Rightarrow>
            (Reply (Write_u16 (se_p2StarServerMax (xi_id i)) (Write_u16 (se_p2ServerMax (xi_id i)) (Write_u8 newSession (CreateResponse 0x10)))),
             x\<lparr>x10_newSession := newSession\<rparr>)))"

definition x10_Process ::
  "(u16 \<Rightarrow> 's) \<Rightarrow> u16 \<Rightarrow> bytes \<Rightarrow> 'l security_manager \<Rightarrow> 's auth_state \<Rightarrow> x10 \<Rightarrow> reply \<times> 's auth_state \<times> x10" where
  "x10_Process obs sa body lm st x =
     (case GeneralService_check obs sa body (x10_service x) lm st of
        (Granted, st') \<Rightarrow> (case x10_ParseAndResponse body x of (r, x') \<Rightarrow> (r, st', x'))
      | (Refused nrc, st') \<Rightarrow> (reject 0x10 nrc, st', x)
      | (Crashed, st') \<Rightarrow> (Crash, st', x))"

text \<open>The session changes once its positive response was given to the channel, sent or not; when
  the response is suppressed it does not.\<close>

definition x10_Confirm ::
  "u16 \<Rightarrow> ResponseStatusType \<Rightarrow> x10 \<Rightarrow> 's session_manager \<Rightarrow> ('s \<times> byte \<times> byte) list \<times> 's session_manager" where
  "x10_Confirm sa status x sm =
     (if status = kResPosOk \<or> status = kResPosNotOk then SetSession (x10_newSession x) sa sm else ([], sm))"

section \<open>Routine control\<close>

record Routine =
  ro_id :: u16
  ro_routineInfo :: int
  ro_start :: int
  ro_stop :: int
  ro_result :: int
  ro_p4ServerMax :: u32
  ro_startP4ServerMax :: u32
  ro_stopP4ServerMax :: u32
  ro_resultP4ServerMax :: u32

definition routine_default :: Routine where
  "routine_default = \<lparr>ro_id = 0, ro_routineInfo = -1, ro_start = -2, ro_stop = -2, ro_result = -2,
     ro_p4ServerMax = 0, ro_startP4ServerMax = 0, ro_stopP4ServerMax = 0, ro_resultP4ServerMax = 0\<rparr>"

record RoutineControlInstanceConfig =
  rk_routine :: Routine
  rk_auth :: "string list option"
  rk_sessions :: "byte list"
  rk_levels :: "byte list"

definition kStarRoutine :: byte where "kStarRoutine = 0x01"
definition kStopRoutine :: byte where "kStopRoutine = 0x02"
definition kRequestRoutineResults :: byte where "kRequestRoutineResults = 0x03"

record x31_instance =
  ri_routine :: Routine
  ri_auth :: "string list option"
  ri_session :: session_validator
  ri_level :: level_validator
  ri_conditions :: "byte \<rightharpoonup> EnvironmentalConditionModel option"

record x31 =
  x31_validators :: "u16 sid_validators"
  x31_table :: "u16 \<rightharpoonup> x31_instance"

definition x31_new :: x31 where
  "x31_new = \<lparr>x31_validators = no_validators, x31_table = Map.empty\<rparr>"

definition put_condition ::
  "byte \<Rightarrow> EnvironmentalConditionModel option \<Rightarrow> (byte \<rightharpoonup> EnvironmentalConditionModel option) \<Rightarrow> (byte \<rightharpoonup> EnvironmentalConditionModel option)" where
  "put_condition k c m = (if m k = None then m(k \<mapsto> c) else m)"

text \<open>The conditions of stopping a routine and of asking for its results are entered under the start
  of the routine, and none is the configured one.\<close>

definition subfunctionConditionMap :: "Routine \<Rightarrow> (byte \<rightharpoonup> EnvironmentalConditionModel option)" where
  "subfunctionConditionMap r =
     (let m1 = (if ro_start r = -1 then put_condition kStarRoutine None Map.empty
                else if ro_start r \<ge> 0 then put_condition kStarRoutine (Some condition_new) Map.empty else Map.empty);
          m2 = (if ro_stop r = -1 then put_condition kStopRoutine None m1
                else if ro_stop r \<ge> 0 then put_condition kStarRoutine (Some condition_new) m1 else m1)
      in if ro_result r = -1 then put_condition kRequestRoutineResults None m2
         else if ro_result r \<ge> 0 then put_condition kStarRoutine (Some condition_new) m2 else m2)"

fun x31_add ::
  "'s session_manager \<Rightarrow> 'l security_manager \<Rightarrow> RoutineControlInstanceConfig list \<Rightarrow> x31 \<Rightarrow> x31 option" where
  "x31_add sm lm [] x = Some x"
| "x31_add sm lm (c # cs) x =
     (let i = ro_id (rk_routine c) in
      case register_validators i (rk_auth c) (rk_sessions c) (rk_levels c) sm lm (x31_validators x) of
        None \<Rightarrow> None
      | Some (vs, sv, lv) \<Rightarrow>
          if x31_table x i \<noteq> None then None
          else x31_add sm lm cs (x\<lparr>x31_validators := vs,
                 x31_table := (x31_table x)(i \<mapsto> \<lparr>ri_routine = rk_routine c, ri_auth = rk_auth c, ri_session = sv, ri_level = lv,
                   ri_conditions = subfunctionConditionMap (rk_routine c)\<rparr>)\<rparr>))"

definition x31_Initialize ::
  "RoutineControlInstanceConfig list \<Rightarrow> bool \<Rightarrow> 's session_manager \<Rightarrow> 'l security_manager \<Rightarrow> x31 \<Rightarrow> x31 option" where
  "x31_Initialize table has_interface sm lm x =
     (if table = [] then None else if \<not> has_interface then None else x31_add sm lm table x)"

record 'w routine_app =
  ra_Start :: "u16 \<Rightarrow> bytes \<Rightarrow> 'w \<Rightarrow> bytes uds_result \<times> 'w"
  ra_Stop :: "u16 \<Rightarrow> bytes \<Rightarrow> 'w \<Rightarrow> bytes uds_result \<times> 'w"
  ra_RequestResults :: "u16 \<Rightarrow> bytes \<Rightarrow> 'w \<Rightarrow> bytes uds_result \<times> 'w"

definition x31_call :: "'w routine_app \<Rightarrow> byte \<Rightarrow> u16 \<Rightarrow> bytes \<Rightarrow> 'w \<Rightarrow> bytes uds_result \<times> 'w" where
  "x31_call app subfunction i r w =
     (if subfunction = kStarRoutine then ra_Start app i r w
      else if subfunction = kStopRoutine then ra_Stop app i r w
      else if subfunction = kRequestRoutineResults then ra_RequestResults app i r w
      else (Inl 0, w))"

definition x31_answer :: "x31_instance \<Rightarrow> byte \<Rightarrow> u16 \<Rightarrow> bytes uds_result \<Rightarrow> reply" where
  "x31_answer ins subfunction i result = (case result of
     Inr responseData \<Rightarrow>
       Reply (Write_bytes responseData
         ((if ro_routineInfo (ri_routine ins) \<noteq> -1 then Write_u8 (word_of_int (ro_routineInfo (ri_routine ins))) else (\<lambda>m. m))
           (Write_u16 i (Write_u8 subfunction (CreateResponse 0x31)))))
   | Inl err \<Rightarrow> if err = 0 then Crash else reject 0x31 (word_of_int err))"

definition x31_Process ::
  "(u16 \<Rightarrow> 's) \<Rightarrow> (EnvironmentalConditionModel \<Rightarrow> 'w \<Rightarrow> (byte \<times> 'w) option) \<Rightarrow> 'w routine_app \<Rightarrow> u16 \<Rightarrow> bytes \<Rightarrow> x31 \<Rightarrow>
     'l security_manager \<Rightarrow> 's auth_state \<Rightarrow> 'w \<Rightarrow> reply \<times> 's auth_state \<times> 'w" where
  "x31_Process obs check app sa body x lm st w =
     (if length body < 4 then (reject 0x31 kIncorrectMessageLengthOrInvalidFormat, st, w)
      else (let subfunction = fst (ReadUint8 body 1); i = fst (ReadUint16 body 2); r = ReadAll body 4 in
        case x31_table x i of
          None \<Rightarrow> (reject 0x31 kRequestOutOfRange, st, w)
        | Some ins \<Rightarrow>
        case (case ri_auth ins of None \<Rightarrow> (True, st) | Some roles \<Rightarrow> AuthValidator_Validate obs sa body roles st) of
          (ok, st') \<Rightarrow>
        if \<not> ok then (reject 0x31 kAuthenticationRequired, st', w)
        else if \<not> SessionValidator_Validate (fst st') (ri_session ins) then (reject 0x31 kRequestOutOfRange, st', w)
        else case LevelValidator_Validate lm (ri_level ins) of
          None \<Rightarrow> (Crash, st', w)
        | Some False \<Rightarrow> (reject 0x31 kSecurityAccessDenied, st', w)
        | Some True \<Rightarrow>
        case ri_conditions ins subfunction of
          None \<Rightarrow> (reject 0x31 kSubfunctionNotSupported, st', w)
        | Some (Some c) \<Rightarrow> (case check c w of
              None \<Rightarrow> (Crash, st', w)
            | Some (nrc, w') \<Rightarrow> (if nrc \<noteq> 0 then reject 0x31 nrc else Silent, st', w'))
        | Some None \<Rightarrow> (case x31_call app subfunction i r w of (result, w') \<Rightarrow>
            (x31_answer ins subfunction i result, st', w'))))"

definition x31_GetP4ServerMax :: "x31 \<Rightarrow> byte \<Rightarrow> u16 \<Rightarrow> u32" where
  "x31_GetP4ServerMax x subfunction i = (case x31_table x i of
     None \<Rightarrow> 0
   | Some ins \<Rightarrow>
       (let r = ri_routine ins in
        if subfunction = kStarRoutine \<and> ro_startP4ServerMax r > 0 then ro_startP4ServerMax r
        else if subfunction = kStopRoutine \<and> ro_stopP4ServerMax r > 0 then ro_stopP4ServerMax r
        else if subfunction = kRequestRoutineResults \<and> ro_resultP4ServerMax r > 0 then ro_resultP4ServerMax r
        else ro_p4ServerMax r))"

section \<open>Data by identifier\<close>

record did_config =
  dg_auth :: "string list option"
  dg_sessions :: "byte list"
  dg_levels :: "byte list"
  dg_condition :: int
  dg_id :: u16
  dg_dataSize :: nat

record did_instance =
  di_auth :: "string list option"
  di_session :: session_validator
  di_level :: level_validator
  di_condition :: "EnvironmentalConditionModel option"
  di_size :: nat

record did_service =
  dv_validators :: "u16 sid_validators"
  dv_table :: "u16 \<rightharpoonup> did_instance"
  dv_max :: nat
  dv_p4 :: u32

definition did_service_new :: did_service where
  "did_service_new = \<lparr>dv_validators = no_validators, dv_table = Map.empty, dv_max = 0, dv_p4 = 0\<rparr>"

text \<open>One instance of 0x22 or 0x2E; the size of the data is asked for only when writing.\<close>

definition did_add ::
  "bool \<Rightarrow> (int \<rightharpoonup> EnvironmentalConditionModel) option \<Rightarrow> 's session_manager \<Rightarrow> 'l security_manager \<Rightarrow> data_manager \<Rightarrow> did_config \<Rightarrow> did_service \<Rightarrow> did_service init" where
  "did_add writing conditions sm lm dm c x =
     (if \<not> HasDataIdentifier (dg_id c) dm then NotStarted
      else if writing \<and> dg_dataSize c = 0 then NotStarted
      else init_bind (init_of (register_validators (dg_id c) (dg_auth c) (dg_sessions c) (dg_levels c) sm lm (dv_validators x)))
        (\<lambda>(vs, sv, lv).
      init_bind (if dg_condition c \<ge> 0
                 then (case conditions of None \<Rightarrow> InitCrashed | Some m \<Rightarrow> init_of (map_option Some (m (dg_condition c)))) else Started None)
        (\<lambda>cond.
      if dv_table x (dg_id c) \<noteq> None then NotStarted
      else Started (x\<lparr>dv_validators := vs,
             dv_table := (dv_table x)(dg_id c \<mapsto> \<lparr>di_auth = dg_auth c, di_session = sv, di_level = lv, di_condition = cond, di_size = dg_dataSize c\<rparr>)\<rparr>))))"

fun did_add_all ::
  "bool \<Rightarrow> (int \<rightharpoonup> EnvironmentalConditionModel) option \<Rightarrow> 's session_manager \<Rightarrow> 'l security_manager \<Rightarrow> data_manager \<Rightarrow> did_config list \<Rightarrow> did_service \<Rightarrow> did_service init" where
  "did_add_all writing conditions sm lm dm [] x = Started x"
| "did_add_all writing conditions sm lm dm (c # cs) x =
     init_bind (did_add writing conditions sm lm dm c x) (did_add_all writing conditions sm lm dm cs)"

definition x22_Initialize ::
  "did_config list \<Rightarrow> nat \<Rightarrow> u32 \<Rightarrow> (int \<rightharpoonup> EnvironmentalConditionModel) option \<Rightarrow> 's session_manager \<Rightarrow> 'l security_manager \<Rightarrow>
     data_manager \<Rightarrow> did_service \<Rightarrow> did_service init" where
  "x22_Initialize table maxDidToRead p4ServerMax conditions sm lm dm x =
     (if table = [] then NotStarted
      else init_bind (did_add_all False conditions sm lm dm table (x\<lparr>dv_max := maxDidToRead\<rparr>)) (\<lambda>x. Started (x\<lparr>dv_p4 := p4ServerMax\<rparr>)))"

definition x2e_Initialize ::
  "did_config list \<Rightarrow> u32 \<Rightarrow> (int \<rightharpoonup> EnvironmentalConditionModel) option \<Rightarrow> 's session_manager \<Rightarrow> 'l security_manager \<Rightarrow>
     data_manager \<Rightarrow> did_service \<Rightarrow> did_service init" where
  "x2e_Initialize table p4ServerMax conditions sm lm dm x =
     (if table = [] then NotStarted
      else init_bind (did_add_all True conditions sm lm dm table x) (\<lambda>x. Started (x\<lparr>dv_p4 := p4ServerMax\<rparr>)))"

text \<open>The identifiers of a request, two bytes each.\<close>

fun read_ids :: "bytes \<Rightarrow> u16 list" where
  "read_ids (a # b # rest) = be_word [a, b] # read_ids rest"
| "read_ids _ = []"

text \<open>\<open>_filter\<close>: an identifier that is unknown or not allowed in the session is left out, one that may not
  be read for another reason refuses the whole request. \<open>None\<close> is the null dereference.\<close>

fun x22_filter ::
  "(u16 \<Rightarrow> 's) \<Rightarrow> (EnvironmentalConditionModel \<Rightarrow> 'w \<Rightarrow> (byte \<times> 'w) option) \<Rightarrow> u16 \<Rightarrow> bytes \<Rightarrow> did_service \<Rightarrow> 'l security_manager \<Rightarrow>
     u16 list \<Rightarrow> u16 list \<Rightarrow> 's auth_state \<Rightarrow> 'w \<Rightarrow> (NrcErrc + u16 list) option \<times> 's auth_state \<times> 'w" where
  "x22_filter obs check sa body x lm [] valid st w =
     (Some (if valid = [] then Inl kRequestOutOfRange else Inr valid), st, w)"
| "x22_filter obs check sa body x lm (i # ids) valid st w =
     (case dv_table x i of
        None \<Rightarrow> x22_filter obs check sa body x lm ids valid st w
      | Some ins \<Rightarrow>
      if \<not> SessionValidator_Validate (fst st) (di_session ins) then x22_filter obs check sa body x lm ids valid st w
      else case (case di_auth ins of None \<Rightarrow> (True, st) | Some roles \<Rightarrow> AuthValidator_Validate obs sa body roles st) of
        (ok, st') \<Rightarrow>
      if \<not> ok then (Some (Inl kAuthenticationRequired), st', w)
      else case LevelValidator_Validate lm (di_level ins) of
        None \<Rightarrow> (None, st', w)
      | Some False \<Rightarrow> (Some (Inl kSecurityAccessDenied), st', w)
      | Some True \<Rightarrow>
      case (case di_condition ins of None \<Rightarrow> Some (0, w) | Some c \<Rightarrow> check c w) of
        None \<Rightarrow> (None, st', w)
      | Some (nrc, w') \<Rightarrow>
          if nrc \<noteq> 0 then (Some (Inl nrc), st', w') else x22_filter obs check sa body x lm ids (valid @ [i]) st' w')"

definition x22_answer :: "(u16 \<times> bytes) list \<Rightarrow> reply" where
  "x22_answer l =
     (let filled = filter (\<lambda>(_, r). r \<noteq> []) l in
      if filled = [] then reject 0x22 kRequestOutOfRange
      else Reply (fold (\<lambda>(i, r) m. Write_bytes r (Write_u16 i m)) filled (CreateResponse 0x22)))"

definition x22_Process ::
  "(u16 \<Rightarrow> 's) \<Rightarrow> (EnvironmentalConditionModel \<Rightarrow> 'w \<Rightarrow> (byte \<times> 'w) option) \<Rightarrow> (u16 list \<Rightarrow> 'w \<Rightarrow> ((u16 \<times> bytes) list uds_result \<times> 'w) option) \<Rightarrow>
     u16 \<Rightarrow> bytes \<Rightarrow> did_service \<Rightarrow> 'l security_manager \<Rightarrow> 's auth_state \<Rightarrow> 'w \<Rightarrow> reply \<times> 's auth_state \<times> 'w" where
  "x22_Process obs check read sa body x lm st w =
     (if length body < 3 then (reject 0x22 kIncorrectMessageLengthOrInvalidFormat, st, w)
      else if (length body - 1) mod 2 \<noteq> 0 then (reject 0x22 kIncorrectMessageLengthOrInvalidFormat, st, w)
      else if length body div 2 > dv_max x then (reject 0x22 kRequestOutOfRange, st, w)
      else (case x22_filter obs check sa body x lm (sort (remdups (read_ids (tl body)))) [] st w of
          (None, st', w') \<Rightarrow> (Crash, st', w')
        | (Some (Inl nrc), st', w') \<Rightarrow> (reject 0x22 nrc, st', w')
        | (Some (Inr valid), st', w') \<Rightarrow>
            (case read valid w' of
               None \<Rightarrow> (Crash, st', w')
             | Some (Inl err, w'') \<Rightarrow> (if err = 0 then Crash else reject 0x22 (word_of_int err), st', w'')
             | Some (Inr l, w'') \<Rightarrow> (x22_answer l, st', w''))))"

definition CheckDataIdentifierSession :: "u16 \<Rightarrow> did_service \<Rightarrow> 's session_manager \<Rightarrow> bool" where
  "CheckDataIdentifierSession i x sm = (case dv_table x i of None \<Rightarrow> False | Some ins \<Rightarrow> SessionValidator_Validate sm (di_session ins))"

definition CheckDataIdentifierSecurityLevel :: "u16 \<Rightarrow> did_service \<Rightarrow> 'l security_manager \<Rightarrow> bool option" where
  "CheckDataIdentifierSecurityLevel i x lm = (case dv_table x i of None \<Rightarrow> Some False | Some ins \<Rightarrow> LevelValidator_Validate lm (di_level ins))"

definition x2e_Process ::
  "(u16 \<Rightarrow> 's) \<Rightarrow> (EnvironmentalConditionModel \<Rightarrow> 'w \<Rightarrow> (byte \<times> 'w) option) \<Rightarrow> 'w data_app \<Rightarrow>
     u16 \<Rightarrow> bytes \<Rightarrow> did_service \<Rightarrow> 'l security_manager \<Rightarrow> 's auth_state \<Rightarrow> 'w \<Rightarrow> reply \<times> 's auth_state \<times> 'w" where
  "x2e_Process obs check app sa body x lm st w =
     (if length body < 4 then (reject 0x2E kIncorrectMessageLengthOrInvalidFormat, st, w)
      else (let i = fst (ReadUint16 body 1); r = ReadAll body 3 in
        case dv_table x i of
          None \<Rightarrow> (reject 0x2E kRequestOutOfRange, st, w)
        | Some ins \<Rightarrow>
        if di_size ins + 3 \<noteq> length body then (reject 0x2E kIncorrectMessageLengthOrInvalidFormat, st, w)
        else if \<not> SessionValidator_Validate (fst st) (di_session ins) then (reject 0x2E kRequestOutOfRange, st, w)
        else case (case di_auth ins of None \<Rightarrow> (True, st) | Some roles \<Rightarrow> AuthValidator_Validate obs sa body roles st) of
          (ok, st') \<Rightarrow>
        if \<not> ok then (reject 0x2E kAuthenticationRequired, st', w)
        else case LevelValidator_Validate lm (di_level ins) of
          None \<Rightarrow> (Crash, st', w)
        | Some False \<Rightarrow> (reject 0x2E kSecurityAccessDenied, st', w)
        | Some True \<Rightarrow>
        case (case di_condition ins of None \<Rightarrow> Some (0, w) | Some c \<Rightarrow> check c w) of
          None \<Rightarrow> (Crash, st', w)
        | Some (nrc, w') \<Rightarrow>
            if nrc \<noteq> 0 then (reject 0x2E nrc, st', w')
            else (case dm_Write app (i, r) w' of
                (Inl err, w'') \<Rightarrow> (if err = 0 then Reply (Write_u16 i (CreateResponse 0x2E)) else reject 0x2E (word_of_int err), st', w'')
              | (Inr _, w'') \<Rightarrow> (Reply (Write_u16 i (CreateResponse 0x2E)), st', w''))))"

end
