(* ===== verification/UdsSecurity.thy ===== *)
theory UdsSecurity
  imports UdsGeneral
begin

text \<open>
  Security access, the service 0x27
  (src/src/uds/capi/isoft-uds/src/server/src/security_access_management/service_x27.h and .cpp): a tester
  asks for a seed and unlocks a security level with the key that belongs to it.

  The service answers through the request context, whose send result decides how \<open>Confirm\<close> moves the
  state machine before \<open>Respond\<close> returns; \<open>x27_respond\<close> is both. Timers are their running flags, and
  starting one succeeds. Seeds and keys are made and compared by the application, one object per
  level: functions of the level's request identifier over the state \<open>'w\<close> of the rest of the server,
  on which the callbacks of a level change act too (\<open>notify\<close>). The value \<open>None\<close> is the null
  dereference of a level that the level manager does not know.
\<close>

datatype SecurityLevelState = kLockNoActiveSeed | kLockActiveSeedWaitKey | kUnlockNoActiveSeed | kUnlockActiveSeedWaitKey

record SecurityLevelInfo =
  si_requestSeedId :: byte
  si_id :: byte
  si_auth :: "string list option"
  si_session :: session_validator
  si_level :: level_validator
  si_failed :: nat
  si_numFailed :: nat
  si_delayTime :: u32
  si_timer :: bool

record x27 =
  x_storage :: persistence
  x_validators :: "byte sid_validators"
  x_delayOnBoot :: u32
  x_shared :: bool
  x_last :: byte
  x_unlocked :: byte
  x_timer :: bool
  x_table :: "(byte \<times> SecurityLevelInfo) list"
  x_state :: SecurityLevelState
  x_p4 :: u32

record 'w security_app =
  sa_GetSeed :: "byte \<Rightarrow> bytes \<Rightarrow> 'w \<Rightarrow> bytes uds_result \<times> 'w"
  sa_CompareKey :: "byte \<Rightarrow> bytes \<Rightarrow> 'w \<Rightarrow> bool uds_result \<times> 'w"

definition x27_new :: "persistence \<Rightarrow> x27" where
  "x27_new ps = \<lparr>x_storage = ps, x_validators = no_validators, x_delayOnBoot = 0,
     x_shared = False, x_last = 0, x_unlocked = 0, x_timer = False, x_table = [], x_state = kLockNoActiveSeed, x_p4 = 0\<rparr>"

section \<open>Helpers\<close>

definition IsRequestSeed :: "byte \<Rightarrow> bool" where
  "IsRequestSeed subfunction \<longleftrightarrow> subfunction mod 2 \<noteq> 0"

definition IsSeedKey :: "byte \<Rightarrow> bool" where
  "IsSeedKey subfunction \<longleftrightarrow> \<not> IsRequestSeed subfunction"

definition getRealSubfunction :: "byte \<Rightarrow> byte" where
  "getRealSubfunction subfunction = (if subfunction mod 2 = 1 then subfunction else subfunction - 1)"

definition matchRequestSeedAndSeedKey :: "x27 \<Rightarrow> byte \<Rightarrow> bool" where
  "matchRequestSeedAndSeedKey x subfunction \<longleftrightarrow> unat (x_last x) + 1 = unat subfunction"

definition failed_key :: "byte \<Rightarrow> string" where
  "failed_key securityLevelId = ''uds::ServiceX27|'' @ to_string (unat securityLevelId)"

definition loadFailedCounter :: "byte \<Rightarrow> persistence \<Rightarrow> nat" where
  "loadFailedCounter securityLevelId ps =
     (let result = LoadData (failed_key securityLevelId) ps in
      if result = [] then 0 else unat (fst (ReadUint32 4 result 0)))"

definition storeFailedCounter :: "byte \<Rightarrow> nat \<Rightarrow> x27 \<Rightarrow> x27" where
  "storeFailedCounter securityLevelId value x =
     x\<lparr>x_storage := SaveData (failed_key securityLevelId) (be_bytes 4 (word_of_nat value :: u32)) (x_storage x)\<rparr>"

definition update_info :: "byte \<Rightarrow> (SecurityLevelInfo \<Rightarrow> SecurityLevelInfo) \<Rightarrow> x27 \<Rightarrow> x27" where
  "update_info i f x = x\<lparr>x_table := table_update i f (x_table x)\<rparr>"

definition activeDelayTimer :: "SecurityLevelInfo \<Rightarrow> x27 \<Rightarrow> bool" where
  "activeDelayTimer si x \<longleftrightarrow> x_timer x \<or> \<not> x_shared x \<and> si_timer si"

definition x27_on_session_change :: "x27 \<Rightarrow> x27" where
  "x27_on_session_change x = x\<lparr>x_last := 0, x_unlocked := 0, x_state := kLockNoActiveSeed\<rparr>"

section \<open>Setting up\<close>

record SecurityAccessInstanceConfig =
  sc_requestSeedId :: byte
  sc_level :: SecurityLevelConfig
  sc_auth :: "string list option"
  sc_sessions :: "byte list"
  sc_levels :: "byte list"

text \<open>One instance: its validators are made and registered, its failed attempts read back. The result
  is nothing when one of the steps fails, and the delay time that all instances share so far.\<close>

definition x27_add_instance ::
  "bool \<Rightarrow> 's session_manager \<Rightarrow> 'l security_manager \<Rightarrow> SecurityAccessInstanceConfig \<Rightarrow> u32 \<times> x27 \<Rightarrow> (u32 \<times> x27) option" where
  "x27_add_instance sharedTimer sm lm c = (\<lambda>(sharedDelay, x).
     let i = sl_id (sc_level c) in
     case register_validators i (sc_auth c) (sc_sessions c) (sc_levels c) sm lm (x_validators x) of
       None \<Rightarrow> None
     | Some (vs, sv, lv) \<Rightarrow>
     let delay = sl_securityDelayTime (sc_level c);
         si = \<lparr>si_requestSeedId = sc_requestSeedId c, si_id = i, si_auth = sc_auth c, si_session = sv, si_level = lv,
               si_failed = loadFailedCounter i (x_storage x), si_numFailed = sl_numFailedSecurityAccess (sc_level c),
               si_delayTime = delay, si_timer = False\<rparr>;
         x' = x\<lparr>x_validators := vs, x_table := table_insert (sc_requestSeedId c) si (x_table x)\<rparr>
     in if \<not> sharedTimer then Some (sharedDelay, x')
        else if sharedDelay = 0 then Some (delay, x')
        else if sharedDelay \<noteq> delay then None
        else Some (sharedDelay, x'))"

fun x27_add_instances ::
  "bool \<Rightarrow> 's session_manager \<Rightarrow> 'l security_manager \<Rightarrow> SecurityAccessInstanceConfig list \<Rightarrow> u32 \<times> x27 \<Rightarrow> (u32 \<times> x27) option" where
  "x27_add_instances sharedTimer sm lm [] acc = Some acc"
| "x27_add_instances sharedTimer sm lm (c # cs) acc =
     (case x27_add_instance sharedTimer sm lm c acc of None \<Rightarrow> None | Some acc' \<Rightarrow> x27_add_instances sharedTimer sm lm cs acc')"

text \<open>A level whose attempts were used up before the restart starts with its delay running; the timer of
  the whole service runs in any case.\<close>

definition x27_Start :: "'l security_manager \<Rightarrow> x27 \<Rightarrow> 'l security_manager \<times> x27" where
  "x27_Start lm x =
     (SetSecurityTimerElapsed True lm,
      x\<lparr>x_table := map (\<lambda>(k, si). (k, if si_failed si \<ge> si_numFailed si \<and> \<not> x_shared x then si\<lparr>si_timer := True\<rparr> else si)) (x_table x),
        x_timer := True\<rparr>)"

definition x27_Initialize ::
  "'s \<Rightarrow> SecurityAccessInstanceConfig list \<Rightarrow> u32 \<Rightarrow> bool \<Rightarrow> u32 \<Rightarrow> 's session_manager \<Rightarrow> 'l security_manager \<Rightarrow> x27
     \<Rightarrow> ('s session_manager \<times> 'l security_manager \<times> x27) option" where
  "x27_Initialize cb instances delayOnBoot sharedTimer p4ServerMax sm lm x =
     (let sm' = snd (AddNotifyOfSessionChange cb sm) in
      case x27_add_instances sharedTimer sm' lm instances (0, x) of
        None \<Rightarrow> None
      | Some (_, x') \<Rightarrow>
          (case x27_Start lm (x'\<lparr>x_shared := sharedTimer, x_delayOnBoot := delayOnBoot, x_p4 := p4ServerMax\<rparr>) of
             (lm', x'') \<Rightarrow> Some (sm', lm', x'')))"

definition x27_service :: "x27 \<Rightarrow> general_service" where
  "x27_service x = \<lparr>
     gs_GetMinimumSize = \<lambda>_. 2,
     gs_IsSupport = \<lambda>s. map_of (x_table x) (getRealSubfunction s) \<noteq> None,
     gs_GetSubfunctionAuth = \<lambda>s. (case map_of (x_table x) s of None \<Rightarrow> None | Some si \<Rightarrow> si_auth si),
     gs_GetSubfunctionSession = \<lambda>s. map_option si_session (map_of (x_table x) (getRealSubfunction s)),
     gs_SupportSecurityLevel = True,
     gs_GetSubfunctionSecurityLevel = \<lambda>s. map_option si_level (map_of (x_table x) (getRealSubfunction s))\<rparr>"

section \<open>The state machine\<close>

record ('l, 'w) x27_env =
  xe_rc :: request_context
  xe_x :: x27
  xe_lm :: "'l security_manager"
  xe_w :: 'w

definition xe_unlock :: "('l \<Rightarrow> byte \<Rightarrow> 'w \<Rightarrow> 'w) \<Rightarrow> byte \<Rightarrow> ('l, 'w) x27_env \<Rightarrow> ('l, 'w) x27_env" where
  "xe_unlock notify i e = (case SetSecurityLevel i (xe_lm e) of (notes, lm) \<Rightarrow>
     e\<lparr>xe_lm := lm, xe_w := fold (\<lambda>(cb, l). notify cb l) notes (xe_w e)\<rparr>)"

definition xe_set_state :: "SecurityLevelState \<Rightarrow> ('l, 'w) x27_env \<Rightarrow> ('l, 'w) x27_env" where
  "xe_set_state s e = e\<lparr>xe_x := (xe_x e)\<lparr>x_state := s\<rparr>\<rparr>"

definition start_delay :: "SecurityLevelInfo \<Rightarrow> x27 \<Rightarrow> x27" where
  "start_delay si x =
     (if x_shared x then x\<lparr>x_timer := True\<rparr> else update_info (si_requestSeedId si) (\<lambda>si. si\<lparr>si_timer := True\<rparr>) x)"

definition x27_Confirm ::
  "('l \<Rightarrow> byte \<Rightarrow> 'w \<Rightarrow> 'w) \<Rightarrow> ResponseStatusType \<Rightarrow> ('l, 'w) x27_env \<Rightarrow> ('l, 'w) x27_env" where
  "x27_Confirm notify status e =
     (let subfunction = subfunction_of (rc_body (xe_rc e));
          i = getRealSubfunction subfunction in
      if status = kResPosOk then
        (case x_state (xe_x e) of
           kLockNoActiveSeed \<Rightarrow> xe_set_state kLockActiveSeedWaitKey e
         | kLockActiveSeedWaitKey \<Rightarrow> xe_unlock notify i (xe_set_state kUnlockNoActiveSeed e)
         | kUnlockNoActiveSeed \<Rightarrow>
             xe_set_state (if x_unlocked (xe_x e) = subfunction then kUnlockNoActiveSeed else kUnlockActiveSeedWaitKey) e
         | kUnlockActiveSeedWaitKey \<Rightarrow> xe_unlock notify i (xe_set_state kUnlockNoActiveSeed e))
      else if status = kResNegOk then
        (let e1 = (case x_state (xe_x e) of
                     kLockActiveSeedWaitKey \<Rightarrow> xe_set_state kLockNoActiveSeed e
                   | kUnlockActiveSeedWaitKey \<Rightarrow> xe_set_state kUnlockNoActiveSeed e
                   | _ \<Rightarrow> e)
         in case map_of (x_table (xe_x e1)) i of
              None \<Rightarrow> e1
            | Some si \<Rightarrow>
                if si_failed si = si_numFailed si
                then e1\<lparr>xe_lm := SetSecurityTimerElapsed True (xe_lm e1), xe_x := start_delay si (xe_x e1)\<rparr>
                else e1)
      else e)"

definition x27_respond ::
  "('l \<Rightarrow> byte \<Rightarrow> 'w \<Rightarrow> 'w) \<Rightarrow> byte \<Rightarrow> bytes \<Rightarrow> ('l, 'w) x27_env \<Rightarrow> ('l, 'w) x27_env" where
  "x27_respond notify stray msg e =
     (let rc = RcRespond stray msg (xe_rc e) in x27_Confirm notify (last (rc_confirmed rc)) (e\<lparr>xe_rc := rc\<rparr>))"

definition x27_reject ::
  "('l \<Rightarrow> byte \<Rightarrow> 'w \<Rightarrow> 'w) \<Rightarrow> byte \<Rightarrow> NrcErrc \<Rightarrow> ('l, 'w) x27_env \<Rightarrow> ('l, 'w) x27_env" where
  "x27_reject notify stray nrc e = x27_respond notify stray (CreateNegativeResponse (rc_sid (xe_rc e)) nrc) e"

definition xe_update :: "(x27 \<Rightarrow> x27) \<Rightarrow> ('l, 'w) x27_env \<Rightarrow> ('l, 'w) x27_env" where
  "xe_update f e = e\<lparr>xe_x := f (xe_x e)\<rparr>"

definition count_failure :: "SecurityLevelInfo \<Rightarrow> x27 \<Rightarrow> x27" where
  "count_failure si x = update_info (si_requestSeedId si) (\<lambda>si. si\<lparr>si_failed := Suc (si_failed si)\<rparr>) x"

definition handlerRequestSeed ::
  "('l \<Rightarrow> byte \<Rightarrow> 'w \<Rightarrow> 'w) \<Rightarrow> 'w security_app \<Rightarrow> byte \<Rightarrow> SecurityLevelConfig option \<Rightarrow> SecurityLevelInfo \<Rightarrow> ('l, 'w) x27_env
     \<Rightarrow> ('l, 'w) x27_env option" where
  "handlerRequestSeed notify app stray level si e =
     (let body = rc_body (xe_rc e); subfunction = subfunction_of body; x = xe_x e in
      if x_unlocked x = subfunction \<and> x_state x = kUnlockNoActiveSeed
      then Some (x27_respond notify stray (CreateResponse (rc_sid (xe_rc e)) @ [subfunction, 0x00, 0x00]) e)
      else if \<not> IsRequestSeed subfunction then Some (x27_reject notify stray kRequestSequenceError e)
      else (case level of
          None \<Rightarrow> None
        | Some lc \<Rightarrow>
            let record = drop 2 body in
            if sl_accessDataRecordSize lc \<noteq> length record
            then Some (x27_reject notify stray kIncorrectMessageLengthOrInvalidFormat e)
            else (case sa_GetSeed app (si_requestSeedId si) record (xe_w e) of
                (Inl err, w) \<Rightarrow> Some (x27_reject notify stray (word_of_int err) (e\<lparr>xe_w := w\<rparr>))
              | (Inr seed, w) \<Rightarrow>
                  Some (xe_update (\<lambda>x. x\<lparr>x_last := subfunction\<rparr>)
                    (x27_respond notify stray (CreateResponse (rc_sid (xe_rc e)) @ [subfunction] @ seed) (e\<lparr>xe_w := w\<rparr>))))))"

definition reject_key ::
  "('l \<Rightarrow> byte \<Rightarrow> 'w \<Rightarrow> 'w) \<Rightarrow> byte \<Rightarrow> SecurityLevelInfo \<Rightarrow> ('l, 'w) x27_env \<Rightarrow> ('l, 'w) x27_env" where
  "reject_key notify stray si e =
     x27_reject notify stray (if Suc (si_failed si) < si_numFailed si then kInvalidKey else kExceedNumberOfAttempts)
       (xe_update (count_failure si) e)"

definition handlerSeedKey ::
  "('l \<Rightarrow> byte \<Rightarrow> 'w \<Rightarrow> 'w) \<Rightarrow> 'w security_app \<Rightarrow> byte \<Rightarrow> SecurityLevelConfig option \<Rightarrow> SecurityLevelInfo \<Rightarrow> ('l, 'w) x27_env
     \<Rightarrow> ('l, 'w) x27_env option" where
  "handlerSeedKey notify app stray level si e =
     (let body = rc_body (xe_rc e); subfunction = subfunction_of body; x = xe_x e in
      if x_unlocked x = subfunction \<and> x_state x = kUnlockNoActiveSeed
      then Some (x27_respond notify stray (CreateResponse (rc_sid (xe_rc e)) @ [subfunction, 0x00, 0x00]) e)
      else if \<not> IsSeedKey subfunction
      then handlerRequestSeed notify app stray level si
             (xe_set_state (if x_state x = kLockActiveSeedWaitKey then kLockNoActiveSeed
                            else if x_state x = kUnlockActiveSeedWaitKey then kUnlockNoActiveSeed else x_state x) e)
      else if \<not> matchRequestSeedAndSeedKey x subfunction
      then Some (xe_update (storeFailedCounter (si_id si) (Suc (si_failed si)))
             (x27_reject notify stray kRequestSequenceError (xe_update (count_failure si) e)))
      else (case level of
          None \<Rightarrow> None
        | Some lc \<Rightarrow>
            let key = drop 2 body in
            if sl_keySize lc \<noteq> length key
            then Some (xe_update (storeFailedCounter (sl_id lc) (Suc (si_failed si)))
                   (x27_reject notify stray kIncorrectMessageLengthOrInvalidFormat (xe_update (count_failure si) e)))
            else (case sa_CompareKey app (si_requestSeedId si) key (xe_w e) of
                (Inr valid, w) \<Rightarrow>
                  if valid
                  then Some (xe_update (\<lambda>x. x\<lparr>x_last := subfunction, x_unlocked := subfunction\<rparr>)
                    (x27_respond notify stray (CreateResponse (rc_sid (xe_rc e)) @ [subfunction])
                      (xe_update (update_info (si_requestSeedId si) (\<lambda>si. si\<lparr>si_failed := 0\<rparr>)) (e\<lparr>xe_w := w\<rparr>))))
                  else Some (reject_key notify stray si (e\<lparr>xe_w := w\<rparr>))
              | (Inl err, w) \<Rightarrow>
                  let nrc = word_of_int err in
                  if nrc = kInvalidKey then Some (reject_key notify stray si (e\<lparr>xe_w := w\<rparr>))
                  else Some (x27_reject notify stray nrc (e\<lparr>xe_w := w\<rparr>)))))"

definition handlerState ::
  "('l \<Rightarrow> byte \<Rightarrow> 'w \<Rightarrow> 'w) \<Rightarrow> 'w security_app \<Rightarrow> byte \<Rightarrow> SecurityLevelConfig option \<Rightarrow> SecurityLevelInfo \<Rightarrow> ('l, 'w) x27_env
     \<Rightarrow> ('l, 'w) x27_env option" where
  "handlerState notify app stray level si e =
     (if x_state (xe_x e) = kLockNoActiveSeed \<or> x_state (xe_x e) = kUnlockNoActiveSeed
      then handlerRequestSeed notify app stray level si e
      else handlerSeedKey notify app stray level si e)"

definition x27_ParseAndResponse ::
  "('l \<Rightarrow> byte \<Rightarrow> 'w \<Rightarrow> 'w) \<Rightarrow> 'w security_app \<Rightarrow> byte \<Rightarrow> ('l, 'w) x27_env \<Rightarrow> ('l, 'w) x27_env option" where
  "x27_ParseAndResponse notify app stray e =
     (case map_of (x_table (xe_x e)) (getRealSubfunction (subfunction_of (rc_body (xe_rc e)))) of
        None \<Rightarrow> Some e
      | Some si \<Rightarrow>
          if activeDelayTimer si (xe_x e) then Some (x27_reject notify stray kRequiredTimeDelayNotExpired e)
          else handlerState notify app stray (GetSecurityLevel (si_id si) (xe_lm e)) si e)"

text \<open>The two timers run out.\<close>

definition handleSharedDelayTimer :: "x27 \<Rightarrow> x27" where
  "handleSharedDelayTimer x = x\<lparr>x_timer := False\<rparr>"

definition handleDelayTimer :: "byte \<Rightarrow> ('l, 'w) x27_env \<Rightarrow> ('l, 'w) x27_env" where
  "handleDelayTimer i e = e\<lparr>xe_x := update_info i (\<lambda>si. si\<lparr>si_timer := False\<rparr>) (xe_x e),
     xe_lm := SetSecurityTimerElapsed False (xe_lm e)\<rparr>"

section \<open>Only a valid key unlocks\<close>

lemma negative_status:
  "isNegtiveType msg \<Longrightarrow> last (rc_confirmed (RcRespond stray msg rc)) \<in> {kCanceled, kResNegSuppressed, kResNegOk, kResNegNotOk}"
  by (auto simp: RcRespond_def Let_def confirm_def changeState_def split: prod.split)

lemma positive_status:
  "\<not> isNegtiveType msg \<Longrightarrow> last (rc_confirmed (RcRespond stray msg rc)) \<in> {kCanceled, kResPosSuppressed, kResPosOk, kResPosNotOk}"
  by (auto simp: RcRespond_def Let_def confirm_def changeState_def split: prod.split)

lemma RcRespond_keeps [simp]: "rc_body (RcRespond stray msg rc) = rc_body rc" "rc_sid (RcRespond stray msg rc) = rc_sid rc"
  by (auto simp: RcRespond_def Let_def confirm_def changeState_def StopP2ServerTimer_def channel_Respond_def split: prod.split list.split)

lemma negative_is_negative [simp]: "isNegtiveType (CreateNegativeResponse sid nrc)"
  by (simp add: isNegtiveType_def CreateNegativeResponse_def kNegativeResponseServiceId_def)

text \<open>A refusal never changes the level.\<close>

lemma Confirm_negative_level:
  "status \<noteq> kResPosOk \<Longrightarrow> lm_current (xe_lm (x27_Confirm notify status e)) = lm_current (xe_lm e)"
  by (auto simp: x27_Confirm_def Let_def xe_set_state_def SetSecurityTimerElapsed_def split: SecurityLevelState.split option.split)

lemma x27_reject_level [simp]: "lm_current (xe_lm (x27_reject notify stray nrc e)) = lm_current (xe_lm e)"
  using negative_status [OF negative_is_negative, of stray "rc_sid (xe_rc e)" nrc "xe_rc e"]
  by (auto simp: x27_reject_def x27_respond_def Let_def Confirm_negative_level)

lemma xe_update_keeps [simp]: "xe_lm (xe_update f e) = xe_lm e" "xe_rc (xe_update f e) = xe_rc e" "xe_w (xe_update f e) = xe_w e"
  "xe_x (xe_update f e) = f (xe_x e)"
  by (simp_all add: xe_update_def)

text \<open>An answer changes it only while a key is expected.\<close>

definition waits_for_key :: "x27 \<Rightarrow> bool" where
  "waits_for_key x \<longleftrightarrow> x_state x = kLockActiveSeedWaitKey \<or> x_state x = kUnlockActiveSeedWaitKey"

lemma x27_respond_level:
  assumes "\<not> waits_for_key (xe_x e)"
  shows "lm_current (xe_lm (x27_respond notify stray msg e)) = lm_current (xe_lm e)"
proof (cases "last (rc_confirmed (RcRespond stray msg (xe_rc e))) = kResPosOk")
  case True
  with assms show ?thesis
    by (auto simp: x27_respond_def x27_Confirm_def Let_def xe_set_state_def waits_for_key_def split: SecurityLevelState.split)
qed (simp add: x27_respond_def Let_def Confirm_negative_level)

lemma x27_respond_level_set:
  assumes "lm_current (xe_lm (x27_respond notify stray msg e)) \<noteq> lm_current (xe_lm e)"
  shows "lm_current (xe_lm (x27_respond notify stray msg e)) = getRealSubfunction (subfunction_of (rc_body (xe_rc e)))"
  using assms x27_respond_level [of e notify stray msg] Confirm_negative_level
  by (auto simp: x27_respond_def x27_Confirm_def Let_def xe_set_state_def xe_unlock_def SetSecurityLevel_def waits_for_key_def
      SetSecurityTimerElapsed_def split: if_splits SecurityLevelState.splits option.splits)

lemma handlerRequestSeed_level:
  assumes "\<not> waits_for_key (xe_x e)" and "handlerRequestSeed notify app stray level si e = Some e'"
  shows "lm_current (xe_lm e') = lm_current (xe_lm e)"
proof -
  have "lm_current (xe_lm (x27_respond notify stray msg (e\<lparr>xe_w := w\<rparr>))) = lm_current (xe_lm e)" for msg w
    using x27_respond_level [of "e\<lparr>xe_w := w\<rparr>" notify stray msg] assms(1) by simp
  with assms show ?thesis
    by (auto simp: handlerRequestSeed_def Let_def x27_respond_level split: if_splits option.splits sum.splits prod.splits)
qed

lemma handlerSeedKey_level:
  assumes "handlerSeedKey notify app stray level si e = Some e'" and "lm_current (xe_lm e') \<noteq> lm_current (xe_lm e)"
  shows "waits_for_key (xe_x e) \<and> IsSeedKey (subfunction_of (rc_body (xe_rc e))) \<and>
    matchRequestSeedAndSeedKey (xe_x e) (subfunction_of (rc_body (xe_rc e))) \<and>
    (\<exists>lc. level = Some lc \<and> length (drop 2 (rc_body (xe_rc e))) = sl_keySize lc) \<and>
    fst (sa_CompareKey app (si_requestSeedId si) (drop 2 (rc_body (xe_rc e))) (xe_w e)) = Inr True \<and>
    lm_current (xe_lm e') = getRealSubfunction (subfunction_of (rc_body (xe_rc e)))"
proof -
  let ?sub = "subfunction_of (rc_body (xe_rc e))"
  let ?reset = "xe_set_state (if x_state (xe_x e) = kLockActiveSeedWaitKey then kLockNoActiveSeed
      else if x_state (xe_x e) = kUnlockActiveSeedWaitKey then kUnlockNoActiveSeed else x_state (xe_x e)) e"
  have w: "waits_for_key (xe_x e)" if "lm_current (xe_lm (x27_respond notify stray msg (xe_update f (e\<lparr>xe_w := w\<rparr>)))) \<noteq> lm_current (xe_lm e)"
    "x_state (f (xe_x e)) = x_state (xe_x e)" for msg f w
    using that x27_respond_level [of "xe_update f (e\<lparr>xe_w := w\<rparr>)" notify stray msg] by (auto simp: waits_for_key_def)
  have s: "lm_current (xe_lm (x27_respond notify stray msg (xe_update f (e\<lparr>xe_w := w\<rparr>)))) = getRealSubfunction ?sub"
    if "lm_current (xe_lm (x27_respond notify stray msg (xe_update f (e\<lparr>xe_w := w\<rparr>)))) \<noteq> lm_current (xe_lm e)" for msg f w
    using that x27_respond_level_set [of notify stray msg "xe_update f (e\<lparr>xe_w := w\<rparr>)"] by simp
  have r: "\<not> waits_for_key (xe_x ?reset)" "xe_lm ?reset = xe_lm e" by (auto simp: xe_set_state_def waits_for_key_def)
  have u: "x_state (update_info i g x) = x_state x" for i g x by (simp add: update_info_def)
  have one: "\<not> (x_unlocked (xe_x e) = ?sub \<and> x_state (xe_x e) = kUnlockNoActiveSeed)"
    using assms x27_respond_level [of e] by (auto simp: handlerSeedKey_def Let_def waits_for_key_def)
  moreover have two: "IsSeedKey ?sub"
    using assms one handlerRequestSeed_level [OF r(1)] r(2) by (auto simp: handlerSeedKey_def Let_def split: if_splits)
  ultimately show ?thesis
    using assms w u s
    by (auto simp: handlerSeedKey_def reject_key_def Let_def split: if_splits option.splits sum.splits prod.splits)
qed

text \<open>
  C17: a security level is unlocked only with its key. If handling a request changes the current security
  level, then the service was waiting for a key, the request is the key message that belongs to the
  last seed message, no delay was running, the key has the configured length and the application found
  it valid; the level set is the request identifier of the seed.
\<close>

theorem only_valid_key_unlocks:
  assumes "x27_ParseAndResponse notify app stray e = Some e'"
    and "lm_current (xe_lm e') \<noteq> lm_current (xe_lm e)"
  shows "\<exists>si lc. let body = rc_body (xe_rc e); subfunction = subfunction_of body in
    map_of (x_table (xe_x e)) (getRealSubfunction subfunction) = Some si \<and>
    GetSecurityLevel (si_id si) (xe_lm e) = Some lc \<and>
    \<not> activeDelayTimer si (xe_x e) \<and> waits_for_key (xe_x e) \<and>
    IsSeedKey subfunction \<and> unat subfunction = unat (x_last (xe_x e)) + 1 \<and>
    length (drop 2 body) = sl_keySize lc \<and>
    fst (sa_CompareKey app (si_requestSeedId si) (drop 2 body) (xe_w e)) = Inr True \<and>
    lm_current (xe_lm e') = getRealSubfunction subfunction"
proof -
  let ?sub = "subfunction_of (rc_body (xe_rc e))"
  from assms obtain si where si: "map_of (x_table (xe_x e)) (getRealSubfunction ?sub) = Some si" "\<not> activeDelayTimer si (xe_x e)"
      "handlerState notify app stray (GetSecurityLevel (si_id si) (xe_lm e)) si e = Some e'"
    by (auto simp: x27_ParseAndResponse_def split: option.splits if_splits)
  have "waits_for_key (xe_x e)"
    using si(3) assms(2) handlerRequestSeed_level [of e] by (cases "x_state (xe_x e)") (auto simp: handlerState_def waits_for_key_def)
  then have "handlerSeedKey notify app stray (GetSecurityLevel (si_id si) (xe_lm e)) si e = Some e'"
    using si(3) by (auto simp: handlerState_def waits_for_key_def)
  from handlerSeedKey_level [OF this assms(2)] si(1,2) show ?thesis
    by (auto simp: Let_def matchRequestSeedAndSeedKey_def)
qed

section \<open>Guessing keys\<close>

text \<open>A request of a tester at a physical address, whose answer arrives.\<close>

definition fresh_rc :: "bytes \<Rightarrow> request_context" where
  "fresh_rc body = rc_new 0x27 body 0x0E80 [] []"

lemma fresh_rc_fields [simp]: "rc_body (fresh_rc body) = body" "rc_sid (fresh_rc body) = 0x27"
  by (simp_all add: fresh_rc_def rc_new_def)

lemma fresh_status:
  "last (rc_confirmed (RcRespond stray msg (fresh_rc body))) = (if isNegtiveType msg then kResNegOk else kResPosOk)"
  by (auto simp: RcRespond_def Let_def fresh_rc_def rc_new_def confirm_def changeState_def StopP2ServerTimer_def
      channel_Respond_def suppressNegtive_def isFunctionalAddress_def suppressPositive_def supportSubfunctionSidTable_def)

definition x27_request ::
  "('l \<Rightarrow> byte \<Rightarrow> 'w \<Rightarrow> 'w) \<Rightarrow> 'w security_app \<Rightarrow> byte \<Rightarrow> bytes \<Rightarrow> ('l, 'w) x27_env \<Rightarrow> ('l, 'w) x27_env option" where
  "x27_request notify app stray body e = x27_ParseAndResponse notify app stray (e\<lparr>xe_rc := fresh_rc body\<rparr>)"

text \<open>One attempt: ask for a seed, send a key.\<close>

definition attempt ::
  "('l \<Rightarrow> byte \<Rightarrow> 'w \<Rightarrow> 'w) \<Rightarrow> 'w security_app \<Rightarrow> byte \<Rightarrow> byte \<Rightarrow> bytes \<Rightarrow> ('l, 'w) x27_env \<Rightarrow> ('l, 'w) x27_env option" where
  "attempt notify app stray i key e =
     Option.bind (x27_request notify app stray [0x27, i] e) (x27_request notify app stray ([0x27, i + 1] @ key))"

fun attempts ::
  "('l \<Rightarrow> byte \<Rightarrow> 'w \<Rightarrow> 'w) \<Rightarrow> 'w security_app \<Rightarrow> byte \<Rightarrow> byte \<Rightarrow> bytes list \<Rightarrow> ('l, 'w) x27_env \<Rightarrow> ('l, 'w) x27_env option" where
  "attempts notify app stray i [] e = Some e"
| "attempts notify app stray i (key # keys) e = Option.bind (attempt notify app stray i key e) (attempts notify app stray i keys)"

text \<open>An application that accepts no key and notes every key it compares.\<close>

definition refusing_app :: "bytes \<Rightarrow> bytes list security_app" where
  "refusing_app seed = \<lparr>sa_GetSeed = \<lambda>_ _ w. (Inr seed, w), sa_CompareKey = \<lambda>_ key w. (Inr False, w @ [key])\<rparr>"

definition seed_id_ok :: "byte \<Rightarrow> bool" where
  "seed_id_ok i \<longleftrightarrow> i mod 2 = 1 \<and> unat i + 1 < 0x80"

text \<open>Locked, no seed given out, the level known and its attempts counted.\<close>

definition guessing :: "byte \<Rightarrow> SecurityLevelConfig \<Rightarrow> nat \<Rightarrow> bool \<Rightarrow> ('l, 'w) x27_env \<Rightarrow> bool" where
  "guessing i lc failed delayed e \<longleftrightarrow>
     x_state (xe_x e) = kLockNoActiveSeed \<and> x_unlocked (xe_x e) = 0 \<and>
     (\<exists>si. map_of (x_table (xe_x e)) i = Some si \<and> si_requestSeedId si = i \<and> si_failed si = failed \<and>
        si_numFailed si = sl_numFailedSecurityAccess lc \<and> GetSecurityLevel (si_id si) (xe_lm e) = Some lc \<and>
        activeDelayTimer si (xe_x e) = delayed)"

lemma seed_id_bits:
  assumes "seed_id_ok i"
  shows "i AND 0x7F = i" "(i + 1) AND 0x7F = i + 1" "i \<noteq> 0" "(i + 1) mod 2 = 0" "unat i + 1 = unat (i + 1)" "i + 1 - 1 = i"
proof -
  have u: "unat (i + 1) = unat i + 1" using assms by (simp add: seed_id_ok_def unat_word_ariths)
  have m: "x AND 0x7F = x" if "unat x < 0x80" for x :: byte
    using that less_mask_eq [of x 7] by (simp add: word_less_nat_alt mask_eq_exp_minus_1)
  show "i AND 0x7F = i" "(i + 1) AND 0x7F = i + 1" using m u assms by (simp_all add: seed_id_ok_def)
  show "i \<noteq> 0" using assms by (auto simp: seed_id_ok_def)
  have "unat (i mod 2) = 1" using assms by (simp add: seed_id_ok_def)
  then have "unat i mod 2 = 1" by (simp add: unat_mod)
  then have "unat ((i + 1) mod 2) = 0" using u by (simp add: unat_mod mod_Suc)
  then show "(i + 1) mod 2 = 0" by (simp add: unat_eq_0)
  show "unat i + 1 = unat (i + 1)" "i + 1 - 1 = i" using u by simp_all
qed

lemma seed_id_subfunction:
  assumes "seed_id_ok i"
  shows "subfunction_of (0x27 # i # r) = i" "subfunction_of (0x27 # (i + 1) # r) = i + 1"
    "getRealSubfunction i = i" "getRealSubfunction (i + 1) = i" "IsRequestSeed i" "\<not> IsRequestSeed (i + 1)"
  using assms seed_id_bits [OF assms]
  by (simp_all add: subfunction_of_def ReadUint8_def getRealSubfunction_def IsRequestSeed_def seed_id_ok_def)

lemma map_of_update_info:
  "map_of (x_table (update_info i f x)) j = (if j = i then map_option f (map_of (x_table x) j) else map_of (x_table x) j)"
  by (simp add: update_info_def map_of_table_update)

lemma update_info_keeps [simp]:
  "x_state (update_info i f x) = x_state x" "x_unlocked (update_info i f x) = x_unlocked x" "x_last (update_info i f x) = x_last x"
  "x_timer (update_info i f x) = x_timer x" "x_shared (update_info i f x) = x_shared x"
  by (simp_all add: update_info_def)

text \<open>Asking for the seed, and sending a wrong key for it.\<close>

lemma seed_given:
  assumes "guessing i lc f False e" and "seed_id_ok i" and "sl_accessDataRecordSize lc = 0"
  shows "\<exists>e'. x27_request notify (refusing_app seed) stray [0x27, i] e = Some e' \<and> xe_w e' = xe_w e \<and> xe_lm e' = xe_lm e \<and>
    xe_x e' = (xe_x e)\<lparr>x_state := kLockActiveSeedWaitKey, x_last := i\<rparr>"
  using assms seed_id_subfunction [OF assms(2)] seed_id_bits(3) [OF assms(2)]
  by (auto simp: guessing_def x27_request_def x27_ParseAndResponse_def handlerState_def handlerRequestSeed_def refusing_app_def
      x27_respond_def x27_Confirm_def fresh_status isNegtiveType_def CreateResponse_def kResponseServiceIdMask_def
      kNegativeResponseServiceId_def xe_set_state_def xe_update_def Let_def)

lemma wrong_key_counted:
  assumes "guessing i lc f False e" and "seed_id_ok i" and "length key = sl_keySize lc"
    and "e1 = e\<lparr>xe_rc := rc, xe_x := (xe_x e)\<lparr>x_state := kLockActiveSeedWaitKey, x_last := i\<rparr>\<rparr>"
  shows "\<exists>e'. x27_request notify (refusing_app seed) stray ([0x27, i + 1] @ key) e1 = Some e' \<and> xe_w e' = xe_w e @ [key] \<and>
    guessing i lc (Suc f) (Suc f = sl_numFailedSecurityAccess lc) e'"
  using assms seed_id_subfunction [OF assms(2)] seed_id_bits [OF assms(2)]
  by (auto simp: guessing_def x27_request_def x27_ParseAndResponse_def handlerState_def handlerSeedKey_def refusing_app_def
      reject_key_def x27_reject_def x27_respond_def x27_Confirm_def fresh_status IsSeedKey_def matchRequestSeedAndSeedKey_def
      activeDelayTimer_def xe_set_state_def xe_update_def count_failure_def map_of_update_info start_delay_def
      SetSecurityTimerElapsed_def GetSecurityLevel_def Let_def)

lemma attempt_counted:
  assumes "guessing i lc f False e" and "seed_id_ok i" and "sl_accessDataRecordSize lc = 0" and "length key = sl_keySize lc"
  shows "\<exists>e'. attempt notify (refusing_app seed) stray i key e = Some e' \<and> xe_w e' = xe_w e @ [key] \<and>
    guessing i lc (Suc f) (Suc f = sl_numFailedSecurityAccess lc) e'"
proof -
  obtain e1 where e1: "x27_request notify (refusing_app seed) stray [0x27, i] e = Some e1" "xe_w e1 = xe_w e" "xe_lm e1 = xe_lm e"
      "xe_x e1 = (xe_x e)\<lparr>x_state := kLockActiveSeedWaitKey, x_last := i\<rparr>"
    using seed_given [OF assms(1-3)] by blast
  then have "e1 = e\<lparr>xe_rc := xe_rc e1, xe_x := (xe_x e)\<lparr>x_state := kLockActiveSeedWaitKey, x_last := i\<rparr>\<rparr>" by simp
  from wrong_key_counted [OF assms(1,2,4) this] e1(1) show ?thesis by (simp add: attempt_def)
qed

lemma attempts_counted:
  assumes "guessing i lc f False e" and "seed_id_ok i" and "sl_accessDataRecordSize lc = 0"
    and "list_all (\<lambda>key. length key = sl_keySize lc) keys"
    and "sl_numFailedSecurityAccess lc \<le> f \<or> f + length keys \<le> sl_numFailedSecurityAccess lc"
  shows "\<exists>e'. attempts notify (refusing_app seed) stray i keys e = Some e' \<and> xe_w e' = xe_w e @ keys \<and>
    guessing i lc (f + length keys) (keys \<noteq> [] \<and> f + length keys = sl_numFailedSecurityAccess lc) e'"
  using assms
proof (induction keys arbitrary: f e)
  case (Cons key keys)
  then obtain e1 where e1: "attempt notify (refusing_app seed) stray i key e = Some e1" "xe_w e1 = xe_w e @ [key]"
      "guessing i lc (Suc f) (Suc f = sl_numFailedSecurityAccess lc) e1"
    using attempt_counted [OF Cons.prems(1-3), of key notify seed stray] by auto
  show ?case
  proof (cases keys)
    case Nil
    with e1 show ?thesis by simp
  next
    case (Cons k ks)
    with Cons.prems(5) have "Suc f \<noteq> sl_numFailedSecurityAccess lc" by auto
    with e1(3) have "guessing i lc (Suc f) False e1" by simp
    from Cons.IH [OF this Cons.prems(2,3)] Cons.prems(4,5) obtain e' where
      "attempts notify (refusing_app seed) stray i keys e1 = Some e'" "xe_w e' = xe_w e1 @ keys"
      "guessing i lc (Suc f + length keys) (keys \<noteq> [] \<and> Suc f + length keys = sl_numFailedSecurityAccess lc) e'"
      by auto
    with e1 Cons show ?thesis by simp
  qed
qed simp

text \<open>The delay that is running: every request for the level is refused and reaches no application.\<close>

lemma delayed_refused:
  assumes "guessing i lc f True e" and "getRealSubfunction (subfunction_of body) = i"
  shows "\<exists>e'. x27_request notify app stray body e = Some e' \<and> xe_w e' = xe_w e \<and>
    rc_sent (xe_rc e') = [[0x7F, 0x27, kRequiredTimeDelayNotExpired]]"
proof -
  have "rc_sent (RcRespond stray msg (fresh_rc body)) = [msg]" if "isNegtiveType msg" for msg
    using that by (simp add: RcRespond_def Let_def fresh_rc_def rc_new_def confirm_def changeState_def StopP2ServerTimer_def
        channel_Respond_def suppressNegtive_def isFunctionalAddress_def)
  moreover have "xe_w (x27_Confirm notify kResNegOk e) = xe_w e" "xe_rc (x27_Confirm notify kResNegOk e) = xe_rc e" for e
    by (auto simp: x27_Confirm_def Let_def xe_set_state_def split: SecurityLevelState.split option.split)
  ultimately show ?thesis
    using assms
    by (auto simp: guessing_def x27_request_def x27_ParseAndResponse_def x27_reject_def x27_respond_def fresh_status Let_def
        CreateNegativeResponse_def isNegtiveType_def kNegativeResponseServiceId_def)
qed


text \<open>
  After the first delay the number of attempts is no longer limited. The counter is not reset when the delay
  ends, and the delay is started only when the counter equals the limit; the next wrong key takes
  it past the limit, and from then on any number of keys can be tried, each is compared, and no
  delay is ever started.
\<close>

theorem attempts_are_unlimited_after_delay:
  assumes "guessing i lc f False e" and "seed_id_ok i" and "sl_accessDataRecordSize lc = 0"
    and "list_all (\<lambda>key. length key = sl_keySize lc) keys" and "sl_numFailedSecurityAccess lc \<le> f"
  shows "\<exists>e'. attempts notify (refusing_app seed) stray i keys e = Some e' \<and> xe_w e' = xe_w e @ keys \<and>
    guessing i lc (f + length keys) False e'"
proof -
  have none: "(keys \<noteq> [] \<and> f + length keys = sl_numFailedSecurityAccess lc) = False" using assms(5) by (cases keys) auto
  show ?thesis using attempts_counted [OF assms(1-4), of notify seed stray] assms(5) unfolding none by blast
qed

section \<open>An example\<close>

text \<open>Two levels with the identifiers 1 and 3 are asked for with the seeds 1 and 5: the identifiers are
  configured apart from the seeds.\<close>

definition ex_level :: "byte \<Rightarrow> SecurityLevelConfig" where
  "ex_level i = \<lparr>sl_shortName = ''L'', sl_accessDataRecordSize = 0, sl_keySize = 2, sl_numFailedSecurityAccess = 2,
     sl_securityDelayTime = 10000, sl_seedSize = 2, sl_id = i\<rparr>"

definition ex_info :: "byte \<Rightarrow> byte \<Rightarrow> SecurityLevelInfo" where
  "ex_info seed i = \<lparr>si_requestSeedId = seed, si_id = i, si_auth = None, si_session = [],
     si_level = \<lparr>lv_config = [], lv_table = []\<rparr>, si_failed = 0, si_numFailed = 2, si_delayTime = 10000, si_timer = False\<rparr>"

definition ex_env :: "'w \<Rightarrow> (unit, 'w) x27_env" where
  "ex_env w = \<lparr>xe_rc = fresh_rc [], xe_x = (x27_new \<lparr>ps_serverAddr = 1, ps_store = None\<rparr>)
       \<lparr>x_table := [(1, ex_info 1 3), (5, ex_info 5 1)]\<rparr>,
     xe_lm = lm_new\<lparr>lm_table := [1 \<mapsto> ex_level 1, 3 \<mapsto> ex_level 3]\<rparr>, xe_w = w\<rparr>"

lemma ex_guessing: "guessing 1 (ex_level 3) 0 False (ex_env w)"
  by (simp add: guessing_def ex_env_def ex_info_def ex_level_def x27_new_def lm_new_def GetSecurityLevel_def activeDelayTimer_def)

lemma ex_seed_ok: "seed_id_ok 1"
  by (simp add: seed_id_ok_def)


theorem attempts_are_unlimited_after_delay_witness:
  "\<exists>e'. attempts (\<lambda>_ _ w. w) (refusing_app [7, 7]) 0 1 [[1, 1], [2, 2], [3, 3], [4, 4]]
      (xe_update (update_info 1 (\<lambda>si. si\<lparr>si_failed := 2\<rparr>)) (ex_env [])) = Some e' \<and> length (xe_w e') = 4"
proof -
  have "guessing 1 (ex_level 3) 2 False (xe_update (update_info 1 (\<lambda>si. si\<lparr>si_failed := 2\<rparr>)) (ex_env ([] :: bytes list)))"
    by (simp add: guessing_def xe_update_def update_info_def table_update_def ex_env_def ex_info_def ex_level_def x27_new_def lm_new_def
        GetSecurityLevel_def activeDelayTimer_def)
  from attempts_are_unlimited_after_delay [OF this ex_seed_ok, of "[[1, 1], [2, 2], [3, 3], [4, 4]]" "\<lambda>_ _ w. w" "[7, 7]" 0]
  show ?thesis by (auto simp: ex_level_def ex_env_def xe_update_def)
qed

text \<open>An application with one good key.\<close>

definition seed_app :: "unit security_app" where
  "seed_app = \<lparr>sa_GetSeed = \<lambda>_ _ w. (Inr [7, 7], w), sa_CompareKey = \<lambda>_ key w. (Inr (key = [8, 8]), w)\<rparr>"

definition ex_after_seed :: "(unit, unit) x27_env" where
  "ex_after_seed = the (x27_request (\<lambda>_ _ w. w) seed_app 0 [0x27, 1] (ex_env ()))"

definition ex_after_key :: "(unit, unit) x27_env" where
  "ex_after_key = the (x27_request (\<lambda>_ _ w. w) seed_app 0 [0x27, 2, 8, 8] ex_after_seed)"

lemma ex_runs:
  "\<not> Option.is_none (x27_request (\<lambda>_ _ w. w) seed_app 0 [0x27, 1] (ex_env ()))"
  "\<not> Option.is_none (x27_request (\<lambda>_ _ w. w) seed_app 0 [0x27, 2, 8, 8] ex_after_seed)"
  by code_simp+

lemma ex_run:
  "x27_request (\<lambda>_ _ w. w) seed_app 0 [0x27, 1] (ex_env ()) = Some ex_after_seed"
  "x27_request (\<lambda>_ _ w. w) seed_app 0 [0x27, 2, 8, 8] ex_after_seed = Some ex_after_key"
  using ex_runs by (simp_all add: ex_after_seed_def ex_after_key_def Option.is_none_def)

lemma ex_levels:
  "lm_current (xe_lm ex_after_seed) = 0" "lm_current (xe_lm ex_after_key) = 1"
  "lm_table (xe_lm ex_after_key) 1 = Some (ex_level 1)" "lm_table (xe_lm ex_after_key) 3 = Some (ex_level 3)"
  by code_simp+

theorem only_valid_key_unlocks_witness:
  "waits_for_key (xe_x ex_after_seed) \<and> lm_current (xe_lm ex_after_key) = getRealSubfunction 2 \<and> (\<exists>si. si_id si = 3 \<and>
     map_of (x_table (xe_x ex_after_seed)) (getRealSubfunction (subfunction_of [0x27, 2, 8, 8])) = Some si)"
proof -
  have "x27_ParseAndResponse (\<lambda>_ _ w. w) seed_app 0 (ex_after_seed\<lparr>xe_rc := fresh_rc [0x27, 2, 8, 8]\<rparr>) = Some ex_after_key"
    using ex_run(2) by (simp add: x27_request_def)
  from only_valid_key_unlocks [OF this] ex_levels(1,2) obtain si where
    "map_of (x_table (xe_x ex_after_seed)) (getRealSubfunction (subfunction_of [0x27, 2, 8, 8])) = Some si"
    "waits_for_key (xe_x ex_after_seed)" "lm_current (xe_lm ex_after_key) = getRealSubfunction (subfunction_of [0x27, 2, 8, 8])"
    by (auto simp: Let_def)
  moreover have "map_option si_id (map_of (x_table (xe_x ex_after_seed)) (getRealSubfunction (subfunction_of [0x27, 2, 8, 8]))) = Some 3"
    "subfunction_of [0x27, 2, 8, 8] = 2" by code_simp+
  ultimately show ?thesis by auto
qed

text \<open>
  The good key of the level 3, whose seed is asked for with 1, unlocks the level 1: a service that
  needs the level 3 is still refused, one that needs the level 1 is open, although its own key was
  never sent.
\<close>

theorem key_unlocks_other_level:
  "LevelValidator_Validate (xe_lm ex_after_key) (LevelValidator_Initialize [3] (xe_lm ex_after_key)) = Some False \<and>
   LevelValidator_Validate (xe_lm ex_after_key) (LevelValidator_Initialize [1] (xe_lm ex_after_key)) = Some True"
  using ex_levels(2-4)
  by (simp add: LevelValidator_Validate_def LevelValidator_Initialize_def GetSecurityLevel_def SecurityLevel_Check_def ex_level_def)

end
