(* ===== verification/TransferManager.thy ===== *)
theory TransferManager
  imports UdsCommon
begin

text \<open>
  The UDS transfer services RequestDownload (0x34), RequestUpload (0x35), TransferData (0x36),
  RequestTransferExit (0x37) and RequestFileTransfer (0x38)
  (src/src/uds/capi/isoft-uds/src/server/src/transfer_managment/transfer_manager.h and .cpp). The
  application behind them is an argument: \<open>transfer_app\<close> has one operation per method of
  \<open>DownloadInterface\<close>, \<open>UploadInterface\<close> and \<open>FileTransferInterface\<close>, over the state of the
  application, and the environmental conditions of the three services.

  A request is answered at most once. \<open>Respond\<close> reports how the answer was delivered to
  \<open>Confirm\<close> before it returns; \<open>status\<close> is that report, and the handlers below call \<open>Confirm\<close> at
  the point where the code responds.
\<close>

datatype RequestServerType = kUnknow | kDownload | kUpload | kFileTransfer

datatype State = kIdle_state | kRequest | kTransfer | kExit

datatype ModeOfOperation = kReserved | kAddFile | kDeleteFile | kReplaceFile | kReadFile | kReadDir | kResumeFile

fun mode_code :: "ModeOfOperation \<Rightarrow> byte" where
  "mode_code kReserved = 0"
| "mode_code kAddFile = 1"
| "mode_code kDeleteFile = 2"
| "mode_code kReplaceFile = 3"
| "mode_code kReadFile = 4"
| "mode_code kReadDir = 5"
| "mode_code kResumeFile = 6"

datatype DataTransferExitType = kAcknowledge | kAbort

datatype WriteFileMode = kAdd | kReplace

text \<open>\<open>FileSizes\<close> (uncompressed, compressed, MD5) and \<open>RequestFileResponse\<close> (size, MD5).\<close>

type_synonym FileSizes = "u64 \<times> u64 \<times> bytes"
type_synonym RequestFileResponse = "u64 \<times> bytes"

record 'w transfer_app =
  ta_download_condition :: "('w \<Rightarrow> byte) option"
  ta_upload_condition :: "('w \<Rightarrow> byte) option"
  ta_file_condition :: "('w \<Rightarrow> byte) option"
  ta_RequestDownload :: "byte \<Rightarrow> byte \<Rightarrow> bytes \<Rightarrow> 'w \<Rightarrow> unit uds_result \<times> 'w"
  ta_DownloadData :: "byte \<Rightarrow> bytes \<Rightarrow> 'w \<Rightarrow> unit uds_result \<times> 'w"
  ta_RequestDownloadExit :: "bytes \<Rightarrow> 'w \<Rightarrow> bytes uds_result \<times> 'w"
  ta_upload :: bool
  ta_RequestUpload :: "byte \<Rightarrow> byte \<Rightarrow> bytes \<Rightarrow> 'w \<Rightarrow> unit uds_result \<times> 'w"
  ta_UploadData :: "byte \<Rightarrow> u32 \<Rightarrow> 'w \<Rightarrow> bytes uds_result \<times> 'w"
  ta_RequestUploadExit :: "bytes \<Rightarrow> 'w \<Rightarrow> bytes uds_result \<times> 'w"
  ta_RequestReadFile :: "string \<Rightarrow> byte \<Rightarrow> 'w \<Rightarrow> FileSizes uds_result \<times> 'w"
  ta_RequestReadDirectory :: "string \<Rightarrow> 'w \<Rightarrow> RequestFileResponse uds_result \<times> 'w"
  ta_RequestWriteFile :: "string \<Rightarrow> byte \<Rightarrow> FileSizes \<Rightarrow> WriteFileMode \<Rightarrow> 'w \<Rightarrow> bytes uds_result \<times> 'w"
  ta_RequestResumeWriteFile :: "string \<Rightarrow> byte \<Rightarrow> FileSizes \<Rightarrow> 'w \<Rightarrow> RequestFileResponse uds_result \<times> 'w"
  ta_DeleteFile :: "string \<Rightarrow> 'w \<Rightarrow> bytes uds_result \<times> 'w"
  ta_Read :: "byte \<Rightarrow> u32 \<Rightarrow> 'w \<Rightarrow> bytes uds_result \<times> 'w"
  ta_ExitRead :: "DataTransferExitType \<Rightarrow> bytes \<Rightarrow> 'w \<Rightarrow> bytes uds_result \<times> 'w"
  ta_Write :: "byte \<Rightarrow> bytes \<Rightarrow> 'w \<Rightarrow> unit uds_result \<times> 'w"
  ta_ExitWrite :: "DataTransferExitType \<Rightarrow> bytes \<Rightarrow> 'w \<Rightarrow> bytes uds_result \<times> 'w"

record transfer_manager =
  tm_counter :: byte
  tm_previous :: int
  tm_record :: bytes
  tm_file_size :: u64
  tm_transfer_size :: u64
  tm_memory_size :: u32
  tm_type :: RequestServerType
  tm_state :: State
  tm_mode :: ModeOfOperation
  tm_max_download :: u32
  tm_max_upload :: u32
  tm_max_file :: u32

definition kBlockSequenceCounterStartValue :: byte where "kBlockSequenceCounterStartValue = 1"

definition tm_new :: "u32 \<Rightarrow> u32 \<Rightarrow> u32 \<Rightarrow> transfer_manager" where
  "tm_new max_download max_upload max_file =
     \<lparr>tm_counter = 1, tm_previous = -1, tm_record = [], tm_file_size = 0, tm_transfer_size = 0, tm_memory_size = 0,
      tm_type = kUnknow, tm_state = kIdle_state, tm_mode = kReserved, tm_max_download = max_download,
      tm_max_upload = max_upload, tm_max_file = max_file\<rparr>"

definition clearTransferInfo :: "transfer_manager \<Rightarrow> transfer_manager" where
  "clearTransferInfo tm =
     tm\<lparr>tm_counter := kBlockSequenceCounterStartValue, tm_file_size := 0, tm_memory_size := 0, tm_previous := 0,
        tm_record := [], tm_transfer_size := 0, tm_state := kIdle_state, tm_mode := kReserved, tm_type := kUnknow\<rparr>"

definition TmConfirm :: "ResponseStatusType \<Rightarrow> transfer_manager \<Rightarrow> transfer_manager" where
  "TmConfirm status tm =
     (if status = kCanceled \<or> status = kResNegOk \<or> status = kResNegNotOk \<or> status = kResPosNotOk
      then clearTransferInfo tm else tm)"

text \<open>Both callbacks registered in \<open>Initialize\<close>.\<close>

definition on_session_change :: "byte \<Rightarrow> byte \<Rightarrow> transfer_manager \<Rightarrow> transfer_manager" where
  "on_session_change oldSessionId newSessionId tm =
     (if oldSessionId \<noteq> newSessionId then clearTransferInfo tm else tm)"

definition on_security_level_change :: "transfer_manager \<Rightarrow> transfer_manager" where
  "on_security_level_change tm = clearTransferInfo tm"

section \<open>Which checks guard a service\<close>

datatype validator = AuthValidator RequestServerType | SessionValidator RequestServerType
  | SecurityLevelValidator RequestServerType

text \<open>The validators an instance was initialised with: authentication only when it is enabled,
  session and security level always.\<close>

record tm_instance =
  in_configured :: bool
  in_auth :: bool

definition instance_validators :: "RequestServerType \<Rightarrow> tm_instance \<Rightarrow> validator list" where
  "instance_validators ty i =
     (if in_configured i \<and> in_auth i then [AuthValidator ty] else []) @
     (if in_configured i then [SessionValidator ty] else []) @
     (if in_configured i then [SessionValidator ty] else [])"

definition GetSidValidator ::
  "tm_instance \<Rightarrow> tm_instance \<Rightarrow> tm_instance \<Rightarrow> byte \<Rightarrow> transfer_manager \<Rightarrow> validator list" where
  "GetSidValidator download upload fileTransfer sid tm =
     (if sid \<in> {0x34, 0x35, 0x36, 0x37, 0x38}
      then (if sid = 0x34 \<or> tm_type tm = kDownload then instance_validators kDownload download else []) @
           (if sid = 0x35 \<or> tm_type tm = kUpload then instance_validators kUpload upload else []) @
           (if sid = 0x38 \<or> tm_type tm = kFileTransfer then instance_validators kFileTransfer fileTransfer else [])
      else [])"

section \<open>Handlers\<close>

type_synonym 'w tm_result = "bytes option \<times> transfer_manager \<times> 'w"

text \<open>Responding with a negative code, and with a body.\<close>

definition tm_reject :: "byte \<Rightarrow> ResponseStatusType \<Rightarrow> byte \<Rightarrow> transfer_manager \<Rightarrow> 'w \<Rightarrow> 'w tm_result" where
  "tm_reject sid status nrc tm w = (Some (CreateNegativeResponse sid nrc), TmConfirm status tm, w)"

definition tm_respond :: "bytes \<Rightarrow> ResponseStatusType \<Rightarrow> transfer_manager \<Rightarrow> 'w \<Rightarrow> 'w tm_result" where
  "tm_respond body status tm w = (Some body, TmConfirm status tm, w)"

definition check_condition :: "('w \<Rightarrow> byte) option \<Rightarrow> 'w \<Rightarrow> byte" where
  "check_condition condition w = (case condition of None \<Rightarrow> 0 | Some f \<Rightarrow> f w)"

definition ReadSizeAndAddressFormatIdentifier :: "byte \<Rightarrow> nat \<times> nat" where
  "ReadSizeAndAddressFormatIdentifier formatIdentifier =
     (unat (drop_bit 4 formatIdentifier), unat (formatIdentifier AND 0x0F))"

text \<open>The checks RequestDownload and RequestUpload make on their parameters: an error, or the
  format bytes, the address and size bytes and the size.\<close>

definition parse_memory_request :: "bytes \<Rightarrow> NrcErrc + byte \<times> byte \<times> bytes \<times> u64" where
  "parse_memory_request body =
     (if length body < 5 then Inl kIncorrectMessageLengthOrInvalidFormat
      else (case ReadUint8 body 0 of (_, p1) \<Rightarrow>
        case ReadUint8 body p1 of (dataFormatIdentifier, p2) \<Rightarrow>
        case ReadUint8 body p2 of (addressAndLengthFormatIdentifier, p3) \<Rightarrow>
        case ReadSizeAndAddressFormatIdentifier addressAndLengthFormatIdentifier of (size_len, addr_len) \<Rightarrow>
        if size_len < 1 \<or> size_len > 8 \<or> addr_len < 1 \<or> addr_len > 8 then Inl kRequestOutOfRange
        else if 3 + addr_len + size_len \<noteq> length body then Inl kIncorrectMessageLengthOrInvalidFormat
        else (case ReadUint addr_len body p3 of (memoryAddress, p4) \<Rightarrow>
              case ReadUint size_len body p4 of (memorySize, p5) \<Rightarrow>
              Inr (dataFormatIdentifier, addressAndLengthFormatIdentifier, ReadAll body 3, memorySize))))"

definition start_transfer :: "RequestServerType \<Rightarrow> u64 \<Rightarrow> transfer_manager \<Rightarrow> transfer_manager" where
  "start_transfer ty memorySize tm =
     tm\<lparr>tm_memory_size := ucast memorySize, tm_counter := kBlockSequenceCounterStartValue, tm_type := ty, tm_state := kRequest\<rparr>"

definition requestDownload ::
  "'w transfer_app \<Rightarrow> ResponseStatusType \<Rightarrow> bytes \<Rightarrow> transfer_manager \<Rightarrow> 'w \<Rightarrow> 'w tm_result" where
  "requestDownload app status body tm w =
     (case parse_memory_request body of
        Inl nrc \<Rightarrow> tm_reject 0x34 status (nrc_code nrc) tm w
      | Inr (dataFormat, addressFormat, data, memorySize) \<Rightarrow>
          let nrcValue = check_condition (ta_download_condition app) w in
          if nrcValue \<noteq> 0 then tm_reject 0x34 status nrcValue tm w
          else (case ta_RequestDownload app dataFormat addressFormat data w of
              (Inl nrc, w1) \<Rightarrow> tm_reject 0x34 status (word_of_int nrc) tm w1
            | (Inr _, w1) \<Rightarrow>
                (case tm_respond (Write_u32 (tm_max_download tm) (Write_u8 0x40 (CreateResponse 0x34))) status tm w1 of
                   (r, tm1, w2) \<Rightarrow> (r, start_transfer kDownload memorySize tm1, w2))))"

definition requestUpload ::
  "'w transfer_app \<Rightarrow> ResponseStatusType \<Rightarrow> bytes \<Rightarrow> transfer_manager \<Rightarrow> 'w \<Rightarrow> 'w tm_result" where
  "requestUpload app status body tm w =
     (case parse_memory_request body of
        Inl nrc \<Rightarrow> tm_reject 0x35 status (nrc_code nrc) tm w
      | Inr (dataFormat, addressFormat, data, memorySize) \<Rightarrow>
          let nrcValue = check_condition (ta_upload_condition app) w in
          if nrcValue \<noteq> 0 then tm_reject 0x35 status nrcValue tm w
          else if \<not> ta_upload app then tm_reject 0x35 status (nrc_code kServiceNotSupported) tm w
          else (case ta_RequestUpload app dataFormat addressFormat data w of
              (Inl nrc, w1) \<Rightarrow> tm_reject 0x35 status (word_of_int nrc) tm w1
            | (Inr _, w1) \<Rightarrow>
                (case tm_respond (Write_u32 (tm_max_upload tm) (Write_u8 0x40 (CreateResponse 0x35))) status tm w1 of
                   (r, tm1, w2) \<Rightarrow> (r, start_transfer kUpload memorySize tm1, w2))))"

text \<open>The next block was taken: the counters move on.\<close>

definition next_block :: "transfer_manager \<Rightarrow> transfer_manager" where
  "next_block tm = tm\<lparr>tm_previous := uint (tm_counter tm), tm_counter := tm_counter tm + 1\<rparr>"

definition transferData ::
  "'w transfer_app \<Rightarrow> ResponseStatusType \<Rightarrow> bytes \<Rightarrow> transfer_manager \<Rightarrow> 'w \<Rightarrow> 'w tm_result" where
  "transferData app status body tm w =
     (if length body < 2 then tm_reject 0x36 status (nrc_code kIncorrectMessageLengthOrInvalidFormat) tm w
      else if tm_type tm = kUnknow \<or> tm_state tm \<noteq> kRequest \<and> tm_state tm \<noteq> kTransfer
      then tm_reject 0x36 status (nrc_code kRequestSequenceError) tm w
      else (case ReadUint8 body 0 of (_, p1) \<Rightarrow>
        case ReadUint8 body p1 of (counter, p2) \<Rightarrow>
        if tm_counter tm \<noteq> counter \<and> tm_previous tm \<noteq> uint counter
        then tm_reject 0x36 status (nrc_code kWrongBlockSequenceCounter) tm w
        else (let again = (tm_previous tm = uint counter);
                  echo = Write_u8 counter (CreateResponse 0x36);
                  reading = (tm_mode tm = kReadFile \<or> tm_mode tm = kReadDir);
                  writing = (tm_mode tm = kAddFile \<or> tm_mode tm = kReplaceFile \<or> tm_mode tm = kResumeFile) in
          if tm_type tm = kDownload then
            (if again then tm_respond echo status tm w
             else (let record = ReadAll body p2 in
               case ta_DownloadData app counter record w of
                 (Inr _, w1) \<Rightarrow> tm_respond echo status
                    ((next_block tm)\<lparr>tm_transfer_size := tm_transfer_size tm + word_of_nat (length record)\<rparr>) w1
               | (Inl nrc, w1) \<Rightarrow> tm_reject 0x36 status (word_of_int nrc) tm w1))
          else if tm_type tm = kUpload then
            (if again then tm_respond (Write_bytes (tm_record tm) echo) status tm w
             else (case ta_UploadData app counter (tm_max_upload tm) w of
                 (Inr data, w1) \<Rightarrow> tm_respond (Write_bytes data echo) status ((next_block tm)\<lparr>tm_record := data\<rparr>) w1
               | (Inl nrc, w1) \<Rightarrow> tm_reject 0x36 status (word_of_int nrc) tm w1))
          else if reading then
            (if again then tm_respond (Write_bytes (tm_record tm) echo) status tm w
             else (case ta_Read app counter (tm_max_file tm) w of
                 (Inr data, w1) \<Rightarrow> tm_respond (Write_bytes data echo) status
                    ((next_block tm)\<lparr>tm_record := tm_record tm @ data,
                       tm_transfer_size := tm_transfer_size tm + word_of_nat (length data)\<rparr>) w1
               | (Inl nrc, w1) \<Rightarrow> tm_reject 0x36 status (word_of_int nrc) tm w1))
          else if writing then
            (if again then tm_respond echo status tm w
             else (let record = ReadAll body p2 in
               case ta_Write app counter record w of
                 (Inr _, w1) \<Rightarrow> tm_respond echo status
                    ((next_block tm)\<lparr>tm_transfer_size := tm_transfer_size tm + word_of_nat (length record)\<rparr>) w1
               | (Inl nrc, w1) \<Rightarrow> tm_reject 0x36 status (word_of_int nrc) tm w1))
          else (None, tm, w))))"

text \<open>The application is told that the transfer ends. A result that was never assigned holds no
  bytes.\<close>

definition exit_call :: "'w transfer_app \<Rightarrow> bytes \<Rightarrow> transfer_manager \<Rightarrow> 'w \<Rightarrow> bytes uds_result \<times> 'w" where
  "exit_call app record tm w =
     (let exitType = (if tm_file_size tm = tm_transfer_size tm then kAbort else kAcknowledge) in
      if tm_type tm = kDownload then ta_RequestDownloadExit app record w
      else if tm_type tm = kUpload then ta_RequestUploadExit app record w
      else if tm_mode tm = kReadFile \<or> tm_mode tm = kReadDir then ta_ExitRead app exitType record w
      else if tm_mode tm = kAddFile \<or> tm_mode tm = kReplaceFile \<or> tm_mode tm = kResumeFile
      then ta_ExitWrite app exitType record w
      else (Inr [], w))"

definition transferExit ::
  "'w transfer_app \<Rightarrow> ResponseStatusType \<Rightarrow> bytes \<Rightarrow> transfer_manager \<Rightarrow> 'w \<Rightarrow> 'w tm_result" where
  "transferExit app status body tm w =
     (if length body < 1 then tm_reject 0x37 status (nrc_code kIncorrectMessageLengthOrInvalidFormat) tm w
      else if tm_type tm = kUnknow \<or> tm_state tm \<noteq> kRequest \<and> tm_state tm \<noteq> kTransfer
      then tm_reject 0x37 status (nrc_code kRequestSequenceError) tm w
      else (case ReadUint8 body 0 of (_, p1) \<Rightarrow>
        case exit_call app (ReadAll body p1) tm w of
          (Inr data, w1) \<Rightarrow>
            tm_respond (Write_bytes data (CreateResponse 0x37)) status ((clearTransferInfo tm)\<lparr>tm_state := kExit\<rparr>) w1
        | (Inl nrc, w1) \<Rightarrow> tm_reject 0x37 status (word_of_int nrc) tm w1))"

section \<open>RequestFileTransfer\<close>

definition fillMD5 :: "bytes \<Rightarrow> bytes \<Rightarrow> bytes" where
  "fillMD5 vecMD5 data = (if vecMD5 = [] then data else Write_bytes vecMD5 data)"

text \<open>The parameters of the three requests that write a file: path, data format and both sizes. The
  cursor stands behind the mode of operation.\<close>

definition parse_write_request :: "bytes \<Rightarrow> nat \<Rightarrow> NrcErrc + string \<times> byte \<times> u64 \<times> u64" where
  "parse_write_request body p =
     (case ReadUint16 body p of (filePathAndNameLength, p1) \<Rightarrow>
      if 6 + unat filePathAndNameLength \<ge> length body then Inl kIncorrectMessageLengthOrInvalidFormat
      else (case ReadString_uds (unat filePathAndNameLength) body p1 of (filePathAndName, p2) \<Rightarrow>
        case ReadUint8 body p2 of (dataFormatIdentifier, p3) \<Rightarrow>
        case ReadUint8 body p3 of (fileSizeParameterLength, p4) \<Rightarrow>
        if filePathAndNameLength = 0 then Inl kRequestOutOfRange
        else if p4 + unat fileSizeParameterLength * 2 \<noteq> length body then Inl kIncorrectMessageLengthOrInvalidFormat
        else (case ReadUint (unat fileSizeParameterLength) body p4 of (fileSizeUnCompressed, p5) \<Rightarrow>
              case ReadUint (unat fileSizeParameterLength) body p5 of (fileSizeCompressed, p6) \<Rightarrow>
              Inr (filePathAndName, dataFormatIdentifier, fileSizeUnCompressed, fileSizeCompressed))))"

definition start_file_transfer :: "ModeOfOperation \<Rightarrow> u64 \<Rightarrow> transfer_manager \<Rightarrow> transfer_manager" where
  "start_file_transfer mode fileSize tm =
     tm\<lparr>tm_file_size := fileSize, tm_counter := kBlockSequenceCounterStartValue, tm_type := kFileTransfer,
        tm_state := kRequest, tm_mode := mode\<rparr>"

text \<open>The head of an answer: the mode, the length of the block length, the block length and the data
  format.\<close>

definition file_answer :: "ModeOfOperation \<Rightarrow> byte \<Rightarrow> transfer_manager \<Rightarrow> bytes" where
  "file_answer mode dataFormatIdentifier tm =
     Write_u8 dataFormatIdentifier (Write_u32 (tm_max_file tm) (Write_u8 4 (Write_u8 (mode_code mode) (CreateResponse 0x38))))"

definition addFile ::
  "'w transfer_app \<Rightarrow> ResponseStatusType \<Rightarrow> bytes \<Rightarrow> nat \<Rightarrow> transfer_manager \<Rightarrow> 'w \<Rightarrow> 'w tm_result" where
  "addFile app status body p tm w =
     (case parse_write_request body p of
        Inl nrc \<Rightarrow> tm_reject 0x38 status (nrc_code nrc) tm w
      | Inr (filePathAndName, dataFormat, unCompressed, compressed) \<Rightarrow>
          let nrc = check_condition (ta_file_condition app) w in
          if nrc \<noteq> 0 then tm_reject 0x38 status nrc tm w
          else (case ta_RequestWriteFile app filePathAndName dataFormat (unCompressed, compressed, []) kAdd w of
              (Inl e, w1) \<Rightarrow> tm_reject 0x38 status (word_of_int e) tm w1
            | (Inr md5, w1) \<Rightarrow>
                (case tm_respond (fillMD5 md5 (file_answer kAddFile dataFormat tm)) status tm w1 of
                   (r, tm1, w2) \<Rightarrow> (r, start_file_transfer kAddFile unCompressed tm1, w2))))"

definition deleteFile_request ::
  "'w transfer_app \<Rightarrow> ResponseStatusType \<Rightarrow> bytes \<Rightarrow> nat \<Rightarrow> transfer_manager \<Rightarrow> 'w \<Rightarrow> 'w tm_result" where
  "deleteFile_request app status body p tm w =
     (case ReadUint16 body p of (filePathAndNameLength, p1) \<Rightarrow>
      if p1 + unat filePathAndNameLength \<noteq> length body
      then tm_reject 0x38 status (nrc_code kIncorrectMessageLengthOrInvalidFormat) tm w
      else if filePathAndNameLength = 0 then tm_reject 0x38 status (nrc_code kRequestOutOfRange) tm w
      else (case ReadString_uds (unat filePathAndNameLength) body p1 of (filePathAndName, p2) \<Rightarrow>
        let nrc = check_condition (ta_file_condition app) w in
        if nrc \<noteq> 0 then tm_reject 0x38 status nrc tm w
        else (case ta_DeleteFile app filePathAndName w of
            (Inl e, w1) \<Rightarrow> tm_reject 0x38 status (word_of_int e) tm w1
          | (Inr md5, w1) \<Rightarrow>
              tm_respond (fillMD5 md5 (Write_u8 (mode_code kDeleteFile) (CreateResponse 0x38))) status tm w1)))"

definition replaceFile ::
  "'w transfer_app \<Rightarrow> ResponseStatusType \<Rightarrow> bytes \<Rightarrow> nat \<Rightarrow> transfer_manager \<Rightarrow> 'w \<Rightarrow> 'w tm_result" where
  "replaceFile app status body p tm w =
     (case parse_write_request body p of
        Inl nrc \<Rightarrow> tm_reject 0x38 status (nrc_code nrc) tm w
      | Inr (filePathAndName, dataFormat, unCompressed, compressed) \<Rightarrow>
          let nrc = check_condition (ta_file_condition app) w in
          if nrc \<noteq> 0 then tm_reject 0x38 status nrc tm w
          else (case ta_RequestWriteFile app filePathAndName dataFormat (unCompressed, compressed, []) kReplace w of
              (Inl e, w1) \<Rightarrow> tm_reject 0x38 status (word_of_int e) tm w1
            | (Inr md5, w1) \<Rightarrow>
                (case tm_respond (fillMD5 md5 (file_answer kReplaceFile dataFormat tm)) status tm w1 of
                   (r, tm1, w2) \<Rightarrow> (r, start_file_transfer kReplaceFile unCompressed tm1, w2))))"

definition readFile_request ::
  "'w transfer_app \<Rightarrow> ResponseStatusType \<Rightarrow> bytes \<Rightarrow> nat \<Rightarrow> transfer_manager \<Rightarrow> 'w \<Rightarrow> 'w tm_result" where
  "readFile_request app status body p tm w =
     (case ReadUint16 body p of (filePathAndNameLength, p1) \<Rightarrow>
      if filePathAndNameLength = 0 \<or> 5 + unat filePathAndNameLength \<noteq> length body
      then tm_reject 0x38 status (nrc_code kIncorrectMessageLengthOrInvalidFormat) tm w
      else (case ReadString_uds (unat filePathAndNameLength) body p1 of (filePathAndName, p2) \<Rightarrow>
        case ReadUint8 body p2 of (dataFormat, p3) \<Rightarrow>
        let nrc = check_condition (ta_file_condition app) w in
        if nrc \<noteq> 0 then tm_reject 0x38 status nrc tm w
        else (case ta_RequestReadFile app filePathAndName dataFormat w of
            (Inl e, w1) \<Rightarrow> tm_reject 0x38 status (word_of_int e) tm w1
          | (Inr (uncompressedSize, compressedSize, md5), w1) \<Rightarrow>
              (case tm_respond (fillMD5 md5 (Write_u64 compressedSize (Write_u64 uncompressedSize
                      (Write_u16 8 (file_answer kReadFile dataFormat tm))))) status tm w1 of
                 (r, tm1, w2) \<Rightarrow> (r, start_file_transfer kReadFile compressedSize tm1, w2)))))"

definition readDir_request ::
  "'w transfer_app \<Rightarrow> ResponseStatusType \<Rightarrow> bytes \<Rightarrow> nat \<Rightarrow> transfer_manager \<Rightarrow> 'w \<Rightarrow> 'w tm_result" where
  "readDir_request app status body p tm w =
     (case ReadUint16 body p of (filePathAndNameLength, p1) \<Rightarrow>
      if filePathAndNameLength = 0 \<or> 4 + unat filePathAndNameLength \<noteq> length body
      then tm_reject 0x38 status (nrc_code kIncorrectMessageLengthOrInvalidFormat) tm w
      else (case ReadString_uds (unat filePathAndNameLength) body p1 of (filePathAndName, p2) \<Rightarrow>
        let nrc = check_condition (ta_file_condition app) w in
        if nrc \<noteq> 0 then tm_reject 0x38 status nrc tm w
        else (case ta_RequestReadDirectory app filePathAndName w of
            (Inl e, w1) \<Rightarrow> tm_reject 0x38 status (word_of_int e) tm w1
          | (Inr (fileSize, md5), w1) \<Rightarrow>
              (case tm_respond (fillMD5 md5 (Write_u64 fileSize (Write_u16 8 (file_answer kReadDir 0 tm)))) status tm w1 of
                 (r, tm1, w2) \<Rightarrow> (r, start_file_transfer kReadDir fileSize tm1, w2)))))"

definition resumeFile ::
  "'w transfer_app \<Rightarrow> ResponseStatusType \<Rightarrow> bytes \<Rightarrow> nat \<Rightarrow> transfer_manager \<Rightarrow> 'w \<Rightarrow> 'w tm_result" where
  "resumeFile app status body p tm w =
     (case parse_write_request body p of
        Inl nrc \<Rightarrow> tm_reject 0x38 status (nrc_code nrc) tm w
      | Inr (filePathAndName, dataFormat, unCompressed, compressed) \<Rightarrow>
          let nrc = check_condition (ta_file_condition app) w in
          if nrc \<noteq> 0 then tm_reject 0x38 status nrc tm w
          else (case ta_RequestResumeWriteFile app filePathAndName dataFormat (unCompressed, compressed, []) w of
              (Inl e, w1) \<Rightarrow> tm_reject 0x38 status (word_of_int e) tm w1
            | (Inr (fileSize, md5), w1) \<Rightarrow>
                (case tm_respond (fillMD5 md5 (Write_u64 fileSize (file_answer kResumeFile dataFormat tm))) status tm w1 of
                   (r, tm1, w2) \<Rightarrow>
                     (r, (start_file_transfer kResumeFile compressed tm1)\<lparr>tm_transfer_size := fileSize\<rparr>, w2))))"

definition requestFileTransfer ::
  "'w transfer_app \<Rightarrow> ResponseStatusType \<Rightarrow> bytes \<Rightarrow> transfer_manager \<Rightarrow> 'w \<Rightarrow> 'w tm_result" where
  "requestFileTransfer app status body tm w =
     (if length body < 5 then tm_reject 0x38 status (nrc_code kIncorrectMessageLengthOrInvalidFormat) tm w
      else (case ReadUint8 body 0 of (_, p1) \<Rightarrow>
        case ReadUint8 body p1 of (modeOfOperation, p2) \<Rightarrow>
        if modeOfOperation < mode_code kAddFile \<or> modeOfOperation > mode_code kResumeFile
        then tm_reject 0x38 status (nrc_code kRequestOutOfRange) tm w
        else if modeOfOperation = mode_code kAddFile then addFile app status body p2 tm w
        else if modeOfOperation = mode_code kDeleteFile then deleteFile_request app status body p2 tm w
        else if modeOfOperation = mode_code kReplaceFile then replaceFile app status body p2 tm w
        else if modeOfOperation = mode_code kReadFile then readFile_request app status body p2 tm w
        else if modeOfOperation = mode_code kReadDir then readDir_request app status body p2 tm w
        else if modeOfOperation = mode_code kResumeFile then resumeFile app status body p2 tm w
        else (None, tm, w)))"

definition TmProcess ::
  "'w transfer_app \<Rightarrow> byte \<Rightarrow> ResponseStatusType \<Rightarrow> bytes \<Rightarrow> transfer_manager \<Rightarrow> 'w \<Rightarrow> 'w tm_result" where
  "TmProcess app sid status body tm w =
     (if sid = 0x34 then requestDownload app status body tm w
      else if sid = 0x35 then requestUpload app status body tm w
      else if sid = 0x36 then transferData app status body tm w
      else if sid = 0x37 then transferExit app status body tm w
      else if sid = 0x38 then requestFileTransfer app status body tm w
      else (None, tm, w))"

end
