(* ===== verification/UdsServer.thy ===== *)
theory UdsServer
  imports UdsServices UdsSecurity TransferManager
begin

text \<open>
  \<open>ServerImpl\<close> (src/src/uds/capi/isoft-uds/src/server/src/server_impl.h and .cpp): the services behind one
  table, what happens to a request from its indication to its end, and the timers around it.

  A request is indicated and queued (\<open>Receive\<close>), taken by a worker (\<open>Take\<close>: entered into the table
  of running requests, its P2 and P4 timers started), and finished (\<open>Finish\<close>: checked, processed, answered
  and confirmed). In between its timers may run out and other requests may be received, taken and finished. The
  steps of taking a request are one step here; what happens when workers interleave inside it is the subject of
  the theory UdsQueue. The services 0x10, 0x22, 0x27, 0x29, 0x2E, 0x31 and 0x34 to 0x38 are modelled,
  others are not configured; neither are service validations of manufacturer and supplier, and meta
  information is not passed on. The authentication manager exists, without testers when it is not
  configured. \<open>us_sent\<close> are the messages given to channels; \<open>us_crashed\<close> says that a null pointer was
  dereferenced.
\<close>

section \<open>State\<close>

datatype observer = OnServer | OnLevels | OnSecurityAccess | OnTransfer | OnData | OnClient u16 | OnApplication nat

datatype level_observer = LevelTransfer | LevelData | LevelApplication nat

record 'w uds_app =
  ua_data :: "'w data_app"
  ua_routine :: "'w routine_app"
  ua_security :: "'w security_app"
  ua_auth :: "'w auth_app"
  ua_transfer :: "'w transfer_app"
  ua_compare :: compare_fun
  ua_depth :: nat
  ua_session :: "nat \<Rightarrow> byte \<Rightarrow> byte \<Rightarrow> 'w \<Rightarrow> 'w"
  ua_level :: "nat \<Rightarrow> byte \<Rightarrow> 'w \<Rightarrow> 'w"

record ServerSetting =
  ss_maxPending :: byte
  ss_responseOnSecondDeclinedRequest :: bool
  ss_maxParallelRequests :: nat
  ss_functional :: "u16 list"
  ss_physical :: u16

text \<open>One transfer service: its validators, block length and P4 times of the services 0x34, 0x36 and 0x37.\<close>

record transfer_instance =
  tv_validators :: "byte sid_validators"
  tv_p4 :: u32
  tv_p4_36 :: u32
  tv_p4_37 :: u32

record server_request =
  rq_sa :: u16
  rq_priority :: byte
  rq_channel :: nat
  rq_stray :: byte
  rq_handle :: u16
  rq_rc :: request_context

record 'w uds_server =
  us_setting :: ServerSetting
  us_sm :: "observer session_manager"
  us_lm :: "level_observer security_manager"
  us_am :: auth_manager
  us_storage :: persistence
  us_dm :: "data_manager option"
  us_conditions :: "(int \<rightharpoonup> EnvironmentalConditionModel) option"
  us_x10 :: "x10 option"
  us_x22 :: "did_service option"
  us_x27 :: "x27 option"
  us_x29 :: "u16 list option"
  us_x2e :: "did_service option"
  us_x31 :: "x31 option"
  us_tm :: transfer_manager
  us_transfers :: "RequestServerType \<rightharpoonup> transfer_instance"
  us_priority :: byte
  us_lock :: bool
  us_s3 :: bool
  us_states :: "u16 \<rightharpoonup> RequestContextState"
  us_running :: "(u16 \<times> server_request) list"
  us_queue :: "server_request list"
  us_responses :: "(nat \<times> bytes option) list"
  us_handles :: "u16 list"
  us_sent :: "(nat \<times> bytes) list"
  us_crashed :: bool
  us_w :: 'w

definition us_new :: "ServerSetting \<Rightarrow> 'w \<Rightarrow> 'w uds_server" where
  "us_new setting w = \<lparr>us_setting = setting, us_sm = sm_new, us_lm = lm_new, us_am = am_Initialize [] 0 [],
     us_storage = \<lparr>ps_serverAddr = ss_physical setting, ps_store = None\<rparr>,
     us_dm = None, us_conditions = None, us_x10 = None, us_x22 = None, us_x27 = None, us_x29 = None, us_x2e = None, us_x31 = None,
     us_tm = tm_new 0 0 0, us_transfers = Map.empty, us_priority = 0, us_lock = False, us_s3 = False, us_states = Map.empty,
     us_running = [], us_queue = [], us_responses = [], us_handles = [], us_sent = [], us_crashed = False, us_w = w\<rparr>"

section \<open>Changes of session and security level\<close>

fun notify_level :: "'w uds_app \<Rightarrow> level_observer \<Rightarrow> byte \<Rightarrow> 'w uds_server \<Rightarrow> 'w uds_server" where
  "notify_level app LevelTransfer i s = s\<lparr>us_tm := on_security_level_change (us_tm s)\<rparr>"
| "notify_level app LevelData i s = s\<lparr>us_dm := map_option (dm_on_level_change i) (us_dm s)\<rparr>"
| "notify_level app (LevelApplication n) i s = s\<lparr>us_w := ua_level app n i (us_w s)\<rparr>"

definition isNonDefaultSession :: "'w uds_server \<Rightarrow> bool" where
  "isNonDefaultSession s \<longleftrightarrow> sm_current (us_sm s) \<noteq> 1"

definition updateNonDefaultPriority :: "byte \<Rightarrow> 'w uds_server \<Rightarrow> 'w uds_server" where
  "updateNonDefaultPriority newSessionId s =
     (if newSessionId \<noteq> 1
      then (case map_of (us_running s) (sm_client (us_sm s)) of None \<Rightarrow> s | Some r \<Rightarrow> s\<lparr>us_priority := rq_priority r\<rparr>)
      else s\<lparr>us_priority := 255\<rparr>)"

fun notify_session :: "'w uds_app \<Rightarrow> observer \<Rightarrow> byte \<Rightarrow> byte \<Rightarrow> 'w uds_server \<Rightarrow> 'w uds_server" where
  "notify_session app OnServer old new s = updateNonDefaultPriority new s"
| "notify_session app OnLevels old new s = (case lock_on_session_change old new (us_lm s) of (notes, lm) \<Rightarrow>
     fold (\<lambda>(cb, i). notify_level app cb i) notes (s\<lparr>us_lm := lm\<rparr>))"
| "notify_session app OnSecurityAccess old new s = s\<lparr>us_x27 := map_option x27_on_session_change (us_x27 s)\<rparr>"
| "notify_session app OnTransfer old new s = s\<lparr>us_tm := on_session_change old new (us_tm s)\<rparr>"
| "notify_session app OnData old new s = s\<lparr>us_dm := map_option (dm_on_session_change new) (us_dm s)\<rparr>"
| "notify_session app (OnClient a) old new s = s\<lparr>us_am := update_client a (ca_on_session_change new) (us_am s)\<rparr>"
| "notify_session app (OnApplication n) old new s = s\<lparr>us_w := ua_session app n old new (us_w s)\<rparr>"

definition notify_all :: "'w uds_app \<Rightarrow> (observer \<times> byte \<times> byte) list \<Rightarrow> 'w uds_server \<Rightarrow> 'w uds_server" where
  "notify_all app notes s = fold (\<lambda>(cb, old, new). notify_session app cb old new) notes s"

definition us_SetSession :: "'w uds_app \<Rightarrow> byte \<Rightarrow> u16 \<Rightarrow> 'w uds_server \<Rightarrow> 'w uds_server" where
  "us_SetSession app i client s = (case SetSession i client (us_sm s) of (notes, sm) \<Rightarrow> notify_all app notes (s\<lparr>us_sm := sm\<rparr>))"

definition ResetDefaultSession :: "'w uds_app \<Rightarrow> 'w uds_server \<Rightarrow> 'w uds_server" where
  "ResetDefaultSession app s = us_SetSession app 1 0 s"

definition s3Timeout :: "'w uds_app \<Rightarrow> 'w uds_server \<Rightarrow> 'w uds_server" where
  "s3Timeout app s =
     (let client = sm_client (us_sm s); s1 = us_SetSession app 1 0 s in
      case GetClientAuthentication OnClient client (us_sm s1, us_am s1) of
        (None, sm, am) \<Rightarrow> s1\<lparr>us_sm := sm, us_am := am\<rparr>
      | (Some _, sm, am) \<Rightarrow> s1\<lparr>us_sm := sm, us_am := update_client client ca_Default am\<rparr>)"

definition with_client :: "u16 \<Rightarrow> (client_auth \<Rightarrow> client_auth) \<Rightarrow> 'w uds_server \<Rightarrow> 'w uds_server" where
  "with_client a f s = (case GetClientAuthentication OnClient a (us_sm s, us_am s) of
     (None, sm, am) \<Rightarrow> s\<lparr>us_sm := sm, us_am := am\<rparr>
   | (Some _, sm, am) \<Rightarrow> s\<lparr>us_sm := sm, us_am := update_client a f am\<rparr>)"

section \<open>Services\<close>

text \<open>The validators of the transfer services, chosen by the service and the transfer under way; a
  security level is never asked for.\<close>

definition transfer_check :: "'w uds_server \<Rightarrow> u16 \<Rightarrow> bytes \<Rightarrow> RequestServerType \<Rightarrow> observer auth_state \<Rightarrow> check \<times> observer auth_state" where
  "transfer_check s sa body ty st = (case us_transfers s ty of
     None \<Rightarrow> (Granted, st)
   | Some t \<Rightarrow> (case (case vs_auth (tv_validators t) of None \<Rightarrow> (True, st) | Some tab \<Rightarrow> ServerAuth_Validate OnClient sa body tab st) of
       (ok, st') \<Rightarrow>
         (if \<not> ok then Refused kAuthenticationRequired
          else if \<not> ServerSession_Validate (fst st') (vs_session (tv_validators t)) then Refused kServiceNotSupportedInActiveSession
          else Granted, st')))"

fun transfer_checks ::
  "'w uds_server \<Rightarrow> u16 \<Rightarrow> bytes \<Rightarrow> RequestServerType list \<Rightarrow> observer auth_state \<Rightarrow> check \<times> observer auth_state" where
  "transfer_checks s sa body [] st = (Granted, st)"
| "transfer_checks s sa body (ty # tys) st = (case transfer_check s sa body ty st of
     (Granted, st') \<Rightarrow> transfer_checks s sa body tys st' | (c, st') \<Rightarrow> (c, st'))"

definition transfer_types :: "byte \<Rightarrow> transfer_manager \<Rightarrow> RequestServerType list" where
  "transfer_types sid tm =
     (if sid = 0x34 \<or> tm_type tm = kDownload then [kDownload] else []) @
     (if sid = 0x35 \<or> tm_type tm = kUpload then [kUpload] else []) @
     (if sid = 0x38 \<or> tm_type tm = kFileTransfer then [kFileTransfer] else [])"

definition transfer_known :: "'w uds_server \<Rightarrow> byte \<Rightarrow> bool" where
  "transfer_known s sid \<longleftrightarrow>
     sid = 0x34 \<and> us_transfers s kDownload \<noteq> None \<or> sid = 0x35 \<and> us_transfers s kUpload \<noteq> None \<or>
     sid = 0x38 \<and> us_transfers s kFileTransfer \<noteq> None \<or>
     (sid = 0x36 \<or> sid = 0x37) \<and> (us_transfers s kDownload \<noteq> None \<or> us_transfers s kUpload \<noteq> None \<or> us_transfers s kFileTransfer \<noteq> None)"

definition GetServiceBySid :: "'w uds_server \<Rightarrow> byte \<Rightarrow> bool" where
  "GetServiceBySid s sid \<longleftrightarrow>
     sid = 0x10 \<and> us_x10 s \<noteq> None \<or> sid = 0x22 \<and> us_x22 s \<noteq> None \<or> sid = 0x27 \<and> us_x27 s \<noteq> None \<or> sid = 0x29 \<and> us_x29 s \<noteq> None \<or>
     sid = 0x2E \<and> us_x2e s \<noteq> None \<or> sid = 0x31 \<and> us_x31 s \<noteq> None \<or> transfer_known s sid"

definition us_sid_check :: "u16 \<Rightarrow> byte \<Rightarrow> bytes \<Rightarrow> 'w uds_server \<Rightarrow> check \<times> observer auth_state" where
  "us_sid_check sa sid body s =
     (let st = (us_sm s, us_am s); lm = us_lm s in
      if sid = 0x10 then (case us_x10 s of None \<Rightarrow> (Granted, st) | Some x \<Rightarrow> sid_check OnClient sa body (x10_validators x) lm st)
      else if sid = 0x22 then (case us_x22 s of None \<Rightarrow> (Granted, st) | Some x \<Rightarrow> sid_check OnClient sa body (dv_validators x) lm st)
      else if sid = 0x27 then (case us_x27 s of None \<Rightarrow> (Granted, st) | Some x \<Rightarrow> sid_check OnClient sa body (x_validators x) lm st)
      else if sid = 0x2E then (case us_x2e s of None \<Rightarrow> (Granted, st) | Some x \<Rightarrow> sid_check OnClient sa body (dv_validators x) lm st)
      else if sid = 0x31 then (case us_x31 s of None \<Rightarrow> (Granted, st) | Some x \<Rightarrow> sid_check OnClient sa body (x31_validators x) lm st)
      else if sid = 0x29 then (Granted, st)
      else transfer_checks s sa body (transfer_types sid (us_tm s)) st)"

definition GetP4ServerMax :: "byte \<Rightarrow> bytes \<Rightarrow> 'w uds_server \<Rightarrow> u32" where
  "GetP4ServerMax sid body s =
     (if sid = 0x10 then case_option 0 x10_p4 (us_x10 s)
      else if sid = 0x22 then case_option 0 dv_p4 (us_x22 s)
      else if sid = 0x27 then case_option 0 x_p4 (us_x27 s)
      else if sid = 0x2E then case_option 0 dv_p4 (us_x2e s)
      else if sid = 0x31 then (case us_x31 s of None \<Rightarrow> 0
        | Some x \<Rightarrow> x31_GetP4ServerMax x (fst (ReadUint8 body 1)) (fst (ReadUint16 body 2)))
      else if sid = 0x34 then case_option 0 tv_p4 (us_transfers s kDownload)
      else if sid = 0x35 then case_option 0 tv_p4 (us_transfers s kUpload)
      else if sid = 0x38 then case_option 0 tv_p4 (us_transfers s kFileTransfer)
      else if sid = 0x36 then case_option 0 tv_p4_37 (us_transfers s (tm_type (us_tm s)))
      else if sid = 0x37 then case_option 0 tv_p4_36 (us_transfers s (tm_type (us_tm s)))
      else 0)"

section \<open>Setting up\<close>

definition Initialize_sessions ::
  "SessionModel list \<Rightarrow> SessionControlInstanceConfig list \<Rightarrow> u32 \<Rightarrow> 'w uds_server \<Rightarrow> 'w uds_server init" where
  "Initialize_sessions sessions instances p4ServerMax s =
     (case sm_Initialize sessions (us_sm s) of (result, sm) \<Rightarrow>
      if result \<noteq> 0 then NotStarted
      else (let s1 = s\<lparr>us_sm := snd (AddNotifyOfSessionChange OnServer sm)\<rparr> in
        if instances = [] then Started s1
        else init_bind (init_of (x10_Initialize instances p4ServerMax (us_sm s1) (us_lm s1) x10_new)) (\<lambda>x. Started (s1\<lparr>us_x10 := Some x\<rparr>))))"

definition Initialize_security ::
  "SecurityLevelConfig list \<Rightarrow> SecurityAccessInstanceConfig list \<Rightarrow> u32 \<Rightarrow> bool \<Rightarrow> u32 \<Rightarrow> 'w uds_server \<Rightarrow> 'w uds_server init" where
  "Initialize_security levels instances delayOnBoot sharedTimer p4ServerMax s =
     (case lm_Initialize OnLevels levels (us_sm s) (us_lm s) of (result, sm, lm) \<Rightarrow>
      if result \<noteq> 0 then NotStarted
      else if instances = [] then NotStarted
      else init_bind (init_of (x27_Initialize OnSecurityAccess instances delayOnBoot sharedTimer p4ServerMax sm lm (x27_new (us_storage s))))
        (\<lambda>(sm, lm, x). Started (s\<lparr>us_sm := sm, us_lm := lm, us_x27 := Some x\<rparr>)))"

definition Initialize_data ::
  "DiagnosticDataModelManager \<Rightarrow> EnvironmentalConditionModel list \<Rightarrow> (did_config list \<times> nat \<times> u32) option \<Rightarrow> (did_config list \<times> u32) option \<Rightarrow>
     'w uds_server \<Rightarrow> 'w uds_server init" where
  "Initialize_data didManager conditions x22 x2e s =
     (case dm_Initialize OnData LevelData didManager (us_sm s) (us_lm s) (dm_new (us_storage s)) of (result, sm, lm, dm) \<Rightarrow>
      if result \<noteq> 0 then NotStarted
      else init_bind (if conditions = [] then Started (us_conditions s) else init_of (map_option Some (Conditions_Initialize conditions Map.empty)))
        (\<lambda>conds.
      let s1 = s\<lparr>us_sm := sm, us_lm := lm, us_dm := Some dm, us_conditions := conds\<rparr> in
      init_bind (case x22 of None \<Rightarrow> Started s1
                 | Some (table, maxDidToRead, p4) \<Rightarrow> init_bind (x22_Initialize table maxDidToRead p4 conds sm lm dm did_service_new)
                     (\<lambda>x. Started (s1\<lparr>us_x22 := Some x\<rparr>)))
        (\<lambda>s2.
      case x2e of None \<Rightarrow> Started s2
      | Some (table, p4) \<Rightarrow> init_bind (x2e_Initialize table p4 conds sm lm dm did_service_new) (\<lambda>x. Started (s2\<lparr>us_x2e := Some x\<rparr>)))))"

definition Initialize_routines :: "RoutineControlInstanceConfig list \<Rightarrow> bool \<Rightarrow> 'w uds_server \<Rightarrow> 'w uds_server init" where
  "Initialize_routines table has_interface s =
     init_bind (init_of (x31_Initialize table has_interface (us_sm s) (us_lm s) x31_new)) (\<lambda>x. Started (s\<lparr>us_x31 := Some x\<rparr>))"

record transfer_config =
  tc_auth :: "string list option"
  tc_sessions :: "byte list"
  tc_levels :: "byte list"
  tc_condition :: int
  tc_max :: u32
  tc_p4 :: u32
  tc_p4_36 :: u32
  tc_p4_37 :: u32

definition init_transfer :: "'w uds_server \<Rightarrow> transfer_config \<Rightarrow> transfer_instance init" where
  "init_transfer s c =
     init_bind (init_of (register_validators (0 :: byte) (tc_auth c) (tc_sessions c) (tc_levels c) (us_sm s) (us_lm s) no_validators))
       (\<lambda>(vs, _, _).
     if tc_condition c \<ge> 0 \<and> us_conditions s = None then InitCrashed
     else if tc_condition c \<ge> 0 \<and> the (us_conditions s) (tc_condition c) = None then NotStarted
     else Started \<lparr>tv_validators = vs, tv_p4 = tc_p4 c, tv_p4_36 = tc_p4_36 c, tv_p4_37 = tc_p4_37 c\<rparr>)"

definition add_transfer :: "RequestServerType \<Rightarrow> transfer_config option \<Rightarrow> 'w uds_server \<Rightarrow> 'w uds_server init" where
  "add_transfer ty c s = (case c of None \<Rightarrow> Started s
     | Some c \<Rightarrow> init_bind (init_transfer s c) (\<lambda>t. Started (s\<lparr>us_transfers := (us_transfers s)(ty \<mapsto> t)\<rparr>)))"

text \<open>The block lengths; the conditions of the configuration are part of the application, which the transfer
  manager asks.\<close>

definition Initialize_transfers ::
  "transfer_config option \<Rightarrow> transfer_config option \<Rightarrow> transfer_config option \<Rightarrow> 'w uds_server \<Rightarrow> 'w uds_server init" where
  "Initialize_transfers download upload file s =
     (let s1 = s\<lparr>us_sm := snd (AddNotifyOfSessionChange OnTransfer (us_sm s)),
                us_lm := snd (AddNotifyOfSecurityLevelChange LevelTransfer (us_lm s)),
                us_tm := tm_new (case_option 0 tc_max download) (case_option 0 tc_max upload) (case_option 0 tc_max file)\<rparr> in
      init_bind (add_transfer kDownload download s1) (\<lambda>s2.
      init_bind (add_transfer kUpload upload s2) (add_transfer kFileTransfer file)))"

definition Initialize_authentication ::
  "AuthRole list \<Rightarrow> u32 \<Rightarrow> (u16 \<times> u16) list \<Rightarrow> u16 list \<Rightarrow> 'w uds_server \<Rightarrow> 'w uds_server" where
  "Initialize_authentication roles timeout external evaluations s =
     s\<lparr>us_am := am_Initialize roles timeout external, us_x29 := Some evaluations\<rparr>"

section \<open>Processing a request\<close>

definition us_check :: "'w uds_app \<Rightarrow> 'w uds_server \<Rightarrow> EnvironmentalConditionModel \<Rightarrow> 'w \<Rightarrow> (byte \<times> 'w) option" where
  "us_check app s c w = (case us_dm s of
     None \<Rightarrow> if ec_parts c = [] then Some (0, w) else None
   | Some dm \<Rightarrow> Condition_Check (ua_compare app) (ua_data app) dm c w)"

definition us_read :: "'w uds_app \<Rightarrow> 'w uds_server \<Rightarrow> u16 list \<Rightarrow> 'w \<Rightarrow> ((u16 \<times> bytes) list uds_result \<times> 'w) option" where
  "us_read app s ids w = (case us_dm s of None \<Rightarrow> None | Some dm \<Rightarrow> dm_Read (ua_depth app) (ua_data app) dm ids w)"

definition removeRequestHandler :: "u16 \<Rightarrow> 'w uds_server \<Rightarrow> 'w uds_server" where
  "removeRequestHandler h s = s\<lparr>us_handles := filter (\<lambda>k. k \<noteq> h) (us_handles s)\<rparr>"

text \<open>\<open>ServerImpl::Confirm\<close>. Of the services that answer with a reply only session control acts on it.\<close>

definition us_Confirm :: "'w uds_app \<Rightarrow> server_request \<Rightarrow> ResponseStatusType \<Rightarrow> 'w uds_server \<Rightarrow> 'w uds_server" where
  "us_Confirm app r status s =
     removeRequestHandler (rq_handle r)
       (if rc_sid (rq_rc r) = 0x10
        then (case us_x10 s of None \<Rightarrow> s | Some x \<Rightarrow> (case x10_Confirm (rq_sa r) status x (us_sm s) of (notes, sm) \<Rightarrow>
                notify_all app notes (s\<lparr>us_sm := sm\<rparr>)))
        else s)"

definition us_reply :: "'w uds_app \<Rightarrow> server_request \<Rightarrow> reply \<Rightarrow> 'w uds_server \<Rightarrow> server_request \<times> 'w uds_server" where
  "us_reply app r rep s = (case rep of
     Silent \<Rightarrow> (r, s)
   | Crash \<Rightarrow> (r, s\<lparr>us_crashed := True\<rparr>)
   | Reply msg \<Rightarrow> (let rc = RcRespond (rq_stray r) msg (rq_rc r) in
       (r\<lparr>rq_rc := rc\<rparr>, us_Confirm app r (last (rc_confirmed rc)) s)))"

text \<open>A refusal that the service is not told of.\<close>

definition us_refuse :: "server_request \<Rightarrow> NrcErrc \<Rightarrow> 'w uds_server \<Rightarrow> server_request \<times> 'w uds_server" where
  "us_refuse r nrc s =
     (r\<lparr>rq_rc := RcRespond (rq_stray r) (CreateNegativeResponse (rc_sid (rq_rc r)) nrc) (rq_rc r)\<rparr>, removeRequestHandler (rq_handle r) s)"

definition over_server :: "('w \<Rightarrow> 'a \<times> 'w) \<Rightarrow> 'w uds_server \<Rightarrow> 'a \<times> 'w uds_server" where
  "over_server f s = (case f (us_w s) of (a, w) \<Rightarrow> (a, s\<lparr>us_w := w\<rparr>))"

definition server_security_app :: "'w security_app \<Rightarrow> 'w uds_server security_app" where
  "server_security_app app = \<lparr>sa_GetSeed = \<lambda>i b. over_server (sa_GetSeed app i b), sa_CompareKey = \<lambda>i b. over_server (sa_CompareKey app i b)\<rparr>"

definition process_x27 :: "'w uds_app \<Rightarrow> server_request \<Rightarrow> x27 \<Rightarrow> 'w uds_server \<Rightarrow> server_request \<times> 'w uds_server" where
  "process_x27 app r x s =
     (case GeneralService_check OnClient (rq_sa r) (rc_body (rq_rc r)) (x27_service x) (us_lm s) (us_sm s, us_am s) of (c, sm, am) \<Rightarrow>
      let e = \<lparr>xe_rc = rq_rc r, xe_x = x, xe_lm = us_lm s, xe_w = s\<lparr>us_sm := sm, us_am := am\<rparr>\<rparr> in
      case (case c of
              Granted \<Rightarrow> x27_ParseAndResponse (notify_level app) (server_security_app (ua_security app)) (rq_stray r) e
            | Refused nrc \<Rightarrow> Some (x27_reject (notify_level app) (rq_stray r) nrc e)
            | Crashed \<Rightarrow> None) of
        None \<Rightarrow> (r, s\<lparr>us_crashed := True\<rparr>)
      | Some e' \<Rightarrow> (r\<lparr>rq_rc := xe_rc e'\<rparr>, removeRequestHandler (rq_handle r) ((xe_w e')\<lparr>us_x27 := Some (xe_x e'), us_lm := xe_lm e'\<rparr>)))"

text \<open>The transfer manager is told how the delivery of its answer ended; the answer does not depend on
  that.\<close>

definition process_transfer :: "'w uds_app \<Rightarrow> server_request \<Rightarrow> 'w uds_server \<Rightarrow> server_request \<times> 'w uds_server" where
  "process_transfer app r s =
     (let sid = rc_sid (rq_rc r); body = rc_body (rq_rc r) in
      case TmProcess (ua_transfer app) sid kResPosOk body (us_tm s) (us_w s) of
        (None, tm, w) \<Rightarrow> (r, s\<lparr>us_tm := tm, us_w := w\<rparr>)
      | (Some msg, _, _) \<Rightarrow>
          (let rc = RcRespond (rq_stray r) msg (rq_rc r) in
           case TmProcess (ua_transfer app) sid (last (rc_confirmed rc)) body (us_tm s) (us_w s) of
             (_, tm, w) \<Rightarrow> (r\<lparr>rq_rc := rc\<rparr>, removeRequestHandler (rq_handle r) (s\<lparr>us_tm := tm, us_w := w\<rparr>))))"

definition process :: "'w uds_app \<Rightarrow> server_request \<Rightarrow> 'w uds_server \<Rightarrow> server_request \<times> 'w uds_server" where
  "process app r s =
     (let sid = rc_sid (rq_rc r); body = rc_body (rq_rc r); st = (us_sm s, us_am s) in
      if sid = 0x10 then (case us_x10 s of None \<Rightarrow> (r, s) | Some x \<Rightarrow>
        (case x10_Process OnClient (rq_sa r) body (us_lm s) st x of (rep, (sm, am), x') \<Rightarrow>
           us_reply app r rep (s\<lparr>us_sm := sm, us_am := am, us_x10 := Some x'\<rparr>)))
      else if sid = 0x22 then (case us_x22 s of None \<Rightarrow> (r, s) | Some x \<Rightarrow>
        (case x22_Process OnClient (us_check app s) (us_read app s) (rq_sa r) body x (us_lm s) st (us_w s) of (rep, (sm, am), w) \<Rightarrow>
           us_reply app r rep (s\<lparr>us_sm := sm, us_am := am, us_w := w\<rparr>)))
      else if sid = 0x2E then (case us_x2e s of None \<Rightarrow> (r, s) | Some x \<Rightarrow>
        (case x2e_Process OnClient (us_check app s) (ua_data app) (rq_sa r) body x (us_lm s) st (us_w s) of (rep, (sm, am), w) \<Rightarrow>
           us_reply app r rep (s\<lparr>us_sm := sm, us_am := am, us_w := w\<rparr>)))
      else if sid = 0x31 then (case us_x31 s of None \<Rightarrow> (r, s) | Some x \<Rightarrow>
        (case x31_Process OnClient (us_check app s) (ua_routine app) (rq_sa r) body x (us_lm s) st (us_w s) of (rep, (sm, am), w) \<Rightarrow>
           us_reply app r rep (s\<lparr>us_sm := sm, us_am := am, us_w := w\<rparr>)))
      else if sid = 0x27 then (case us_x27 s of None \<Rightarrow> (r, s) | Some x \<Rightarrow> process_x27 app r x s)
      else if sid = 0x29 then (case us_x29 s of None \<Rightarrow> (r, s) | Some evaluations \<Rightarrow>
        (case x29_Process OnClient (ua_auth app) evaluations (rq_sa r) body st (us_w s) of (msg, (sm, am), w) \<Rightarrow>
           us_reply app r (case msg of None \<Rightarrow> Silent | Some m \<Rightarrow> Reply m) (s\<lparr>us_sm := sm, us_am := am, us_w := w\<rparr>)))
      else process_transfer app r s)"

text \<open>\<open>_hanldeRequestContext\<close> after the timers were started.\<close>

definition handleRequestContext :: "'w uds_app \<Rightarrow> server_request \<Rightarrow> 'w uds_server \<Rightarrow> server_request \<times> 'w uds_server" where
  "handleRequestContext app r s =
     (let sid = rc_sid (rq_rc r) in
      if \<not> GetServiceBySid s sid then us_refuse r kServiceNotSupported s
      else (case us_sid_check (rq_sa r) sid (rc_body (rq_rc r)) s of
          (Granted, sm, am) \<Rightarrow> process app r (s\<lparr>us_sm := sm, us_am := am\<rparr>)
        | (Refused nrc, sm, am) \<Rightarrow> us_refuse r nrc (s\<lparr>us_sm := sm, us_am := am\<rparr>)
        | (Crashed, sm, am) \<Rightarrow> (r, s\<lparr>us_sm := sm, us_am := am, us_crashed := True\<rparr>)))"

section \<open>Receiving a request\<close>

definition isRequestState :: "u16 \<Rightarrow> 'w uds_server \<Rightarrow> bool" where
  "isRequestState client s \<longleftrightarrow> us_states s client = Some kRequest_ctx"

definition updateRequestContextStateTable :: "u16 \<Rightarrow> RequestContextState \<Rightarrow> 'w uds_server \<Rightarrow> 'w uds_server" where
  "updateRequestContextStateTable client state s = s\<lparr>us_states := (us_states s)(client \<mapsto> state)\<rparr>"

text \<open>Cancelling the running request of a client.\<close>

definition cancel_running :: "u16 \<Rightarrow> 'w uds_server \<Rightarrow> 'w uds_server" where
  "cancel_running client s = (case map_of (us_running s) client of
     None \<Rightarrow> s
   | Some r \<Rightarrow>
       (let rc = RcCancelled (rq_rc r) in
        updateRequestContextStateTable client (rc_state rc) (s\<lparr>us_running := table_update client (\<lambda>r. r\<lparr>rq_rc := rc\<rparr>) (us_running s)\<rparr>)))"

text \<open>The last running request with a lower priority than the new one; a smaller number is a higher
  priority.\<close>

definition lower_client :: "byte \<Rightarrow> (u16 \<times> server_request) list \<Rightarrow> u16" where
  "lower_client priority running = fold (\<lambda>(client, r) a. if priority < rq_priority r then client else a) running 0"

definition prioritize :: "'w uds_app \<Rightarrow> u16 \<Rightarrow> byte \<Rightarrow> 'w uds_server \<Rightarrow> bool \<times> 'w uds_server" where
  "prioritize app newClient priority s =
     (let client = sm_client (us_sm s) in
      if newClient = client then (True, s)
      else if isNonDefaultSession s then
        (if priority < us_priority s
         then (True, if map_of (us_running s) client \<noteq> None then cancel_running client s else ResetDefaultSession app s)
         else (False, s))
      else if length (us_running s) = ss_maxParallelRequests (us_setting s) then
        (let lowest = lower_client priority (us_running s) in
         if lowest = 0
         then (True, (if \<exists>(c, r) \<in> set (us_running s). priority < rq_priority r then cancel_running 0 s else s)
                       \<lparr>us_running := table_erase 0 (us_running s)\<rparr>)
         else (False, s))
      else (True, s))"

record message =
  ms_sa :: u16
  ms_ta :: u16
  ms_body :: bytes
  ms_priority :: byte
  ms_channel :: nat
  ms_sends :: "bool list"
  ms_stray :: byte

definition put_response :: "nat \<Rightarrow> bytes option \<Rightarrow> 'w uds_server \<Rightarrow> 'w uds_server" where
  "put_response channel msg s = s\<lparr>us_responses := table_insert channel msg (us_responses s)\<rparr>"

definition tester_present :: "bytes \<Rightarrow> bytes option" where
  "tester_present body =
     (if length body \<noteq> 2 then Some (CreateNegativeResponse 0x3E kIncorrectMessageLengthOrInvalidFormat)
      else if body ! 1 = 0x00 then Some [0x3E OR kResponseServiceIdMask, 0x00]
      else if body ! 1 = 0x80 then None
      else Some (CreateNegativeResponse 0x3E kSubfunctionNotSupported))"

definition Indicate :: "'w uds_app \<Rightarrow> message \<Rightarrow> 'w uds_server \<Rightarrow> bool \<times> 'w uds_server" where
  "Indicate app m s0 =
     (let sid = fst (ReadUint8 (ms_body m) 0); s = s0\<lparr>us_s3 := False\<rparr>; busy = Some (CreateNegativeResponse sid kBusyRepeatRequest) in
      if us_lock s then (True, put_response (ms_channel m) busy s)
      else if sid = 0x3E then
        (True, (let s1 = put_response (ms_channel m) (tester_present (ms_body m)) s in
                if isRequestState (ms_sa m) s1 then s1 else s1\<lparr>us_s3 := True\<rparr>))
      else if isRequestState (ms_sa m) s then (False, s)
      else (case prioritize app (ms_sa m) (ms_priority m) s of
          (True, s1) \<Rightarrow> (True, s1)
        | (False, s1) \<Rightarrow> if ss_responseOnSecondDeclinedRequest (us_setting s1) then (True, put_response (ms_channel m) busy s1) else (False, s1)))"

text \<open>The first free number for a request, 65535 when all others are taken.\<close>

function alloc_handle :: "u16 \<Rightarrow> u16 list \<Rightarrow> u16" where
  "alloc_handle i hs = (if i = 0xFFFF then 0xFFFF else if i \<in> set hs then alloc_handle (i + 1) hs else i)"
  by pat_completeness auto
termination
proof (relation "measure (\<lambda>(i, hs). 65535 - unat i)")
  fix i :: u16
  assume i: "i \<noteq> 0xFFFF"
  have "unat i < 65535"
  proof (rule ccontr)
    assume "\<not> unat i < 65535"
    moreover have "unat i < 2 ^ LENGTH(16)" by (rule unsigned_less)
    ultimately have "unat i = unat (0xFFFF :: u16)" by simp
    then have "i = 0xFFFF" by (rule unsigned_word_eqI)
    with i show False by simp
  qed
  moreover have "unat (i + 1) = Suc (unat i)" if "unat i < 65535" using that by (simp add: unat_word_ariths)
  ultimately show "((i + 1, hs), (i, hs)) \<in> measure (\<lambda>(i, hs). 65535 - unat i)" for hs by simp
qed simp

declare alloc_handle.simps [simp del]

definition allocRequestHandler :: "'w uds_server \<Rightarrow> u16 \<times> 'w uds_server" where
  "allocRequestHandler s =
     (let h = alloc_handle 0 (us_handles s) in
      (h, if h \<in> set (us_handles s) \<or> h = 0xFFFF then s else s\<lparr>us_handles := h # us_handles s\<rparr>))"

definition HandleMessage :: "message \<Rightarrow> 'w uds_server \<Rightarrow> 'w uds_server" where
  "HandleMessage m s = (case map_of (us_responses s) (ms_channel m) of
     Some msg \<Rightarrow>
       s\<lparr>us_sent := us_sent s @ (case msg of None \<Rightarrow> [] | Some b \<Rightarrow> [(ms_channel m, b)]),
         us_responses := table_erase (ms_channel m) (us_responses s)\<rparr>
   | None \<Rightarrow>
       (case allocRequestHandler s of (h, s1) \<Rightarrow>
        let s2 = with_client (ms_sa m) ca_Stop s1 in
        s2\<lparr>us_queue := us_queue s2 @ [\<lparr>rq_sa = ms_sa m, rq_priority = ms_priority m, rq_channel = ms_channel m, rq_stray = ms_stray m,
             rq_handle = h, rq_rc = rc_new (fst (ReadUint8 (ms_body m) 0)) (ms_body m) (ms_ta m) (ss_functional (us_setting s2)) (ms_sends m)\<rparr>]\<rparr>))"

section \<open>Workers and timers\<close>

text \<open>A worker takes the first request unless its client has one running. The current session is one of
  the configured ones, otherwise the server dereferences a null pointer.\<close>

definition take_request :: "'w uds_server \<Rightarrow> 'w uds_server" where
  "take_request s = (case us_queue s of
     [] \<Rightarrow> s
   | r # rs \<Rightarrow>
       if map_of (us_running s) (rq_sa r) \<noteq> None then s
       else (let s1 = s\<lparr>us_queue := rs, us_s3 := False\<rparr> in
         case GetSession (sm_current (us_sm s)) (us_sm s) of
           None \<Rightarrow> s1\<lparr>us_crashed := True\<rparr>
         | Some session \<Rightarrow>
             (let sid = rc_sid (rq_rc r);
                  p4 = (if GetServiceBySid s sid then GetP4ServerMax sid (rc_body (rq_rc r)) s else 0);
                  rc = StartP2ServerTimer (ucast (se_p2ServerMax session)) (ucast (se_p2StarServerMax session)) (ss_maxPending (us_setting s)) p4 (rq_rc r)
              in updateRequestContextStateTable (rq_sa r) (rc_state rc)
                   (s1\<lparr>us_running := table_insert (rq_sa r) (r\<lparr>rq_rc := rc\<rparr>) (us_running s1)\<rparr>))))"

definition finish_request :: "'w uds_app \<Rightarrow> u16 \<Rightarrow> 'w uds_server \<Rightarrow> 'w uds_server" where
  "finish_request app client s = (case map_of (us_running s) client of
     None \<Rightarrow> s
   | Some r \<Rightarrow>
       (case handleRequestContext app r s of (r', s1) \<Rightarrow>
        let s2 = with_client client ca_Refresh s1;
            s3 = (if isNonDefaultSession s2 then s2\<lparr>us_s3 := True\<rparr> else s2);
            rc = RcEnd (rq_rc r')
        in updateRequestContextStateTable client (rc_state rc)
             (s3\<lparr>us_running := table_erase client (us_running s3), us_sent := us_sent s3 @ map (\<lambda>b. (rq_channel r', b)) (rc_sent rc)\<rparr>)))"

text \<open>What happens to a running request between the two: its timers.\<close>

fun is_timer :: "rc_event \<Rightarrow> bool" where
  "is_timer (Answer stray msg) \<longleftrightarrow> False"
| "is_timer EndRequest \<longleftrightarrow> False"
| "is_timer _ \<longleftrightarrow> True"

definition request_timer :: "u16 \<Rightarrow> rc_event \<Rightarrow> 'w uds_server \<Rightarrow> 'w uds_server" where
  "request_timer client ev s = (case map_of (us_running s) client of
     None \<Rightarrow> s
   | Some r \<Rightarrow>
       if is_timer ev
       then (let rc = rc_handle ev (rq_rc r) in
         updateRequestContextStateTable client (rc_state rc) (s\<lparr>us_running := table_update client (\<lambda>r. r\<lparr>rq_rc := rc\<rparr>) (us_running s)\<rparr>))
       else s)"

definition TryLock :: "'w uds_server \<Rightarrow> bool \<times> 'w uds_server" where
  "TryLock s = (if isNonDefaultSession s then (False, s) else (True, s\<lparr>us_lock := True\<rparr>))"

definition Unlock :: "'w uds_server \<Rightarrow> 'w uds_server" where
  "Unlock s = s\<lparr>us_lock := False\<rparr>"

datatype server_event =
    Receive message | Take | Finish u16 | RequestTimer u16 rc_event | S3Expires | ClientExpires u16
  | SharedDelayExpires | LevelDelayExpires byte | LockServer | UnlockServer | ResetSession

definition delay_expires :: "byte \<Rightarrow> 'w uds_server \<Rightarrow> 'w uds_server" where
  "delay_expires i s = (case us_x27 s of
     None \<Rightarrow> s
   | Some x \<Rightarrow> s\<lparr>us_x27 := Some (update_info i (\<lambda>si. si\<lparr>si_timer := False\<rparr>) x), us_lm := SetSecurityTimerElapsed False (us_lm s)\<rparr>)"

fun server_step :: "'w uds_app \<Rightarrow> server_event \<Rightarrow> 'w uds_server \<Rightarrow> 'w uds_server" where
  "server_step app (Receive m) s = (case Indicate app m s of (ok, s1) \<Rightarrow> if ok then HandleMessage m s1 else s1)"
| "server_step app Take s = take_request s"
| "server_step app (Finish client) s = finish_request app client s"
| "server_step app (RequestTimer client ev) s = request_timer client ev s"
| "server_step app S3Expires s = (if us_s3 s then s3Timeout app (s\<lparr>us_s3 := False\<rparr>) else s)"
| "server_step app (ClientExpires a) s = s\<lparr>us_am := update_client a (\<lambda>c. if ca_timer c = None then c else ca_timeout c) (us_am s)\<rparr>"
| "server_step app SharedDelayExpires s = s\<lparr>us_x27 := map_option handleSharedDelayTimer (us_x27 s)\<rparr>"
| "server_step app (LevelDelayExpires i) s = delay_expires i s"
| "server_step app LockServer s = snd (TryLock s)"
| "server_step app UnlockServer s = Unlock s"
| "server_step app ResetSession s = ResetDefaultSession app s"

definition server_run :: "'w uds_app \<Rightarrow> server_event list \<Rightarrow> 'w uds_server \<Rightarrow> 'w uds_server" where
  "server_run app evs s = fold (server_step app) evs s"

end
