(* ===== verification/TransferProps.thy ===== *)
theory TransferProps
  imports TransferManager
begin

text \<open>
  Properties of the transfer services. A history is a list of events: requests of any service
  with any body, delivered or not, and changes of session and security level. In every state a
  history leads to the manager is well formed and answers the next request; blocks reach the
  application once and in order.
\<close>

datatype tm_event = TmRequest byte ResponseStatusType bytes | TmSessionChange byte byte | TmSecurityChange

fun tm_handle :: "'w transfer_app \<Rightarrow> tm_event \<Rightarrow> transfer_manager \<times> 'w \<Rightarrow> transfer_manager \<times> 'w" where
  "tm_handle app (TmRequest sid status body) (tm, w) = snd (TmProcess app sid status body tm w)"
| "tm_handle app (TmSessionChange old new) (tm, w) = (on_session_change old new tm, w)"
| "tm_handle app TmSecurityChange (tm, w) = (on_security_level_change tm, w)"

definition tm_history :: "'w transfer_app \<Rightarrow> tm_event list \<Rightarrow> transfer_manager \<times> 'w \<Rightarrow> transfer_manager \<times> 'w" where
  "tm_history app evs s = fold (tm_handle app) evs s"

section \<open>Well-formed states\<close>

text \<open>The service type is unknown exactly when no transfer runs; a file transfer has one of the modes
  that move data; the previous counter is \<open>-1\<close> or a byte. The state \<open>kTransfer\<close> is never set.\<close>

definition tm_wf :: "transfer_manager \<Rightarrow> bool" where
  "tm_wf tm \<longleftrightarrow>
     (tm_type tm = kUnknow \<longleftrightarrow> tm_state tm = kIdle_state \<or> tm_state tm = kExit) \<and>
     tm_state tm \<noteq> kTransfer \<and> - 1 \<le> tm_previous tm \<and> tm_previous tm \<le> 255 \<and>
     (tm_type tm = kFileTransfer \<longrightarrow> tm_mode tm \<in> {kAddFile, kReplaceFile, kReadFile, kReadDir, kResumeFile})"

definition answers :: "byte \<Rightarrow> bytes \<Rightarrow> bool" where
  "answers sid b \<longleftrightarrow> (\<exists>nrc. b = [0x7F, sid, nrc]) \<or> (\<exists>rest. b = (sid OR 0x40) # rest)"

definition good_result :: "byte \<Rightarrow> 'w tm_result \<Rightarrow> bool" where
  "good_result sid r \<longleftrightarrow> tm_wf (fst (snd r)) \<and> (\<exists>b. fst r = Some b \<and> answers sid b)"

lemma tm_wf_new [simp]: "tm_wf (tm_new d u f)"
  by (simp add: tm_wf_def tm_new_def)

lemma tm_wf_clear [simp]: "tm_wf (clearTransferInfo tm)"
  by (simp add: tm_wf_def clearTransferInfo_def)

lemma tm_wf_Confirm [simp]: "tm_wf tm \<Longrightarrow> tm_wf (TmConfirm status tm)"
  by (simp add: TmConfirm_def)

lemma tm_wf_exit [simp]: "tm_wf ((clearTransferInfo tm)\<lparr>tm_state := kExit\<rparr>)"
  by (simp add: tm_wf_def clearTransferInfo_def)

lemma tm_wf_start [simp]:
  "tm_wf tm \<Longrightarrow> ty = kDownload \<or> ty = kUpload \<Longrightarrow> tm_wf (start_transfer ty n tm)"
  by (auto simp: tm_wf_def start_transfer_def)

lemma tm_wf_start_file [simp]:
  "tm_wf tm \<Longrightarrow> m \<in> {kAddFile, kReplaceFile, kReadFile, kReadDir, kResumeFile} \<Longrightarrow>
   tm_wf (start_file_transfer m n tm)"
  by (auto simp: tm_wf_def start_file_transfer_def)

lemma tm_wf_next [simp]: "tm_wf tm \<Longrightarrow> tm_wf (next_block tm)"
proof -
  assume "tm_wf tm"
  moreover have "- 1 \<le> uint (tm_counter tm)" by (rule order_trans [OF _ uint_ge_0]) simp
  moreover have "uint (tm_counter tm) \<le> 255" using uint_lt2p [of "tm_counter tm"] by simp
  ultimately show ?thesis by (simp add: tm_wf_def next_block_def)
qed

lemma tm_wf_update [simp]:
  "tm_wf (tm\<lparr>tm_transfer_size := n\<rparr>) = tm_wf tm" "tm_wf (tm\<lparr>tm_record := r\<rparr>) = tm_wf tm"
  by (simp_all add: tm_wf_def)

lemma answers_negative [simp]: "answers sid [0x7F, sid, nrc]"
  by (simp add: answers_def)

lemma answers_CreateResponse [simp]: "answers sid (CreateResponse sid)"
  by (simp add: answers_def CreateResponse_def kResponseServiceIdMask_def)

lemma answers_append [simp]: "answers sid b \<Longrightarrow> hd b = sid OR 0x40 \<Longrightarrow> answers sid (b @ x)"
  by (auto simp: answers_def)

lemma positive_answer [simp]: "answers sid (CreateResponse sid @ x)"
  by (simp add: CreateResponse_def kResponseServiceIdMask_def answers_def)

lemmas write_defs = Write_u8_def Write_u16_def Write_u32_def Write_u64_def Write_bytes_def

lemma fillMD5_append: "fillMD5 m data = data @ m"
  by (simp add: fillMD5_def write_defs)

lemma file_answer_append:
  "file_answer m f tm = CreateResponse 0x38 @ mode_code m # 4 # be_bytes 4 (tm_max_file tm) @ [f]"
  by (simp add: file_answer_def write_defs)

lemma good_reject [simp]: "tm_wf tm \<Longrightarrow> good_result sid (tm_reject sid status nrc tm w)"
  by (simp add: good_result_def tm_reject_def CreateNegativeResponse_def)

lemma good_respond [simp]:
  "tm_wf tm \<Longrightarrow> good_result sid (tm_respond (CreateResponse sid @ x) status tm w)"
  by (simp add: good_result_def tm_respond_def)

lemma good_then:
  "good_result sid (r, f (fst (snd y)), snd (snd y)) \<Longrightarrow> fst y = r \<Longrightarrow>
   good_result sid (case y of (r, tm, w) \<Rightarrow> (r, f tm, w))"
  by (cases y) auto

lemma good_respond_then [simp]:
  "tm_wf tm \<Longrightarrow> (\<And>t. tm_wf t \<Longrightarrow> tm_wf (f t)) \<Longrightarrow>
   good_result sid (case tm_respond (CreateResponse sid @ x) status tm w of (r, t, w') \<Rightarrow> (r, f t, w'))"
  by (simp add: good_result_def tm_respond_def)

lemmas handler_splits = sum.split prod.split option.split if_split

lemma requestDownload_good: "tm_wf tm \<Longrightarrow> good_result 0x34 (requestDownload app status body tm w)"
  by (simp add: requestDownload_def Let_def write_defs split: sum.split prod.split)

lemma requestUpload_good: "tm_wf tm \<Longrightarrow> good_result 0x35 (requestUpload app status body tm w)"
  by (simp add: requestUpload_def Let_def write_defs split: sum.split prod.split)

lemma transferExit_good: "tm_wf tm \<Longrightarrow> good_result 0x37 (transferExit app status body tm w)"
  by (simp add: transferExit_def Let_def write_defs split: sum.split prod.split)

lemma transferData_good: "tm_wf tm \<Longrightarrow> good_result 0x36 (transferData app status body tm w)"
proof -
  assume wf: "tm_wf tm"
  have m: "tm_type tm = kDownload \<or> tm_type tm = kUpload \<or> tm_mode tm = kReadFile \<or> tm_mode tm = kReadDir \<or>
      tm_mode tm = kAddFile \<or> tm_mode tm = kReplaceFile \<or> tm_mode tm = kResumeFile" if "tm_type tm \<noteq> kUnknow"
    using wf that by (cases "tm_type tm") (auto simp: tm_wf_def)
  show ?thesis
    using wf m
    by (simp add: transferData_def Let_def write_defs split: sum.split prod.split) blast
qed

lemma write_file_good:
  "tm_wf tm \<Longrightarrow> good_result 0x38 (addFile app status body p tm w)"
  "tm_wf tm \<Longrightarrow> good_result 0x38 (replaceFile app status body p tm w)"
  "tm_wf tm \<Longrightarrow> good_result 0x38 (resumeFile app status body p tm w)"
  by (simp_all add: addFile_def replaceFile_def resumeFile_def Let_def write_defs fillMD5_append file_answer_append
      split: sum.split prod.split)

lemma read_file_good:
  "tm_wf tm \<Longrightarrow> good_result 0x38 (deleteFile_request app status body p tm w)"
  "tm_wf tm \<Longrightarrow> good_result 0x38 (readFile_request app status body p tm w)"
  "tm_wf tm \<Longrightarrow> good_result 0x38 (readDir_request app status body p tm w)"
  by (simp_all add: deleteFile_request_def readFile_request_def readDir_request_def Let_def write_defs fillMD5_append
      file_answer_append split: sum.split prod.split)

lemma byte_between: "(1::byte) \<le> m \<Longrightarrow> m \<le> 6 \<Longrightarrow> m \<in> {1, 2, 3, 4, 5, 6}"
proof -
  assume a: "1 \<le> m" "m \<le> 6"
  then have "unat m \<in> {1..6}" by (simp add: word_le_nat_alt)
  then have "unat m \<in> {1, 2, 3, 4, 5, 6}" by auto
  then show ?thesis by (auto simp: word_unat_eq_iff)
qed

lemma requestFileTransfer_good: "tm_wf tm \<Longrightarrow> good_result 0x38 (requestFileTransfer app status body tm w)"
proof -
  assume wf: "tm_wf tm"
  have m: "m < 1 \<or> 6 < m \<or> m = 1 \<or> m = 2 \<or> m = 3 \<or> m = 4 \<or> m = 5 \<or> m = 6" for m :: byte
    by (metis byte_between insert_iff singletonD not_less)
  show ?thesis
    using wf m by (simp add: requestFileTransfer_def write_file_good read_file_good split: prod.split) metis
qed


lemma TmProcess_good:
  "tm_wf tm \<Longrightarrow> sid \<in> {0x34, 0x35, 0x36, 0x37, 0x38} \<Longrightarrow> good_result sid (TmProcess app sid status body tm w)"
  by (auto simp: TmProcess_def requestDownload_good requestUpload_good transferData_good transferExit_good
      requestFileTransfer_good)

lemma TmProcess_other: "sid \<notin> {0x34, 0x35, 0x36, 0x37, 0x38} \<Longrightarrow> TmProcess app sid status body tm w = (None, tm, w)"
  by (simp add: TmProcess_def)

lemma tm_handle_wf: "tm_wf (fst s) \<Longrightarrow> tm_wf (fst (tm_handle app ev s))"
proof (cases s; cases ev)
  fix tm w sid status body
  assume "tm_wf (fst s)" "s = (tm, w)" "ev = TmRequest sid status body"
  then show ?thesis
    using TmProcess_good [of tm sid app status body w] TmProcess_other [of sid app status body tm w]
    by (cases "sid \<in> {0x34, 0x35, 0x36, 0x37, 0x38}") (auto simp: good_result_def)
qed (simp_all add: on_session_change_def on_security_level_change_def)

lemma tm_history_wf: "tm_wf (fst s) \<Longrightarrow> tm_wf (fst (tm_history app evs s))"
  unfolding tm_history_def by (induction evs arbitrary: s) (simp_all add: tm_handle_wf)

text \<open>An application that keeps the bytes it is given and has no upload or file transfer to offer.\<close>

definition ex_app :: "bytes transfer_app" where
  "ex_app = \<lparr>ta_download_condition = None, ta_upload_condition = None, ta_file_condition = None,
     ta_RequestDownload = (\<lambda>_ _ _ _. (Inr (), [])), ta_DownloadData = (\<lambda>_ d w. (Inr (), w @ d)),
     ta_RequestDownloadExit = (\<lambda>_ w. (Inr [], w)), ta_upload = False,
     ta_RequestUpload = (\<lambda>_ _ _ w. (uds_error kServiceNotSupported, w)),
     ta_UploadData = (\<lambda>_ _ w. (uds_error kServiceNotSupported, w)),
     ta_RequestUploadExit = (\<lambda>_ w. (uds_error kServiceNotSupported, w)),
     ta_RequestReadFile = (\<lambda>_ _ w. (uds_error kServiceNotSupported, w)),
     ta_RequestReadDirectory = (\<lambda>_ w. (uds_error kServiceNotSupported, w)),
     ta_RequestWriteFile = (\<lambda>_ _ _ _ w. (uds_error kServiceNotSupported, w)),
     ta_RequestResumeWriteFile = (\<lambda>_ _ _ w. (uds_error kServiceNotSupported, w)),
     ta_DeleteFile = (\<lambda>_ w. (uds_error kServiceNotSupported, w)),
     ta_Read = (\<lambda>_ _ w. (uds_error kServiceNotSupported, w)),
     ta_ExitRead = (\<lambda>_ _ w. (uds_error kServiceNotSupported, w)),
     ta_Write = (\<lambda>_ _ w. (uds_error kServiceNotSupported, w)),
     ta_ExitWrite = (\<lambda>_ _ w. (uds_error kServiceNotSupported, w))\<rparr>"

lemma ex_app_simps:
  "check_condition (ta_download_condition ex_app) w = 0" "ta_RequestDownload ex_app f a m w = (Inr (), [])"
  "ta_DownloadData ex_app c d w = (Inr (), w @ d)"
  by (simp_all add: ex_app_def check_condition_def)

definition ex_request_download :: bytes where
  "ex_request_download = [0x34, 0x00, 0x11, 0x00, 0x20]"

lemma ex_request_parsed: "parse_memory_request ex_request_download = Inr (0, 0x11, [0, 0x20], 0x20)"
  by (simp add: parse_memory_request_def ex_request_download_def ReadUint8_def ReadSizeAndAddressFormatIdentifier_def
      ReadUint_def ReadAll_def)

text \<open>
  C19: the transfer services answer every request. Whatever was requested before, in whatever order,
  with whatever answers lost, and whatever the application returned: the state of the manager is
  well formed (the previous block counter, kept in a signed 16-bit field, is \<open>-1\<close> or a byte), and the
  next request of any of the five services, with any body, gets exactly one answer, which is either
  the negative response of that service or starts with its positive response identifier.
\<close>

theorem transfer_requests_are_answered:
  assumes "sid \<in> {0x34, 0x35, 0x36, 0x37, 0x38}"
    and "tm_history app evs (tm_new max_download max_upload max_file, w0) = (tm, w)"
  shows "tm_wf tm \<and>
    (\<exists>b tm' w'. TmProcess app sid status body tm w = (Some b, tm', w') \<and> tm_wf tm' \<and> answers sid b)"
proof -
  have wf: "tm_wf tm" using tm_history_wf [of "(tm_new max_download max_upload max_file, w0)" app evs] assms(2) by simp
  then show ?thesis
    using TmProcess_good [OF wf assms(1), of app status body w]
    by (cases "TmProcess app sid status body tm w") (auto simp: good_result_def)
qed

theorem transfer_requests_are_answered_witness:
  "\<exists>tm w b tm' w'. tm_history ex_app [TmRequest 0x34 kResPosOk ex_request_download] (tm_new 4096 0 0, []) = (tm, w) \<and>
     tm_type tm = kDownload \<and> TmProcess ex_app 0x37 kResPosOk [0x37] tm w = (Some b, tm', w') \<and> answers 0x37 b"
proof -
  let ?h = "tm_history ex_app [TmRequest 0x34 kResPosOk ex_request_download] (tm_new 4096 0 0, [])"
  obtain tm w where h: "?h = (tm, w)" by fastforce
  moreover have "tm_type (fst ?h) = kDownload"
    by (simp add: tm_history_def TmProcess_def requestDownload_def ex_request_parsed ex_app_def check_condition_def
        tm_respond_def start_transfer_def)
  ultimately show ?thesis
    using transfer_requests_are_answered [OF _ h, of "0x37" kResPosOk "[0x37]"] by fastforce
qed

section \<open>Blocks reach the application once and in order\<close>

text \<open>A tester that sends the blocks \<open>ds\<close> with consecutive counters, the \<open>i\<close>-th one \<open>ks ! i\<close> times
  more because it did not see the answer.\<close>

definition block_request :: "byte \<Rightarrow> bytes \<Rightarrow> tm_event" where
  "block_request counter d = TmRequest 0x36 kResPosOk (0x36 # counter # d)"

fun tester_blocks :: "byte \<Rightarrow> (nat \<times> bytes) list \<Rightarrow> tm_event list" where
  "tester_blocks counter [] = []"
| "tester_blocks counter ((k, d) # ds) =
     replicate (Suc k) (block_request counter d) @ tester_blocks (counter + 1) ds"

definition downloading :: "byte \<Rightarrow> transfer_manager \<Rightarrow> bool" where
  "downloading counter tm \<longleftrightarrow> tm_type tm = kDownload \<and> tm_state tm = kRequest \<and> tm_counter tm = counter \<and>
     tm_previous tm \<noteq> uint counter"

lemma block_stored:
  assumes "downloading c tm" and "ta_DownloadData app c d w = (Inr u, w')"
  shows "TmProcess app 0x36 kResPosOk (0x36 # c # d) tm w =
    (Some [0x76, c], (next_block tm)\<lparr>tm_transfer_size := tm_transfer_size tm + word_of_nat (length d)\<rparr>, w')"
  using assms
  by (simp add: downloading_def TmProcess_def transferData_def ReadUint8_def ReadAll_def Let_def write_defs
      CreateResponse_def kResponseServiceIdMask_def tm_respond_def TmConfirm_def)

lemma block_repeated:
  assumes "tm_type tm = kDownload" "tm_state tm = kRequest" "tm_previous tm = uint c"
  shows "TmProcess app 0x36 kResPosOk (0x36 # c # d) tm w = (Some [0x76, c], tm, w)"
  using assms
  by (simp add: TmProcess_def transferData_def ReadUint8_def ReadAll_def Let_def write_defs
      CreateResponse_def kResponseServiceIdMask_def tm_respond_def TmConfirm_def)

lemma blocks_repeated:
  assumes "tm_type tm = kDownload" "tm_state tm = kRequest" "tm_previous tm = uint c"
  shows "fold (tm_handle app) (replicate k (block_request c d)) (tm, w) = (tm, w)"
  by (induction k) (simp_all add: block_request_def block_repeated assms)

lemma downloading_next:
  assumes "downloading c tm"
  shows "downloading (c + 1) ((next_block tm)\<lparr>tm_transfer_size := n\<rparr>)"
proof -
  have "c + 1 \<noteq> c" by simp
  then have "uint c \<noteq> uint (c + 1)" by (metis word_uint_eqI)
  with assms show ?thesis by (simp add: downloading_def next_block_def)
qed

lemma block_handled:
  assumes "downloading c tm" and "ta_DownloadData app c d w = (Inr u, w')"
  shows "fold (tm_handle app) (replicate (Suc k) (block_request c d)) (tm, w) =
    ((next_block tm)\<lparr>tm_transfer_size := tm_transfer_size tm + word_of_nat (length d)\<rparr>, w')"
proof -
  let ?tm = "(next_block tm)\<lparr>tm_transfer_size := tm_transfer_size tm + word_of_nat (length d)\<rparr>"
  have "tm_type ?tm = kDownload" "tm_state ?tm = kRequest" "tm_previous ?tm = uint c"
    using assms(1) by (simp_all add: downloading_def next_block_def)
  then show ?thesis
    using blocks_repeated [of ?tm c app k d w'] block_stored [OF assms] by (simp add: block_request_def)
qed

text \<open>The bytes of a list of blocks as the counter of transferred bytes sees them.\<close>

definition total_size :: "(nat \<times> bytes) list \<Rightarrow> u64" where
  "total_size ds = sum_list (map (\<lambda>(_, d). word_of_nat (length d)) ds)"

lemma tester_blocks_stored:
  assumes "downloading c tm" and app: "\<And>c d w. ta_DownloadData app c d w = (Inr (), store d w)"
  shows "\<exists>tm'. tm_history app (tester_blocks c ds) (tm, w) = (tm', fold (\<lambda>(_, d). store d) ds w) \<and>
     downloading (c + word_of_nat (length ds)) tm' \<and> tm_transfer_size tm' = tm_transfer_size tm + total_size ds"
  using assms(1)
proof (induction ds arbitrary: c tm w)
  case Nil
  then show ?case by (simp add: tm_history_def total_size_def)
next
  case (Cons x ds)
  obtain k d where x: "x = (k, d)" by fastforce
  let ?tm = "(next_block tm)\<lparr>tm_transfer_size := tm_transfer_size tm + word_of_nat (length d)\<rparr>"
  obtain tm' where tm': "tm_history app (tester_blocks (c + 1) ds) (?tm, store d w) = (tm', fold (\<lambda>(_, d). store d) ds (store d w))"
      "downloading (c + 1 + word_of_nat (length ds)) tm'" "tm_transfer_size tm' = tm_transfer_size ?tm + total_size ds"
    using Cons.IH [OF downloading_next [OF Cons.prems]] by blast
  show ?case
    using tm' block_handled [OF Cons.prems app, where k = k and d = d and w = w]
    by (auto simp: x tm_history_def total_size_def add_ac simp del: replicate_Suc)
qed





text \<open>
  A download that is started again loses its first block. A tester that sent one block and
  then requests the download again, without ending the first one, gets a positive answer to its new
  first block, but the block never reaches the application: RequestDownload sets the block counter
  back and leaves the counter of the previous block, so block one is taken for a repetition.
\<close>

theorem restarted_download_loses_first_block:
  assumes "parse_memory_request body = Inr (fmt, afmt, mem, memsize)"
    and "\<And>w. check_condition (ta_download_condition app) w = 0"
    and "\<And>w. ta_RequestDownload app fmt afmt mem w = (Inr (), reset w)"
    and "\<And>c d w. ta_DownloadData app c d w = (Inr (), store d w)"
    and "tm_previous tm \<noteq> 1"
    and "tm_history app [TmRequest 0x34 kResPosOk body, block_request 1 d1, TmRequest 0x34 kResPosOk body] (tm, w) = (tm1, w1)"
  shows "w1 = reset (store d1 (reset w)) \<and> TmProcess app 0x36 kResPosOk (0x36 # 1 # d2) tm1 w1 = (Some [0x76, 1], tm1, w1)"
proof -
  let ?a = "start_transfer kDownload memsize tm"
  let ?b = "(next_block ?a)\<lparr>tm_transfer_size := tm_transfer_size ?a + word_of_nat (length d1)\<rparr>"
  have req: "tm_handle app (TmRequest 0x34 kResPosOk body) (t, v) = (start_transfer kDownload memsize t, reset v)" for t v
    using assms(1-3) by (simp add: TmProcess_def requestDownload_def tm_respond_def TmConfirm_def)
  have "downloading 1 ?a"
    using assms(5) by (simp add: downloading_def start_transfer_def kBlockSequenceCounterStartValue_def)
  then have "tm_handle app (block_request 1 d1) (?a, reset w) = (?b, store d1 (reset w))"
    using block_stored [OF _ assms(4), of 1 ?a d1 "reset w"] by (simp add: block_request_def)
  then have s1: "tm1 = start_transfer kDownload memsize ?b" "w1 = reset (store d1 (reset w))"
    using assms(6) by (simp_all add: tm_history_def req del: tm_handle.simps)
  have "tm_type tm1 = kDownload" "tm_state tm1 = kRequest" "tm_previous tm1 = uint (1 :: byte)"
    by (simp_all add: s1(1) start_transfer_def next_block_def kBlockSequenceCounterStartValue_def)
  then show ?thesis using block_repeated [of tm1 1 app d2 w1] s1(2) by simp
qed

theorem restarted_download_loses_first_block_witness:
  "\<exists>tm1 w1. tm_history ex_app [TmRequest 0x34 kResPosOk ex_request_download, block_request 1 [5],
        TmRequest 0x34 kResPosOk ex_request_download] (tm_new 4096 0 0, []) = (tm1, w1) \<and>
     TmProcess ex_app 0x36 kResPosOk (0x36 # 1 # [7]) tm1 w1 = (Some [0x76, 1], tm1, []) \<and> w1 = []"
proof -
  obtain tm1 w1 where h: "tm_history ex_app [TmRequest 0x34 kResPosOk ex_request_download, block_request 1 [5],
      TmRequest 0x34 kResPosOk ex_request_download] (tm_new 4096 0 0, []) = (tm1, w1)" by fastforce
  show ?thesis
    using h restarted_download_loses_first_block [OF ex_request_parsed ex_app_simps _ h, of "[7]"] by (auto simp: tm_new_def)
qed


section \<open>What guards a transfer, and how it ends\<close>

text \<open>No service of the manager ever checks the security level: the list of validators repeats the one
  of the session.\<close>

lemma security_level_is_never_checked:
  "SecurityLevelValidator ty \<notin> set (GetSidValidator download upload fileTransfer sid tm)"
  by (auto simp: GetSidValidator_def instance_validators_def)

text \<open>The application is told that a file was aborted exactly if all of its bytes were transferred.\<close>

lemma complete_file_is_aborted:
  assumes "tm_type tm = kFileTransfer" and "tm_mode tm = kReplaceFile \<or> tm_mode tm = kAddFile"
  shows "exit_call app record tm w =
    ta_ExitWrite app (if tm_transfer_size tm = tm_file_size tm then kAbort else kAcknowledge) record w"
  using assms by (auto simp: exit_call_def Let_def eq_commute)

end
