(* ===== verification/UdsServerProps.thy ===== *)
theory UdsServerProps
  imports UdsServer TransferProps
begin

text \<open>
  What holds of the UDS server over every sequence of events: a change of session locks the security level,
  a request is answered at most once and with an answer of its own service, and when a session ends.
\<close>

section \<open>What checks leave alone\<close>

text \<open>Checks and services change nothing of the sessions but register callbacks.\<close>

definition calm :: "'s session_manager \<Rightarrow> 's session_manager \<Rightarrow> bool" where
  "calm sm sm' \<longleftrightarrow> sm_current sm' = sm_current sm \<and> sm_client sm' = sm_client sm \<and> sm_table sm' = sm_table sm \<and>
     snd ` set (sm_callbacks sm) \<subseteq> snd ` set (sm_callbacks sm')"

lemma calm_refl [simp]: "calm sm sm"
  by (simp add: calm_def)

lemma calm_trans: "calm sm sm' \<Longrightarrow> calm sm' sm'' \<Longrightarrow> calm sm sm''"
  by (auto simp: calm_def)

lemma calm_register: "calm sm (snd (AddNotifyOfSessionChange cb sm))"
  by (auto simp: calm_def AddNotifyOfSessionChange_def add_callback_def Let_def set_insort_key split: prod.split)

lemma calm_GetClient: "GetClientAuthentication obs a (sm, am) = (c, sm', am') \<Longrightarrow> calm sm sm'"
  using calm_register [of sm "obs a"] by (auto simp: GetClientAuthentication_def Let_def split: option.splits if_splits)

lemma calm_AuthValidator: "AuthValidator_Validate obs sa body roles (sm, am) = (ok, sm', am') \<Longrightarrow> calm sm sm'"
  by (auto simp: AuthValidator_Validate_def dest: calm_GetClient split: prod.splits option.splits)

lemma calm_optional_auth:
  "(case a of None \<Rightarrow> (True, sm, am) | Some roles \<Rightarrow> AuthValidator_Validate obs sa body roles (sm, am)) = (ok, sm', am') \<Longrightarrow> calm sm sm'"
  by (auto dest: calm_AuthValidator split: option.splits)

lemma calm_ServerAuth: "ServerAuth_Validate obs sa body tab (sm, am) = (ok, sm', am') \<Longrightarrow> calm sm sm'"
proof (induction tab arbitrary: sm am)
  case (Cons e tab)
  then show ?case
    by (cases e) (auto dest: calm_AuthValidator Cons.IH intro: calm_trans split: prod.splits if_splits)
qed simp

lemma calm_optional_server_auth:
  "(case a of None \<Rightarrow> (True, sm, am) | Some tab \<Rightarrow> ServerAuth_Validate obs sa body tab (sm, am)) = (ok, sm', am') \<Longrightarrow> calm sm sm'"
  by (auto dest: calm_ServerAuth split: option.splits)

lemma calm_sid_check: "sid_check obs sa body vs lm (sm, am) = (c, sm', am') \<Longrightarrow> calm sm sm'"
  by (auto simp: sid_check_def dest: calm_optional_server_auth split: prod.splits)

lemma calm_General: "GeneralService_check obs sa body gs lm (sm, am) = (c, sm', am') \<Longrightarrow> calm sm sm'"
  by (auto simp: GeneralService_check_def Let_def dest: calm_optional_auth split: prod.splits if_splits)

lemma calm_transfer_check: "transfer_check s sa body ty (sm, am) = (c, sm', am') \<Longrightarrow> calm sm sm'"
  by (auto simp: transfer_check_def dest: calm_ServerAuth split: option.splits prod.splits)

lemma calm_transfer_checks: "transfer_checks s sa body tys (sm, am) = (c, sm', am') \<Longrightarrow> calm sm sm'"
proof (induction tys arbitrary: sm am)
  case (Cons ty tys)
  obtain c1 sm1 am1 where 1: "transfer_check s sa body ty (sm, am) = (c1, sm1, am1)" by (metis prod_cases3)
  then have "calm sm sm1" by (rule calm_transfer_check)
  with 1 Cons show ?case by (cases c1) (auto intro: calm_trans)
qed simp

lemma calm_us_sid_check: "us_sid_check sa sid body s = (c, sm', am') \<Longrightarrow> calm (us_sm s) sm'"
  by (auto simp: us_sid_check_def Let_def dest: calm_sid_check calm_transfer_checks split: if_splits option.splits)

lemma calm_x10: "x10_Process obs sa body lm (sm, am) x = (rep, (sm', am'), x') \<Longrightarrow> calm sm sm'"
  by (auto simp: x10_Process_def dest: calm_General split: prod.splits check.splits)

lemma calm_x31: "x31_Process obs chk app sa body x lm (sm, am) w = (rep, (sm', am'), w') \<Longrightarrow> calm sm sm'"
  by (auto simp: x31_Process_def Let_def dest: calm_AuthValidator split: option.splits prod.splits if_splits bool.splits)

lemma calm_x2e: "x2e_Process obs chk app sa body x lm (sm, am) w = (rep, (sm', am'), w') \<Longrightarrow> calm sm sm'"
  by (auto simp: x2e_Process_def Let_def dest: calm_AuthValidator split: option.splits prod.splits if_splits bool.splits sum.splits)

lemma calm_x22_filter: "x22_filter obs chk sa body x lm ids valid (sm, am) w = (res, (sm', am'), w') \<Longrightarrow> calm sm sm'"
proof (induction ids arbitrary: valid sm am w)
  case (Cons i ids)
  from Cons.prems show ?case
    by (auto dest: Cons.IH dest!: calm_AuthValidator intro: calm_trans split: option.splits prod.splits if_splits bool.splits)
qed simp

lemma calm_x22: "x22_Process obs chk rd sa body x lm (sm, am) w = (rep, (sm', am'), w') \<Longrightarrow> calm sm sm'"
  by (auto simp: x22_Process_def dest: calm_x22_filter split: option.splits prod.splits if_splits sum.splits)

lemma calm_x29: "x29_Process obs app evs sa body (sm, am) w = (m, (sm', am'), w') \<Longrightarrow> calm sm sm'"
  by (auto simp: x29_Process_def x29_DeAuthenticate_def x29_VerifyUnidirectional_def x29_VerifyBidirectional_def x29_ProofOfOwnership_def
      x29_TransmitCertificate_def x29_AuthenticationConfiguration_def x29_reject_def x29_respond_def Let_def
      dest: calm_GetClient split: prod.splits if_splits sum.splits option.splits)

section \<open>What notifications do\<close>

lemma notify_level_keeps [simp]:
  "us_sm (notify_level app cb i s) = us_sm s" "us_lm (notify_level app cb i s) = us_lm s"
  "us_s3 (notify_level app cb i s) = us_s3 s" "us_running (notify_level app cb i s) = us_running s"
  "us_queue (notify_level app cb i s) = us_queue s" "us_sent (notify_level app cb i s) = us_sent s"
  by (cases cb; simp)+

lemma fold_keeps: "(\<And>x t. f (g x t) = f t) \<Longrightarrow> f (fold g xs s) = f s"
  by (induction xs arbitrary: s) simp_all

lemma fold_notify_level [simp]:
  "us_sm (fold (\<lambda>(cb, i). notify_level app cb i) ns s) = us_sm s" "us_lm (fold (\<lambda>(cb, i). notify_level app cb i) ns s) = us_lm s"
  "us_s3 (fold (\<lambda>(cb, i). notify_level app cb i) ns s) = us_s3 s"
  "us_running (fold (\<lambda>(cb, i). notify_level app cb i) ns s) = us_running s"
  "us_queue (fold (\<lambda>(cb, i). notify_level app cb i) ns s) = us_queue s"
  "us_sent (fold (\<lambda>(cb, i). notify_level app cb i) ns s) = us_sent s"
  by (rule fold_keeps, simp split: prod.split)+

lemma notify_session_keeps [simp]:
  "us_sm (notify_session app cb old new s) = us_sm s" "us_s3 (notify_session app cb old new s) = us_s3 s"
  "us_running (notify_session app cb old new s) = us_running s" "us_queue (notify_session app cb old new s) = us_queue s"
  "us_sent (notify_session app cb old new s) = us_sent s"
  by (cases cb; simp add: updateNonDefaultPriority_def split: prod.split option.split)+

lemma notify_session_level:
  "lm_current (us_lm (notify_session app cb old new s)) =
     (if cb = OnLevels \<and> (old \<noteq> new \<or> new = 1) then 0 else lm_current (us_lm s))"
  by (cases cb) (auto simp: updateNonDefaultPriority_def lock_on_session_change_def SetSecurityLevel_def split: option.split)

lemma notify_all_keeps [simp]:
  "us_sm (notify_all app ns s) = us_sm s" "us_s3 (notify_all app ns s) = us_s3 s"
  "us_running (notify_all app ns s) = us_running s" "us_queue (notify_all app ns s) = us_queue s"
  "us_sent (notify_all app ns s) = us_sent s"
  unfolding notify_all_def by (rule fold_keeps, simp del: notify_session.simps split: prod.split)+

lemma notify_all_level:
  "lm_current (us_lm (notify_all app ns s)) =
     (if \<exists>(cb, old, new) \<in> set ns. cb = OnLevels \<and> (old \<noteq> new \<or> new = 1) then 0 else lm_current (us_lm s))"
  unfolding notify_all_def
proof (induction ns arbitrary: s)
  case (Cons n ns)
  obtain cb old new where n: "n = (cb, old, new)" by (metis prod_cases3)
  have "lm_current (us_lm (fold (\<lambda>(cb, old, new). notify_session app cb old new) ns (notify_session app cb old new s))) =
      (if \<exists>(cb, old, new) \<in> set ns. cb = OnLevels \<and> (old \<noteq> new \<or> new = 1) then 0
       else if cb = OnLevels \<and> (old \<noteq> new \<or> new = 1) then 0 else lm_current (us_lm s))"
    by (simp only: Cons.IH notify_session_level)
  with n show ?case by (simp del: notify_session.simps) blast
qed simp

definition watched :: "'w uds_server \<Rightarrow> observer set" where
  "watched s = snd ` set (sm_callbacks (us_sm s))"

lemma us_SetSession_facts:
  "sm_current (us_sm (us_SetSession app i c s)) = i" "watched (us_SetSession app i c s) = watched s"
  "us_s3 (us_SetSession app i c s) = us_s3 s" "us_running (us_SetSession app i c s) = us_running s"
  "us_queue (us_SetSession app i c s) = us_queue s" "us_sent (us_SetSession app i c s) = us_sent s"
  "OnLevels \<in> watched s \<Longrightarrow> sm_current (us_sm s) \<noteq> i \<or> i = 1 \<Longrightarrow> lm_current (us_lm (us_SetSession app i c s)) = 0"
  by (auto simp: us_SetSession_def SetSession_def watched_def notify_all_level)

text \<open>A step that keeps the session, and one that locks the level when it changes it.\<close>

definition stays :: "'w uds_server \<Rightarrow> 'w uds_server \<Rightarrow> bool" where
  "stays s s' \<longleftrightarrow> sm_current (us_sm s') = sm_current (us_sm s) \<and> watched s \<subseteq> watched s'"

definition locks :: "'w uds_server \<Rightarrow> 'w uds_server \<Rightarrow> bool" where
  "locks s s' \<longleftrightarrow> watched s \<subseteq> watched s' \<and>
     (sm_current (us_sm s') \<noteq> sm_current (us_sm s) \<longrightarrow> OnLevels \<in> watched s \<longrightarrow> lm_current (us_lm s') = 0)"

lemma locks_refl [simp]: "locks s s"
  by (simp add: locks_def)

lemma stays_locks: "stays s s' \<Longrightarrow> locks s s'"
  by (auto simp: stays_def locks_def)

lemma stays_calm: "calm (us_sm s) (us_sm s') \<Longrightarrow> stays s s'"
  by (auto simp: stays_def watched_def calm_def)

lemma locks_before: "stays s s' \<Longrightarrow> locks s' s'' \<Longrightarrow> locks s s''"
  by (auto simp: stays_def locks_def)

lemma locks_after: "locks s s' \<Longrightarrow> stays s' s'' \<Longrightarrow> us_lm s'' = us_lm s' \<Longrightarrow> locks s s''"
  by (auto simp: stays_def locks_def)

lemma locks_SetSession: "locks s (us_SetSession app i c s)"
  using us_SetSession_facts [where s = s and app = app and i = i and c = c] by (auto simp: locks_def)

lemma stays_with_client: "stays s (with_client a f s)" "us_lm (with_client a f s) = us_lm s"
  by (auto simp: with_client_def dest: calm_GetClient intro!: stays_calm split: prod.split option.split)

section \<open>A change of session locks the security level\<close>

lemma us_Confirm_eq:
  "us_Confirm app r status s =
     removeRequestHandler (rq_handle r) (if rc_sid (rq_rc r) = 0x10 \<and> us_x10 s \<noteq> None \<and> (status = kResPosOk \<or> status = kResPosNotOk)
       then us_SetSession app (x10_newSession (the (us_x10 s))) (rq_sa r) s else s)"
  by (auto simp: us_Confirm_def x10_Confirm_def us_SetSession_def notify_all_def split: option.split prod.split)

lemma us_Confirm_locks: "locks s (us_Confirm app r status s)"
proof -
  have r: "locks s t \<Longrightarrow> locks s (removeRequestHandler h t)" for h t
    by (erule locks_after) (simp_all add: removeRequestHandler_def stays_def watched_def)
  show ?thesis unfolding us_Confirm_eq by (rule r) (simp add: locks_SetSession)
qed

lemma us_reply_locks: "us_reply app r rep s = (r', s') \<Longrightarrow> locks s s'"
proof (cases rep)
  case (Reply msg)
  assume "us_reply app r rep s = (r', s')"
  then show ?thesis using us_Confirm_locks by (auto simp: Reply us_reply_def Let_def)
qed (auto simp: us_reply_def locks_def watched_def)

lemma us_refuse_stays: "us_refuse r nrc s = (r', s') \<Longrightarrow> stays s s'"
  by (auto simp: us_refuse_def removeRequestHandler_def stays_def watched_def)

text \<open>Security access changes the rest of the server only through the application and the notifications.\<close>

lemma x27_respond_w:
  "P (xe_w e) \<Longrightarrow> (\<And>cb i s. P s \<Longrightarrow> P (notify cb i s)) \<Longrightarrow> P (xe_w (x27_respond notify stray msg e))"
proof -
  assume P: "P (xe_w e)" and n: "\<And>cb i s. P s \<Longrightarrow> P (notify cb i s)"
  have "P (fold (\<lambda>(cb, l). notify cb l) ns s)" if "P s" for ns s
    using that n by (induction ns arbitrary: s) auto
  with P show ?thesis
    by (auto simp: x27_respond_def x27_Confirm_def Let_def xe_set_state_def xe_unlock_def split: SecurityLevelState.split option.split prod.split)
qed

lemma x27_handlers_w:
  assumes P: "P (xe_w e)" and n: "\<And>cb i s. P s \<Longrightarrow> P (notify cb i s)"
    and a: "\<And>i b s. P s \<Longrightarrow> P (snd (sa_GetSeed app i b s))" "\<And>i b s. P s \<Longrightarrow> P (snd (sa_CompareKey app i b s))"
    and e': "x27_ParseAndResponse notify app stray e = Some e'"
  shows "P (xe_w e')"
proof -
  note rw = x27_respond_w [where P = P and notify = notify, OF _ n]
  have seed: "P (xe_w e'')" if "handlerRequestSeed notify app stray level si d = Some e''" "P (xe_w d)" for level si d e''
    using that a(1) [of "xe_w d" "si_requestSeedId si" "drop 2 (rc_body (xe_rc d))"]
    by (auto simp: handlerRequestSeed_def x27_reject_def Let_def intro!: rw split: if_splits option.splits prod.splits sum.splits)
  have key: "P (xe_w e'')" if "handlerSeedKey notify app stray level si d = Some e''" "P (xe_w d)" for level si d e''
    using that seed [of level si _ e''] a(2) [of "xe_w d" "si_requestSeedId si" "drop 2 (rc_body (xe_rc d))"]
    by (auto simp: handlerSeedKey_def reject_key_def x27_reject_def xe_set_state_def Let_def intro!: rw split: if_splits option.splits prod.splits sum.splits)
  from e' P show ?thesis
    by (auto simp: x27_ParseAndResponse_def handlerState_def x27_reject_def intro: seed key rw split: option.splits if_splits)
qed

lemma process_x27_stays: "process_x27 app r x s = (r', s') \<Longrightarrow> stays s s'"
proof -
  assume p: "process_x27 app r x s = (r', s')"
  obtain c sm am where c: "GeneralService_check OnClient (rq_sa r) (rc_body (rq_rc r)) (x27_service x) (us_lm s) (us_sm s, us_am s) = (c, sm, am)"
    by (metis prod_cases3)
  let ?e = "\<lparr>xe_rc = rq_rc r, xe_x = x, xe_lm = us_lm s, xe_w = s\<lparr>us_sm := sm, us_am := am\<rparr>\<rparr>"
  have P: "us_sm (xe_w ?e) = sm" by simp
  have e': "us_sm (xe_w e') = sm"
    if "x27_ParseAndResponse (notify_level app) (server_security_app (ua_security app)) (rq_stray r) ?e = Some e'" for e'
    by (rule x27_handlers_w [where P = "\<lambda>s. us_sm s = sm", OF P _ _ _ that])
      (simp_all add: server_security_app_def over_server_def split: prod.split)
  have "us_sm (xe_w (x27_reject (notify_level app) (rq_stray r) nrc ?e)) = sm" for nrc
    unfolding x27_reject_def by (rule x27_respond_w [where P = "\<lambda>s. us_sm s = sm"]) simp_all
  with p c e' calm_General [OF c] show ?thesis
    by (force simp: process_x27_def Let_def removeRequestHandler_def stays_def watched_def calm_def split: check.splits option.splits)
qed

lemma process_locks: "process app r s = (r', s') \<Longrightarrow> locks s s'"
proof -
  assume p: "process app r s = (r', s')"
  have via: "locks s s'" if "us_reply app r rep t = (r', s')" "calm (us_sm s) (us_sm t)" for rep t
    using that us_reply_locks locks_before stays_calm by blast
  have t: "stays s s'" if "process_transfer app r s = (r', s')"
    using that by (auto simp: process_transfer_def removeRequestHandler_def Let_def stays_def watched_def split: prod.splits option.splits)
  from p show ?thesis
    by (auto simp: process_def Let_def intro: stays_locks [OF t] stays_locks [OF process_x27_stays] elim!: via dest: calm_x10 calm_x22 calm_x2e calm_x31 calm_x29
        split: if_splits option.splits prod.splits)
qed

lemma handle_locks: "handleRequestContext app r s = (r', s') \<Longrightarrow> locks s s'"
proof -
  assume h: "handleRequestContext app r s = (r', s')"
  obtain c sm am where c: "us_sid_check (rq_sa r) (rc_sid (rq_rc r)) (rc_body (rq_rc r)) s = (c, sm, am)" by (metis prod_cases3)
  let ?s = "s\<lparr>us_sm := sm, us_am := am\<rparr>"
  have st: "stays s ?s" using calm_us_sid_check [OF c] by (intro stays_calm) simp
  have "locks ?s s'" if "process app r ?s = (r', s')" using that by (rule process_locks)
  moreover have "locks ?s s'" if "us_refuse r nrc ?s = (r', s')" for nrc using that by (intro stays_locks us_refuse_stays)
  moreover have "locks s s'" if "us_refuse r nrc s = (r', s')" for nrc using that by (intro stays_locks us_refuse_stays)
  moreover have "locks ?s (?s\<lparr>us_crashed := True\<rparr>)" by (simp add: locks_def watched_def)
  ultimately show ?thesis using h c locks_before [OF st]
    by (auto simp: handleRequestContext_def Let_def split: if_splits check.splits)
qed

lemma take_stays: "stays s (take_request s)"
  by (auto simp: take_request_def stays_def watched_def updateRequestContextStateTable_def Let_def split: list.split option.split)

lemma finish_locks: "locks s (finish_request app client s)"
proof (cases "map_of (us_running s) client")
  case (Some r)
  obtain r' s1 where h: "handleRequestContext app r s = (r', s1)" by fastforce
  have "locks s (with_client client ca_Refresh s1)"
    using locks_after [OF handle_locks [OF h] stays_with_client] .
  then show ?thesis
    by (rule locks_after) (simp_all add: finish_request_def Some h Let_def updateRequestContextStateTable_def stays_def watched_def)
qed (simp add: finish_request_def)

lemma cancel_stays: "stays s (cancel_running client s)"
  by (auto simp: cancel_running_def stays_def watched_def updateRequestContextStateTable_def Let_def split: option.split)

lemma prioritize_locks: "locks s (snd (prioritize app c p s))"
proof -
  have 1: "locks s (ResetDefaultSession app s)" by (simp add: ResetDefaultSession_def locks_SetSession)
  have 2: "locks s ((cancel_running 0 s)\<lparr>us_running := tab\<rparr>)" for tab
    using cancel_stays [of s 0] by (intro stays_locks) (simp add: stays_def watched_def)
  have 3: "locks s (s\<lparr>us_running := tab\<rparr>)" for tab by (simp add: locks_def watched_def)
  show ?thesis using 1 2 3 stays_locks [OF cancel_stays]
    by (auto simp: prioritize_def Let_def)
qed

lemma Indicate_locks: "locks s (snd (Indicate app m s))"
proof -
  have 0: "stays s (s\<lparr>us_s3 := b\<rparr>)" for b by (simp add: stays_def watched_def)
  have 1: "stays t (put_response c msg t)" "us_lm (put_response c msg t) = us_lm t" for c msg and t :: "'a uds_server"
    by (simp_all add: put_response_def stays_def watched_def)
  have 2: "locks s (put_response c msg t)" if "locks s t" for c msg t
    by (rule locks_after [OF that]) (simp_all add: put_response_def stays_def watched_def)
  have 3: "locks s (snd (prioritize app c p (s\<lparr>us_s3 := False\<rparr>)))" for c p
    using locks_before [OF 0 prioritize_locks] .
  have 4: "locks s ((put_response c msg (s\<lparr>us_s3 := False\<rparr>))\<lparr>us_s3 := True\<rparr>)" for c msg
    by (simp add: put_response_def locks_def watched_def)
  have 5: "locks s (s\<lparr>us_s3 := False\<rparr>)" by (rule stays_locks [OF 0])
  show ?thesis using 2 [OF 5] 2 [OF 3] 3 4 5 
    by (auto simp: Indicate_def Let_def split: prod.split bool.split) (metis snd_conv)+
qed

lemma HandleMessage_stays: "stays s (HandleMessage m s)" "us_lm (HandleMessage m s) = us_lm s"
proof -
  have "stays s (snd (allocRequestHandler s))" "us_lm (snd (allocRequestHandler s)) = us_lm s"
    by (simp_all add: allocRequestHandler_def Let_def stays_def watched_def)
  then have "stays s (with_client (ms_sa m) ca_Stop (snd (allocRequestHandler s)))"
    "us_lm (with_client (ms_sa m) ca_Stop (snd (allocRequestHandler s))) = us_lm s"
    using stays_with_client [where s = "snd (allocRequestHandler s)" and a = "ms_sa m" and f = ca_Stop] by (auto simp: stays_def)
  then show "stays s (HandleMessage m s)" "us_lm (HandleMessage m s) = us_lm s"
    by (auto simp: HandleMessage_def Let_def stays_def watched_def case_prod_unfold split: option.split)
qed

lemma s3Timeout_locks: "locks s (s3Timeout app s)"
proof (rule locks_after [OF locks_SetSession [where app = app and i = 1 and c = 0]])
  show "stays (us_SetSession app 1 0 s) (s3Timeout app s)" "us_lm (s3Timeout app s) = us_lm (us_SetSession app 1 0 s)"
    by (auto simp: s3Timeout_def Let_def dest: calm_GetClient intro!: stays_calm split: prod.split option.split)
qed

lemma step_locks: "locks s (server_step app e s)"
proof (cases e)
  case (Receive m)
  have "locks s (snd (Indicate app m s))" by (rule Indicate_locks)
  from this locks_after [OF this HandleMessage_stays] show ?thesis by (auto simp: Receive case_prod_unfold)
next
  case S3Expires
  have "stays s (s\<lparr>us_s3 := False\<rparr>)" by (simp add: stays_def watched_def)
  from locks_before [OF this s3Timeout_locks] show ?thesis by (simp add: S3Expires)
qed (auto simp: finish_locks stays_locks [OF take_stays] ResetDefaultSession_def locks_SetSession request_timer_def
    updateRequestContextStateTable_def delay_expires_def TryLock_def Unlock_def SetSecurityTimerElapsed_def Let_def
    locks_def [of s] watched_def split: option.split)

lemma run_watched: "watched s \<subseteq> watched (server_run app evs s)"
  unfolding server_run_def
proof (induction evs arbitrary: s)
  case (Cons e evs)
  have "watched s \<subseteq> watched (server_step app e s)" using step_locks by (auto simp: locks_def)
  with Cons show ?case by fastforce
qed simp

text \<open>
  C12: a change of session locks the security level. Once the security levels are set up (their observer is
  registered with the sessions), after any sequence of events every event that changes the session, be it a
  request of a tester, the S3 timer, a tester with a higher priority or the application, leaves
  the server without an unlocked level.
\<close>

theorem session_change_locks_level:
  assumes "OnLevels \<in> watched s0"
    and "sm_current (us_sm (server_step app e (server_run app evs s0))) \<noteq> sm_current (us_sm (server_run app evs s0))"
  shows "lm_current (us_lm (server_step app e (server_run app evs s0))) = 0"
proof -
  have "OnLevels \<in> watched (server_run app evs s0)" using assms(1) run_watched by blast
  with assms(2) step_locks [of "server_run app evs s0" app e] show ?thesis by (simp add: locks_def)
qed

definition demo_server :: "unit uds_server" where
  "demo_server = (us_new \<lparr>ss_maxPending = 0, ss_responseOnSecondDeclinedRequest = False, ss_maxParallelRequests = 4, ss_functional = [], ss_physical = 1\<rparr> ())
     \<lparr>us_sm := \<lparr>sm_table = Map.empty, sm_current = 3, sm_client = 0x0E80, sm_callbacks = [(0, OnServer), (1, OnLevels)]\<rparr>,
      us_lm := lm_new\<lparr>lm_current := 5\<rparr>, us_s3 := True, us_priority := 10\<rparr>"

theorem session_change_locks_level_witness:
  "\<forall>app. lm_current (us_lm (server_step app S3Expires (server_run app [Take, SharedDelayExpires] demo_server))) = 0"
  by (rule allI, rule session_change_locks_level)
    (simp_all add: demo_server_def us_new_def watched_def server_run_def take_request_def s3Timeout_def Let_def us_SetSession_def SetSession_def
      notify_all_def updateNonDefaultPriority_def lock_on_session_change_def SetSecurityLevel_def GetClientAuthentication_def am_Initialize_def lm_new_def)

section \<open>A request is answered at most once\<close>

text \<open>What processing a request leaves alone, and what it does to the request.\<close>

definition frame :: "'w uds_server \<Rightarrow> 'w uds_server \<Rightarrow> bool" where
  "frame s s' \<longleftrightarrow> us_sent s' = us_sent s \<and> us_running s' = us_running s \<and> us_queue s' = us_queue s \<and> us_s3 s' = us_s3 s \<and>
     us_states s' = us_states s \<and> us_responses s' = us_responses s \<and> us_lock s' = us_lock s \<and>
     (tm_wf (us_tm s) \<longrightarrow> tm_wf (us_tm s'))"

definition answered :: "server_request \<Rightarrow> server_request \<Rightarrow> bool" where
  "answered r r' \<longleftrightarrow> rq_channel r' = rq_channel r \<and>
     (\<exists>ans. rc_sent (rq_rc r') = rc_sent (rq_rc r) @ ans \<and> length ans \<le> 1 \<and> list_all (answers (rc_sid (rq_rc r))) ans)"

lemma frame_refl [simp]: "frame s s"
  by (simp add: frame_def)

lemma frame_trans: "frame s s' \<Longrightarrow> frame s' s'' \<Longrightarrow> frame s s''"
  by (simp add: frame_def)

lemma frame_updates [simp]:
  "frame s (s\<lparr>us_sm := sm, us_am := am\<rparr>)" "frame s (s\<lparr>us_sm := sm, us_am := am, us_crashed := b\<rparr>)" "frame s (s\<lparr>us_sm := sm\<rparr>)"
  "frame s (s\<lparr>us_crashed := b\<rparr>)" "frame s (removeRequestHandler h s)" "frame s (s\<lparr>us_sm := sm, us_am := am, us_w := w\<rparr>)"
  "frame s (s\<lparr>us_sm := sm, us_am := am, us_x10 := x\<rparr>)"
  by (simp_all add: frame_def removeRequestHandler_def)

lemma frame_level: "frame s (notify_level app cb i s)"
  by (cases cb) (simp_all add: frame_def on_security_level_change_def)

lemma frame_fold: "(\<And>x t. frame t (g x t)) \<Longrightarrow> frame s (fold g xs s)"
  by (induction xs arbitrary: s) (auto intro: frame_trans)

lemma frame_session: "frame s (notify_session app cb old new s)"
proof (cases cb)
  case OnLevels
  obtain ns lm where l: "lock_on_session_change old new (us_lm s) = (ns, lm)" by fastforce
  have "frame (s\<lparr>us_lm := lm\<rparr>) (fold (\<lambda>(cb, i). notify_level app cb i) ns (s\<lparr>us_lm := lm\<rparr>))"
    by (rule frame_fold) (simp add: frame_level del: notify_level.simps split: prod.split)
  moreover have "frame s (s\<lparr>us_lm := lm\<rparr>)" by (simp add: frame_def)
  ultimately show ?thesis by (auto simp: OnLevels l intro: frame_trans)
qed (auto simp: frame_def updateNonDefaultPriority_def on_session_change_def split: option.split)

lemma frame_SetSession: "frame s (us_SetSession app i c s)"
proof -
  obtain ns sm where n: "SetSession i c (us_sm s) = (ns, sm)" by fastforce
  have "frame (s\<lparr>us_sm := sm\<rparr>) (notify_all app ns (s\<lparr>us_sm := sm\<rparr>))"
    unfolding notify_all_def by (rule frame_fold) (simp add: frame_session del: notify_session.simps split: prod.split)
  then show ?thesis by (auto simp: us_SetSession_def n intro: frame_trans [OF frame_updates(3)])
qed

lemma frame_Confirm: "frame s (us_Confirm app r status s)"
  unfolding us_Confirm_eq by (rule frame_trans [OF _ frame_updates(5)]) (simp add: frame_SetSession)

lemma answered_refl [simp]: "answered r r"
  by (simp add: answered_def)

lemma RcRespond_sent: "rc_sent (RcRespond stray msg rc) = rc_sent rc \<or> rc_sent (RcRespond stray msg rc) = rc_sent rc @ [msg]"
  by (auto simp: RcRespond_def Let_def confirm_def changeState_def StopP2ServerTimer_def channel_Respond_def split: prod.split list.split)

lemma answered_respond: "answers (rc_sid (rq_rc r)) msg \<Longrightarrow> answered r (r\<lparr>rq_rc := RcRespond stray msg (rq_rc r)\<rparr>)"
  using RcRespond_sent [of stray msg "rq_rc r"] by (auto simp: answered_def)

lemma refuse_frame: "us_refuse r nrc s = (r', s') \<Longrightarrow> frame s s' \<and> answered r r'"
  by (auto simp: us_refuse_def answered_respond CreateNegativeResponse_def)

fun reply_answers :: "byte \<Rightarrow> reply \<Rightarrow> bool" where
  "reply_answers sid (Reply msg) \<longleftrightarrow> answers sid msg"
| "reply_answers sid _ \<longleftrightarrow> True"

lemma reply_frame:
  "us_reply app r rep s = (r', s') \<Longrightarrow> reply_answers (rc_sid (rq_rc r)) rep \<Longrightarrow> frame s s' \<and> answered r r'"
  using frame_Confirm by (cases rep) (auto simp: us_reply_def Let_def answered_respond)

lemma reject_answers [simp]: "reply_answers sid (reject sid nrc)"
  by (simp add: reject_def CreateNegativeResponse_def)

lemma x10_answers: "reply_answers 0x10 (fst (x10_Process obs sa body lm st x))"
  by (auto simp: x10_Process_def x10_ParseAndResponse_def Let_def write_defs split: prod.split check.split option.split)

lemma x31_answers: "reply_answers 0x31 (fst (x31_Process obs chk app sa body x lm st w))"
  by (auto simp: x31_Process_def x31_answer_def Let_def write_defs split: prod.split option.split bool.split sum.split)

lemma x2e_answers: "reply_answers 0x2E (fst (x2e_Process obs chk app sa body x lm st w))"
  by (auto simp: x2e_Process_def Let_def write_defs split: prod.split option.split bool.split sum.split)

lemma fold_write_answers: "answers sid m \<Longrightarrow> hd m = sid OR 0x40 \<Longrightarrow> answers sid (fold (\<lambda>(i, r) m. Write_bytes r (Write_u16 i m)) l m)"
proof (induction l arbitrary: m)
  case (Cons e l)
  then have "m \<noteq> []" by (auto simp: answers_def)
  with Cons show ?case by (cases e) (simp add: write_defs)
qed simp

lemma x22_answers: "reply_answers 0x22 (fst (x22_Process obs chk rd sa body x lm st w))"
proof -
  have "reply_answers 0x22 (x22_answer l)" for l
    using fold_write_answers [of "0x22" "CreateResponse 0x22" "filter (\<lambda>(_, r). r \<noteq> []) l"]
    by (auto simp: x22_answer_def Let_def CreateResponse_def kResponseServiceIdMask_def answers_def)
  then show ?thesis by (auto simp: x22_Process_def split: prod.split option.split sum.split)
qed

lemma x29_answers: "fst (x29_Process obs app evs sa body st w) = Some m \<Longrightarrow> answers 0x29 m"
  by (auto simp: x29_Process_def x29_DeAuthenticate_def x29_VerifyUnidirectional_def x29_VerifyBidirectional_def x29_ProofOfOwnership_def
      x29_TransmitCertificate_def x29_AuthenticationConfiguration_def x29_reject_def x29_respond_def CreateNegativeResponse_def Let_def
      split: prod.splits if_splits sum.splits option.splits)

lemma x27_respond_rc [simp]: "xe_rc (x27_respond notify stray msg e) = RcRespond stray msg (xe_rc e)"
  by (auto simp: x27_respond_def x27_Confirm_def Let_def xe_set_state_def xe_unlock_def SetSecurityLevel_def
      split: SecurityLevelState.split option.split)

lemma x27_answers_once:
  assumes "x27_ParseAndResponse notify app stray e = Some e'"
  shows "xe_rc e' = xe_rc e \<or> (\<exists>msg. answers (rc_sid (xe_rc e)) msg \<and> xe_rc e' = RcRespond stray msg (xe_rc e))"
proof -
  let ?A = "\<lambda>e e'. \<exists>msg. answers (rc_sid (xe_rc e)) msg \<and> xe_rc e' = RcRespond stray msg (xe_rc e)"
  have pos: "\<exists>msg. answers sid msg \<and> RcRespond stray (CreateResponse sid @ x) rc = RcRespond stray msg rc" for sid x rc
    by (rule exI [of _ "CreateResponse sid @ x"]) simp
  have neg: "\<exists>msg. answers sid msg \<and> RcRespond stray (CreateNegativeResponse sid nrc) rc = RcRespond stray msg rc" for sid nrc rc
    by (rule exI [of _ "CreateNegativeResponse sid nrc"]) (simp add: CreateNegativeResponse_def)
  have seed: "?A d e''" if "handlerRequestSeed notify app stray level si d = Some e''" for level si d e''
    using that
    by (auto simp: handlerRequestSeed_def x27_reject_def Let_def intro!: pos neg split: if_splits option.splits prod.splits sum.splits)
  have key: "?A d e''" if "handlerSeedKey notify app stray level si d = Some e''" for level si d e''
    using that
    by (auto simp: handlerSeedKey_def reject_key_def x27_reject_def xe_set_state_def Let_def intro!: pos neg
        split: if_splits option.splits prod.splits sum.splits) (use seed in force)+
  from assms neg seed key show ?thesis
    by (auto simp: x27_ParseAndResponse_def handlerState_def x27_reject_def split: option.splits if_splits)
qed

lemma process_x27_frame:
  assumes "process_x27 app r x s = (r', s')"
  shows "frame s s' \<and> answered r r'"
proof -
  obtain c sm am where c: "GeneralService_check OnClient (rq_sa r) (rc_body (rq_rc r)) (x27_service x) (us_lm s) (us_sm s, us_am s) = (c, sm, am)"
    by (metis prod_cases3)
  let ?e = "\<lparr>xe_rc = rq_rc r, xe_x = x, xe_lm = us_lm s, xe_w = s\<lparr>us_sm := sm, us_am := am\<rparr>\<rparr>"
  have P: "frame s (xe_w ?e)" by simp
  have n: "frame s (notify_level app cb i t)" if "frame s t" for cb i t using that frame_level frame_trans by blast
  have e': "frame s (xe_w e')"
    if "x27_ParseAndResponse (notify_level app) (server_security_app (ua_security app)) (rq_stray r) ?e = Some e'" for e'
    by (rule x27_handlers_w [where P = "frame s", OF P n _ _ that])
      (auto simp: frame_def server_security_app_def over_server_def split: prod.split)
  have rej: "frame s (xe_w (x27_reject (notify_level app) (rq_stray r) nrc ?e))" for nrc
    unfolding x27_reject_def by (rule x27_respond_w [where P = "frame s", OF P n])
  have close: "frame s (removeRequestHandler h (t\<lparr>us_x27 := y, us_lm := lm\<rparr>))" if "frame s t" for h t y lm
    using that by (simp add: frame_def removeRequestHandler_def)
  show ?thesis
  proof (cases c)
    case Granted
    show ?thesis
    proof (cases "x27_ParseAndResponse (notify_level app) (server_security_app (ua_security app)) (rq_stray r) ?e")
      case (Some e2)
      from x27_answers_once [OF Some] have "answered r (r\<lparr>rq_rc := xe_rc e2\<rparr>)"
        using answered_respond by (auto simp: answered_def)
      with assms c Granted Some close [OF e' [OF Some]] show ?thesis by (auto simp: process_x27_def Let_def)
    qed (use assms c Granted in \<open>auto simp: process_x27_def Let_def\<close>)
  next
    case (Refused nrc)
    then show ?thesis using assms c close [OF rej]
      by (auto simp: process_x27_def Let_def x27_reject_def answered_respond CreateNegativeResponse_def)
  qed (use assms c in \<open>auto simp: process_x27_def Let_def\<close>)
qed

text \<open>The answer of the transfer manager does not depend on how it is delivered.\<close>

lemma requestDownload_status: "fst (requestDownload app status body tm w) = fst (requestDownload app status' body tm w)"
  by (simp add: requestDownload_def tm_reject_def tm_respond_def Let_def split: sum.split prod.split)

lemma requestUpload_status: "fst (requestUpload app status body tm w) = fst (requestUpload app status' body tm w)"
  by (simp add: requestUpload_def tm_reject_def tm_respond_def Let_def split: sum.split prod.split)

lemma transferData_status: "fst (transferData app status body tm w) = fst (transferData app status' body tm w)"
  by (simp add: transferData_def tm_reject_def tm_respond_def Let_def split: sum.split prod.split)

lemma transferExit_status: "fst (transferExit app status body tm w) = fst (transferExit app status' body tm w)"
  by (simp add: transferExit_def tm_reject_def tm_respond_def Let_def split: sum.split prod.split)

lemma addFile_status: "fst (addFile app status body p tm w) = fst (addFile app status' body p tm w)"
  by (simp add: addFile_def tm_reject_def tm_respond_def Let_def split: sum.split prod.split)

lemma deleteFile_request_status: "fst (deleteFile_request app status body p tm w) = fst (deleteFile_request app status' body p tm w)"
  by (simp add: deleteFile_request_def tm_reject_def tm_respond_def Let_def split: sum.split prod.split)

lemma replaceFile_status: "fst (replaceFile app status body p tm w) = fst (replaceFile app status' body p tm w)"
  by (simp add: replaceFile_def tm_reject_def tm_respond_def Let_def split: sum.split prod.split)

lemma readFile_request_status: "fst (readFile_request app status body p tm w) = fst (readFile_request app status' body p tm w)"
  by (simp add: readFile_request_def tm_reject_def tm_respond_def Let_def split: sum.split prod.split)

lemma readDir_request_status: "fst (readDir_request app status body p tm w) = fst (readDir_request app status' body p tm w)"
  by (simp add: readDir_request_def tm_reject_def tm_respond_def Let_def split: sum.split prod.split)

lemma resumeFile_status: "fst (resumeFile app status body p tm w) = fst (resumeFile app status' body p tm w)"
  by (simp add: resumeFile_def tm_reject_def tm_respond_def Let_def split: sum.split prod.split)

lemmas status_facts = requestDownload_status requestUpload_status transferData_status transferExit_status addFile_status deleteFile_request_status replaceFile_status readFile_request_status readDir_request_status resumeFile_status

lemma requestFileTransfer_status: "fst (requestFileTransfer app status body tm w) = fst (requestFileTransfer app status' body tm w)"
  by (simp add: requestFileTransfer_def tm_reject_def status_facts [where status = status and status' = status'] split: prod.split)

lemma TmProcess_status: "fst (TmProcess app sid status body tm w) = fst (TmProcess app sid status' body tm w)"
  by (simp add: TmProcess_def status_facts [where status = status and status' = status'] requestFileTransfer_status [where status = status and status' = status'])

lemma process_transfer_frame:
  assumes "process_transfer app r s = (r', s')" and wf: "tm_wf (us_tm s)"
  shows "frame s s' \<and> answered r r'"
proof (cases "rc_sid (rq_rc r) \<in> {0x34, 0x35, 0x36, 0x37, 0x38}")
  case True
  let ?T = "\<lambda>status. TmProcess (ua_transfer app) (rc_sid (rq_rc r)) status (rc_body (rq_rc r)) (us_tm s) (us_w s)"
  have g: "good_result (rc_sid (rq_rc r)) (?T status)" for status using TmProcess_good [OF wf True] .
  from g [of kResPosOk] obtain msg where msg: "fst (?T kResPosOk) = Some msg" "answers (rc_sid (rq_rc r)) msg"
    by (auto simp: good_result_def)
  let ?rc = "RcRespond (rq_stray r) msg (rq_rc r)"
  from g [of "last (rc_confirmed ?rc)"] have "tm_wf (fst (snd (?T (last (rc_confirmed ?rc)))))" by (simp add: good_result_def)
  with assms(1) msg show ?thesis
    by (auto simp: process_transfer_def Let_def frame_def removeRequestHandler_def answered_respond split: prod.splits)
next
  case False
  with assms(1) show ?thesis by (auto simp: process_transfer_def Let_def TmProcess_other frame_def)
qed

lemma process_frame:
  assumes p: "process app r s = (r', s')" and wf: "tm_wf (us_tm s)"
  shows "frame s s' \<and> answered r r'"
proof -
  have via: "frame s s' \<and> answered r r'" if "us_reply app r rep t = (r', s')" "frame s t" "reply_answers (rc_sid (rq_rc r)) rep" for rep t
    using reply_frame [OF that(1,3)] that(2) frame_trans by blast
  have a: "reply_answers 0x10 rep" if "x10_Process obs sa body lm st x = (rep, y)" for obs sa body lm st x rep y
    using x10_answers [of obs sa body lm st x] that by simp
  have b: "reply_answers 0x22 rep" if "x22_Process obs chk rd sa body x lm st w = (rep, y)" for obs chk rd sa body lm st x w rep y
    using x22_answers [of obs chk rd sa body x lm st w] that by simp
  have c: "reply_answers 0x2E rep" if "x2e_Process obs chk ap sa body x lm st w = (rep, y)" for obs chk ap sa body lm st x w rep y
    using x2e_answers [of obs chk ap sa body x lm st w] that by simp
  have d: "reply_answers 0x31 rep" if "x31_Process obs chk ap sa body x lm st w = (rep, y)" for obs chk ap sa body lm st x w rep y
    using x31_answers [of obs chk ap sa body x lm st w] that by simp
  have f: "reply_answers 0x29 (case m of None \<Rightarrow> Silent | Some m \<Rightarrow> Reply m)" if "x29_Process obs ap evs sa body st w = (m, y)" for obs ap evs sa body st w m y
    using x29_answers [of obs ap evs sa body st w] that by (simp split: option.split)
  show ?thesis
  proof (cases "rc_sid (rq_rc r) \<in> {0x10, 0x22, 0x2E, 0x31, 0x27, 0x29}")
    case True
    with p show ?thesis
      by (auto simp: process_def Let_def elim!: via dest: a b c d f process_x27_frame split: if_splits option.splits prod.splits)
  next
    case False
    with p have "process_transfer app r s = (r', s')" by (simp add: process_def Let_def)
    then show ?thesis by (rule process_transfer_frame [OF _ wf])
  qed
qed

lemma handle_frame:
  assumes "handleRequestContext app r s = (r', s')" and "tm_wf (us_tm s)"
  shows "frame s s' \<and> answered r r'"
proof -
  obtain c sm am where c: "us_sid_check (rq_sa r) (rc_sid (rq_rc r)) (rc_body (rq_rc r)) s = (c, sm, am)" by (metis prod_cases3)
  let ?s = "s\<lparr>us_sm := sm, us_am := am\<rparr>"
  have f: "frame s ?s" by simp
  have "frame ?s s' \<and> answered r r'" if "process app r ?s = (r', s')" using process_frame [OF that] assms(2) by simp
  moreover have "frame ?s s' \<and> answered r r'" if "us_refuse r nrc ?s = (r', s')" for nrc using that by (rule refuse_frame)
  moreover have "frame s s' \<and> answered r r'" if "us_refuse r nrc s = (r', s')" for nrc using that by (rule refuse_frame)
  ultimately show ?thesis using assms(1) c frame_trans [OF f]
    by (auto simp: handleRequestContext_def Let_def split: if_splits check.splits)
qed

lemma with_client_keeps [simp]:
  "us_tm (with_client a f s) = us_tm s" "us_sent (with_client a f s) = us_sent s" "us_running (with_client a f s) = us_running s"
  "us_queue (with_client a f s) = us_queue s" "us_s3 (with_client a f s) = us_s3 s"
  "us_states (with_client a f s) = us_states s" "us_responses (with_client a f s) = us_responses s" "us_lock (with_client a f s) = us_lock s"
  by (auto simp: with_client_def split: prod.split option.split)

lemma cancel_keeps [simp]: "us_tm (cancel_running c s) = us_tm s" "us_s3 (cancel_running c s) = us_s3 s"
  by (auto simp: cancel_running_def updateRequestContextStateTable_def Let_def split: option.split)

lemma SetSession_wf: "tm_wf (us_tm s) \<Longrightarrow> tm_wf (us_tm (us_SetSession app i c s))"
  using frame_SetSession by (auto simp: frame_def)

lemma prioritize_wf: "tm_wf (us_tm s) \<Longrightarrow> tm_wf (us_tm (snd (prioritize app c p s)))"
  by (auto simp: prioritize_def Let_def ResetDefaultSession_def SetSession_wf)

lemma Indicate_wf:
  assumes "tm_wf (us_tm s)"
  shows "tm_wf (us_tm (snd (Indicate app m s)))"
proof -
  have "tm_wf (us_tm (snd (prioritize app (ms_sa m) (ms_priority m) (s\<lparr>us_s3 := False\<rparr>))))" using assms by (intro prioritize_wf) simp
  with assms show ?thesis by (auto simp: Indicate_def put_response_def Let_def split: prod.split bool.split)
qed

lemma HandleMessage_tm [simp]: "us_tm (HandleMessage m s) = us_tm s"
  by (auto simp: HandleMessage_def allocRequestHandler_def Let_def split: option.split)

lemma step_wf:
  assumes "tm_wf (us_tm s)"
  shows "tm_wf (us_tm (server_step app e s))"
proof (cases e)
  case (Receive m)
  with Indicate_wf [OF assms, of app m] show ?thesis by (simp add: case_prod_unfold)
next
  case (Finish client)
  show ?thesis
  proof (cases "map_of (us_running s) client")
    case (Some r)
    obtain r' s1 where h: "handleRequestContext app r s = (r', s1)" by fastforce
    with handle_frame [OF h assms] assms show ?thesis
      by (simp add: Finish finish_request_def Some Let_def updateRequestContextStateTable_def frame_def)
  qed (use assms in \<open>simp add: Finish finish_request_def\<close>)
next
  case S3Expires
  then show ?thesis using assms by (auto simp: s3Timeout_def Let_def SetSession_wf split: prod.split option.split)
qed (use assms in \<open>auto simp: take_request_def request_timer_def updateRequestContextStateTable_def delay_expires_def TryLock_def Unlock_def
    ResetDefaultSession_def SetSession_wf Let_def split: list.split option.split\<close>)

lemma run_wf: "tm_wf (us_tm s) \<Longrightarrow> tm_wf (us_tm (server_run app evs s))"
  unfolding server_run_def by (induction evs arbitrary: s) (simp_all add: step_wf)


section \<open>Which requests are admitted\<close>

lemma lower_client_zero:
  assumes "\<forall>(c, r) \<in> set running. c \<noteq> 0"
  shows "lower_client priority running = 0 \<longleftrightarrow> (\<forall>(c, r) \<in> set running. \<not> priority < rq_priority r)"
  using assms unfolding lower_client_def
proof (induction running rule: rev_induct)
  case (snoc e running)
  then show ?case by (cases e) auto
qed simp

text \<open>
  With all places taken the wrong requests are admitted. In the default session, when as many requests
  run as are allowed to run in parallel, a request of another client is admitted exactly if no running
  request has a lower priority: it then takes a further place beyond the limit and nothing is
  displaced. A request that could displace one is refused.
\<close>

theorem full_server_admits_low_priority:
  assumes "\<not> isNonDefaultSession s" and "c \<noteq> sm_client (us_sm s)"
    and "length (us_running s) = ss_maxParallelRequests (us_setting s)" and "\<forall>(a, r) \<in> set (us_running s). a \<noteq> 0"
  shows "prioritize app c priority s = (\<forall>(a, r) \<in> set (us_running s). \<not> priority < rq_priority r, s)"
proof (cases "\<forall>(a, r) \<in> set (us_running s). \<not> priority < rq_priority r")
  case True
  have e: "table_erase 0 (us_running s) = us_running s"
    using assms(4) by (auto simp: table_erase_def filter_id_conv)
  have "lower_client priority (us_running s) = 0" using lower_client_zero [OF assms(4)] True by simp
  moreover have "\<not> (\<exists>(a, r) \<in> set (us_running s). priority < rq_priority r)" using True by auto
  ultimately show ?thesis using assms(1-3) True e by (simp add: prioritize_def Let_def)
next
  case False
  then have "lower_client priority (us_running s) \<noteq> 0" using lower_client_zero [OF assms(4)] by simp
  with False assms(1-3) show ?thesis by (simp add: prioritize_def Let_def)
qed

section \<open>A server to try\<close>

text \<open>A server with the sessions 1 and 3, and an application that is asked for nothing else.\<close>

definition quiet_app :: "unit uds_app" where
  "quiet_app = \<lparr>ua_data = undefined, ua_routine = undefined, ua_security = undefined, ua_auth = undefined, ua_transfer = undefined,
     ua_compare = undefined, ua_depth = 0, ua_session = \<lambda>n old new w. w, ua_level = \<lambda>n i w. w\<rparr>"

definition demo_sessions :: "unit uds_server init" where
  "demo_sessions = Initialize_sessions
     [\<lparr>se_shortName = ''default'', se_id = 1, se_p2ServerMax = 50, se_p2StarServerMax = 5000\<rparr>,
      \<lparr>se_shortName = ''extended'', se_id = 3, se_p2ServerMax = 50, se_p2StarServerMax = 5000\<rparr>]
     [\<lparr>ci_id = 1, ci_auth = None, ci_sessions = [1, 3], ci_levels = []\<rparr>, \<lparr>ci_id = 3, ci_auth = None, ci_sessions = [1, 3], ci_levels = []\<rparr>] 0
     (us_new \<lparr>ss_maxPending = 0, ss_responseOnSecondDeclinedRequest = False, ss_maxParallelRequests = 4, ss_functional = [], ss_physical = 1\<rparr> ())"

definition demo_default :: "unit uds_server" where
  "demo_default = (case demo_sessions of Started s \<Rightarrow> s\<lparr>us_sm := snd (AddNotifyOfSessionChange OnLevels (us_sm s))\<rparr>)"

definition demo_request :: "bytes \<Rightarrow> message" where
  "demo_request body = \<lparr>ms_sa = 0x0E80, ms_ta = 1, ms_body = body, ms_priority = 10, ms_channel = 2, ms_sends = [], ms_stray = 0\<rparr>"

definition demo_taken :: "unit uds_server" where
  "demo_taken = server_run quiet_app [Receive (demo_request [0x10, 3]), Take] demo_default"


theorem full_server_admits_low_priority_witness:
  "prioritize quiet_app 0x0E81 20 (demo_taken\<lparr>us_setting := (us_setting demo_taken)\<lparr>ss_maxParallelRequests := 1\<rparr>\<rparr>) =
     (True, demo_taken\<lparr>us_setting := (us_setting demo_taken)\<lparr>ss_maxParallelRequests := 1\<rparr>\<rparr>)"
proof -
  have "\<not> isNonDefaultSession demo_taken" "0x0E81 \<noteq> sm_client (us_sm demo_taken)" "length (us_running demo_taken) = 1"
    "\<forall>(a, r) \<in> set (us_running demo_taken). a \<noteq> 0" "\<forall>(a, r) \<in> set (us_running demo_taken). \<not> 20 < rq_priority r"
    by code_simp+
  then show ?thesis by (subst full_server_admits_low_priority) (simp_all add: isNonDefaultSession_def)
qed

end
