(* ===== verification/UdsS3.thy ===== *)
theory UdsS3
  imports UdsServerProps
begin

text \<open>
  The S3 timer of the UDS server (src/src/uds/capi/isoft-uds/src/server/src/server_impl.cpp), which ends a session
  that nobody uses any more: when it runs, when it does not, and what its end does. Every message stops
  it; the end of a request, and a tester present message, start it again.
\<close>

section \<open>Sessions that are attended to\<close>

text \<open>A server whose tables agree: a client whose request is being processed has it in the table of running requests,
  no answer waits for its message, the server is not locked and no request has the address 0.\<close>

definition tidy :: "'w uds_server \<Rightarrow> bool" where
  "tidy s \<longleftrightarrow> (\<forall>c. us_states s c = Some kRequest_ctx \<longrightarrow> c \<in> fst ` set (us_running s)) \<and> us_responses s = [] \<and> \<not> us_lock s \<and>
     0 \<notin> fst ` set (us_running s) \<and> (\<forall>r \<in> set (us_queue s). rq_sa r \<noteq> 0) \<and> tm_wf (us_tm s)"

definition attended :: "'w uds_server \<Rightarrow> bool" where
  "attended s \<longleftrightarrow> (isNonDefaultSession s \<longrightarrow> us_s3 s \<or> us_running s \<noteq> [] \<or> us_queue s \<noteq> [])"

lemma tidy_frame: "tidy s \<Longrightarrow> frame s s' \<Longrightarrow> tidy s'"
  by (simp add: tidy_def frame_def)

lemma tidy_s3 [simp]: "tidy (s\<lparr>us_s3 := b\<rparr>) = tidy s"
  by (simp add: tidy_def)

lemma tidy_sm_am [simp]: "tidy (s\<lparr>us_sm := sm, us_am := am\<rparr>) = tidy s"
  by (simp add: tidy_def)

lemma keys_update [simp]: "fst ` set (table_update k f tab) = fst ` set tab"
  by (metis keys_table_update set_map)

lemma keys_erase [simp]: "fst ` set (table_erase k tab) = fst ` set tab - {k}"
  by (auto simp: table_erase_def)

lemma keys_insert [simp]: "fst ` set (table_insert k v tab) = insert k (fst ` set tab)"
  by (auto simp: set_table_insert)

lemma in_running: "map_of tab c \<noteq> None \<longleftrightarrow> c \<in> fst ` set tab"
  by (simp add: map_of_eq_None_iff)

lemma SetSession_tidy: "tidy s \<Longrightarrow> tidy (us_SetSession app i c s)"
  using tidy_frame frame_SetSession by blast

text \<open>A new state of a request that runs.\<close>

lemma tidy_state:
  assumes "tidy s" and "map_of (us_running s) c = Some r" and "fst ` set tab = fst ` set (us_running s)"
  shows "tidy (updateRequestContextStateTable c st (s\<lparr>us_running := tab\<rparr>))"
  using assms in_running [of "us_running s" c] by (simp add: tidy_def updateRequestContextStateTable_def)

lemma cancel_tidy: "tidy s \<Longrightarrow> tidy (cancel_running c s)"
  by (auto simp: cancel_running_def Let_def tidy_state split: option.split)

lemma prioritize_tidy:
  assumes "tidy s"
  shows "tidy (snd (prioritize app c p s))"
proof -
  have "tidy (t\<lparr>us_running := table_erase 0 (us_running s)\<rparr>)" if "t = s \<or> t = cancel_running 0 s" for t
  proof -
    have "map_of (us_running s) 0 = None" using assms by (simp add: tidy_def map_of_eq_None_iff)
    then have "t = s" using that by (auto simp: cancel_running_def)
    then show ?thesis using assms by (auto simp: tidy_def)
  qed
  then show ?thesis using assms by (auto simp: prioritize_def Let_def ResetDefaultSession_def SetSession_tidy cancel_tidy)
qed

lemma take_tidy:
  assumes "tidy s"
  shows "tidy (take_request s)"
proof (cases "us_queue s")
  case (Cons r rs)
  have "c \<in> fst ` set (us_running s) \<or> c = rq_sa r" if "((us_states s)(rq_sa r \<mapsto> st)) c = Some kRequest_ctx" for c st
    using that assms by (auto simp: tidy_def split: if_splits)
  with Cons assms show ?thesis
    by (auto simp: take_request_def tidy_def updateRequestContextStateTable_def Let_def split: option.split)
qed (use assms in \<open>simp add: take_request_def\<close>)

lemma RcEnd_not_request: "rc_state (RcEnd rc) \<noteq> kRequest_ctx"
  by (simp add: RcEnd_def changeState_def)

lemma tidy_end:
  "tidy s \<Longrightarrow> st \<noteq> kRequest_ctx \<Longrightarrow> tidy (updateRequestContextStateTable c st (s\<lparr>us_running := table_erase c (us_running s), us_sent := sent\<rparr>))"
  "tidy s \<Longrightarrow> st \<noteq> kRequest_ctx \<Longrightarrow> tidy (updateRequestContextStateTable c st (s\<lparr>us_s3 := b, us_running := table_erase c (us_running s), us_sent := sent\<rparr>))"
  by (simp_all add: tidy_def updateRequestContextStateTable_def)

lemma finish_tidy:
  assumes "tidy s"
  shows "tidy (finish_request app client s)"
proof (cases "map_of (us_running s) client")
  case (Some r)
  obtain r' s1 where h: "handleRequestContext app r s = (r', s1)" by fastforce
  have "tidy s1" using tidy_frame [OF assms] handle_frame [OF h] assms unfolding tidy_def by blast
  then have "tidy (with_client client ca_Refresh s1)" by (simp add: tidy_def)
  then show ?thesis by (simp add: finish_request_def Some h Let_def tidy_end RcEnd_not_request)
qed (simp add: finish_request_def assms)

lemma timer_tidy: "tidy s \<Longrightarrow> tidy (request_timer c ev s)"
  by (auto simp: request_timer_def Let_def tidy_state split: option.split)

lemma s3Timeout_session: "sm_current (us_sm (s3Timeout app s)) = 1"
proof -
  obtain c sm am where g: "GetClientAuthentication OnClient (sm_client (us_sm s)) (us_sm (us_SetSession app 1 0 s), us_am (us_SetSession app 1 0 s)) = (c, sm, am)"
    by (metis prod_cases3)
  have "sm_current sm = 1" using calm_GetClient [OF g] by (simp add: calm_def us_SetSession_facts)
  with g show ?thesis by (simp add: s3Timeout_def Let_def split: option.split)
qed

lemma s3Timeout_tidy: "tidy s \<Longrightarrow> tidy (s3Timeout app s)"
  using SetSession_tidy [of s app 1 0] by (auto simp: s3Timeout_def Let_def split: prod.split option.split)

lemma HandleMessage_tidy:
  assumes "tidy (s\<lparr>us_responses := []\<rparr>)" and "ms_sa m \<noteq> 0" and "us_responses s = [] \<or> (\<exists>msg. us_responses s = [(ms_channel m, msg)])"
  shows "tidy (HandleMessage m s)"
  using assms
  by (auto simp: tidy_def HandleMessage_def allocRequestHandler_def Let_def table_erase_def split: option.split)

text \<open>A server that is not locked and declines no request.\<close>

fun served :: "'w uds_app \<Rightarrow> server_event \<Rightarrow> 'w uds_server \<Rightarrow> bool" where
  "served app (Receive m) s \<longleftrightarrow> ms_sa m \<noteq> 0 \<and>
     (fst (ReadUint8 (ms_body m) 0) = 0x3E \<or> fst (prioritize app (ms_sa m) (ms_priority m) (s\<lparr>us_s3 := False\<rparr>)))"
| "served app LockServer s \<longleftrightarrow> False"
| "served app _ s \<longleftrightarrow> True"

lemma receive_tidy:
  assumes "tidy s" and "attended s" and "served app (Receive m) s"
  shows "tidy (server_step app (Receive m) s) \<and> attended (server_step app (Receive m) s)"
proof -
  let ?s = "s\<lparr>us_s3 := False\<rparr>"
  have l: "\<not> us_lock s" "us_responses s = []" using assms(1) by (simp_all add: tidy_def)
  consider (tester) "fst (ReadUint8 (ms_body m) 0) = 0x3E" | (ignored) "fst (ReadUint8 (ms_body m) 0) \<noteq> 0x3E" "isRequestState (ms_sa m) ?s"
    | (admitted) s1 where "fst (ReadUint8 (ms_body m) 0) \<noteq> 0x3E" "\<not> isRequestState (ms_sa m) ?s"
        "prioritize app (ms_sa m) (ms_priority m) ?s = (True, s1)"
    using assms(3) by (cases "prioritize app (ms_sa m) (ms_priority m) ?s") auto
  then show ?thesis
  proof cases
    case tester
    let ?t = "put_response (ms_channel m) (tester_present (ms_body m)) ?s"
    let ?u = "if isRequestState (ms_sa m) ?t then ?t else ?t\<lparr>us_s3 := True\<rparr>"
    have r: "us_responses ?u = [(ms_channel m, tester_present (ms_body m))]" by (simp add: put_response_def table_insert_def l)
    have e: "server_step app (Receive m) s = HandleMessage m ?u" by (simp add: Indicate_def Let_def l tester)
    have "us_running ?u \<noteq> []" if "\<not> us_s3 ?u" using that assms(1) by (auto simp: put_response_def isRequestState_def tidy_def split: if_splits)
    then have "us_running (HandleMessage m ?u) \<noteq> []" if "\<not> us_s3 (HandleMessage m ?u)" using that r by (simp add: HandleMessage_def)
    then have "attended (HandleMessage m ?u)" by (auto simp: attended_def)
    moreover have "tidy (HandleMessage m ?u)" using assms r by (intro HandleMessage_tidy) (simp_all add: tidy_def put_response_def)
    ultimately show ?thesis by (simp only: e)
  next
    case ignored
    then have e: "server_step app (Receive m) s = ?s" by (simp add: Indicate_def Let_def l)
    have "us_running s \<noteq> []" using ignored assms(1) by (auto simp: isRequestState_def tidy_def)
    with assms(1) have "tidy ?s \<and> attended ?s" by (simp add: attended_def)
    then show ?thesis by (simp only: e)
  next
    case admitted
    then have e: "server_step app (Receive m) s = HandleMessage m s1" by (simp add: Indicate_def Let_def l)
    have t: "tidy s1" using prioritize_tidy [of ?s app "ms_sa m" "ms_priority m"] admitted assms(1) by simp
    then have r: "us_responses s1 = []" by (simp add: tidy_def)
    have "tidy (s1\<lparr>us_responses := []\<rparr>)" using t by (simp add: tidy_def)
    moreover have "us_queue (HandleMessage m s1) \<noteq> []" using r by (simp add: HandleMessage_def Let_def split: prod.split)
    moreover have "tidy (HandleMessage m s1)" using calculation(1) r assms(3) by (intro HandleMessage_tidy) simp_all
    ultimately have "tidy (HandleMessage m s1) \<and> attended (HandleMessage m s1)" by (simp add: attended_def)
    then show ?thesis by (simp only: e)
  qed
qed

lemma finish_attended: "attended s \<Longrightarrow> attended (finish_request app client s)"
  by (simp add: finish_request_def attended_def updateRequestContextStateTable_def isNonDefaultSession_def Let_def split: option.split prod.split)

lemma take_attended: "attended s \<Longrightarrow> \<not> us_crashed (take_request s) \<Longrightarrow> attended (take_request s)"
  by (auto simp: take_request_def attended_def updateRequestContextStateTable_def isNonDefaultSession_def Let_def table_insert_def
      split: list.splits option.splits if_splits)

lemma default_attended: "sm_current (us_sm s) = 1 \<Longrightarrow> attended s"
  by (simp add: attended_def isNonDefaultSession_def)

lemma timer_attended: "attended s \<Longrightarrow> attended (request_timer c ev s)"
  by (auto simp: request_timer_def attended_def updateRequestContextStateTable_def isNonDefaultSession_def Let_def table_update_def split: option.splits)

lemma served_step:
  assumes "tidy s \<and> attended s" and "served app e s" and "\<not> us_crashed (server_step app e s)"
  shows "tidy (server_step app e s) \<and> attended (server_step app e s)"
proof (cases e)
  case (Receive m)
  then show ?thesis using receive_tidy assms by blast
next
  case S3Expires
  then show ?thesis using assms s3Timeout_tidy [of "s\<lparr>us_s3 := False\<rparr>" app] by (simp add: s3Timeout_session default_attended)
next
  case (LevelDelayExpires i)
  then show ?thesis using assms by (auto simp: delay_expires_def tidy_def attended_def isNonDefaultSession_def split: option.split)
next
  case Take
  then show ?thesis using assms by (simp add: take_tidy take_attended)
next
  case (Finish c)
  then show ?thesis using assms by (simp add: finish_tidy finish_attended)
next
  case (RequestTimer c ev)
  then show ?thesis using assms by (simp add: timer_tidy timer_attended)
next
  case ResetSession
  then show ?thesis using assms by (simp add: ResetDefaultSession_def SetSession_tidy default_attended us_SetSession_facts)
qed (use assms in \<open>simp_all add: Unlock_def tidy_def attended_def isNonDefaultSession_def\<close>)

section \<open>A session that nobody uses ends\<close>

inductive served_run :: "'w uds_app \<Rightarrow> 'w uds_server \<Rightarrow> 'w uds_server \<Rightarrow> bool" for app s0 where
  served_start: "served_run app s0 s0"
| served_next: "served_run app s0 s \<Longrightarrow> served app e s \<Longrightarrow> \<not> us_crashed (server_step app e s) \<Longrightarrow> served_run app s0 (server_step app e s)"

lemma served_run_attended: "served_run app s0 s \<Longrightarrow> tidy s0 \<and> attended s0 \<Longrightarrow> tidy s \<and> attended s"
proof (induction rule: served_run.induct)
  case (served_next s e)
  then show ?case using served_step [of s app e] by simp
qed simp

text \<open>
  C14: a session that nobody uses ends. As long as the server declines no request and is not locked, after any
  sequence of events in a session other than the default one a request is waiting, a request is running, or the S3
  timer is; and when the timer ends, the default session is back and no security level is unlocked.
\<close>

theorem unused_session_ends:
  assumes "served_run app s0 s" and "tidy s0" and "sm_current (us_sm s0) = 1"
    and "isNonDefaultSession s" and "us_running s = []" and "us_queue s = []" and "OnLevels \<in> watched s"
  shows "us_s3 s \<and> sm_current (us_sm (server_step app S3Expires s)) = 1 \<and> lm_current (us_lm (server_step app S3Expires s)) = 0"
proof -
  have "attended s" using served_run_attended [OF assms(1)] default_attended [OF assms(3)] assms(2) by simp
  with assms(4-6) have s3: "us_s3 s" by (simp add: attended_def)
  then have e: "server_step app S3Expires s = s3Timeout app (s\<lparr>us_s3 := False\<rparr>)" by simp
  have "sm_current (us_sm (server_step app S3Expires s)) = 1" unfolding e by (rule s3Timeout_session)
  moreover have "lm_current (us_lm (server_step app S3Expires s)) = 0"
    using step_locks [of s app S3Expires] calculation assms(4,7) by (simp add: locks_def isNonDefaultSession_def del: server_step.simps)
  ultimately show ?thesis using s3 by simp
qed

lemma demo_states: "us_states demo_default = Map.empty"
  by (simp add: demo_default_def demo_sessions_def Initialize_sessions_def sm_Initialize_def x10_Initialize_def register_validators_def
      no_validators_def us_new_def sm_new_def init_of_def SessionValidator_Initialize_def GetSession_def RegisterSubfunctionLevel_def x10_new_def
      AddNotifyOfSessionChange_def add_callback_def Let_def split: prod.split)

theorem unused_session_ends_witness:
  "us_s3 (server_step quiet_app (Finish 0x0E80) demo_taken) \<and>
   sm_current (us_sm (server_step quiet_app S3Expires (server_step quiet_app (Finish 0x0E80) demo_taken))) = 1 \<and>
   lm_current (us_lm (server_step quiet_app S3Expires (server_step quiet_app (Finish 0x0E80) demo_taken))) = 0"
proof (rule unused_session_ends)
  have "served quiet_app (Receive (demo_request [0x10, 3])) demo_default" "\<not> us_crashed (server_step quiet_app (Receive (demo_request [0x10, 3])) demo_default)"
    by code_simp+
  with served_start have r: "served_run quiet_app demo_default (server_step quiet_app (Receive (demo_request [0x10, 3])) demo_default)" by (rule served_next)
  have e: "demo_taken = server_step quiet_app Take (server_step quiet_app (Receive (demo_request [0x10, 3])) demo_default)"
    by (simp add: demo_taken_def server_run_def del: server_step.simps)
  have "\<not> us_crashed demo_taken" by code_simp
  then have "served_run quiet_app demo_default demo_taken" unfolding e by (intro served_next [OF r]) (simp_all only: served.simps not_False_eq_True)
  moreover have "\<not> us_crashed (server_step quiet_app (Finish 0x0E80) demo_taken)" by code_simp
  ultimately show "served_run quiet_app demo_default (server_step quiet_app (Finish 0x0E80) demo_taken)" by (intro served_next) simp_all
  show "tidy demo_default" unfolding tidy_def by (intro conjI) (simp add: demo_states, code_simp+)
  show "sm_current (us_sm demo_default) = 1" by code_simp
  show "isNonDefaultSession (server_step quiet_app (Finish 0x0E80) demo_taken)" by code_simp
  show "us_running (server_step quiet_app (Finish 0x0E80) demo_taken) = []" by code_simp
  show "us_queue (server_step quiet_app (Finish 0x0E80) demo_taken) = []" by code_simp
  show "OnLevels \<in> watched (server_step quiet_app (Finish 0x0E80) demo_taken)" by code_simp
qed

section \<open>A declined request keeps a session open\<close>

fun from_outside :: "server_event \<Rightarrow> bool" where
  "from_outside (Receive m) \<longleftrightarrow> True"
| "from_outside ResetSession \<longleftrightarrow> True"
| "from_outside _ \<longleftrightarrow> False"

definition left_open :: "byte \<Rightarrow> 'w uds_server \<Rightarrow> bool" where
  "left_open i s \<longleftrightarrow> sm_current (us_sm s) = i \<and> \<not> us_s3 s \<and> us_running s = [] \<and> us_queue s = []"

lemma left_open_step: "left_open i s \<Longrightarrow> \<not> from_outside e \<Longrightarrow> left_open i (server_step app e s)"
  by (cases e) (auto simp: left_open_def take_request_def finish_request_def request_timer_def delay_expires_def TryLock_def Unlock_def split: option.split)

lemma left_open_run: "left_open i s \<Longrightarrow> \<forall>e \<in> set evs. \<not> from_outside e \<Longrightarrow> left_open i (server_run app evs s)"
  unfolding server_run_def by (induction evs arbitrary: s) (simp_all add: left_open_step del: server_step.simps)

lemma declined_request:
  assumes "isNonDefaultSession s" and "ms_sa m \<noteq> sm_client (us_sm s)" and "\<not> ms_priority m < us_priority s" and "fst (ReadUint8 (ms_body m) 0) \<noteq> 0x3E"
    and "us_running s = []" and "us_queue s = []" and "us_responses s = []"
  shows "left_open (sm_current (us_sm s)) (server_step app (Receive m) s)"
  using assms by (simp add: left_open_def Indicate_def Let_def prioritize_def isNonDefaultSession_def put_response_def HandleMessage_def table_insert_def)



end
