(* ===== verification/UdsQueue.thy ===== *)
theory UdsQueue
  imports UdsServer "HOL-Library.Multiset"
begin

text \<open>
  How the worker threads of the UDS server share its queue of requests (\<open>ServerImpl::HandleMessage\<close>,
  src/src/uds/capi/isoft-uds/src/server/src/server_impl.cpp).

  Every queued request submits one worker to the thread pool. A worker looks at the first request of the queue and gives
  up the lock of the queue; enters the request into the table of running requests, unless its client is there
  already, in which case the worker ends; takes the lock again and removes the first request of the queue; handles
  the request it looked at; removes its client from the table; and looks again. Each of these is one atomic step here, and
  the steps of any number of workers interleave in any order. Removing the first element of an empty queue is
  undefined behaviour: \<open>pl_broken\<close>, after which nothing is said any more.
\<close>

datatype worker = Looking | Found server_request | Entered server_request | Taken server_request | Handled server_request | Gone

record pool =
  pl_queue :: "server_request list"
  pl_table :: "u16 set"
  pl_workers :: "worker list"
  pl_pushed :: "server_request list"
  pl_handled :: "server_request list"
  pl_broken :: bool

definition pool_new :: pool where
  "pool_new = \<lparr>pl_queue = [], pl_table = {}, pl_workers = [], pl_pushed = [], pl_handled = [], pl_broken = False\<rparr>"

fun pool_worker_step :: "worker \<Rightarrow> pool \<Rightarrow> worker \<times> pool" where
  "pool_worker_step Looking p = (case pl_queue p of [] \<Rightarrow> (Gone, p) | r # _ \<Rightarrow> (Found r, p))"
| "pool_worker_step (Found r) p = (if rq_sa r \<in> pl_table p then (Gone, p) else (Entered r, p\<lparr>pl_table := insert (rq_sa r) (pl_table p)\<rparr>))"
| "pool_worker_step (Entered r) p =
     (case pl_queue p of [] \<Rightarrow> (Taken r, p\<lparr>pl_broken := True\<rparr>) | _ # rs \<Rightarrow> (Taken r, p\<lparr>pl_queue := rs\<rparr>))"
| "pool_worker_step (Taken r) p = (Handled r, p\<lparr>pl_handled := pl_handled p @ [r]\<rparr>)"
| "pool_worker_step (Handled r) p = (Looking, p\<lparr>pl_table := pl_table p - {rq_sa r}\<rparr>)"
| "pool_worker_step Gone p = (Gone, p)"

datatype pool_event = Push server_request | Work nat

fun pool_step :: "pool_event \<Rightarrow> pool \<Rightarrow> pool" where
  "pool_step (Push r) p = (if pl_broken p then p
     else p\<lparr>pl_queue := pl_queue p @ [r], pl_pushed := pl_pushed p @ [r], pl_workers := pl_workers p @ [Looking]\<rparr>)"
| "pool_step (Work i) p = (if pl_broken p \<or> length (pl_workers p) \<le> i then p
     else (case pool_worker_step (pl_workers p ! i) p of (w, p') \<Rightarrow> p'\<lparr>pl_workers := (pl_workers p)[i := w]\<rparr>))"

definition pool_run :: "pool_event list \<Rightarrow> pool \<Rightarrow> pool" where
  "pool_run evs p = fold pool_step evs p"

section \<open>A waiting request has a worker\<close>

text \<open>The clients that a worker has entered.\<close>

fun entered :: "worker \<Rightarrow> u16 set" where
  "entered (Entered r) = {rq_sa r}"
| "entered (Taken r) = {rq_sa r}"
| "entered (Handled r) = {rq_sa r}"
| "entered _ = {}"

definition covered :: "u16 set \<Rightarrow> worker list \<Rightarrow> bool" where
  "covered T ws \<longleftrightarrow> (\<forall>c \<in> T. \<exists>j < length ws. c \<in> entered (ws ! j))"

definition active :: "worker list \<Rightarrow> bool" where
  "active ws \<longleftrightarrow> (\<exists>j < length ws. ws ! j \<noteq> Gone)"

definition watched_over :: "pool \<Rightarrow> bool" where
  "watched_over p \<longleftrightarrow> covered (pl_table p) (pl_workers p) \<and> (pl_queue p \<noteq> [] \<longrightarrow> active (pl_workers p))"

text \<open>One worker takes a step.\<close>

lemma active_update: "i < length ws \<Longrightarrow> w \<noteq> Gone \<Longrightarrow> active (ws[i := w])"
  by (auto simp: active_def)

lemma covered_update:
  assumes "covered T ws" and "i < length ws" and "\<And>c. c \<in> T' \<Longrightarrow> c \<in> entered w \<or> c \<in> T \<and> c \<notin> entered (ws ! i)"
  shows "covered T' (ws[i := w])"
  unfolding covered_def
proof
  fix c
  assume "c \<in> T'"
  from assms(3) [OF this] show "\<exists>j < length (ws[i := w]). c \<in> entered (ws[i := w] ! j)"
  proof
    assume "c \<in> entered w"
    then show ?thesis using assms(2) by (intro exI [of _ i]) simp
  next
    assume c: "c \<in> T \<and> c \<notin> entered (ws ! i)"
    with assms(1) obtain j where j: "j < length ws" "c \<in> entered (ws ! j)" by (auto simp: covered_def)
    with c have "j \<noteq> i" by blast
    with j show ?thesis by (intro exI [of _ j]) simp
  qed
qed

lemma busy_client_has_worker:
  assumes "covered T ws" and "i < length ws" and "ws ! i = Found r" and "rq_sa r \<in> T"
  shows "active (ws[i := Gone])"
proof -
  from assms obtain j where j: "j < length ws" "rq_sa r \<in> entered (ws ! j)" by (auto simp: covered_def)
  with assms(3) have "j \<noteq> i" "ws ! j \<noteq> Gone" by auto
  with j show ?thesis by (auto simp: active_def intro: exI [of _ j])
qed

lemma watched_over_work:
  assumes "covered T ws" and "q \<noteq> [] \<longrightarrow> active ws" and "i < length ws"
    and "pool_worker_step (ws ! i) p = (w, p')" and "pl_table p = T" and "pl_queue p = q"
  shows "covered (pl_table p') (ws[i := w]) \<and> (pl_queue p' \<noteq> [] \<longrightarrow> active (ws[i := w]))"
proof (cases "ws ! i")
  case (Found r)
  then show ?thesis using assms busy_client_has_worker [of T ws i r] covered_update [OF assms(1,3), of "insert (rq_sa r) T" "Entered r"]
      covered_update [OF assms(1,3), of T Gone] active_update [OF assms(3), of "Entered r"]
    by (auto split: if_splits)
next
  case (Entered r)
  then show ?thesis using assms covered_update [OF assms(1,3), of T w] active_update [OF assms(3), of w] by (auto split: list.splits)
next
  case (Taken r)
  then show ?thesis using assms covered_update [OF assms(1,3), of T w] active_update [OF assms(3), of w] by auto
next
  case (Handled r)
  then show ?thesis using assms covered_update [OF assms(1,3), of "T - {rq_sa r}" w] active_update [OF assms(3), of w] by auto
next
  case Looking
  then show ?thesis using assms covered_update [OF assms(1,3), of T w] active_update [OF assms(3), of w] by (auto split: list.splits)
next
  case Gone
  then show ?thesis using assms by (metis list_update_id prod.inject pool_worker_step.simps(6))
qed

lemma watched_over_step:
  assumes "watched_over p"
  shows "watched_over (pool_step e p)"
proof (cases e)
  case (Push r)
  have "covered T ws \<Longrightarrow> covered T (ws @ [Looking])" for T ws
    unfolding covered_def by (metis length_append nth_append trans_less_add1)
  moreover have "active (ws @ [Looking])" for ws by (auto simp: active_def intro: exI [of _ "length ws"])
  ultimately show ?thesis using assms Push by (simp add: watched_over_def)
next
  case (Work i)
  obtain w p' where s: "pool_worker_step (pl_workers p ! i) p = (w, p')" by fastforce
  show ?thesis using watched_over_work [OF _ _ _ s refl refl] assms Work s by (simp add: watched_over_def)
qed

lemma watched_over_run: "watched_over p \<Longrightarrow> watched_over (pool_run evs p)"
  unfolding pool_run_def by (induction evs arbitrary: p) (simp_all add: watched_over_step del: pool_step.simps)

text \<open>
  C15: a waiting request has a worker. However many workers interleave, and although a worker ends when the client
  of the first request is busy, as long as a request waits some worker is still to come back to the queue.
\<close>

theorem waiting_request_has_worker:
  assumes "p = pool_run evs pool_new" and "pl_queue p \<noteq> []"
  shows "\<exists>w \<in> set (pl_workers p). w \<noteq> Gone"
proof -
  have "watched_over pool_new" by (simp add: watched_over_def covered_def pool_new_def)
  then have "watched_over p" using watched_over_run assms(1) by simp
  then show ?thesis using assms(2) by (auto simp: watched_over_def active_def)
qed

definition demo_job :: "u16 \<Rightarrow> byte \<Rightarrow> server_request" where
  "demo_job client sid = \<lparr>rq_sa = client, rq_priority = 10, rq_channel = 1, rq_stray = 0, rq_handle = 0, rq_rc = rc_new sid [sid] 1 [] []\<rparr>"

theorem waiting_request_has_worker_witness:
  "\<exists>w \<in> set (pl_workers (pool_run [Push (demo_job 0x0E80 0x31), Push (demo_job 0x0E80 0x22), Work 0, Work 0, Work 0, Work 1, Work 1] pool_new)). w \<noteq> Gone"
  by (rule waiting_request_has_worker [OF refl]) (simp add: pool_run_def pool_new_def demo_job_def)

section \<open>A request that is processed twice\<close>

text \<open>
  C16: a request can be processed twice and another one not at all. Two requests are queued and two workers look at the
  first of them before either removes it. One worker enters it, removes it, handles it and forgets it; then the
  other enters it again, removes the second request from the queue, and handles the first one once more. At the end no
  worker is left, the queue is empty, and the second request was never handled.
\<close>

theorem request_is_processed_twice:
  "\<exists>evs. let p = pool_run (Push a # Push b # evs) pool_new in
     pl_handled p = [a, a] \<and> pl_queue p = [] \<and> pl_table p = {} \<and> \<not> pl_broken p \<and> set (pl_workers p) = {Gone}"
proof -
  have "let p = pool_run (Push a # Push b # [Work 0, Work 1, Work 0, Work 0, Work 0, Work 0, Work 1, Work 1, Work 1, Work 1, Work 0, Work 1]) pool_new in
     pl_handled p = [a, a] \<and> pl_queue p = [] \<and> pl_table p = {} \<and> \<not> pl_broken p \<and> set (pl_workers p) = {Gone}"
    by (simp add: pool_run_def pool_new_def)
  then show ?thesis by blast
qed

section \<open>Workers that take requests atomically\<close>

text \<open>A run in which a worker that is between looking at a request and removing it is not overtaken by another.\<close>

fun taking :: "worker \<Rightarrow> bool" where
  "taking (Found r) \<longleftrightarrow> True"
| "taking (Entered r) \<longleftrightarrow> True"
| "taking _ \<longleftrightarrow> False"

fun undisturbed :: "pool_event \<Rightarrow> pool \<Rightarrow> bool" where
  "undisturbed (Push r) p \<longleftrightarrow> True"
| "undisturbed (Work i) p \<longleftrightarrow> (\<forall>j < length (pl_workers p). taking (pl_workers p ! j) \<longrightarrow> j = i)"

inductive orderly :: "pool \<Rightarrow> bool" where
  orderly_new: "orderly pool_new"
| orderly_step: "orderly p \<Longrightarrow> undisturbed e p \<Longrightarrow> orderly (pool_step e p)"

fun in_hand :: "worker \<Rightarrow> server_request multiset" where
  "in_hand (Taken r) = {#r#}"
| "in_hand _ = {#}"

definition all_in_hand :: "worker list \<Rightarrow> server_request multiset" where
  "all_in_hand ws = sum_list (map in_hand ws)"

lemma all_in_hand_update:
  "i < length ws \<Longrightarrow> all_in_hand (ws[i := w]) + in_hand (ws ! i) = all_in_hand ws + in_hand w"
proof (induction ws arbitrary: i)
  case (Cons v ws)
  then show ?case by (cases i) (auto simp: all_in_hand_def add.assoc ac_simps)
qed simp

text \<open>The request that a worker looks at is the first of the queue, and one worker at most looks at one.\<close>

definition first_taken :: "server_request list \<Rightarrow> worker list \<Rightarrow> bool" where
  "first_taken q ws \<longleftrightarrow> (\<forall>w \<in> set ws. \<forall>r. w = Found r \<or> w = Entered r \<longrightarrow> q \<noteq> [] \<and> hd q = r)"

definition accounted :: "pool \<Rightarrow> bool" where
  "accounted p \<longleftrightarrow> \<not> pl_broken p \<and> mset (pl_pushed p) = mset (pl_handled p) + all_in_hand (pl_workers p) + mset (pl_queue p) \<and>
     first_taken (pl_queue p) (pl_workers p)"

lemma first_taken_update:
  assumes "i < length ws" and "\<forall>j < length ws. taking (ws ! j) \<longrightarrow> j = i" and "\<And>r. w = Found r \<or> w = Entered r \<Longrightarrow> q \<noteq> [] \<and> hd q = r"
  shows "first_taken q (ws[i := w])"
  unfolding first_taken_def
proof (intro ballI allI impI)
  fix v r
  assume v: "v \<in> set (ws[i := w])" "v = Found r \<or> v = Entered r"
  then obtain j where j: "j < length ws" "v = ws[i := w] ! j" by (auto simp: in_set_conv_nth)
  with v(2) assms(2) have "j = i" by (cases "j = i") auto
  then show "q \<noteq> [] \<and> hd q = r" using j v(2) assms(1,3) by simp
qed

lemma accounted_work:
  assumes a: "accounted p" and i: "i < length (pl_workers p)" and u: "\<forall>j < length (pl_workers p). taking (pl_workers p ! j) \<longrightarrow> j = i"
    and s: "pool_worker_step (pl_workers p ! i) p = (w, p')"
  shows "accounted (p'\<lparr>pl_workers := (pl_workers p)[i := w]\<rparr>)"
proof -
  note h = all_in_hand_update [OF i, of w]
  have f: "pl_queue p \<noteq> [] \<and> hd (pl_queue p) = r" if "pl_workers p ! i = Found r \<or> pl_workers p ! i = Entered r" for r
    using a that nth_mem [OF i] unfolding accounted_def first_taken_def by blast
  have ft: "first_taken (pl_queue p') ((pl_workers p)[i := w])"
    by (rule first_taken_update [OF i u]) (use s f in \<open>cases "pl_workers p ! i"; auto split: list.splits if_splits\<close>)
  have "\<not> pl_broken p' \<and> mset (pl_pushed p') = mset (pl_handled p') + all_in_hand ((pl_workers p)[i := w]) + mset (pl_queue p')"
  proof (cases "pl_workers p ! i")
    case (Entered r)
    then obtain rs where "pl_queue p = r # rs" using f by (cases "pl_queue p") auto
    with Entered s a h show ?thesis by (auto simp: accounted_def)
  qed (use a h s in \<open>auto simp: accounted_def split: list.splits if_splits\<close>)
  with ft show ?thesis by (simp add: accounted_def)
qed

lemma accounted_step:
  assumes "accounted p" and "undisturbed e p"
  shows "accounted (pool_step e p)"
proof (cases e)
  case (Push r)
  have "all_in_hand (ws @ [Looking]) = all_in_hand ws" for ws by (simp add: all_in_hand_def)
  moreover have "first_taken q ws \<Longrightarrow> first_taken (q @ [r]) (ws @ [Looking])" for q ws by (auto simp: first_taken_def)
  ultimately show ?thesis using assms(1) Push by (simp add: accounted_def)
next
  case (Work i)
  obtain w p' where s: "pool_worker_step (pl_workers p ! i) p = (w, p')" by fastforce
  show ?thesis using accounted_work [OF assms(1) _ _ s] assms Work s by (auto simp: not_le)
qed

text \<open>
  If a worker looked at a request and removed it in one piece, every request would be served once. In every run in which no
  worker takes a step while another one is between the two, nothing undefined happens, and the requests that were
  queued are exactly those that have been handled, those in the hands of a worker and those that wait.
\<close>

theorem atomic_taking_serves_once:
  assumes "orderly p"
  shows "\<not> pl_broken p \<and> mset (pl_pushed p) = mset (pl_handled p) + all_in_hand (pl_workers p) + mset (pl_queue p)"
proof -
  have "accounted p" using assms
  proof (induction rule: orderly.induct)
    case orderly_new
    then show ?case by (simp add: accounted_def pool_new_def all_in_hand_def first_taken_def)
  qed (rule accounted_step)
  then show ?thesis by (simp add: accounted_def)
qed

theorem atomic_taking_serves_once_witness:
  "mset (pl_pushed (pool_step (Work 0) (pool_step (Push (demo_job 0x0E80 0x31)) pool_new))) =
   mset (pl_handled (pool_step (Work 0) (pool_step (Push (demo_job 0x0E80 0x31)) pool_new))) +
   all_in_hand (pl_workers (pool_step (Work 0) (pool_step (Push (demo_job 0x0E80 0x31)) pool_new))) +
   mset (pl_queue (pool_step (Work 0) (pool_step (Push (demo_job 0x0E80 0x31)) pool_new)))"
proof -
  have "orderly (pool_step (Push (demo_job 0x0E80 0x31)) pool_new)" by (intro orderly.intros) simp
  then have "orderly (pool_step (Work 0) (pool_step (Push (demo_job 0x0E80 0x31)) pool_new))"
    by (rule orderly_step) (simp add: pool_new_def)
  from atomic_taking_serves_once [OF this] show ?thesis by blast
qed

section \<open>The step of the server model\<close>

text \<open>The state of the server that the workers share.\<close>

definition shares :: "'w uds_server \<Rightarrow> pool \<Rightarrow> bool" where
  "shares s p \<longleftrightarrow> pl_queue p = us_queue s \<and> pl_table p = fst ` set (us_running s)"

text \<open>The event \<open>Take\<close> of the server is three undisturbed steps of a worker that looks at the queue.\<close>

lemma take_is_three_steps:
  assumes "shares s p" and "\<not> pl_broken p" and "i < length (pl_workers p)" and "pl_workers p ! i = Looking"
    and "GetSession (sm_current (us_sm s)) (us_sm s) \<noteq> None"
  shows "shares (server_step app Take s) (pool_run [Work i, Work i, Work i] p)"
proof (cases "us_queue s")
  case Nil
  then show ?thesis using assms by (simp add: shares_def pool_run_def take_request_def)
next
  case (Cons r rs)
  have k: "map_of (us_running s) (rq_sa r) \<noteq> None \<longleftrightarrow> rq_sa r \<in> pl_table p" using assms(1) by (simp add: shares_def map_of_eq_None_iff)
  show ?thesis
  proof (cases "rq_sa r \<in> pl_table p")
    case True
    with k Cons assms show ?thesis by (auto simp: shares_def pool_run_def take_request_def)
  next
    case False
    then have "map_of (us_running s) (rq_sa r) = None" using k by blast
    with False Cons assms show ?thesis
      by (auto simp: shares_def pool_run_def take_request_def Let_def updateRequestContextStateTable_def set_table_insert)
  qed
qed

end
