(* ===== verification/Net.thy ===== *)
theory Net
  imports Prelude
begin

text \<open>
  The event loop (src/src/net/epoll/epoll_loop.h and .cpp) and the TCP server on it
  (src/src/net/tcp/tcp_server.h and .cpp). The results of the system calls are arguments: what
  \<open>epoll_wait\<close>, \<open>epoll_ctl\<close>, \<open>accept\<close> and \<open>recv\<close> return, in the order of the calls. A list of
  results that is used up stands for \<open>EAGAIN\<close>, so the loops below are structural.

  The data and disconnect handlers belong to the application the server is given to. They are
  arguments over its state, and what the server relies on and guarantees is the locale
  \<open>socket_app\<close>: the application keeps state only for sockets it got data from and drops it when it
  is told that the socket is gone.
\<close>

section \<open>The event loop\<close>

text \<open>\<open>add\<close>, \<open>mod\<close> and \<open>del\<close> on the table of callbacks; \<open>ctl_ok\<close> is whether \<open>epoll_ctl\<close> succeeded.\<close>

definition ep_add :: "bool \<Rightarrow> int \<Rightarrow> 'c \<Rightarrow> (int \<rightharpoonup> 'c) \<Rightarrow> bool \<times> (int \<rightharpoonup> 'c)" where
  "ep_add ctl_ok fd cb callbacks = (if \<not> ctl_ok then (False, callbacks) else (True, callbacks(fd \<mapsto> cb)))"

definition ep_mod :: "bool \<Rightarrow> bool" where
  "ep_mod ctl_ok = ctl_ok"

definition ep_del :: "int \<Rightarrow> (int \<rightharpoonup> 'c) \<Rightarrow> bool \<times> (int \<rightharpoonup> 'c)" where
  "ep_del fd callbacks = (True, callbacks(fd := None))"

text \<open>Tasks are posted from any thread and run on the loop: \<open>on_wake\<close> takes the whole queue, so a
  task that posts leaves the new one for the next wake-up. A task is what it does to the state and
  what it posts.\<close>

definition ep_post :: "'t \<Rightarrow> 't list \<Rightarrow> bool \<times> 't list" where
  "ep_post task pending = (True, pending @ [task])"

fun run_tasks :: "('t \<Rightarrow> 's \<Rightarrow> 's \<times> 't list) \<Rightarrow> 't list \<Rightarrow> 's \<times> 't list \<Rightarrow> 's \<times> 't list" where
  "run_tasks exec [] s = s"
| "run_tasks exec (task # tasks) (s, pending) =
     (case exec task s of (s', posted) \<Rightarrow> run_tasks exec tasks (s', pending @ posted))"

definition on_wake :: "('t \<Rightarrow> 's \<Rightarrow> 's \<times> 't list) \<Rightarrow> 's \<times> 't list \<Rightarrow> 's \<times> 't list" where
  "on_wake exec s = run_tasks exec (snd s) (fst s, [])"

text \<open>One call of \<open>epoll_wait\<close>, and the loop; \<open>running\<close> is the flag as the loop reads it before each
  wait.\<close>

datatype wait_result = Ready "(int \<times> u32) list" | WaitInterrupted | WaitFailed

fun dispatch_events :: "('c \<Rightarrow> u32 \<Rightarrow> 's \<Rightarrow> 's) \<Rightarrow> ('s \<Rightarrow> int \<rightharpoonup> 'c) \<Rightarrow> (int \<times> u32) list \<Rightarrow> 's \<Rightarrow> 's" where
  "dispatch_events call callbacks [] s = s"
| "dispatch_events call callbacks ((fd, events) # evs) s =
     dispatch_events call callbacks evs (case callbacks s fd of None \<Rightarrow> s | Some cb \<Rightarrow> call cb events s)"

fun ep_run :: "('c \<Rightarrow> u32 \<Rightarrow> 's \<Rightarrow> 's) \<Rightarrow> ('s \<Rightarrow> int \<rightharpoonup> 'c) \<Rightarrow> (bool \<times> wait_result) list \<Rightarrow> 's \<Rightarrow> 's" where
  "ep_run call callbacks [] s = s"
| "ep_run call callbacks ((running, w) # ws) s =
     (if \<not> running then s
      else (case w of
          WaitInterrupted \<Rightarrow> ep_run call callbacks ws s
        | WaitFailed \<Rightarrow> s
        | Ready evs \<Rightarrow> ep_run call callbacks ws (dispatch_events call callbacks evs s)))"

section \<open>The TCP server\<close>

record Client =
  cl_ip :: string
  cl_port :: u16

datatype net_callback = AcceptCb | ReadCb int | OtherCb

record 'h net =
  nt_listen_fd :: int
  nt_clients :: "int \<rightharpoonup> Client"
  nt_callbacks :: "int \<rightharpoonup> net_callback"
  nt_closed :: "int list"
  nt_app :: 'h

datatype accept_result = Accepted int string u16 bool | AcceptAgain | AcceptInterrupted | AcceptFailed

datatype recv_outcome = Received int bytes | RecvAgain | RecvInterrupted | RecvFailed

definition EPOLLERR :: u32 where "EPOLLERR = 0x008"
definition EPOLLHUP :: u32 where "EPOLLHUP = 0x010"
definition EPOLLRDHUP :: u32 where "EPOLLRDHUP = 0x2000"

text \<open>\<open>start\<close>, with the results of \<open>socket\<close>, \<open>bind\<close> and \<open>listen\<close> together and of \<open>epoll_ctl\<close>; the result
  of \<open>add\<close> is not looked at.\<close>

definition tcp_start :: "int \<Rightarrow> bool \<Rightarrow> bool \<Rightarrow> 'h net \<Rightarrow> bool \<times> 'h net" where
  "tcp_start fd bound ctl_ok n =
     (if fd < 0 then (False, n\<lparr>nt_listen_fd := fd\<rparr>)
      else if \<not> bound then (False, n\<lparr>nt_closed := nt_closed n @ [fd], nt_listen_fd := - 1\<rparr>)
      else (True, n\<lparr>nt_listen_fd := fd, nt_callbacks := snd (ep_add ctl_ok fd AcceptCb (nt_callbacks n))\<rparr>))"

definition tcp_stop :: "int list \<Rightarrow> 'h net \<Rightarrow> 'h net" where
  "tcp_stop client_order n =
     (let n1 = (if nt_listen_fd n \<ge> 0
                then n\<lparr>nt_callbacks := snd (ep_del (nt_listen_fd n) (nt_callbacks n)),
                       nt_closed := nt_closed n @ [nt_listen_fd n], nt_listen_fd := - 1\<rparr>
                else n)
      in n1\<lparr>nt_closed := nt_closed n1 @ client_order, nt_clients := Map.empty\<rparr>)"

fun on_accept :: "accept_result list \<Rightarrow> 'h net \<Rightarrow> 'h net" where
  "on_accept [] n = n"
| "on_accept (Accepted fd ip port ctl_ok # rs) n =
     on_accept rs (n\<lparr>nt_clients := (nt_clients n)(fd \<mapsto> \<lparr>cl_ip = ip, cl_port = port\<rparr>),
                     nt_callbacks := snd (ep_add ctl_ok fd (ReadCb fd) (nt_callbacks n))\<rparr>)"
| "on_accept (AcceptAgain # rs) n = n"
| "on_accept (AcceptInterrupted # rs) n = on_accept rs n"
| "on_accept (AcceptFailed # rs) n = n"

definition close_client :: "(int \<Rightarrow> 'h \<Rightarrow> 'h) \<Rightarrow> int \<Rightarrow> 'h net \<Rightarrow> 'h net" where
  "close_client disconnect fd n = (case nt_clients n fd of
     None \<Rightarrow> n
   | Some _ \<Rightarrow> n\<lparr>nt_callbacks := snd (ep_del fd (nt_callbacks n)), nt_closed := nt_closed n @ [fd],
                 nt_clients := (nt_clients n)(fd := None), nt_app := disconnect fd (nt_app n)\<rparr>)"

fun read_loop :: "(int \<Rightarrow> int \<Rightarrow> bytes \<Rightarrow> 'h \<Rightarrow> 'h) \<Rightarrow> (int \<Rightarrow> 'h \<Rightarrow> 'h) \<Rightarrow> int \<Rightarrow> recv_outcome list \<Rightarrow> 'h net \<Rightarrow> 'h net" where
  "read_loop data disconnect fd [] n = n"
| "read_loop data disconnect fd (Received now d # rs) n =
     (if d \<noteq> [] then read_loop data disconnect fd rs (n\<lparr>nt_app := data now fd d (nt_app n)\<rparr>)
      else close_client disconnect fd n)"
| "read_loop data disconnect fd (RecvAgain # rs) n = n"
| "read_loop data disconnect fd (RecvInterrupted # rs) n = read_loop data disconnect fd rs n"
| "read_loop data disconnect fd (RecvFailed # rs) n = close_client disconnect fd n"

definition on_read ::
  "(int \<Rightarrow> int \<Rightarrow> bytes \<Rightarrow> 'h \<Rightarrow> 'h) \<Rightarrow> (int \<Rightarrow> 'h \<Rightarrow> 'h) \<Rightarrow> int \<Rightarrow> u32 \<Rightarrow> recv_outcome list \<Rightarrow> 'h net \<Rightarrow> 'h net" where
  "on_read data disconnect fd events rs n =
     (if events AND (EPOLLRDHUP OR EPOLLHUP OR EPOLLERR) \<noteq> 0 then close_client disconnect fd n
      else read_loop data disconnect fd rs n)"

definition net_new :: "'h \<Rightarrow> 'h net" where
  "net_new h = \<lparr>nt_listen_fd = - 1, nt_clients = Map.empty, nt_callbacks = Map.empty, nt_closed = [], nt_app = h\<rparr>"

text \<open>What a ready socket makes the loop do: the callback of the socket, or nothing.\<close>

definition socket_event ::
  "(int \<Rightarrow> int \<Rightarrow> bytes \<Rightarrow> 'h \<Rightarrow> 'h) \<Rightarrow> (int \<Rightarrow> 'h \<Rightarrow> 'h) \<Rightarrow> accept_result list \<Rightarrow> recv_outcome list \<Rightarrow>
   int \<Rightarrow> u32 \<Rightarrow> 'h net \<Rightarrow> 'h net" where
  "socket_event data disconnect acc recvs fd events n = (case nt_callbacks n fd of
     Some AcceptCb \<Rightarrow> on_accept acc n
   | Some (ReadCb g) \<Rightarrow> on_read data disconnect g events recvs n
   | _ \<Rightarrow> n)"

section \<open>Tasks run once, in the order they were posted\<close>

text \<open>The tasks of a run in the order in which they are executed.\<close>

lemma run_tasks_append:
  "run_tasks exec (ts @ us) s = run_tasks exec us (run_tasks exec ts s)"
  by (induction exec ts s rule: run_tasks.induct) (auto split: prod.splits)

lemma run_tasks_log:
  "run_tasks (\<lambda>t log. (log @ [t], posts t)) ts (log, pending) = (log @ ts, pending @ concat (map posts ts))"
  by (induction ts arbitrary: log pending) simp_all

lemma on_wake_log:
  "on_wake (\<lambda>t log. (log @ [t], posts t)) (log, pending) = (log @ pending, concat (map posts pending))"
  by (simp add: on_wake_def run_tasks_log)

section \<open>What the server and its application promise each other\<close>

text \<open>The descriptors \<open>accept\<close> returns are not in use.\<close>

fun fresh_accepts :: "int set \<Rightarrow> accept_result list \<Rightarrow> bool" where
  "fresh_accepts used [] \<longleftrightarrow> True"
| "fresh_accepts used (Accepted fd ip port ok # rs) \<longleftrightarrow> 0 \<le> fd \<and> fd \<notin> used \<and> fresh_accepts (insert fd used) rs"
| "fresh_accepts used (_ # rs) \<longleftrightarrow> fresh_accepts used rs"

definition sockets_in_use :: "'h net \<Rightarrow> int set" where
  "sockets_in_use n = dom (nt_clients n) \<union> dom (nt_callbacks n)"

inductive net_step ::
  "(int \<Rightarrow> int \<Rightarrow> bytes \<Rightarrow> 'h \<Rightarrow> 'h) \<Rightarrow> (int \<Rightarrow> 'h \<Rightarrow> 'h) \<Rightarrow> ('h \<Rightarrow> 'h \<Rightarrow> bool) \<Rightarrow> 'h net \<Rightarrow> 'h net \<Rightarrow> bool"
  for data disconnect internal where
  step_listen: "fd \<notin> sockets_in_use n \<Longrightarrow> tcp_start fd bound ctl_ok n = (r, n') \<Longrightarrow>
     net_step data disconnect internal n n'"
| step_socket: "fresh_accepts (sockets_in_use n) acc \<Longrightarrow>
     net_step data disconnect internal n (socket_event data disconnect acc recvs fd events n)"
| step_internal: "internal (nt_app n) h \<Longrightarrow> net_step data disconnect internal n (n\<lparr>nt_app := h\<rparr>)"

locale socket_app =
  fixes data :: "int \<Rightarrow> int \<Rightarrow> bytes \<Rightarrow> 'h \<Rightarrow> 'h"
    and disconnect :: "int \<Rightarrow> 'h \<Rightarrow> 'h"
    and internal :: "'h \<Rightarrow> 'h \<Rightarrow> bool"
    and tracked :: "'h \<Rightarrow> int set"
    and app_inv :: "'h \<Rightarrow> bool"
  assumes data_tracked: "tracked (data now fd d h) \<subseteq> insert fd (tracked h)"
    and data_inv: "app_inv h \<Longrightarrow> 0 \<le> fd \<Longrightarrow> app_inv (data now fd d h)"
    and disconnect_tracked: "tracked (disconnect fd h) \<subseteq> tracked h - {fd}"
    and disconnect_inv: "app_inv h \<Longrightarrow> app_inv (disconnect fd h)"
    and internal_tracked: "internal h h' \<Longrightarrow> tracked h' \<subseteq> tracked h"
    and internal_inv: "internal h h' \<Longrightarrow> app_inv h \<Longrightarrow> app_inv h'"
begin

definition net_inv :: "'h net \<Rightarrow> bool" where
  "net_inv n \<longleftrightarrow> app_inv (nt_app n) \<and> tracked (nt_app n) \<subseteq> dom (nt_clients n) \<and>
     (\<forall>fd g. nt_callbacks n fd = Some (ReadCb g) \<longrightarrow> g = fd \<and> fd \<in> dom (nt_clients n)) \<and>
     (\<forall>fd \<in> dom (nt_clients n). 0 \<le> fd)"

lemma net_inv_new: "app_inv h \<Longrightarrow> tracked h = {} \<Longrightarrow> net_inv (net_new h)"
  by (simp add: net_inv_def net_new_def)

lemma close_client_inv: "net_inv n \<Longrightarrow> net_inv (close_client disconnect fd n)"
  using disconnect_tracked [of fd "nt_app n"]
  by (auto simp: net_inv_def close_client_def ep_del_def disconnect_inv split: option.split)

lemma data_keeps_inv:
  "net_inv n \<Longrightarrow> fd \<in> dom (nt_clients n) \<Longrightarrow> net_inv (n\<lparr>nt_app := data now fd d (nt_app n)\<rparr>)"
  using data_tracked [of now fd d "nt_app n"] by (auto simp: net_inv_def data_inv)

lemma read_loop_inv:
  "net_inv n \<Longrightarrow> fd \<in> dom (nt_clients n) \<Longrightarrow> net_inv (read_loop data disconnect fd rs n)"
proof (induction rs arbitrary: n)
  case (Cons r rs)
  then show ?case by (cases r) (simp_all add: close_client_inv data_keeps_inv)
qed simp

lemma on_accept_inv:
  "net_inv n \<Longrightarrow> fresh_accepts used acc \<Longrightarrow> net_inv (on_accept acc n)"
proof (induction acc n arbitrary: used rule: on_accept.induct)
  case (2 fd ip port ok rs n)
  have "net_inv (n\<lparr>nt_clients := (nt_clients n)(fd \<mapsto> \<lparr>cl_ip = ip, cl_port = port\<rparr>),
      nt_callbacks := snd (ep_add ok fd (ReadCb fd) (nt_callbacks n))\<rparr>)"
    using 2(2,3) by (auto simp: net_inv_def ep_add_def)
  then show ?case using 2(1) 2(3) by auto
qed auto

lemma socket_event_inv:
  assumes "net_inv n" and "fresh_accepts (sockets_in_use n) acc"
  shows "net_inv (socket_event data disconnect acc recvs fd events n)"
  using assms
  by (auto simp: socket_event_def on_read_def on_accept_inv close_client_inv net_inv_def [of n]
      intro!: read_loop_inv split: option.split net_callback.split)

lemma tcp_start_inv: "net_inv n \<Longrightarrow> tcp_start fd bound ok n = (r, n') \<Longrightarrow> net_inv n'"
  by (auto simp: tcp_start_def net_inv_def ep_add_def split: if_splits) blast+

lemma net_step_inv: "net_step data disconnect internal n n' \<Longrightarrow> net_inv n \<Longrightarrow> net_inv n'"
proof (induction rule: net_step.induct)
  case (step_internal n h)
  then show ?case
    using internal_tracked [of "nt_app n" h] internal_inv [of "nt_app n" h] by (auto simp: net_inv_def)
qed (simp_all add: tcp_start_inv socket_event_inv)

lemma net_reachable_inv:
  "(net_step data disconnect internal)\<^sup>*\<^sup>* (net_new h) n \<Longrightarrow> app_inv h \<Longrightarrow> tracked h = {} \<Longrightarrow> net_inv n"
  by (induction rule: rtranclp_induct) (auto simp: net_inv_new intro: net_step_inv)

end

end
