(* ===== verification/NetDoip.thy ===== *)
theory NetDoip
  imports Net DoipProps
begin

text \<open>
  The TCP server with the DoIP server as its application, as \<open>DiagApp::Initialize\<close> wires them
  (src/apps/diag_server/main.cpp): received bytes go to \<open>on_data\<close>, a closed socket to
  \<open>erase_client\<close>. Between two socket events the timers, the UDP socket and the answers of the UDS
  server work on the DoIP server (\<open>doip_internal\<close>).
\<close>

inductive doip_internal :: "DoipServer \<Rightarrow> DoipServer \<Rightarrow> bool" where
  int_maintain: "doip_internal s (maintain_connections now timer_read s)"
| int_udp: "doip_internal s (on_udp_read rs s)"
| int_announce: "doip_internal s (on_announcement_timer inet_pton port timer_read s)"
| int_respond: "doip_internal s (Respond_all ch responses s)"

abbreviation diag_net_step :: "DoipServer net \<Rightarrow> DoipServer net \<Rightarrow> bool" where
  "diag_net_step \<equiv> net_step on_data erase_client doip_internal"

section \<open>Which connections the server keeps\<close>

definition conns :: "DoipServer \<Rightarrow> int set" where
  "conns s = dom (conn_of s)"

lemma conns_update_conn [simp]: "conns (update_conn fd f s) = conns s"
  by (auto simp: conns_def dom_def split: if_splits)

lemma conns_keeps [simp]:
  "conns (send_frame fd t p s) = conns s" "conns (udp_send_frame t p dst s) = conns s" "conns (request_close fd s) = conns s"
  "conns (s\<lparr>ds_channels := ch\<rparr>) = conns s" "conns (s\<lparr>ds_routing := r\<rparr>) = conns s" "conns (s\<lparr>ds_uds_calls := q\<rparr>) = conns s"
  by (simp_all add: conns_def)

lemma conns_routing_activation [simp]: "conns (handle_routing_activation now fd p s) = conns s"
  by (simp add: handle_routing_activation_def Let_def senders split: option.split)

lemma conns_diag_message [simp]: "conns (handle_diag_message fd p s) = conns s"
  by (simp add: handle_diag_message_def Let_def senders split: option.split)

lemma conns_dispatch [simp]: "conns (dispatch now fd t p s) = conns s"
  by (simp add: dispatch_def senders handle_alive_check_def Let_def)

lemma conns_new_conn: "conns (s\<lparr>ds_connections := AList.update fd c (ds_connections s)\<rparr>) = insert fd (conns s)"
  by (simp add: conns_def update_conv')

lemma conns_on_data: "conns (on_data now fd data s) \<subseteq> insert fd (conns s)"
  by (rule on_data_preserves [where I = "\<lambda>x. conns x \<subseteq> insert fd (conns s)"])
     (simp_all add: conns_new_conn send_generic_nack_def subset_insertI)

lemma conns_erase_client: "conns (erase_client fd s) = conns s - {fd}"
  by (auto simp: conns_def erase_client_def delete_conv')

lemma conns_maintain_loop [simp]: "conns (snd (maintain_loop now cs s)) = conns s"
  by (induction now cs s rule: maintain_loop.induct) (simp_all add: case_prod_unfold)

lemma conns_close_all [simp]: "conns (foldl (\<lambda>s fd. request_close fd s) s fds) = conns s"
  by (induction fds arbitrary: s) simp_all

lemma conns_maintain [simp]: "conns (maintain_connections now b s) = conns s"
  by (simp add: maintain_connections_def case_prod_unfold)

lemma conns_on_udp_read [simp]: "conns (on_udp_read rs s) = conns s"
  by (induction rs s rule: on_udp_read.induct) (simp_all add: on_udp_packet_def udp_senders Let_def split: option.split)

lemma conns_Respond [simp]: "conns (Respond_all ch rs s) = conns s"
  by (induction rs arbitrary: s) (auto simp: Respond_all_def Respond_def SendDiagMessage_def split: option.splits)

lemma conns_internal: "doip_internal s s' \<Longrightarrow> conns s' = conns s"
  by (induction rule: doip_internal.induct)
     (simp_all add: on_announcement_timer_def send_announcement_def split: option.split)

lemma doip_internal_inv: "doip_internal s s' \<Longrightarrow> server_inv s \<Longrightarrow> server_inv s'"
  by (induction rule: doip_internal.induct) (auto intro: doip_step_inv doip_step.intros)

interpretation doip_sockets: socket_app on_data erase_client doip_internal conns server_inv
  by unfold_locales (auto simp: conns_on_data inv_on_data conns_erase_client inv_erase_client
      dest: conns_internal doip_internal_inv conns_on_data [THEN subsetD])

text \<open>
  Sockets and connections stay together. In every state of the diagnostic server, whatever the
  kernel returns from its calls (descriptors in use are not returned again by \<open>accept\<close>), the DoIP
  server has connections, channels and routed tester addresses only for sockets that are open, and its
  own invariant holds. So a descriptor that is used again for a new client starts without the routing
  of the client before it, and a tester whose connection was lost can activate routing again.
\<close>

theorem sockets_and_connections_agree:
  assumes "diag_net_step\<^sup>*\<^sup>* (net_new (server_new ident functional uds)) n"
  shows "server_inv (nt_app n) \<and> dom (conn_of (nt_app n)) \<subseteq> dom (nt_clients n) \<and>
    dom (map_of (ds_channels (nt_app n))) \<subseteq> dom (nt_clients n) \<and>
    dom (map_of (rt_fd_to_address (ds_routing (nt_app n)))) \<subseteq> dom (nt_clients n)"
proof -
  have "doip_sockets.net_inv n"
    by (rule doip_sockets.net_reachable_inv [OF assms server_inv_new]) (simp add: conns_def server_new_def)
  then have inv: "server_inv (nt_app n)" and c: "dom (conn_of (nt_app n)) \<subseteq> dom (nt_clients n)"
    by (simp_all add: doip_sockets.net_inv_def conns_def)
  have r: "dom (map_of (rt_fd_to_address (ds_routing (nt_app n)))) \<subseteq> dom (conn_of (nt_app n))"
    using server_invD(2) [OF inv] by blast
  have "dom (map_of (ds_channels (nt_app n))) = dom (map_of (rt_fd_to_address (ds_routing (nt_app n))))"
    using server_invD(3) [OF inv] by (auto simp: dom_def)
  with inv c r show ?thesis by auto
qed

section \<open>Which sockets are shut down\<close>

lemma maintain_loop_closes_known: "set (fst (maintain_loop now cs s)) \<subseteq> fst ` set cs"
  by (induction now cs s rule: maintain_loop.induct) (auto simp: case_prod_unfold)

lemma maintain_loop_shutdown [simp]: "ds_shutdown (snd (maintain_loop now cs s)) = ds_shutdown s"
  by (induction now cs s rule: maintain_loop.induct) (simp_all add: case_prod_unfold)

lemma close_all_shutdown [simp]: "ds_shutdown (foldl (\<lambda>s fd. request_close fd s) s fds) = ds_shutdown s @ fds"
  by (induction fds arbitrary: s) (simp_all add: request_close_def)

lemma maintain_shutdown: "set (ds_shutdown (maintain_connections now b s)) \<subseteq> set (ds_shutdown s) \<union> conns s"
  using maintain_loop_closes_known [of now "ds_connections s" s]
  by (auto simp: maintain_connections_def case_prod_unfold conns_def dom_map_of_conv_image_fst)

lemma udp_shutdown [simp]: "ds_shutdown (on_udp_read rs s) = ds_shutdown s"
  by (induction rs s rule: on_udp_read.induct) (simp_all add: on_udp_packet_def udp_senders Let_def split: option.split)

lemma Respond_shutdown [simp]: "ds_shutdown (Respond_all ch rs s) = ds_shutdown s"
  by (induction rs arbitrary: s) (auto simp: Respond_all_def Respond_def SendDiagMessage_def split: option.splits)

lemma internal_shutdown: "doip_internal s s' \<Longrightarrow> set (ds_shutdown s') \<subseteq> set (ds_shutdown s) \<union> conns s"
  by (induction rule: doip_internal.induct)
     (use maintain_shutdown in \<open>auto simp: on_announcement_timer_def send_announcement_def split: option.split\<close>)

lemma internals_shutdown:
  "doip_internal\<^sup>*\<^sup>* s s' \<Longrightarrow> conns s' = conns s \<and> set (ds_shutdown s') \<subseteq> set (ds_shutdown s) \<union> conns s"
proof (induction rule: rtranclp_induct)
  case (step y z)
  then show ?case using conns_internal [OF step(2)] internal_shutdown [OF step(2)] by auto
qed simp

text \<open>
  A client that connects and sends nothing keeps its socket. The inactivity timers belong to the
  connection, which the server creates with the first bytes. In a state of the diagnostic server in
  which a client has been accepted and the DoIP server has no connection for it, no run of timers,
  datagrams and answers, however long, asks for the shutdown of its socket.
\<close>

theorem silent_client_is_never_closed:
  assumes "nt_clients n fd = Some cl" and "conn_of (nt_app n) fd = None" and "doip_internal\<^sup>*\<^sup>* (nt_app n) s'"
    and "fd \<notin> set (ds_shutdown (nt_app n))"
  shows "fd \<notin> set (ds_shutdown s') \<and> conn_of s' fd = None"
  using internals_shutdown [OF assms(3)] assms(2,4) by (auto simp: conns_def)

definition ex_listening :: "DoipServer net" where
  "ex_listening = snd (tcp_start 3 True True (net_new ex_server))"

definition ex_accepted :: "DoipServer net" where
  "ex_accepted = socket_event on_data erase_client [Accepted 5 ''10.0.0.1'' 4711 True] [] 3 1 ex_listening"

lemma ex_accepted_facts:
  "nt_app ex_accepted = ex_server" "nt_clients ex_accepted = [5 \<mapsto> \<lparr>cl_ip = ''10.0.0.1'', cl_port = 4711\<rparr>]"
  "nt_callbacks ex_accepted 5 = Some (ReadCb 5)"
  by (simp_all add: ex_accepted_def ex_listening_def tcp_start_def net_new_def socket_event_def ep_add_def)

theorem silent_client_is_never_closed_witness:
  "5 \<notin> set (ds_shutdown (maintain_connections 1000000 True (nt_app ex_accepted)))"
  using silent_client_is_never_closed [of ex_accepted 5 _ "maintain_connections 1000000 True (nt_app ex_accepted)"]
  by (auto simp: ex_accepted_facts ex_server_def server_new_def intro: int_maintain)

text \<open>The server listens, accepts a client on descriptor 5 and receives its first bytes.\<close>

lemma first_data_reachable:
  assumes "d \<noteq> []"
  shows "\<exists>n. diag_net_step\<^sup>*\<^sup>* (net_new s) n \<and> nt_app n = on_data 0 5 d s \<and> dom (nt_clients n) = {5}"
proof -
  let ?l = "snd (tcp_start 3 True True (net_new s))"
  let ?a = "socket_event on_data erase_client [Accepted 5 ''10.0.0.1'' 4711 True] [] 3 1 ?l"
  let ?n = "socket_event on_data erase_client [] [Received 0 d] 5 1 ?a"
  have 1: "diag_net_step (net_new s) ?l"
    by (rule step_listen [where fd = 3 and bound = True and ctl_ok = True and r = True])
       (simp_all add: sockets_in_use_def net_new_def tcp_start_def)
  have 2: "diag_net_step ?l ?a"
    by (rule step_socket) (simp add: sockets_in_use_def net_new_def tcp_start_def ep_add_def)
  have 3: "diag_net_step ?a ?n" by (rule step_socket) simp
  have "diag_net_step\<^sup>*\<^sup>* (net_new s) ?n"
    using 1 2 3 by (rule converse_rtranclp_into_rtranclp [OF _ converse_rtranclp_into_rtranclp [OF _ r_into_rtranclp]])
  moreover have "nt_app ?n = on_data 0 5 d s \<and> dom (nt_clients ?n) = {5}"
    using assms by (simp add: socket_event_def tcp_start_def net_new_def ep_add_def on_read_def EPOLLRDHUP_def EPOLLHUP_def EPOLLERR_def)
  ultimately show ?thesis by blast
qed

theorem sockets_and_connections_agree_witness:
  "\<exists>n :: DoipServer net. conn_of (nt_app n) 5 \<noteq> None \<and> fd_for 0x0E00 (ds_routing (nt_app n)) = 5 \<and> 5 \<in> dom (nt_clients n)"
proof -
  have "ex_activation \<noteq> []" by code_simp
  from first_data_reachable [OF this, of "server_new identity_default [0x07DF] True"] obtain n where
    r: "diag_net_step\<^sup>*\<^sup>* (net_new (server_new identity_default [0x07DF] True)) n" and a: "nt_app n = ex_active"
    by (auto simp: ex_active_def ex_server_def)
  have "conn_of ex_active 5 \<noteq> None" "fd_for 0x0E00 (ds_routing ex_active) = 5" by code_simp+
  then have "conn_of (nt_app n) 5 \<noteq> None" "fd_for 0x0E00 (ds_routing (nt_app n)) = 5" unfolding a by this+
  moreover from this(1) have "5 \<in> dom (nt_clients n)" using sockets_and_connections_agree [OF r] by blast
  ultimately show ?thesis by blast
qed

end
