(* ===== verification/Config.thy ===== *)
theory Config
  imports FileSys
begin

text \<open>
  The platform configuration (src/src/common/config/config.h and .cpp): a reader that looks for the
  quoted key in the text of the file and takes what follows it. Positions are those of the code;
  \<open>None\<close> is \<open>npos\<close>, and for the \<open>extract\<close> functions it is the result false. \<open>strtol\<close> is the C function
  with base 0 on the text from its argument on: the value, clamped to 64 bits, and the number of
  characters it used (0 when there is no number).
\<close>

section \<open>strtol\<close>

definition digit_of :: "char \<Rightarrow> nat" where
  "digit_of c = (let n = of_char c in
     if 48 \<le> n \<and> n \<le> 57 then n - 48
     else if 97 \<le> n \<and> n \<le> 122 then n - 87
     else if 65 \<le> n \<and> n \<le> 90 then n - 55
     else 255)"

definition is_space :: "char \<Rightarrow> bool" where
  "is_space c \<longleftrightarrow> of_char c \<in> {32, 9, 10, 11, 12, 13 :: nat}"

definition digit_run :: "nat \<Rightarrow> string \<Rightarrow> string" where
  "digit_run base s = takeWhile (\<lambda>c. digit_of c < base) s"

definition run_value :: "nat \<Rightarrow> string \<Rightarrow> int" where
  "run_value base ds = foldl (\<lambda>a c. int base * a + int (digit_of c)) 0 ds"

definition clamp_long :: "int \<Rightarrow> int" where
  "clamp_long v = max (- (2 ^ 63)) (min (2 ^ 63 - 1) v)"

text \<open>The number without sign: characters used and value.\<close>

definition strtoul0 :: "string \<Rightarrow> nat \<times> int" where
  "strtoul0 s =
     (if length s \<ge> 3 \<and> hd s = CHR ''0'' \<and> (s ! 1 = CHR ''x'' \<or> s ! 1 = CHR ''X'') \<and> digit_of (s ! 2) < 16
      then (2 + length (digit_run 16 (drop 2 s)), run_value 16 (digit_run 16 (drop 2 s)))
      else if s \<noteq> [] \<and> hd s = CHR ''0'' then (length (digit_run 8 s), run_value 8 (digit_run 8 s))
      else (length (digit_run 10 s), run_value 10 (digit_run 10 s)))"

definition strtol :: "string \<Rightarrow> int \<times> nat" where
  "strtol s =
     (let ws = length (takeWhile is_space s);
          t = drop ws s;
          sign = (if t \<noteq> [] \<and> (hd t = CHR ''-'' \<or> hd t = CHR ''+'') then 1 else 0);
          (used, v) = strtoul0 (drop sign t)
      in if used = 0 then (0, 0)
         else (clamp_long (if sign = 1 \<and> hd t = CHR ''-'' then - v else v), ws + sign + used))"

section \<open>Looking up keys\<close>

definition quoted :: "string \<Rightarrow> string" where
  "quoted key = CHR 0x22 # key @ [CHR 0x22]"

fun find_first_not_of :: "string \<Rightarrow> char set \<Rightarrow> nat \<Rightarrow> nat option" where
  "find_first_not_of [] cs pos = None"
| "find_first_not_of (x # s) cs 0 = (if x \<notin> cs then Some 0 else map_option Suc (find_first_not_of s cs 0))"
| "find_first_not_of (x # s) cs (Suc pos) = map_option Suc (find_first_not_of s cs pos)"

definition blanks :: "char set" where
  "blanks = {CHR '' '', CHR 0x09, CHR 0x0D, CHR 0x0A}"

definition after_key :: "string \<Rightarrow> string \<Rightarrow> nat option" where
  "after_key json key = map_option (\<lambda>pos. pos + length (quoted key)) (str_find_sub (quoted key) json)"

definition extract_string :: "string \<Rightarrow> string \<Rightarrow> string option" where
  "extract_string json key =
     (case after_key json key of None \<Rightarrow> None | Some p \<Rightarrow>
      case str_find json (CHR '':'') p of None \<Rightarrow> None | Some colon \<Rightarrow>
      case str_find json (CHR 0x22) (colon + 1) of None \<Rightarrow> None | Some pos \<Rightarrow>
      case str_find json (CHR 0x22) (pos + 1) of None \<Rightarrow> None | Some end \<Rightarrow>
        Some (take (end - pos - 1) (drop (pos + 1) json)))"

definition extract_int :: "string \<Rightarrow> string \<Rightarrow> int option" where
  "extract_int json key =
     (case after_key json key of None \<Rightarrow> None | Some p \<Rightarrow>
      case str_find json (CHR '':'') p of None \<Rightarrow> None | Some pos \<Rightarrow>
      (let tail = drop (pos + 1) json in
       case find_first_not_of tail blanks 0 of None \<Rightarrow> None | Some start \<Rightarrow>
       (case strtol (drop start tail) of (v, used) \<Rightarrow> if used \<noteq> 0 then Some v else None)))"

lemma find_first_not_of_ge: "find_first_not_of s cs pos = Some i \<Longrightarrow> pos \<le> i"
  by (induction s cs pos arbitrary: i rule: find_first_not_of.induct) auto

text \<open>The loop of \<open>extract_uint16_array\<close>.\<close>

function array_loop :: "string \<Rightarrow> nat \<Rightarrow> nat \<Rightarrow> u16 list \<Rightarrow> u16 list option" where
  "array_loop json end cursor result =
     (if cursor < end then
        (case find_first_not_of json (insert (CHR '','') blanks) cursor of
           None \<Rightarrow> Some result
         | Some c \<Rightarrow>
             if c \<ge> end then Some result
             else (case strtol (drop c json) of (v, used) \<Rightarrow>
               if used = 0 then None else array_loop json end (c + used) (result @ [word_of_int v])))
      else Some result)"
  by pat_completeness auto

termination
  by (relation "measure (\<lambda>(json, end, cursor, result). end - cursor)") (auto dest!: find_first_not_of_ge)

declare array_loop.simps [simp del]

definition extract_uint16_array :: "string \<Rightarrow> string \<Rightarrow> u16 list option" where
  "extract_uint16_array json key =
     (case after_key json key of None \<Rightarrow> None | Some p \<Rightarrow>
      case str_find json (CHR ''['') p of None \<Rightarrow> None | Some pos \<Rightarrow>
      case str_find json (CHR '']'') pos of None \<Rightarrow> None | Some end \<Rightarrow>
        array_loop json end (pos + 1) [])"

section \<open>The configuration\<close>

record PlatformConfig =
  pc_listen_ip :: string
  pc_listen_port :: u16
  pc_backlog :: int
  pc_max_events :: int
  pc_logical_address :: u16
  pc_max_open_sockets :: byte
  pc_functional_addresses :: "u16 list"
  pc_max_data_size :: u32
  pc_download_dir :: string
  pc_announcement_addr :: string
  pc_announcement_interval_ms :: int
  pc_initial_inactivity_ms :: int
  pc_general_inactivity_ms :: int
  pc_alive_check_timeout_ms :: int

definition config_default :: PlatformConfig where
  "config_default = \<lparr>pc_listen_ip = ''0.0.0.0'', pc_listen_port = 13400, pc_backlog = 128, pc_max_events = 1024,
     pc_logical_address = 0x0E80, pc_max_open_sockets = 1, pc_functional_addresses = [0x7DF], pc_max_data_size = 4096,
     pc_download_dir = ''/tmp'', pc_announcement_addr = ''255.255.255.255'', pc_announcement_interval_ms = 5000,
     pc_initial_inactivity_ms = 2000, pc_general_inactivity_ms = 5000, pc_alive_check_timeout_ms = 3000\<rparr>"

text \<open>\<open>static_cast<int>\<close> of a \<open>long\<close>; and assigning a field when its key was found.\<close>

definition to_int32 :: "int \<Rightarrow> int" where
  "to_int32 v = sint (word_of_int v :: u32)"

definition set_if :: "'a option \<Rightarrow> ('a \<Rightarrow> 'c \<Rightarrow> 'c) \<Rightarrow> 'c \<Rightarrow> 'c" where
  "set_if v upd cfg = (case v of None \<Rightarrow> cfg | Some x \<Rightarrow> upd x cfg)"

definition apply_config :: "string \<Rightarrow> PlatformConfig \<Rightarrow> PlatformConfig" where
  "apply_config json cfg0 =
     (let c1 = set_if (extract_string json ''listen_ip'') (\<lambda>x c. c\<lparr>pc_listen_ip := x\<rparr>) cfg0;
          c2 = set_if (extract_string json ''download_dir'') (\<lambda>x c. c\<lparr>pc_download_dir := x\<rparr>) c1;
          c3 = set_if (extract_string json ''announcement_addr'') (\<lambda>x c. c\<lparr>pc_announcement_addr := x\<rparr>) c2;
          c4 = set_if (extract_int json ''listen_port'') (\<lambda>x c. c\<lparr>pc_listen_port := word_of_int x\<rparr>) c3;
          c5 = set_if (extract_int json ''backlog'') (\<lambda>x c. c\<lparr>pc_backlog := to_int32 x\<rparr>) c4;
          c6 = set_if (extract_int json ''max_events'') (\<lambda>x c. c\<lparr>pc_max_events := to_int32 x\<rparr>) c5;
          c7 = set_if (extract_int json ''logical_address'') (\<lambda>x c. c\<lparr>pc_logical_address := word_of_int x\<rparr>) c6;
          c8 = set_if (extract_int json ''max_open_sockets'') (\<lambda>x c. c\<lparr>pc_max_open_sockets := word_of_int x\<rparr>) c7;
          c9 = set_if (extract_int json ''max_data_size'') (\<lambda>x c. c\<lparr>pc_max_data_size := word_of_int x\<rparr>) c8;
          c10 = set_if (extract_uint16_array json ''functional_addresses'') (\<lambda>x c. c\<lparr>pc_functional_addresses := x\<rparr>) c9;
          c11 = set_if (extract_int json ''announcement_interval_ms'') (\<lambda>x c. c\<lparr>pc_announcement_interval_ms := to_int32 x\<rparr>) c10;
          c12 = set_if (extract_int json ''initial_inactivity_ms'') (\<lambda>x c. c\<lparr>pc_initial_inactivity_ms := to_int32 x\<rparr>) c11;
          c13 = set_if (extract_int json ''general_inactivity_ms'') (\<lambda>x c. c\<lparr>pc_general_inactivity_ms := to_int32 x\<rparr>) c12;
          c14 = set_if (extract_int json ''alive_check_timeout_ms'') (\<lambda>x c. c\<lparr>pc_alive_check_timeout_ms := to_int32 x\<rparr>) c13
      in c14)"

definition load_config :: "string \<Rightarrow> PlatformConfig \<Rightarrow> fsys \<Rightarrow> bool \<times> PlatformConfig \<times> fsys" where
  "load_config path cfg fs =
     (case ifs_read path fs of
        (None, fs1) \<Rightarrow> (False, cfg, fs1)
      | (Some d, fs1) \<Rightarrow> (True, apply_config (string_of_bytes d) cfg, fs1))"


section \<open>Reading what was written\<close>

lemma str_find_at: "length xs = n \<Longrightarrow> str_find (xs @ c # ys) c n = Some n"
  using str_find_append_from [of xs "c # ys" c 0] by simp

lemma find_first_not_of_skip:
  "set ws \<subseteq> cs \<Longrightarrow> find_first_not_of (ws @ s) cs 0 = map_option ((+) (length ws)) (find_first_not_of s cs 0)"
  by (induction ws; cases "find_first_not_of s cs 0") auto

text \<open>A number ends where the text ends or at a comma, a brace, a bracket or a blank.\<close>

definition number_end :: "string \<Rightarrow> bool" where
  "number_end s \<longleftrightarrow> s = [] \<or> hd s \<in> {CHR '','', CHR ''}'', CHR '']''} \<union> blanks"

lemma number_end_digit: "number_end s \<Longrightarrow> s = [] \<or> digit_of (hd s) = 255"
  by (auto simp: number_end_def blanks_def digit_of_def)

lemma digit_run_end: "\<forall>c \<in> set ds. digit_of c < b \<Longrightarrow> number_end s \<Longrightarrow> b < 255 \<Longrightarrow> digit_run b (ds @ s) = ds"
  using number_end_digit [of s] by (cases s) (auto simp: digit_run_def takeWhile_append)

lemma digit_of_char: "k < 10 \<Longrightarrow> digit_of (char_of (48 + k)) = k"
  by (simp add: digit_of_def of_char_of Let_def)

lemma to_string_digits: "c \<in> set (to_string n) \<Longrightarrow> digit_of c < 10 \<and> of_char c = 48 + digit_of c"
proof (induction n rule: to_string.induct)
  case (1 n)
  show ?case
  proof (cases "n < 10")
    case True
    then have "c = char_of (48 + n)" using 1(2) by (subst (asm) to_string.simps) simp
    with True show ?thesis by (simp add: digit_of_char of_char_of)
  next
    case False
    then have "c \<in> set (to_string (n div 10)) \<or> c = char_of (48 + n mod 10)"
      using 1(2) by (subst (asm) to_string.simps) auto
    then show ?thesis using 1(1) False by (auto simp: digit_of_char of_char_of)
  qed
qed

lemma run_value_eq:
  "\<forall>c \<in> set ds. of_char c = (48 + digit_of c :: nat) \<Longrightarrow> run_value 10 ds = int (digits_value ds)"
proof (induction ds rule: rev_induct)
  case (snoc c ds)
  then show ?case by (simp add: run_value_def digits_value_def)
qed (simp add: run_value_def digits_value_def)

lemma run_value_to_string: "run_value 10 (to_string n) = int n"
  using run_value_eq [of "to_string n"] to_string_digits [of _ n] by (simp add: digits_value_to_string)

text \<open>No number starts with the digit zero, except zero.\<close>

lemma to_string_hd: "0 < n \<Longrightarrow> hd (to_string n) \<noteq> CHR ''0''"
proof (induction n rule: to_string.induct)
  case (1 n)
  show ?case
  proof (cases "n < 10")
    case True
    then have "digit_of (hd (to_string n)) = n" by (subst to_string.simps) (simp add: digit_of_char)
    then show ?thesis using 1(2) by (auto simp: digit_of_def)
  next
    case False
    then show ?thesis using 1(1) by (subst to_string.simps) (simp add: hd_append)
  qed
qed

lemma to_string_zero: "to_string 0 = ''0''"
  by code_simp

lemma strtoul0_to_string:
  assumes "number_end s"
  shows "strtoul0 (to_string n @ s) = (length (to_string n), int n)"
proof (cases "n = 0")
  case True
  have "\<not> (length (CHR ''0'' # s) \<ge> 3 \<and> (s ! 0 = CHR ''x'' \<or> s ! 0 = CHR ''X''))"
    using assms by (cases s) (auto simp: number_end_def blanks_def)
  moreover have "digit_run 8 (CHR ''0'' # s) = ''0''"
    using digit_run_end [of "''0''" 8 s] assms by (simp add: digit_of_def)
  ultimately show ?thesis by (simp add: True to_string_zero strtoul0_def run_value_def digit_of_def)
next
  case False
  then have "hd (to_string n @ s) \<noteq> CHR ''0''" using to_string_hd [of n] by (simp add: hd_append)
  moreover have "digit_run 10 (to_string n @ s) = to_string n"
    using to_string_digits assms by (intro digit_run_end) auto
  ultimately show ?thesis by (simp add: strtoul0_def run_value_to_string)
qed

lemma strtol_to_string:
  assumes "number_end s" and "n < 2 ^ 63"
  shows "strtol (to_string n @ s) = (int n, length (to_string n))"
proof -
  obtain c cs where c: "to_string n = c # cs" by (cases "to_string n") simp_all
  then have "digit_of c < 10" using to_string_digits [of c n] by simp
  then have "\<not> is_space c" "c \<noteq> CHR ''-''" "c \<noteq> CHR ''+''"
    by (auto simp: is_space_def digit_of_def Let_def)
  moreover have "clamp_long (int n) = int n" using assms(2) by (simp add: clamp_long_def)
  ultimately show ?thesis
    using strtoul0_to_string [OF assms(1), of n] by (simp add: strtol_def c)
qed


lemma after_key_found:
  "str_find_sub (quoted key) json = Some (length pre) \<Longrightarrow>
   after_key json key = Some (length (pre @ quoted key))"
  by (simp add: after_key_def)

lemma colon_found: "str_find (pre @ q @ CHR '':'' # s) (CHR '':'') (length (pre @ q)) = Some (length (pre @ q))"
  using str_find_at [of "pre @ q" "length (pre @ q)" "CHR '':''" s] by simp

text \<open>What \<open>extract_int\<close> reads when the first occurrence of the key is followed by a colon.\<close>

lemma extract_int_after_colon:
  assumes "json = pre @ quoted key @ CHR '':'' # ws @ c # rest" and "str_find_sub (quoted key) json = Some (length pre)"
    and "set ws \<subseteq> blanks" and "c \<notin> blanks"
  shows "extract_int json key = (case strtol (c # rest) of (v, used) \<Rightarrow> if used \<noteq> 0 then Some v else None)"
proof -
  have "find_first_not_of (ws @ c # rest) blanks 0 = Some (length ws)"
    using assms(3,4) by (simp add: find_first_not_of_skip)
  moreover have "drop (length (pre @ quoted key) + 1) json = ws @ c # rest" by (simp add: assms(1))
  ultimately show ?thesis
    using after_key_found [OF assms(2)] colon_found [of pre "quoted key" "ws @ c # rest"]
    by (simp add: extract_int_def Let_def assms(1))
qed

lemma extract_int_number:
  assumes "json = pre @ quoted key @ CHR '':'' # ws @ to_string n @ post"
    and "str_find_sub (quoted key) json = Some (length pre)"
    and "set ws \<subseteq> blanks" and "number_end post" and "n < 2 ^ 63"
  shows "extract_int json key = Some (int n)"
proof -
  obtain c cs where c: "to_string n = c # cs" by (cases "to_string n") simp_all
  then have "digit_of c < 10" using to_string_digits [of c n] by simp
  then have "c \<notin> blanks" by (auto simp: blanks_def digit_of_def)
  then show ?thesis
    using extract_int_after_colon [of json pre key ws c "cs @ post"] strtol_to_string [OF assms(4,5)] assms(1-3)
    by (simp add: c)
qed

lemma extract_int_quoted:
  assumes "json = pre @ quoted key @ CHR '':'' # ws @ CHR 0x22 # post"
    and "str_find_sub (quoted key) json = Some (length pre)" and "set ws \<subseteq> blanks"
  shows "extract_int json key = None"
proof -
  have "strtol (CHR 0x22 # post) = (0, 0)"
    by (simp add: strtol_def is_space_def strtoul0_def digit_run_def digit_of_def)
  then show ?thesis using extract_int_after_colon [OF assms] by (simp add: blanks_def)
qed

lemma set_if_other:
  "(\<And>x c. pc_listen_port (upd x c) = pc_listen_port c) \<Longrightarrow> pc_listen_port (set_if v upd c) = pc_listen_port c"
  "(\<And>x c. pc_logical_address (upd x c) = pc_logical_address c) \<Longrightarrow>
     pc_logical_address (set_if v upd c) = pc_logical_address c"
  by (simp_all add: set_if_def split: option.split)

lemma set_if_field:
  "pc_listen_port (set_if v (\<lambda>x c. c\<lparr>pc_listen_port := f x\<rparr>) c) = (case v of None \<Rightarrow> pc_listen_port c | Some x \<Rightarrow> f x)"
  "pc_logical_address (set_if v (\<lambda>x c. c\<lparr>pc_logical_address := f x\<rparr>) c) =
     (case v of None \<Rightarrow> pc_logical_address c | Some x \<Rightarrow> f x)"
  by (simp_all add: set_if_def split: option.split)

lemma apply_config_fields:
  "pc_listen_port (apply_config json cfg) =
     (case extract_int json ''listen_port'' of None \<Rightarrow> pc_listen_port cfg | Some x \<Rightarrow> word_of_int x)"
  "pc_logical_address (apply_config json cfg) =
     (case extract_int json ''logical_address'' of None \<Rightarrow> pc_logical_address cfg | Some x \<Rightarrow> word_of_int x)"
  by (simp_all add: apply_config_def Let_def set_if_other set_if_field split: option.split)

text \<open>
  The port the server listens on. When the file can be read and the first occurrence of the
  quoted key is followed by a colon, blanks and a decimal number, the configured port is that number,
  kept in 16 bits: a number above 65535 is not refused, it wraps around.
\<close>

theorem configured_port:
  assumes "files fs path = Some (bytes_of_string json)" and "faults fs = []"
    and "json = pre @ quoted ''listen_port'' @ CHR '':'' # ws @ to_string n @ post"
    and "str_find_sub (quoted ''listen_port'') json = Some (length pre)"
    and "set ws \<subseteq> blanks" and "number_end post" and "n < 2 ^ 63"
  shows "\<exists>cfg'. load_config path cfg fs = (True, cfg', fs) \<and> unat (pc_listen_port cfg') = n mod 65536"
proof -
  have "extract_int json ''listen_port'' = Some (int n)" by (rule extract_int_number [OF assms(3-7)])
  then show ?thesis
    using assms(1,2) by (simp add: load_config_def ifs_read_ok apply_config_fields unat_of_nat)
qed

text \<open>
  A number in quotation marks is ignored. The reader takes numbers only without quotation marks;
  a logical address written as a string, the way the configuration file of the platform writes it, is
  skipped without an error, and the address the configuration had before stays.
\<close>

theorem quoted_address_is_ignored:
  assumes "files fs path = Some (bytes_of_string json)" and "faults fs = []"
    and "json = pre @ quoted ''logical_address'' @ CHR '':'' # ws @ CHR 0x22 # post"
    and "str_find_sub (quoted ''logical_address'') json = Some (length pre)" and "set ws \<subseteq> blanks"
  shows "\<exists>cfg'. load_config path cfg fs = (True, cfg', fs) \<and> pc_logical_address cfg' = pc_logical_address cfg"
proof -
  have "extract_int json ''logical_address'' = None" by (rule extract_int_quoted [OF assms(3-5)])
  then show ?thesis
    using assms(1,2) by (simp add: load_config_def ifs_read_ok apply_config_fields)
qed

text \<open>A small configuration file.\<close>

definition ex_json :: string where
  "ex_json = ''{ '' @ quoted ''listen_port'' @ '': 78936, '' @ quoted ''logical_address'' @ '': '' @ quoted ''0x1234'' @ ''}''"

definition ex_config_fs :: fsys where
  "ex_config_fs = \<lparr>files = [''/c'' \<mapsto> bytes_of_string ex_json], faults = []\<rparr>"

lemma ex_config_fs_simps: "files ex_config_fs ''/c'' = Some (bytes_of_string ex_json)" "faults ex_config_fs = []"
  by (simp_all add: ex_config_fs_def)

lemma ex_json_port:
  "ex_json = ''{ '' @ quoted ''listen_port'' @ CHR '':'' # '' '' @ to_string 78936 @
      ('', '' @ quoted ''logical_address'' @ '': '' @ quoted ''0x1234'' @ ''}'')"
  "str_find_sub (quoted ''listen_port'') ex_json = Some (length ''{ '')"
proof -
  have t: "to_string 78936 = ''78936''" by (simp add: to_string.simps char_of_eq_iff)
  show "ex_json = ''{ '' @ quoted ''listen_port'' @ CHR '':'' # '' '' @ to_string 78936 @
      ('', '' @ quoted ''logical_address'' @ '': '' @ quoted ''0x1234'' @ ''}'')"
    by (simp add: ex_json_def t)
qed (simp add: ex_json_def quoted_def)

lemma ex_json_address:
  "ex_json = (''{ '' @ quoted ''listen_port'' @ '': 78936, '') @
      quoted ''logical_address'' @ CHR '':'' # '' '' @ CHR 0x22 # (''0x1234'' @ CHR 0x22 # ''}'')"
  "str_find_sub (quoted ''logical_address'') ex_json = Some (length (''{ '' @ quoted ''listen_port'' @ '': 78936, ''))"
  by (simp_all add: ex_json_def quoted_def)

theorem configured_port_witness:
  "\<exists>cfg'. load_config ''/c'' config_default ex_config_fs = (True, cfg', ex_config_fs) \<and> unat (pc_listen_port cfg') = 13400"
  using configured_port [OF ex_config_fs_simps ex_json_port, of config_default] by (simp add: blanks_def number_end_def)

theorem quoted_address_is_ignored_witness:
  "\<exists>cfg'. load_config ''/c'' config_default ex_config_fs = (True, cfg', ex_config_fs) \<and> pc_logical_address cfg' = 0x0E80"
  using quoted_address_is_ignored [OF ex_config_fs_simps ex_json_address, of config_default]
  by (simp add: blanks_def config_default_def)

end
