(* ===== verification/DiagDownload.thy ===== *)
theory DiagDownload
  imports TransferProps FileSys
begin

text \<open>
  The download path of the diagnostic server: \<open>CapiDownloadAdapter\<close>
  (src/src/diag/capi_download_adapter.h and .cpp) behind the transfer services, with the services
  \<open>ServerImpl::Initialize\<close> registers (src/src/uds/capi/isoft-uds/src/server/src/server_impl.cpp) for
  the configuration of src/apps/diag_server/main.cpp.

  What the transfer manager may assume of the application that receives the blocks is the locale
  \<open>block_receiver\<close>; the adapter is an instance of it, with the number of the first block it expects.

  \<open>output_\<close> is its open flag and whether \<open>!output_\<close> is false. A write to a stream that is not open
  fails unless it is empty; closing one that is not open sets the failure bit. Bytes count as
  written when \<open>write\<close> returns: those that a later flush loses are a short write that was not seen.
\<close>

record download_adapter =
  da_open :: bool
  da_good :: bool
  da_expected :: byte
  da_fs :: fsys

definition da_new :: "fsys \<Rightarrow> download_adapter" where
  "da_new fs = \<lparr>da_open = False, da_good = True, da_expected = 0, da_fs = fs\<rparr>"

definition download_file :: "string \<Rightarrow> string" where
  "download_file download_dir = download_dir @ ''/ota_download.bin''"

text \<open>\<open>write\<close> on an open stream.\<close>

definition ofs_write :: "string \<Rightarrow> bytes \<Rightarrow> fsys \<Rightarrow> bool \<times> fsys" where
  "ofs_write p d fs = (case next_fault fs of
     (IoOk, fs') \<Rightarrow> (True, put_file p (case_option [] id (files fs' p) @ d) fs')
   | (IoOpenFail, fs') \<Rightarrow> (False, fs')
   | (IoShort n seen, fs') \<Rightarrow> (\<not> seen, put_file p (case_option [] id (files fs' p) @ take n d) fs'))"

definition adapter_RequestDownload ::
  "string \<Rightarrow> byte \<Rightarrow> byte \<Rightarrow> bytes \<Rightarrow> download_adapter \<Rightarrow> unit uds_result \<times> download_adapter" where
  "adapter_RequestDownload path dataFormat addressFormat memoryAddressAndSize a =
     (case ofs_trunc False path [] (da_fs a) of ((opened, _), fs) \<Rightarrow>
      let a1 = a\<lparr>da_open := opened, da_good := opened, da_fs := fs\<rparr> in
      if \<not> opened then (uds_error kConditionsNotCorrect, a1)
      else (Inr (), a1\<lparr>da_expected := 0\<rparr>))"

definition adapter_DownloadData ::
  "string \<Rightarrow> byte \<Rightarrow> bytes \<Rightarrow> download_adapter \<Rightarrow> unit uds_result \<times> download_adapter" where
  "adapter_DownloadData path blockSequenceCounter data a =
     (if \<not> da_good a then (uds_error kRequestSequenceError, a)
      else if blockSequenceCounter \<noteq> da_expected a then (uds_error kWrongBlockSequenceCounter, a)
      else (let (good, fs) = (if data = [] then (True, da_fs a)
                              else if da_open a then ofs_write path data (da_fs a) else (False, da_fs a));
                a1 = a\<lparr>da_good := good, da_fs := fs\<rparr> in
        if \<not> good then (uds_error kGeneralProgrammingFailure, a1)
        else (Inr (), a1\<lparr>da_expected := da_expected a + 1\<rparr>)))"

definition adapter_RequestDownloadExit :: "bytes \<Rightarrow> download_adapter \<Rightarrow> bytes uds_result \<times> download_adapter" where
  "adapter_RequestDownloadExit record a =
     (let a1 = (if da_good a
                then (case next_fault (da_fs a) of (flushed, fs) \<Rightarrow>
                        a\<lparr>da_open := False, da_good := flushed = IoOk \<and> da_open a, da_fs := fs\<rparr>)
                else a)
      in (Inr [], a1\<lparr>da_expected := 0\<rparr>))"

text \<open>The server of main.cpp: the adapter receives downloads, without an environmental condition;
  everything else is whatever \<open>rest\<close> says, since it is not configured.\<close>

definition diag_app :: "string \<Rightarrow> download_adapter transfer_app \<Rightarrow> download_adapter transfer_app" where
  "diag_app path rest = rest\<lparr>ta_download_condition := None, ta_RequestDownload := adapter_RequestDownload path,
     ta_DownloadData := adapter_DownloadData path, ta_RequestDownloadExit := adapter_RequestDownloadExit\<rparr>"

text \<open>The services registered for a configuration, and the requests that reach the manager.\<close>

definition transfer_sids :: "bool \<Rightarrow> bool \<Rightarrow> bool \<Rightarrow> byte list" where
  "transfer_sids download upload fileTransfer =
     (if download then [0x34] else []) @ (if upload then [0x35] else []) @ (if fileTransfer then [0x38] else []) @
     (if download \<or> upload \<or> fileTransfer then [0x36, 0x37] else [])"

fun reaches_manager :: "byte list \<Rightarrow> tm_event \<Rightarrow> bool" where
  "reaches_manager sids (TmRequest sid status body) \<longleftrightarrow> sid \<in> set sids"
| "reaches_manager sids _ \<longleftrightarrow> True"

definition diag_history ::
  "string \<Rightarrow> download_adapter transfer_app \<Rightarrow> tm_event list \<Rightarrow> transfer_manager \<times> download_adapter \<Rightarrow>
   transfer_manager \<times> download_adapter" where
  "diag_history path rest evs s =
     tm_history (diag_app path rest) (filter (reaches_manager (transfer_sids True False False)) evs) s"

section \<open>The data and exit services while a download runs or nothing does\<close>

definition data_call :: "'w transfer_app \<Rightarrow> ResponseStatusType \<Rightarrow> bytes \<Rightarrow> bytes \<Rightarrow> transfer_manager \<Rightarrow> 'w \<Rightarrow> 'w tm_result" where
  "data_call app status b d tm w = (case ta_DownloadData app (tm_counter tm) d w of
     (Inr _, w1) \<Rightarrow> tm_respond b status ((next_block tm)\<lparr>tm_transfer_size := tm_transfer_size tm + word_of_nat (length d)\<rparr>) w1
   | (Inl nrc, w1) \<Rightarrow> tm_reject 0x36 status (word_of_int nrc) tm w1)"

lemma transferData_cases:
  assumes "tm_type tm = kUnknow \<or> tm_type tm = kDownload"
  obtains (reject) nrc where "transferData app status body tm w = tm_reject 0x36 status nrc tm w"
    | (again) b where "transferData app status body tm w = tm_respond b status tm w"
    | (call) b d where "tm_type tm = kDownload" "transferData app status body tm w = data_call app status b d tm w"
proof (cases "tm_type tm = kUnknow")
  case True
  then have "\<exists>nrc. transferData app status body tm w = tm_reject 0x36 status nrc tm w"
    by (cases "length body < 2") (auto simp: transferData_def)
  then show thesis using reject by blast
next
  case False
  with assms have ty: "tm_type tm = kDownload" by simp
  show thesis
  proof (cases "length body < 2 \<or> tm_state tm \<noteq> kRequest \<and> tm_state tm \<noteq> kTransfer")
    case True
    then have "\<exists>nrc. transferData app status body tm w = tm_reject 0x36 status nrc tm w"
      by (cases "length body < 2") (auto simp: transferData_def)
    then show thesis using reject by blast
  next
    case False
    obtain v p1 where r0: "ReadUint8 body 0 = (v, p1)" by fastforce
    obtain c p2 where r1: "ReadUint8 body p1 = (c, p2)" by fastforce
    have "transferData app status body tm w =
        (if tm_previous tm = uint c then tm_respond (Write_u8 c (CreateResponse 0x36)) status tm w
         else if tm_counter tm = c then data_call app status (Write_u8 c (CreateResponse 0x36)) (ReadAll body p2) tm w
         else tm_reject 0x36 status (nrc_code kWrongBlockSequenceCounter) tm w)"
      using r0 r1 False ty by (auto simp: transferData_def Let_def data_call_def)
    then show thesis using reject again call ty by (simp split: if_splits)
  qed
qed

lemma transferExit_cases:
  assumes "tm_type tm = kUnknow \<or> tm_type tm = kDownload"
  obtains (reject) nrc where "transferExit app status body tm w = tm_reject 0x37 status nrc tm w"
    | (accept) r x w1 b where "tm_type tm = kDownload" "ta_RequestDownloadExit app r w = (Inr x, w1)"
        "transferExit app status body tm w = tm_respond b status ((clearTransferInfo tm)\<lparr>tm_state := kExit\<rparr>) w1"
    | (refuse) r e w1 nrc where "tm_type tm = kDownload" "ta_RequestDownloadExit app r w = (Inl e, w1)"
        "transferExit app status body tm w = tm_reject 0x37 status nrc tm w1"
proof (cases "length body < 1 \<or> tm_type tm = kUnknow \<or> tm_state tm \<noteq> kRequest \<and> tm_state tm \<noteq> kTransfer")
  case True
  then have "\<exists>nrc. transferExit app status body tm w = tm_reject 0x37 status nrc tm w"
    by (cases "body = []") (auto simp: transferExit_def)
  then show thesis using reject by blast
next
  case False
  with assms have ty: "tm_type tm = kDownload" by simp
  obtain v p1 where r: "ReadUint8 body 0 = (v, p1)" by fastforce
  obtain res w1 where c: "ta_RequestDownloadExit app (ReadAll body p1) w = (res, w1)" by fastforce
  show thesis
    using False ty r c accept refuse by (cases res) (auto simp: transferExit_def exit_call_def)
qed

lemma requestDownload_cases:
  obtains (reject) nrc where "requestDownload app status body tm w = tm_reject 0x34 status nrc tm w"
    | (accept) f a m w1 b n u where "ta_RequestDownload app f a m w = (Inr u, w1)"
        "snd (requestDownload app status body tm w) = (start_transfer kDownload n (TmConfirm status tm), w1)"
    | (refuse) f a m w1 e nrc where "ta_RequestDownload app f a m w = (Inl e, w1)"
        "requestDownload app status body tm w = tm_reject 0x34 status nrc tm w1"
proof (cases "parse_memory_request body")
  case (Inl e)
  then show thesis using reject by (simp add: requestDownload_def)
next
  case (Inr q)
  obtain f a m n where q: "q = (f, a, m, n)" by (metis prod_cases4)
  obtain res w1 where c: "ta_RequestDownload app f a m w = (res, w1)" by fastforce
  show thesis
    using Inr q c reject accept refuse
    by (cases res; cases "check_condition (ta_download_condition app) w = 0")
       (auto simp: requestDownload_def Let_def tm_respond_def)
qed

section \<open>What a receiver of blocks promises\<close>

locale block_receiver =
  fixes app :: "'w transfer_app"
    and expected :: "'w \<Rightarrow> byte"
    and content :: "'w \<Rightarrow> bytes option"
    and first_block :: byte
  assumes request_accepted:
      "ta_RequestDownload app f a m w = (Inr u, w') \<Longrightarrow> expected w' = first_block \<and> content w' = Some []"
    and request_refused:
      "ta_RequestDownload app f a m w = (Inl e, w') \<Longrightarrow> expected w' = expected w \<and> content w' = content w"
    and data_accepted: "ta_DownloadData app c d w = (Inr u, w') \<Longrightarrow> expected w' = c + 1"
    and data_refused: "ta_DownloadData app c d w = (Inl e, w') \<Longrightarrow> expected w' = expected w"
    and data_out_of_order: "c \<noteq> expected w \<Longrightarrow> \<exists>e. ta_DownloadData app c d w = (Inl e, w)"
    and exit_accepted:
      "ta_RequestDownloadExit app r w = (Inr x, w') \<Longrightarrow> expected w' = first_block \<and> content w' = content w"
    and exit_refused:
      "ta_RequestDownloadExit app r w = (Inl e, w') \<Longrightarrow> expected w' = expected w \<and> content w' = content w"
begin

text \<open>Manager and receiver count in step, up to where each of them begins.\<close>

definition in_step :: "transfer_manager \<times> 'w \<Rightarrow> bool" where
  "in_step s \<longleftrightarrow> (tm_type (fst s) = kUnknow \<or> tm_type (fst s) = kDownload) \<and>
     (tm_type (fst s) = kDownload \<longrightarrow> expected (snd s) = tm_counter (fst s) - 1 + first_block)"

lemma in_step_clear [simp]: "in_step (clearTransferInfo tm, w)"
  by (simp add: in_step_def clearTransferInfo_def)

lemma in_step_exit [simp]: "in_step ((clearTransferInfo tm)\<lparr>tm_state := kExit\<rparr>, w)"
  by (simp add: in_step_def clearTransferInfo_def)

lemma in_step_Confirm: "in_step (tm, w) \<Longrightarrow> in_step (TmConfirm status tm, w)"
  by (simp add: TmConfirm_def)

lemma in_step_reject [simp]: "in_step (tm, w) \<Longrightarrow> in_step (snd (tm_reject sid status nrc tm w))"
  by (simp add: tm_reject_def in_step_Confirm)

lemma in_step_respond [simp]: "in_step (tm, w) \<Longrightarrow> in_step (snd (tm_respond b status tm w))"
  by (simp add: tm_respond_def in_step_Confirm)

lemma in_step_expected: "in_step (tm, w) \<Longrightarrow> expected w' = expected w \<Longrightarrow> in_step (tm, w')"
  by (simp add: in_step_def)

lemma in_step_refused:
  "in_step (tm, w) \<Longrightarrow> expected w' = expected w \<Longrightarrow> in_step (snd (tm_reject sid status nrc tm w'))"
  by (simp add: in_step_expected)

lemma in_step_start: "expected w = first_block \<Longrightarrow> in_step (start_transfer kDownload n tm, w)"
  by (simp add: in_step_def start_transfer_def kBlockSequenceCounterStartValue_def)

lemma in_step_next:
  "in_step (tm, w) \<Longrightarrow> tm_type tm = kDownload \<Longrightarrow> expected w' = expected w + 1 \<Longrightarrow>
   in_step ((next_block tm)\<lparr>tm_transfer_size := n\<rparr>, w')"
  by (simp add: in_step_def next_block_def)

lemma requestDownload_in_step:
  assumes "in_step (tm, w)"
  shows "in_step (snd (requestDownload app status body tm w))"
  using assms
  by (cases rule: requestDownload_cases [of app status body tm w])
     (auto simp: in_step_start request_accepted intro: in_step_refused dest: request_refused)

lemma data_accepted_in_order: "ta_DownloadData app c d w = (Inr u, w') \<Longrightarrow> c = expected w"
  using data_out_of_order [of c w d] by fastforce

lemma transferData_in_step:
  assumes "in_step (tm, w)"
  shows "in_step (snd (transferData app status body tm w))"
proof -
  have ty: "tm_type tm = kUnknow \<or> tm_type tm = kDownload" using assms by (simp add: in_step_def)
  from ty show ?thesis
  proof (cases rule: transferData_cases [of tm app status body w])
    case (call b d)
    obtain res w1 where c: "ta_DownloadData app (tm_counter tm) d w = (res, w1)" by fastforce
    show ?thesis
    proof (cases res)
      case (Inl e)
      then show ?thesis using call c in_step_expected [OF assms data_refused [of "tm_counter tm" d w e w1]]
        by (simp add: data_call_def)
    next
      case (Inr u)
      with c have "expected w1 = expected w + 1" using data_accepted data_accepted_in_order by metis
      then show ?thesis using call c Inr in_step_next [OF assms call(1)] by (simp add: data_call_def)
    qed
  qed (simp_all add: assms)
qed

lemma transferExit_in_step:
  assumes "in_step (tm, w)"
  shows "in_step (snd (transferExit app status body tm w))"
proof -
  have ty: "tm_type tm = kUnknow \<or> tm_type tm = kDownload" using assms by (simp add: in_step_def)
  from ty assms show ?thesis
    by (cases rule: transferExit_cases [of tm app status body w])
       (auto intro: in_step_refused dest: exit_refused)
qed

text \<open>The content only changes when a download is requested or a block is taken.\<close>

lemma requestDownload_content:
  "content (snd (snd (requestDownload app status body tm w))) \<in> {content w, Some []}"
  by (cases rule: requestDownload_cases [of app status body tm w])
     (auto simp: tm_reject_def dest: request_accepted request_refused)

lemma transferExit_content:
  assumes "in_step (tm, w)"
  shows "content (snd (snd (transferExit app status body tm w))) = content w"
proof -
  have ty: "tm_type tm = kUnknow \<or> tm_type tm = kDownload" using assms by (simp add: in_step_def)
  then show ?thesis
    by (cases rule: transferExit_cases [of tm app status body w])
       (auto simp: tm_reject_def tm_respond_def dest: exit_accepted exit_refused)
qed

lemma transferData_stuck:
  assumes "in_step (tm, w)" and "first_block \<noteq> kBlockSequenceCounterStartValue"
  shows "snd (snd (transferData app status body tm w)) = w"
proof -
  have ty: "tm_type tm = kUnknow \<or> tm_type tm = kDownload" using assms by (simp add: in_step_def)
  from ty show ?thesis
  proof (cases rule: transferData_cases [of tm app status body w])
    case (call b d)
    have "expected w = tm_counter tm - 1 + first_block" using assms(1) call(1) by (simp add: in_step_def)
    then have "tm_counter tm \<noteq> expected w"
      using assms(2) by (auto simp: kBlockSequenceCounterStartValue_def algebra_simps)
    then obtain e where "ta_DownloadData app (tm_counter tm) d w = (Inl e, w)" using data_out_of_order by blast
    then show ?thesis using call(2) by (simp add: data_call_def tm_reject_def)
  qed (simp_all add: tm_reject_def tm_respond_def)
qed

lemma handle_in_step:
  assumes "in_step s" and "reaches_manager [0x34, 0x36, 0x37] ev"
  shows "in_step (tm_handle app ev s)"
proof (cases s; cases ev)
  fix tm w sid status body
  assume "s = (tm, w)" "ev = TmRequest sid status body"
  then show ?thesis
    using assms
    by (auto simp: TmProcess_def requestDownload_in_step transferData_in_step transferExit_in_step)
qed (use assms in \<open>simp_all add: on_session_change_def on_security_level_change_def\<close>)

lemma handle_content:
  assumes "in_step s" and "reaches_manager [0x34, 0x36, 0x37] ev" and "first_block \<noteq> kBlockSequenceCounterStartValue"
  shows "content (snd (tm_handle app ev s)) \<in> {content (snd s), Some []}"
proof (cases s; cases ev)
  fix tm w sid status body
  assume e: "s = (tm, w)" "ev = TmRequest sid status body"
  then show ?thesis
    using assms requestDownload_content [of status body tm w] transferExit_content [of tm w status body]
      transferData_stuck [of tm w status body]
    by (auto simp: TmProcess_def)
qed (use assms in simp_all)

lemma history_stuck:
  assumes "in_step s" and "list_all (reaches_manager [0x34, 0x36, 0x37]) evs"
    and "first_block \<noteq> kBlockSequenceCounterStartValue"
  shows "in_step (tm_history app evs s) \<and> content (snd (tm_history app evs s)) \<in> {content (snd s), Some []}"
  using assms(1,2)
proof (induction evs arbitrary: s)
  case Nil
  then show ?case by (simp add: tm_history_def)
next
  case (Cons ev evs)
  then have ev: "reaches_manager [0x34, 0x36, 0x37] ev" by simp
  have "in_step (tm_history app evs (tm_handle app ev s)) \<and>
      content (snd (tm_history app evs (tm_handle app ev s))) \<in> {content (snd (tm_handle app ev s)), Some []}"
    using Cons.IH [OF handle_in_step [OF Cons.prems(1) ev]] Cons.prems(2) by simp
  then show ?case
    using handle_content [OF Cons.prems(1) ev assms(3)] by (auto simp: tm_history_def)
qed

end

section \<open>The adapter\<close>

lemma ofs_trunc_empty:
  "ofs_trunc fl p [] fs = ((opened, g), fs') \<Longrightarrow> files fs' p = (if opened then Some [] else files fs p)"
  by (auto simp: ofs_trunc_def split: fs_splits)

interpretation adapter: block_receiver "diag_app path rest" da_expected "\<lambda>a. files (da_fs a) path" 0
proof
  show "ta_RequestDownload (diag_app path rest) f a m w = (Inr u, w') \<Longrightarrow>
      da_expected w' = 0 \<and> files (da_fs w') path = Some []" for f a m w u w'
    by (auto simp: diag_app_def adapter_RequestDownload_def Let_def dest: ofs_trunc_empty split: prod.splits if_splits)
  show "ta_RequestDownload (diag_app path rest) f a m w = (Inl e, w') \<Longrightarrow>
      da_expected w' = da_expected w \<and> files (da_fs w') path = files (da_fs w) path" for f a m w e w'
    by (auto simp: diag_app_def adapter_RequestDownload_def Let_def dest: ofs_trunc_empty split: prod.splits if_splits)
  show "ta_DownloadData (diag_app path rest) c d w = (Inr u, w') \<Longrightarrow> da_expected w' = c + 1" for c d w u w'
    by (auto simp: diag_app_def adapter_DownloadData_def Let_def split: prod.splits if_splits)
  show "ta_DownloadData (diag_app path rest) c d w = (Inl e, w') \<Longrightarrow> da_expected w' = da_expected w" for c d w e w'
    by (auto simp: diag_app_def adapter_DownloadData_def Let_def split: prod.splits if_splits)
  show "c \<noteq> da_expected w \<Longrightarrow> \<exists>e. ta_DownloadData (diag_app path rest) c d w = (Inl e, w)" for c d w
    by (simp add: diag_app_def adapter_DownloadData_def)
  show "ta_RequestDownloadExit (diag_app path rest) r w = (Inr x, w') \<Longrightarrow>
      da_expected w' = 0 \<and> files (da_fs w') path = files (da_fs w) path" for r w x w'
    by (auto simp: diag_app_def adapter_RequestDownloadExit_def Let_def split: prod.splits)
  show "ta_RequestDownloadExit (diag_app path rest) r w = (Inl e, w') \<Longrightarrow>
      da_expected w' = da_expected w \<and> files (da_fs w') path = files (da_fs w) path" for r w e w'
    by (auto simp: diag_app_def adapter_RequestDownloadExit_def Let_def split: prod.splits)
qed

lemma diag_history_stuck:
  assumes "diag_history path rest evs (tm_new n u f, da_new fs) = (tm, a)"
  shows "adapter.in_step (tm, a) \<and> files (da_fs a) path \<in> {files fs path, Some []}"
proof -
  let ?evs = "filter (reaches_manager (transfer_sids True False False)) evs"
  have "list_all (reaches_manager [0x34, 0x36, 0x37]) ?evs"
    by (simp add: list_all_iff transfer_sids_def)
  moreover have "adapter.in_step (tm_new n u f, da_new fs)" by (simp add: adapter.in_step_def tm_new_def)
  ultimately show ?thesis
    using adapter.history_stuck [of "(tm_new n u f, da_new fs)" ?evs path rest] assms
    by (simp add: diag_history_def da_new_def kBlockSequenceCounterStartValue_def)
qed

text \<open>
  C21: the diagnostic server can not receive an image. In the configuration of main.cpp, whatever a
  tester sends and in whatever order, the download file holds what it held before or nothing, and no
  TransferData request changes anything in the adapter: the services number blocks from one, as the
  standard and the download client do, and the adapter waits for block zero.
\<close>

theorem diag_download_never_stores:
  "case diag_history (download_file dir) rest evs (tm_new n u f, da_new fs) of (tm, a) \<Rightarrow>
     files (da_fs a) (download_file dir) \<in> {files fs (download_file dir), Some []} \<and>
     snd (snd (TmProcess (diag_app (download_file dir) rest) 0x36 status body tm a)) = a"
proof -
  obtain tm a where h: "diag_history (download_file dir) rest evs (tm_new n u f, da_new fs) = (tm, a)" by fastforce
  show ?thesis
    using diag_history_stuck [OF h] adapter.transferData_stuck [of tm a "download_file dir" rest status body]
    by (simp add: h TmProcess_def kBlockSequenceCounterStartValue_def)
qed

end
