(* ===== verification/DiagAdapters.thy ===== *)
theory DiagAdapters
  imports DiagDownload PackageManifest OtaThreads
begin

text \<open>
  The other two adapters of the diagnostic server: data identifiers
  (src/src/diag/capi_did_adapter.h and .cpp) and the update routine
  (src/src/diag/capi_routine_adapter.h and .cpp).

  The update routine unpacks the downloaded package, starts the OTA manager and polls its progress
  until the worker is done. Between two polls the worker takes some of its steps (theory OtaThreads);
  the schedule is the list of these numbers, and the routine is still polling when the list is used
  up. The manager's file system is the one the routine writes to. The detached thread that switches
  slots half a second later is the flag of the outcome, and \<open>delayed_switch\<close> what it does.
\<close>

section \<open>Data identifiers\<close>

definition kVinDid :: u16 where "kVinDid = 0xF190"

definition did_new :: "u16 \<rightharpoonup> bytes" where
  "did_new = [kVinDid \<mapsto> [0x52, 0x4B, 0x33, 0x35, 0x36, 0x38, 0x50, 0x4C, 0x41, 0x54,
     0x46, 0x4F, 0x52, 0x4D, 0x30, 0x30, 0x31]]"

fun did_Read_loop :: "(u16 \<rightharpoonup> bytes) \<Rightarrow> (u16 \<times> bytes) list \<Rightarrow> u16 list \<Rightarrow> (u16 \<times> bytes) list uds_result" where
  "did_Read_loop values out [] = Inr out"
| "did_Read_loop values out (did # ids) = (case values did of
     None \<Rightarrow> uds_error kRequestOutOfRange
   | Some v \<Rightarrow> did_Read_loop values (out @ [(did, v)]) ids)"

definition did_Read :: "(u16 \<rightharpoonup> bytes) \<Rightarrow> u16 list \<Rightarrow> (u16 \<times> bytes) list uds_result" where
  "did_Read values dataIdentifierTable = did_Read_loop values [] dataIdentifierTable"

definition did_Write :: "u16 \<times> bytes \<Rightarrow> (u16 \<rightharpoonup> bytes) \<Rightarrow> unit uds_result \<times> (u16 \<rightharpoonup> bytes)" where
  "did_Write requestDataRecord values = (Inr (), values(fst requestDataRecord \<mapsto> snd requestDataRecord))"

lemma did_Read_loop_eq:
  "did_Read_loop values out ids =
     (if set ids \<subseteq> dom values then Inr (out @ map (\<lambda>i. (i, the (values i))) ids) else uds_error kRequestOutOfRange)"
  by (induction ids arbitrary: out) (auto split: option.splits)

lemma did_read_after_write:
  "did_Read (snd (did_Write (i, v) values)) [i] = Inr [(i, v)]"
  by (simp add: did_Read_def did_Write_def did_Read_loop_eq)

section \<open>The update routine\<close>

datatype routine_outcome = Returned "unit uds_result" bool | StillPolling | Blocked

definition kOtaStartRoutine :: u16 where "kOtaStartRoutine = 0x1100"

fun poll_progress :: "('s, 'b) ota_deps \<Rightarrow> nat list \<Rightarrow> ('s, 'b) ota \<Rightarrow> routine_outcome \<times> ('s, 'b) ota" where
  "poll_progress d ns om =
     (if pr_state (om_progress om) = ReadyToSwitch then (Returned (Inr ()) True, om)
      else if pr_state (om_progress om) = Failed \<or> pr_state (om_progress om) = Rollback
      then (Returned (uds_error kGeneralProgrammingFailure) False, om)
      else (case ns of [] \<Rightarrow> (StillPolling, om) | n # ns' \<Rightarrow> poll_progress d ns' ((worker_step d ^^ n) om)))"

declare poll_progress.simps [simp del]

definition routine_Start ::
  "('s, 'b) ota_deps \<Rightarrow> string \<Rightarrow> bool \<Rightarrow> u16 \<Rightarrow> nat list \<Rightarrow> ('s, 'b) ota \<Rightarrow> routine_outcome \<times> ('s, 'b) ota" where
  "routine_Start d download_dir manager_present routineId ns om =
     (if routineId \<noteq> kOtaStartRoutine then (Returned (uds_error kRequestOutOfRange) False, om)
      else if \<not> manager_present then (Returned (uds_error kConditionsNotCorrect) False, om)
      else (case ifs_read (download_dir @ ''/ota_download.bin'') (om_fs om) of
          (None, fs1) \<Rightarrow> (Returned (uds_error kConditionsNotCorrect) False, om\<lparr>om_fs := fs1\<rparr>)
        | (Some package, fs1) \<Rightarrow>
            (case UnpackPackage package of
               None \<Rightarrow> (Returned (uds_error kConditionsNotCorrect) False, om\<lparr>om_fs := fs1\<rparr>)
             | Some (manifest, payload) \<Rightarrow>
                 (let payload_path = download_dir @ ''/ota_payload.bin'' in
                  case ofs_trunc False payload_path payload fs1 of ((opened, _), fs2) \<Rightarrow>
                  let om1 = om\<lparr>om_fs := fs2\<rparr> in
                  if \<not> opened then (Returned (uds_error kGeneralProgrammingFailure) False, om1)
                  else (case start_update \<lparr>jb_image = payload_path, jb_digest = mf_signature manifest,
                                jb_version = mf_version manifest\<rparr> om1 of
                          None \<Rightarrow> (Blocked, om1)
                        | Some (False, om2) \<Rightarrow> (Returned (uds_error kConditionsNotCorrect) False, om2)
                        | Some (True, om2) \<Rightarrow> poll_progress d ns om2)))))"

definition delayed_switch :: "('s, 'b) ota_deps \<Rightarrow> ('s, 'b) ota \<Rightarrow> ('s, 'b) ota" where
  "delayed_switch d om = snd (switch_and_reboot d om)"

definition routine_Stop :: "u16 \<Rightarrow> unit uds_result" where
  "routine_Stop routineId = uds_error kSubfunctionNotSupported"

definition routine_RequestResults :: "u16 \<Rightarrow> unit uds_result" where
  "routine_RequestResults routineId = uds_error kSubfunctionNotSupported"

section \<open>Polling ends\<close>

definition poll_ends :: "('s, 'b) ota \<Rightarrow> bool" where
  "poll_ends om \<longleftrightarrow> pr_state (om_progress om) \<in> {ReadyToSwitch, Failed, Rollback}"

definition poll_result :: "('s, 'b) ota \<Rightarrow> routine_outcome" where
  "poll_result om = (if pr_state (om_progress om) = ReadyToSwitch then Returned (Inr ()) True
     else Returned (uds_error kGeneralProgrammingFailure) False)"

lemma poll_now: "poll_ends om \<Longrightarrow> poll_progress d ns om = (poll_result om, om)"
  by (auto simp: poll_progress.simps poll_ends_def poll_result_def)

lemma poll_later: "\<not> poll_ends om \<Longrightarrow> poll_progress d (n # ns) om = poll_progress d ns ((worker_step d ^^ n) om)"
  by (auto simp: poll_progress.simps [of d "n # ns"] poll_ends_def)

text \<open>The first poll that sees one of the three states decides; when no state changes any more once one of
  them is reached, it is the state after all steps of the schedule.\<close>

lemma poll_decided:
  assumes "poll_ends ((worker_step d ^^ sum_list ns) om)"
    and "\<And>k l. poll_ends ((worker_step d ^^ k) om) \<Longrightarrow> k \<le> l \<Longrightarrow> (worker_step d ^^ l) om = (worker_step d ^^ k) om"
  shows "poll_progress d ns om =
    (poll_result ((worker_step d ^^ sum_list ns) om), (worker_step d ^^ sum_list ns) om)"
  using assms
proof (induction ns arbitrary: om)
  case (Cons n ns)
  show ?case
  proof (cases "poll_ends om")
    case True
    then have "(worker_step d ^^ sum_list (n # ns)) om = om" using Cons.prems(2) [of 0 "sum_list (n # ns)"] by simp
    with True show ?thesis by (simp add: poll_now)
  next
    case False
    let ?om = "(worker_step d ^^ n) om"
    have e: "(worker_step d ^^ k) ?om = (worker_step d ^^ (k + n)) om" for k by (simp add: funpow_add)
    have "poll_ends ((worker_step d ^^ sum_list ns) ?om)" using Cons.prems(1) by (simp add: e add.commute)
    moreover have "(worker_step d ^^ l) ?om = (worker_step d ^^ k) ?om"
      if "poll_ends ((worker_step d ^^ k) ?om)" "k \<le> l" for k l
      using Cons.prems(2) [of "k + n" "l + n"] that by (simp add: e)
    ultimately show ?thesis using Cons.IH [of ?om] False by (simp add: poll_later e add.commute)
  qed
qed (simp add: poll_now)


text \<open>Without automatic switching the worker reaches one of the three states in its last step.\<close>

definition polled_inv :: "worker_pc \<times> ('s, 'b) ota \<Rightarrow> bool" where
  "polled_inv s \<longleftrightarrow> \<not> om_auto_apply (snd s) \<and> fst s \<noteq> WApply \<and> (fst s = WDone \<or> \<not> poll_ends (snd s))"

lemma polled_inv_act: "polled_inv (pc, om) \<Longrightarrow> polled_inv (worker_act d j pc om)"
  by (cases pc) (auto simp: polled_inv_def poll_ends_def split: prod.split option.split)

lemma polled_inv_run: "polled_inv s \<Longrightarrow> polled_inv ((worker_run d j ^^ k) s)"
proof (induction k)
  case (Suc k)
  then show ?case
    by (cases "(worker_run d j ^^ k) s") (simp add: polled_inv_act worker_run_def)
qed simp

lemma worker_run_more:
  assumes "fst ((worker_run d j ^^ k) s) = WDone" and "k \<le> l"
  shows "(worker_run d j ^^ l) s = (worker_run d j ^^ k) s"
proof -
  obtain m where m: "l = m + k" using assms(2) by (metis le_add_diff_inverse2)
  obtain om where "(worker_run d j ^^ k) s = (WDone, om)" using assms(1) by (cases "(worker_run d j ^^ k) s") simp
  then show ?thesis by (simp add: m funpow_add)
qed

lemma poll_ends_worker [simp]: "poll_ends (om\<lparr>om_worker := w\<rparr>) = poll_ends om"
  by (simp add: poll_ends_def)

lemma run_update_final: "\<not> om_auto_apply om \<Longrightarrow> poll_ends (run_update d j om)"
  by (auto simp: run_update_def Let_def poll_ends_def split: prod.split option.split)

lemma poll_worker:
  assumes "\<not> om_auto_apply om" and "om_progress om = progress_default" and "11 \<le> sum_list ns"
  shows "poll_progress d ns (om\<lparr>om_worker := Some (j, WStart)\<rparr>) =
    (poll_result (run_update d j om), (run_update d j om)\<lparr>om_worker := Some (j, WDone)\<rparr>)"
proof -
  let ?om = "om\<lparr>om_worker := Some (j, WStart)\<rparr>" and ?r = "\<lambda>k. (worker_run d j ^^ k) (WStart, om)"
  have st: "(worker_step d ^^ k) ?om = (snd (?r k))\<lparr>om_worker := Some (j, fst (?r k))\<rparr>" for k
    by (simp add: worker_step_run split: prod.split)
  have r11: "?r 11 = (WDone, run_update d j om)" by (rule worker_run_update)
  have inv: "polled_inv (?r k)" for k
    using assms(1,2) by (intro polled_inv_run) (simp add: polled_inv_def poll_ends_def progress_default_def)
  have same: "?r l = ?r k" if "poll_ends (snd (?r k))" "k \<le> l" for k l
    using inv [of k] that(1) by (intro worker_run_more [OF _ that(2)]) (simp add: polled_inv_def)
  have fin: "(worker_step d ^^ sum_list ns) ?om = (run_update d j om)\<lparr>om_worker := Some (j, WDone)\<rparr>"
    using worker_run_more [of 11 d j "(WStart, om)" "sum_list ns"] assms(3) r11 by (simp add: st)
  have "poll_progress d ns ?om = (poll_result ((worker_step d ^^ sum_list ns) ?om), (worker_step d ^^ sum_list ns) ?om)"
  proof (rule poll_decided)
    show "poll_ends ((worker_step d ^^ sum_list ns) ?om)" using run_update_final [OF assms(1), of d j] by (simp add: fin)
    show "(worker_step d ^^ l) ?om = (worker_step d ^^ k) ?om"
      if "poll_ends ((worker_step d ^^ k) ?om)" "k \<le> l" for k l
      using that same [of k l] by (simp add: st)
  qed
  then show ?thesis by (simp add: fin poll_result_def)
qed


lemma run_update_mismatch:
  fixes d :: "(mock_slots, 'b) ota_deps"
  assumes "faults (om_fs om) = []" and "files (om_fs om) (jb_image j) = Some img"
    and "\<not> (jb_digest j = [] \<or> normalized (jb_digest j) = digest_hex (od_sha d) (om_verify om) img)"
    and "jb_image j \<noteq> staged_path om"
  shows "pr_state (om_progress (run_update d j om)) = Failed"
proof -
  let ?st = "staged_path om"
  have 1: "ifs_read (jb_image j) (om_fs om) = (Some img, om_fs om)" using assms(1,2) by (simp add: ifs_read_ok)
  have 3: "copy_file (jb_image j) ?st (om_fs om) = (None, put_file ?st img (om_fs om))"
    using assms(1,2,4) by (simp add: copy_file_ok)
  have "\<not> fst (verify (od_sha d) (om_verify om) ?st (jb_digest j) [] (put_file ?st img (om_fs om)))"
    using assms(1,3) by (auto simp: verify_def digest_def ifs_read_ok eq_commute [of "digest_hex _ _ _"])
  then obtain e fs5 where
    5: "verify (od_sha d) (om_verify om) ?st (jb_digest j) [] (put_file ?st img (om_fs om)) = (False, e, fs5)"
    by (cases "verify (od_sha d) (om_verify om) ?st (jb_digest j) [] (put_file ?st img (om_fs om))") auto
  show ?thesis by (simp add: run_update_def Let_def 1 3 5)
qed

lemma routine_polls:
  assumes "files (om_fs om) (dir @ ''/ota_download.bin'') = Some pkg" and "faults (om_fs om) = []"
    and "UnpackPackage pkg = Some (manifest, payload)"
    and "startable (pr_state (om_progress om))" and "worker_finished om"
  shows "routine_Start d dir True kOtaStartRoutine ns om =
    poll_progress d ns (om\<lparr>om_fs := put_file (dir @ ''/ota_payload.bin'') payload (om_fs om),
      om_progress := progress_default, om_worker := Some (\<lparr>jb_image = dir @ ''/ota_payload.bin'',
        jb_digest = mf_signature manifest, jb_version = mf_version manifest\<rparr>, WStart)\<rparr>)"
  using assms
  by (auto simp: routine_Start_def ifs_read_ok ofs_trunc_ok Let_def start_update_def worker_finished_def
      split: option.splits)

text \<open>A manager whose download directory holds an unsigned package.\<close>

definition ex_manifest :: PackageManifest where
  "ex_manifest = \<lparr>mf_name = ''platform'', mf_version = ''2'', mf_dependencies = [], mf_signature = []\<rparr>"

definition ex_downloaded :: mock_ota where
  "ex_downloaded = ex_ota\<lparr>om_fs := put_file ''/d/ota_download.bin'' (BuildPackage ex_manifest [1, 2, 3]) ex_fs\<rparr>"

lemma ex_unpacks: "UnpackPackage (BuildPackage ex_manifest [1, 2, 3]) = Some (ex_manifest, [1, 2, 3])"
  by (rule package_unpacks)
     (simp_all add: ex_manifest_def manifest_fits_def manifest_blob_eq ManifestAppendString_def ManifestAppendU32_def)

lemma ex_downloaded_simps:
  "\<not> om_auto_apply ex_downloaded" "faults (om_fs ex_downloaded) = []"
  "files (om_fs ex_downloaded) (''/d'' @ ''/ota_download.bin'') = Some (BuildPackage ex_manifest [1, 2, 3])"
  "startable (pr_state (om_progress ex_downloaded))" "worker_finished ex_downloaded"
  "om_slots ex_downloaded = \<lparr>ms_base_dir = ''/s'', ms_current = ''A'', ms_last_good = ''A''\<rparr>"
  "staged_path ex_downloaded = ''/t/pending.img''" "vm_base_dir (om_versions ex_downloaded) = ''/v''"
  by (simp_all add: ex_downloaded_def ex_fs_def startable_def progress_default_def worker_finished_def)

text \<open>
  C26: the update routine returns. Once the downloaded package unpacks and the manager accepts the
  update, polling ends with an answer, however the polls and the steps of the worker fall, as soon as
  the worker has taken its eleven steps; the answer is positive exactly if the worker prepared the
  switch, and then, and only then, the thread that switches is started.
\<close>

theorem update_routine_returns:
  assumes "\<not> om_auto_apply om" and "faults (om_fs om) = []"
    and "files (om_fs om) (dir @ ''/ota_download.bin'') = Some pkg" and "UnpackPackage pkg = Some (manifest, payload)"
    and "startable (pr_state (om_progress om))" and "worker_finished om" and "11 \<le> sum_list ns"
  shows "\<exists>om'. om_worker om' = Some (\<lparr>jb_image = dir @ ''/ota_payload.bin'', jb_digest = mf_signature manifest,
             jb_version = mf_version manifest\<rparr>, WDone) \<and>
      ((pr_state (om_progress om') = ReadyToSwitch \<and>
          routine_Start d dir True kOtaStartRoutine ns om = (Returned (Inr ()) True, om')) \<or>
       (pr_state (om_progress om') \<in> {Failed, Rollback} \<and>
          routine_Start d dir True kOtaStartRoutine ns om = (Returned (uds_error kGeneralProgrammingFailure) False, om')))"
proof -
  let ?j = "\<lparr>jb_image = dir @ ''/ota_payload.bin'', jb_digest = mf_signature manifest, jb_version = mf_version manifest\<rparr>"
  let ?om = "om\<lparr>om_fs := put_file (dir @ ''/ota_payload.bin'') payload (om_fs om), om_progress := progress_default\<rparr>"
  let ?run = "run_update d ?j ?om"
  have r: "routine_Start d dir True kOtaStartRoutine ns om = (poll_result ?run, ?run\<lparr>om_worker := Some (?j, WDone)\<rparr>)"
    using poll_worker [of ?om ns d ?j] assms(1,7) by (simp add: routine_polls [OF assms(3,2,4-6)])
  have "poll_ends ?run" using assms(1) by (intro run_update_final) simp
  then show ?thesis
    unfolding r by (intro exI [of _ "?run\<lparr>om_worker := Some (?j, WDone)\<rparr>"]) (auto simp: poll_ends_def poll_result_def)
qed

theorem update_routine_returns_witness:
  "\<exists>r sw om'. routine_Start ex_deps ''/d'' True kOtaStartRoutine [3, 0, 5, 4] ex_downloaded = (Returned r sw, om')"
  using update_routine_returns [OF ex_downloaded_simps(1-3) ex_unpacks ex_downloaded_simps(4,5), of "[3, 0, 5, 4]" ex_deps]
  by auto




end
