(* ===== verification/DiagServer.thy ===== *)
theory DiagServer
  imports NetDoip Config DiagAdapters
begin

text \<open>
  The diagnostic server put together (\<open>DiagApp\<close> in src/apps/diag_server/main.cpp): the identity and the
  functional addresses come from the configuration file, the sockets from the TCP server, the DoIP
  server sits on the sockets. What the configuration says holds for every state the server reaches.
\<close>

definition BuildIdentity :: "PlatformConfig \<Rightarrow> VehicleIdentity" where
  "BuildIdentity cfg = identity_default\<lparr>vi_vin := bytes_of_string ''RK3568PLATFORM001'',
     vi_logical_address := pc_logical_address cfg, vi_eid := [0x00, 0x11, 0x22, 0x33, 0x44, 0x55],
     vi_gid := [0x00, 0x00, 0x00, 0x00, 0x00, 0x01], vi_node_type := 0x01,
     vi_max_open_sockets := pc_max_open_sockets cfg, vi_max_data_size := pc_max_data_size cfg, vi_power_mode := 0x01,
     vi_announcement_addr := pc_announcement_addr cfg, vi_announcement_interval := pc_announcement_interval_ms cfg,
     vi_initial_inactivity_timeout := pc_initial_inactivity_ms cfg,
     vi_general_inactivity_timeout := pc_general_inactivity_ms cfg,
     vi_alive_check_timeout := pc_alive_check_timeout_ms cfg\<rparr>"

definition diag_server :: "PlatformConfig \<Rightarrow> DoipServer net" where
  "diag_server cfg = net_new (server_new (BuildIdentity cfg) (pc_functional_addresses cfg) True)"

section \<open>The configuration of the DoIP server does not change\<close>

definition ident_of :: "DoipServer \<Rightarrow> VehicleIdentity \<times> u16 list" where
  "ident_of s = (ds_identity s, ds_functional s)"

lemma ident_keeps [simp]:
  "ident_of (send_frame fd t p s) = ident_of s" "ident_of (udp_send_frame t p dst s) = ident_of s"
  "ident_of (request_close fd s) = ident_of s" "ident_of (update_conn fd f s) = ident_of s"
  "ident_of (s\<lparr>ds_channels := ch\<rparr>) = ident_of s" "ident_of (s\<lparr>ds_routing := r\<rparr>) = ident_of s"
  "ident_of (s\<lparr>ds_uds_calls := q\<rparr>) = ident_of s" "ident_of (s\<lparr>ds_connections := cs\<rparr>) = ident_of s"
  by (simp_all add: ident_of_def)

lemma ident_routing_activation [simp]: "ident_of (handle_routing_activation now fd p s) = ident_of s"
  by (simp add: handle_routing_activation_def Let_def senders split: option.split)

lemma ident_diag_message [simp]: "ident_of (handle_diag_message fd p s) = ident_of s"
  by (simp add: handle_diag_message_def Let_def senders split: option.split)

lemma ident_dispatch [simp]: "ident_of (dispatch now fd t p s) = ident_of s"
  by (simp add: dispatch_def senders handle_alive_check_def Let_def)

lemma ident_on_data: "ident_of (on_data now fd data s) = ident_of s"
  by (rule on_data_preserves [where I = "\<lambda>x. ident_of x = ident_of s"]) (simp_all add: send_generic_nack_def)

lemma ident_erase_client: "ident_of (erase_client fd s) = ident_of s"
  by (simp add: erase_client_def)

lemma ident_maintain_loop [simp]: "ident_of (snd (maintain_loop now cs s)) = ident_of s"
  by (induction now cs s rule: maintain_loop.induct) (simp_all add: case_prod_unfold)

lemma ident_close_all [simp]: "ident_of (foldl (\<lambda>s fd. request_close fd s) s fds) = ident_of s"
  by (induction fds arbitrary: s) simp_all

lemma ident_on_udp_read [simp]: "ident_of (on_udp_read rs s) = ident_of s"
  by (induction rs s rule: on_udp_read.induct) (simp_all add: on_udp_packet_def udp_senders Let_def split: option.split)

lemma ident_Respond [simp]: "ident_of (Respond_all ch rs s) = ident_of s"
  by (induction rs arbitrary: s) (auto simp: Respond_all_def Respond_def SendDiagMessage_def split: option.splits)

lemma ident_internal: "doip_internal s s' \<Longrightarrow> ident_of s' = ident_of s"
  by (induction rule: doip_internal.induct)
     (simp_all add: maintain_connections_def case_prod_unfold on_announcement_timer_def send_announcement_def split: option.split)

definition serves :: "VehicleIdentity \<times> u16 list \<Rightarrow> DoipServer \<Rightarrow> bool" where
  "serves i s \<longleftrightarrow> server_inv s \<and> ident_of s = i"

interpretation configured: socket_app on_data erase_client doip_internal conns "serves i"
  by unfold_locales
     (auto simp: serves_def ident_on_data ident_erase_client inv_on_data inv_erase_client
        dest: conns_internal ident_internal doip_internal_inv doip_sockets.data_tracked [THEN subsetD]
              doip_sockets.disconnect_tracked [THEN subsetD])

text \<open>
  C9: the server keeps to its configuration. Whatever testers send and the kernel returns, at most
  \<open>max_open_sockets\<close> testers are routed at a time, each of them over an open socket of its own; every
  request given to the UDS server came from the tester of its channel, was addressed to the
  configured logical address or to one of the configured functional addresses, and its body is not
  longer than the configured size.
\<close>

theorem diag_server_keeps_to_config:
  assumes "diag_net_step\<^sup>*\<^sup>* (diag_server cfg) n"
  shows "active_count (ds_routing (nt_app n)) \<le> unat (pc_max_open_sockets cfg) \<and>
    dom (map_of (rt_fd_to_address (ds_routing (nt_app n)))) \<subseteq> dom (nt_clients n) \<and>
    (\<forall>q \<in> set (ds_uds_calls (nt_app n)).
       uq_source q = ch_sa (uq_channel q) \<and>
       (uq_target q = pc_logical_address cfg \<or> uq_target q \<in> set (pc_functional_addresses cfg)) \<and>
       uq_body q \<noteq> [] \<and> length (uq_body q) \<le> unat (pc_max_data_size cfg))"
proof -
  let ?i = "(BuildIdentity cfg, pc_functional_addresses cfg)"
  let ?s = "server_new (BuildIdentity cfg) (pc_functional_addresses cfg) True"
  have "serves ?i ?s" unfolding serves_def by (simp add: server_inv_new) (simp add: ident_of_def server_new_def)
  moreover have "conns ?s = {}" by (simp add: conns_def server_new_def)
  ultimately have "configured.net_inv ?i n"
    by (rule configured.net_reachable_inv [OF assms [unfolded diag_server_def]])
  then have inv: "server_inv (nt_app n)" and i: "ds_identity (nt_app n) = BuildIdentity cfg"
      "ds_functional (nt_app n) = pc_functional_addresses cfg" and c: "conns (nt_app n) \<subseteq> dom (nt_clients n)"
    by (simp_all add: configured.net_inv_def serves_def ident_of_def)
  have "dom (map_of (rt_fd_to_address (ds_routing (nt_app n)))) \<subseteq> conns (nt_app n)"
    using server_invD(2) [OF inv] by (auto simp: conns_def dom_def)
  then show ?thesis
    using server_invD(5,6) [OF inv] c i by (auto simp: BuildIdentity_def uds_request_ok_def)
qed


theorem diag_server_keeps_to_config_witness:
  "\<exists>n :: DoipServer net. active_count (ds_routing (nt_app n)) = 1 \<and> active_count (ds_routing (nt_app n)) \<le> unat (pc_max_open_sockets config_default)"
proof -
  have "ex_activation \<noteq> []" by code_simp
  from first_data_reachable [OF this, of "server_new (BuildIdentity config_default) (pc_functional_addresses config_default) True"]
  obtain n where r: "diag_net_step\<^sup>*\<^sup>* (diag_server config_default) n" and
    a: "nt_app n = on_data 0 5 ex_activation (server_new (BuildIdentity config_default) (pc_functional_addresses config_default) True)"
    unfolding diag_server_def by blast
  have "active_count (ds_routing (on_data 0 5 ex_activation
      (server_new (BuildIdentity config_default) (pc_functional_addresses config_default) True))) = 1" by code_simp
  then show ?thesis using diag_server_keeps_to_config [OF r] by (intro exI [of _ n]) (simp add: a)
qed

end
