(* ===== verification/DiagUds.thy ===== *)
theory DiagUds
  imports UdsServerProps DiagServer
begin

text \<open>
  The UDS server of the diagnostic server (\<open>DiagApp::InitializeUds\<close> in src/apps/diag_server/main.cpp): the
  configuration that main.cpp builds, given to the server of the theory UdsServer, with the adapters of the theories
  DiagDownload and DiagAdapters behind it. What its testers can and can not do is shown for every sequence of events.

  The identifiers are served by the adapter of \<open>did_Read\<close> and \<open>did_Write\<close>, downloads by the download
  adapter. The routine adapter is an argument, so that what is shown holds of any routine, in particular of
  \<open>routine_Start\<close>, and so are the parts of the library that main.cpp gives no application to.
\<close>

section \<open>The adapters behind the server\<close>

record 'o diag_world =
  dw_values :: "u16 \<rightharpoonup> bytes"
  dw_download :: download_adapter
  dw_ota :: 'o

definition over_values :: "((u16 \<rightharpoonup> bytes) \<Rightarrow> 'a \<times> (u16 \<rightharpoonup> bytes)) \<Rightarrow> 'o diag_world \<Rightarrow> 'a \<times> 'o diag_world" where
  "over_values f w = (case f (dw_values w) of (a, v) \<Rightarrow> (a, w\<lparr>dw_values := v\<rparr>))"

definition over_download :: "(download_adapter \<Rightarrow> 'a \<times> download_adapter) \<Rightarrow> 'o diag_world \<Rightarrow> 'a \<times> 'o diag_world" where
  "over_download f w = (case f (dw_download w) of (a, d) \<Rightarrow> (a, w\<lparr>dw_download := d\<rparr>))"

definition over_ota :: "('o \<Rightarrow> 'a \<times> 'o) \<Rightarrow> 'o diag_world \<Rightarrow> 'a \<times> 'o diag_world" where
  "over_ota f w = (case f (dw_ota w) of (a, x) \<Rightarrow> (a, w\<lparr>dw_ota := x\<rparr>))"

definition did_app :: "'o diag_world data_app" where
  "did_app = \<lparr>ap_Read = \<lambda>ids w. (did_Read (dw_values w) ids, w), ap_Write = \<lambda>d. over_values (did_Write d), ap_element = None\<rparr>"

definition routine_adapter :: "'o routine_app \<Rightarrow> 'o diag_world routine_app" where
  "routine_adapter a = \<lparr>ra_Start = \<lambda>i r. over_ota (ra_Start a i r), ra_Stop = \<lambda>i r. over_ota (ra_Stop a i r),
     ra_RequestResults = \<lambda>i r. over_ota (ra_RequestResults a i r)\<rparr>"

definition download_app :: "download_adapter transfer_app \<Rightarrow> 'o diag_world transfer_app" where
  "download_app a = \<lparr>
     ta_download_condition = map_option (\<lambda>f w. f (dw_download w)) (ta_download_condition a),
     ta_upload_condition = map_option (\<lambda>f w. f (dw_download w)) (ta_upload_condition a),
     ta_file_condition = map_option (\<lambda>f w. f (dw_download w)) (ta_file_condition a),
     ta_RequestDownload = \<lambda>d f m. over_download (ta_RequestDownload a d f m),
     ta_DownloadData = \<lambda>c d. over_download (ta_DownloadData a c d),
     ta_RequestDownloadExit = \<lambda>r. over_download (ta_RequestDownloadExit a r),
     ta_upload = ta_upload a,
     ta_RequestUpload = \<lambda>d f m. over_download (ta_RequestUpload a d f m),
     ta_UploadData = \<lambda>c n. over_download (ta_UploadData a c n),
     ta_RequestUploadExit = \<lambda>r. over_download (ta_RequestUploadExit a r),
     ta_RequestReadFile = \<lambda>p d. over_download (ta_RequestReadFile a p d),
     ta_RequestReadDirectory = \<lambda>p. over_download (ta_RequestReadDirectory a p),
     ta_RequestWriteFile = \<lambda>p d s m. over_download (ta_RequestWriteFile a p d s m),
     ta_RequestResumeWriteFile = \<lambda>p d s. over_download (ta_RequestResumeWriteFile a p d s),
     ta_DeleteFile = \<lambda>p. over_download (ta_DeleteFile a p),
     ta_Read = \<lambda>c n. over_download (ta_Read a c n),
     ta_ExitRead = \<lambda>t r. over_download (ta_ExitRead a t r),
     ta_Write = \<lambda>c d. over_download (ta_Write a c d),
     ta_ExitWrite = \<lambda>t r. over_download (ta_ExitWrite a t r)\<rparr>"

text \<open>What main.cpp leaves unconfigured.\<close>

record 'o unconfigured =
  uc_security :: "'o diag_world security_app"
  uc_auth :: "'o diag_world auth_app"
  uc_transfer :: "download_adapter transfer_app"
  uc_compare :: compare_fun

definition diag_uds_app :: "PlatformConfig \<Rightarrow> 'o routine_app \<Rightarrow> 'o unconfigured \<Rightarrow> 'o diag_world uds_app" where
  "diag_uds_app cfg routine u = \<lparr>ua_data = did_app, ua_routine = routine_adapter routine, ua_security = uc_security u, ua_auth = uc_auth u,
     ua_transfer = download_app (diag_app (download_file (pc_download_dir cfg)) (uc_transfer u)), ua_compare = uc_compare u, ua_depth = 1,
     ua_session = \<lambda>_ _ _ w. w, ua_level = \<lambda>_ _ w. w\<rparr>"

section \<open>The configuration\<close>

definition diag_setting :: "PlatformConfig \<Rightarrow> ServerSetting" where
  "diag_setting cfg = \<lparr>ss_maxPending = 0, ss_responseOnSecondDeclinedRequest = False, ss_maxParallelRequests = 4,
     ss_functional = pc_functional_addresses cfg, ss_physical = pc_logical_address cfg\<rparr>"

definition sessionConfigTable :: "SessionModel list" where
  "sessionConfigTable = [
     \<lparr>se_shortName = ''DefaultSession'', se_id = 0x01, se_p2ServerMax = 50, se_p2StarServerMax = 5000\<rparr>,
     \<lparr>se_shortName = ''ExtendedSession'', se_id = 0x02, se_p2ServerMax = 50, se_p2StarServerMax = 5000\<rparr>,
     \<lparr>se_shortName = ''ProgrammingSession'', se_id = 0x03, se_p2ServerMax = 50, se_p2StarServerMax = 5000\<rparr>]"

definition sessionControlInstanceTable :: "SessionControlInstanceConfig list" where
  "sessionControlInstanceTable = [
     \<lparr>ci_id = 0x01, ci_auth = None, ci_sessions = [0x01], ci_levels = []\<rparr>,
     \<lparr>ci_id = 0x02, ci_auth = None, ci_sessions = [0x01, 0x02], ci_levels = []\<rparr>,
     \<lparr>ci_id = 0x03, ci_auth = None, ci_sessions = [0x01, 0x03], ci_levels = []\<rparr>]"

definition didManager :: DiagnosticDataModelManager where
  "didManager = \<lparr>mm_staticData = [\<lparr>dd_id = 0xF190, dd_nSize = 17, dd_details = [], dd_readType = kUseReadMothod\<rparr>],
     mm_edrElement = [], mm_dynamicData = [], mm_storeDynamicDataModel = False\<rparr>"

definition readDid :: did_config where
  "readDid = \<lparr>dg_auth = None, dg_sessions = [0x01, 0x02, 0x03], dg_levels = [], dg_condition = -1, dg_id = 0xF190, dg_dataSize = 0\<rparr>"

definition writeDid :: did_config where
  "writeDid = readDid\<lparr>dg_dataSize := 17\<rparr>"

definition download_config :: "PlatformConfig \<Rightarrow> transfer_config" where
  "download_config cfg = \<lparr>tc_auth = None, tc_sessions = [0x01, 0x02, 0x03], tc_levels = [], tc_condition = -1,
     tc_max = pc_max_data_size cfg, tc_p4 = 0, tc_p4_36 = 5000, tc_p4_37 = 5000\<rparr>"

definition routine_config :: RoutineControlInstanceConfig where
  "routine_config = \<lparr>rk_routine = routine_default\<lparr>ro_id := 0x1100, ro_routineInfo := -1, ro_startP4ServerMax := 10000\<rparr>,
     rk_auth = None, rk_sessions = [0x01, 0x02, 0x03], rk_levels = []\<rparr>"

definition InitializeUds :: "PlatformConfig \<Rightarrow> 'o diag_world \<Rightarrow> 'o diag_world uds_server init" where
  "InitializeUds cfg w =
     init_bind (Initialize_sessions sessionConfigTable sessionControlInstanceTable 0 (us_new (diag_setting cfg) w)) (\<lambda>s1.
     init_bind (Initialize_data didManager [] (Some ([readDid], 1, 0)) (Some ([writeDid], 0)) s1) (\<lambda>s2.
     init_bind (Initialize_transfers (Some (download_config cfg)) None None s2) (\<lambda>s3.
     Initialize_routines [routine_config] True s3)))"

section \<open>What stays as it was configured\<close>

definition diag_sessions :: session_validator where
  "diag_sessions = sessionConfigTable"

definition diag_level :: level_validator where
  "diag_level = \<lparr>lv_config = [], lv_table = []\<rparr>"

definition diag_table :: "byte \<rightharpoonup> SessionModel" where
  "diag_table = [0x01 \<mapsto> sessionConfigTable ! 0, 0x02 \<mapsto> sessionConfigTable ! 1, 0x03 \<mapsto> sessionConfigTable ! 2]"

definition diag_x10_table :: "byte \<rightharpoonup> x10_instance" where
  "diag_x10_table = [
     0x01 \<mapsto> \<lparr>xi_id = sessionConfigTable ! 0, xi_auth = None, xi_session = [sessionConfigTable ! 0]\<rparr>,
     0x02 \<mapsto> \<lparr>xi_id = sessionConfigTable ! 1, xi_auth = None, xi_session = [sessionConfigTable ! 0, sessionConfigTable ! 1]\<rparr>,
     0x03 \<mapsto> \<lparr>xi_id = sessionConfigTable ! 2, xi_auth = None, xi_session = [sessionConfigTable ! 0, sessionConfigTable ! 2]\<rparr>]"

definition diag_did :: "nat \<Rightarrow> nat \<Rightarrow> did_service" where
  "diag_did n limit = \<lparr>dv_validators = \<lparr>vs_auth = None, vs_session = [(0xF190, diag_sessions)], vs_level = [(0xF190, diag_level)]\<rparr>,
     dv_table = [0xF190 \<mapsto> \<lparr>di_auth = None, di_session = diag_sessions, di_level = diag_level, di_condition = None, di_size = n\<rparr>],
     dv_max = limit, dv_p4 = 0\<rparr>"

definition diag_x31 :: x31 where
  "diag_x31 = \<lparr>x31_validators = \<lparr>vs_auth = None, vs_session = [(0x1100, diag_sessions)], vs_level = [(0x1100, diag_level)]\<rparr>,
     x31_table = [0x1100 \<mapsto> \<lparr>ri_routine = rk_routine routine_config, ri_auth = None, ri_session = diag_sessions, ri_level = diag_level,
       ri_conditions = Map.empty\<rparr>]\<rparr>"

definition diag_transfer :: transfer_instance where
  "diag_transfer = \<lparr>tv_validators = \<lparr>vs_auth = None, vs_session = [(0, diag_sessions)], vs_level = [(0, diag_level)]\<rparr>,
     tv_p4 = 0, tv_p4_36 = 5000, tv_p4_37 = 5000\<rparr>"

definition diag_x10_validators :: "byte sid_validators" where
  "diag_x10_validators = \<lparr>vs_auth = None,
     vs_session = map (\<lambda>i. (i, xi_session (the (diag_x10_table i)))) [0x01, 0x02, 0x03], vs_level = map (\<lambda>i. (i, diag_level)) [0x01, 0x02, 0x03]\<rparr>"

text \<open>The parts of the server that no event changes.\<close>

definition as_configured :: "'w uds_server \<Rightarrow> bool" where
  "as_configured s \<longleftrightarrow> sm_table (us_sm s) = diag_table \<and> us_x27 s = None \<and> us_x29 s = None \<and> us_conditions s = None \<and>
     us_x22 s = Some (diag_did 0 1) \<and> us_x2e s = Some (diag_did 17 0) \<and> us_x31 s = Some diag_x31 \<and>
     us_transfers s = [kDownload \<mapsto> diag_transfer] \<and>
     (\<exists>n. us_x10 s = Some \<lparr>x10_validators = diag_x10_validators, x10_table = diag_x10_table, x10_newSession = n, x10_p4 = 0\<rparr>) \<and>
     (\<exists>dm. us_dm s = Some dm \<and> dm_table dm = [(0xF190, mm_staticData didManager ! 0)] \<and> dm_available dm = [])"

definition diag_session :: "byte \<Rightarrow> bool" where
  "diag_session i \<longleftrightarrow> i \<in> {1, 2, 3}"

definition diag_inv :: "(u16 \<rightharpoonup> bytes) \<Rightarrow> 'o \<Rightarrow> 'o diag_world uds_server \<Rightarrow> bool" where
  "diag_inv v x s \<longleftrightarrow> as_configured s \<and> \<not> us_crashed s \<and> diag_session (sm_current (us_sm s)) \<and> dw_values (us_w s) = v \<and> dw_ota (us_w s) = x"

lemmas config_defs = diag_session_def sessionConfigTable_def sessionControlInstanceTable_def didManager_def readDid_def writeDid_def download_config_def
  routine_config_def routine_default_def diag_setting_def

lemmas set_up_defs = InitializeUds_def Initialize_sessions_def Initialize_data_def Initialize_transfers_def Initialize_routines_def us_new_def
  sm_Initialize_def sm_new_def lm_new_def init_of_def x10_Initialize_def x10_new_def register_validators_def no_validators_def
  SessionValidator_Initialize_def LevelValidator_Initialize_def RegisterSubfunctionLevel_def GetSession_def AddNotifyOfSessionChange_def
  dm_Initialize_def dm_new_def table_insert_def AddNotifyOfSecurityLevelChange_def x22_Initialize_def x2e_Initialize_def did_service_new_def
  did_add_def HasDataIdentifier_def add_transfer_def init_transfer_def x31_Initialize_def x31_new_def subfunctionConditionMap_def tm_new_def

lemma InitializeUds_starts:
  "\<exists>s. InitializeUds cfg w = Started s \<and> diag_inv (dw_values w) (dw_ota w) s \<and> us_w s = w"
  by (simp add: set_up_defs config_defs as_configured_def diag_inv_def diag_did_def diag_x31_def diag_transfer_def diag_x10_validators_def
      diag_x10_table_def diag_table_def diag_sessions_def diag_level_def Let_def fun_upd_twist case_prod_unfold word_le_nat_alt)


section \<open>No event changes the configuration\<close>

text \<open>A step that changes neither the configuration nor the adapters, and does not crash.\<close>

definition quiet :: "'w uds_server \<Rightarrow> 'w uds_server \<Rightarrow> bool" where
  "quiet s s' \<longleftrightarrow> (as_configured s \<longrightarrow> as_configured s') \<and> us_w s' = us_w s \<and> us_crashed s' = us_crashed s"

lemma quiet_refl [simp]: "quiet s s"
  by (simp add: quiet_def)

lemma quiet_trans: "quiet s s' \<Longrightarrow> quiet s' s'' \<Longrightarrow> quiet s s''"
  by (simp add: quiet_def)

lemma quiet_fold: "(\<And>x t. quiet t (g x t)) \<Longrightarrow> quiet s (fold g xs s)"
  by (induction xs arbitrary: s) (auto intro: quiet_trans)

lemma quiet_updates [simp]:
  "quiet s (s\<lparr>us_lm := lm\<rparr>)" "quiet s (s\<lparr>us_tm := tm\<rparr>)" "quiet s (s\<lparr>us_am := am\<rparr>)" "quiet s (s\<lparr>us_s3 := b\<rparr>)" "quiet s (s\<lparr>us_lock := b\<rparr>)"
  "quiet s (s\<lparr>us_priority := p\<rparr>)" "quiet s (s\<lparr>us_queue := q\<rparr>)" "quiet s (s\<lparr>us_running := tab\<rparr>)" "quiet s (s\<lparr>us_handles := hs\<rparr>)"
  "quiet s (s\<lparr>us_states := st\<rparr>)" "quiet s (s\<lparr>us_sent := ms\<rparr>)" "quiet s (s\<lparr>us_responses := rs\<rparr>)"
  by (simp_all add: quiet_def as_configured_def)

lemma quiet_sm [simp]: "sm_table sm = sm_table (us_sm s) \<Longrightarrow> quiet s (s\<lparr>us_sm := sm\<rparr>)"
  "sm_table sm = sm_table (us_sm s) \<Longrightarrow> quiet s (s\<lparr>us_sm := sm, us_am := am\<rparr>)"
  by (simp_all add: quiet_def as_configured_def)

lemma quiet_dm: "(\<And>dm. dm_table (f dm) = dm_table dm \<and> dm_available (f dm) = dm_available dm) \<Longrightarrow> quiet s (s\<lparr>us_dm := map_option f (us_dm s)\<rparr>)"
  by (auto simp: quiet_def as_configured_def)

lemma quiet_x27: "quiet s (s\<lparr>us_x27 := map_option f (us_x27 s)\<rparr>)"
  by (auto simp: quiet_def as_configured_def)

lemma quiet_level: "quiet s (notify_level (diag_uds_app cfg rt u) cb i s)"
proof (cases cb)
  case (LevelApplication n)
  then show ?thesis by (simp add: quiet_def as_configured_def diag_uds_app_def)
qed (auto simp: dm_on_level_change_def intro: quiet_dm)

lemma quiet_session: "quiet s (notify_session (diag_uds_app cfg rt u) cb old new s)"
proof (cases cb)
  case OnLevels
  obtain ns lm where l: "lock_on_session_change old new (us_lm s) = (ns, lm)" by fastforce
  have "quiet (s\<lparr>us_lm := lm\<rparr>) (fold (\<lambda>(cb, i). notify_level (diag_uds_app cfg rt u) cb i) ns (s\<lparr>us_lm := lm\<rparr>))"
    by (rule quiet_fold) (simp add: quiet_level del: notify_level.simps split: prod.split)
  then show ?thesis by (auto simp: OnLevels l intro: quiet_trans [of s "s\<lparr>us_lm := lm\<rparr>"])
next
  case (OnApplication n)
  then show ?thesis by (simp add: quiet_def as_configured_def diag_uds_app_def)
qed (auto simp: updateNonDefaultPriority_def dm_on_session_change_def intro: quiet_dm quiet_x27 split: option.split)

lemma quiet_SetSession: "quiet s (us_SetSession (diag_uds_app cfg rt u) i c s)"
proof -
  obtain ns sm where n: "SetSession i c (us_sm s) = (ns, sm)" by fastforce
  then have "sm_table sm = sm_table (us_sm s)" by (auto simp: SetSession_def)
  moreover have "quiet (s\<lparr>us_sm := sm\<rparr>) (notify_all (diag_uds_app cfg rt u) ns (s\<lparr>us_sm := sm\<rparr>))"
    unfolding notify_all_def by (rule quiet_fold) (simp add: quiet_session del: notify_session.simps split: prod.split)
  ultimately show ?thesis using quiet_trans [of s "s\<lparr>us_sm := sm\<rparr>"] by (simp add: us_SetSession_def n)
qed

lemma quiet_with_client: "quiet s (with_client a f s)"
  by (auto simp: with_client_def dest!: calm_GetClient simp: calm_def split: prod.split option.split)

lemma quiet_cancel: "quiet s (cancel_running c s)"
  by (simp add: cancel_running_def updateRequestContextStateTable_def Let_def quiet_def as_configured_def split: option.split)

text \<open>The invariant: configured, alive, in one of the three sessions, with the values \<open>v\<close> and the update manager \<open>x\<close>.\<close>

lemma diag_inv_quiet: "diag_inv v x s \<Longrightarrow> quiet s s' \<Longrightarrow> diag_session (sm_current (us_sm s')) \<Longrightarrow> diag_inv v x s'"
  by (simp add: diag_inv_def quiet_def)

lemma diag_inv_stays: "diag_inv v x s \<Longrightarrow> quiet s s' \<Longrightarrow> sm_current (us_sm s') = sm_current (us_sm s) \<Longrightarrow> diag_inv v x s'"
  by (simp add: diag_inv_def quiet_def)

lemma diag_inv_default: "diag_inv v x s \<Longrightarrow> diag_inv v x (us_SetSession (diag_uds_app cfg rt u) 1 c s)"
  by (erule diag_inv_quiet [OF _ quiet_SetSession]) (simp add: us_SetSession_facts diag_session_def)

section \<open>The checks of the as_configured services\<close>

lemma diag_level_passes [simp]: "LevelValidator_Validate lm diag_level = Some True"
  by (simp add: LevelValidator_Validate_def diag_level_def)

lemma diag_sessions_pass: "SessionValidator_Validate sm diag_sessions \<longleftrightarrow> diag_session (sm_current sm)"
  by (auto simp: diag_session_def SessionValidator_Validate_def diag_sessions_def sessionConfigTable_def Session_Check_def)

lemma diag_sid_check:
  "diag_session (sm_current sm) \<Longrightarrow>
     sid_check obs sa body \<lparr>vs_auth = None, vs_session = [(i, diag_sessions)], vs_level = [(i, diag_level)]\<rparr> lm (sm, am) = (Granted, sm, am)"
  by (simp add: sid_check_def ServerSession_Validate_def ServerLevel_Validate_def diag_sessions_pass)

lemma diag_x10_check:
  "diag_session (sm_current sm) \<Longrightarrow> sid_check obs sa body diag_x10_validators lm (sm, am) = (Granted, sm, am)"
  by (auto simp: diag_session_def sid_check_def ServerSession_Validate_def ServerLevel_Validate_def diag_x10_validators_def diag_x10_table_def
      SessionValidator_Validate_def Session_Check_def sessionConfigTable_def)

lemma diag_transfer_check:
  "us_transfers s = [kDownload \<mapsto> diag_transfer] \<Longrightarrow> diag_session (sm_current sm) \<Longrightarrow> transfer_check s sa body ty (sm, am) = (Granted, sm, am)"
  by (auto simp: transfer_check_def diag_transfer_def ServerSession_Validate_def diag_sessions_pass)

lemma diag_transfer_checks:
  "us_transfers s = [kDownload \<mapsto> diag_transfer] \<Longrightarrow> diag_session (sm_current sm) \<Longrightarrow> transfer_checks s sa body tys (sm, am) = (Granted, sm, am)"
  by (induction tys) (simp_all add: diag_transfer_check)

text \<open>Before it reaches its service no request is refused.\<close>

lemma diag_us_sid_check:
  assumes "diag_inv v x s"
  shows "us_sid_check sa sid body s = (Granted, us_sm s, us_am s)"
proof -
  from assms obtain n where "us_x22 s = Some (diag_did 0 1)" "us_x2e s = Some (diag_did 17 0)" "us_x31 s = Some diag_x31" "us_x27 s = None"
    "us_transfers s = [kDownload \<mapsto> diag_transfer]" "diag_session (sm_current (us_sm s))"
    "us_x10 s = Some \<lparr>x10_validators = diag_x10_validators, x10_table = diag_x10_table, x10_newSession = n, x10_p4 = 0\<rparr>"
    unfolding diag_inv_def as_configured_def by blast
  then show ?thesis
    by (simp add: us_sid_check_def Let_def diag_did_def diag_x31_def diag_sid_check diag_x10_check diag_transfer_checks)
qed

section \<open>What each service does\<close>

lemma negative_not_confirmed:
  "isNegtiveType msg \<Longrightarrow> last (rc_confirmed (RcRespond stray msg rc)) \<noteq> kResPosOk \<and> last (rc_confirmed (RcRespond stray msg rc)) \<noteq> kResPosNotOk"
  by (simp add: RcRespond_def Let_def confirm_def changeState_def StopP2ServerTimer_def channel_Respond_def split: prod.split list.split)

text \<open>Session control: the session stays, or it was the default session.\<close>

definition session_moves :: "'w uds_server \<Rightarrow> 'w uds_server \<Rightarrow> bool" where
  "session_moves s s' \<longleftrightarrow> sm_current (us_sm s') = sm_current (us_sm s) \<or> sm_current (us_sm s) = 1 \<and> sm_current (us_sm s') \<in> {2, 3}"

lemma diag_x10_allowed:
  assumes "diag_x10_table k = Some i" and "SessionValidator_Validate sm (xi_session i)"
  shows "k = sm_current sm \<or> sm_current sm = 1 \<and> (k = 2 \<or> k = 3)"
proof -
  from assms(1) have "k = 1 \<or> k = 2 \<or> k = 3" by (simp add: diag_x10_table_def split: if_splits)
  then show ?thesis using assms
    by (elim disjE) (auto simp: diag_x10_table_def sessionConfigTable_def SessionValidator_Validate_def Session_Check_def)
qed

lemma diag_x10_check_General:
  assumes "x10_table x = diag_x10_table"
  shows "GeneralService_check obs sa body (x10_service x) lm (sm, am) =
    (if length body < 2 then Refused kIncorrectMessageLengthOrInvalidFormat
     else case diag_x10_table (subfunction_of body) of
       None \<Rightarrow> Refused kSubfunctionNotSupported
     | Some i \<Rightarrow> if SessionValidator_Validate sm (xi_session i) then Granted else Refused kSubFunctionNotSupportedInActiveSession, sm, am)"
proof (cases "diag_x10_table (subfunction_of body)")
  case (Some i)
  then have "xi_auth i = None" by (auto simp: diag_x10_table_def split: if_splits)
  with Some assms show ?thesis by (simp add: GeneralService_check_def x10_service_def Let_def)
qed (simp add: GeneralService_check_def x10_service_def Let_def assms)

lemma diag_x10_Process:
  assumes "x10_table x = diag_x10_table" and "x10_Process obs sa body lm (sm, am) x = (rep, st, x')"
  shows "st = (sm, am) \<and> ((\<exists>nrc. rep = reject 0x10 nrc \<and> x' = x) \<or>
    (\<exists>m i. rep = Reply m \<and> x' = x\<lparr>x10_newSession := i\<rparr> \<and> (i = sm_current sm \<or> sm_current sm = 1 \<and> (i = 2 \<or> i = 3))))"
proof (cases "length body < 2")
  case False
  show ?thesis
  proof (cases "diag_x10_table (subfunction_of body)")
    case (Some i)
    show ?thesis
    proof (cases "SessionValidator_Validate sm (xi_session i)")
      case True
      from diag_x10_allowed [OF Some this] assms Some False True show ?thesis
        by (auto simp: x10_Process_def diag_x10_check_General x10_ParseAndResponse_def subfunction_of_def Let_def split: if_splits)
    qed (use assms Some False in \<open>auto simp: x10_Process_def diag_x10_check_General\<close>)
  qed (use assms False in \<open>auto simp: x10_Process_def diag_x10_check_General\<close>)
qed (use assms in \<open>auto simp: x10_Process_def diag_x10_check_General\<close>)

lemma diag_inv_remove [simp]: "diag_inv v x (removeRequestHandler h s) = diag_inv v x s" "us_sm (removeRequestHandler h s) = us_sm s"
  by (simp_all add: removeRequestHandler_def diag_inv_def as_configured_def)

lemma session_control:
  assumes inv: "diag_inv v x s" and sid: "rc_sid (rq_rc r) = 0x10" and p: "process (diag_uds_app cfg rt u) r s = (r', s')"
  shows "diag_inv v x s' \<and> session_moves s s'"
proof -
  let ?app = "diag_uds_app cfg rt u"
  from inv obtain y where x10: "us_x10 s = Some y" and y: "x10_table y = diag_x10_table" by (auto simp: diag_inv_def as_configured_def)
  obtain rep st y' where x: "x10_Process OnClient (rq_sa r) (rc_body (rq_rc r)) (us_lm s) (us_sm s, us_am s) y = (rep, st, y')" by (metis prod_cases3)
  note o = diag_x10_Process [OF y x]
  let ?t = "s\<lparr>us_sm := us_sm s, us_am := us_am s, us_x10 := Some y'\<rparr>"
  have s': "us_reply ?app r rep ?t = (r', s')" using p sid x10 x o by (simp add: process_def)
  have q: "diag_inv v x ?t" using inv x10 o by (auto simp: diag_inv_def as_configured_def)
  from o consider (negative) nrc where "rep = reject 0x10 nrc" "y' = y"
    | (positive) m i where "rep = Reply m" "y' = y\<lparr>x10_newSession := i\<rparr>" "i = sm_current (us_sm s) \<or> sm_current (us_sm s) = 1 \<and> (i = 2 \<or> i = 3)"
    by auto
  then show ?thesis
  proof cases
    case (negative nrc)
    have "isNegtiveType (CreateNegativeResponse 0x10 nrc)" by (simp add: CreateNegativeResponse_def isNegtiveType_def kNegativeResponseServiceId_def)
    from negative_not_confirmed [OF this, of "rq_stray r" "rq_rc r"] s' q show ?thesis
      by (auto simp: negative reject_def us_reply_def Let_def us_Confirm_eq session_moves_def)
  next
    case (positive m i)
    have c: "sm_current (us_sm (us_SetSession ?app i (rq_sa r) ?t)) = i" by (rule us_SetSession_facts(1))
    moreover have "diag_session i" using positive(3) inv by (auto simp: diag_inv_def diag_session_def)
    ultimately have "diag_inv v x (us_SetSession ?app i (rq_sa r) ?t)"
      using diag_inv_quiet [OF q quiet_SetSession] by simp
    moreover have "s' = removeRequestHandler (rq_handle r) (us_SetSession ?app i (rq_sa r) ?t) \<or> s' = removeRequestHandler (rq_handle r) ?t"
      using s' by (auto simp: positive us_reply_def Let_def us_Confirm_eq)
    ultimately show ?thesis using c q positive(3) by (auto simp: session_moves_def)
  qed
qed

text \<open>Reading: the only identifier is the vehicle identification number, and its value is answered.\<close>

lemma diag_x22_filter:
  assumes "diag_session (sm_current (fst st))"
  shows "x22_filter obs chk sa body (diag_did n k) lm ids valid st w =
    (let good = valid @ filter (\<lambda>i. i = kVinDid) ids in Some (if good = [] then Inl kRequestOutOfRange else Inr good), st, w)"
  by (induction ids arbitrary: valid) (simp_all add: Let_def diag_did_def diag_sessions_pass assms kVinDid_def)

lemma diag_read:
  assumes "as_configured s" and "ids \<noteq> []" and "set ids \<subseteq> {kVinDid}"
  shows "us_read (diag_uds_app cfg rt u) s ids w = Some (did_Read (dw_values w) ids, w)"
proof -
  from assms(1) obtain dm where dm: "us_dm s = Some dm" "dm_table dm = [(0xF190, mm_staticData didManager ! 0)]" "dm_available dm = []"
    by (auto simp: as_configured_def)
  have i: "\<not> IsDynamic i dm" for i by (simp add: IsDynamic_def dm(3))
  have d: "reads_directly dm m kVinDid \<longleftrightarrow> m = kUseReadMothod" for m
    by (auto simp: reads_directly_def i dm(2) kVinDid_def didManager_def)
  have l: "list_ex (reads_directly dm m) ids \<longleftrightarrow> m = kUseReadMothod" for m
    using assms(2,3) d by (cases ids) (auto simp: list_ex_iff)
  have "err \<noteq> 0" if "did_Read vals ids = Inl err" for vals err
    using that by (auto simp: did_Read_def did_Read_loop_eq nrc_defs split: if_splits)
  then show ?thesis
    by (auto simp: us_read_def dm(1) diag_uds_app_def did_app_def l i split: sum.split)
qed

lemma diag_did_max [simp]: "dv_max (diag_did n k) = k"
  by (simp add: diag_did_def)

lemma vin_bytes: "be_bytes 2 (0xF190 :: u16) = [0xF1, 0x90]"
  by code_simp

lemma one_identifier: "length body = 3 \<Longrightarrow> \<exists>i. read_ids (tl body) = [i]"
  by (cases body rule: read_ids.cases; cases "tl (tl body)") (auto simp: numeral_3_eq_3 length_Suc_conv)

lemma diag_x22_Process:
  assumes "diag_inv v x s"
  shows "x22_Process obs chk (us_read (diag_uds_app cfg rt u) s) sa body (diag_did 0 1) lm (us_sm s, us_am s) (us_w s) =
    (if length body < 3 \<or> even (length body) then reject 0x22 kIncorrectMessageLengthOrInvalidFormat
     else if length body \<noteq> 3 \<or> read_ids (tl body) \<noteq> [kVinDid] \<or> v kVinDid \<in> {None, Some []} then reject 0x22 kRequestOutOfRange
     else Reply ([0x62, 0xF1, 0x90] @ the (v kVinDid)), (us_sm s, us_am s), us_w s)"
proof (cases "length body = 3")
  case True
  have inv: "as_configured s" "diag_session (sm_current (us_sm s))" "dw_values (us_w s) = v" using assms by (simp_all add: diag_inv_def)
  from one_identifier [OF True] obtain i where i: "read_ids (tl body) = [i]" ..
  have f: "x22_filter obs chk sa body (diag_did 0 1) lm [i] [] (us_sm s, us_am s) (us_w s) =
      (Some (if i = kVinDid then Inr [i] else Inl kRequestOutOfRange), (us_sm s, us_am s), us_w s)"
    using diag_x22_filter [of "(us_sm s, us_am s)" obs chk sa body 0 1 lm "[i]" "[]" "us_w s"] inv(2) by (simp del: x22_filter.simps)
  have r: "us_read (diag_uds_app cfg rt u) s [kVinDid] (us_w s) = Some (did_Read v [kVinDid], us_w s)"
    using diag_read [OF inv(1), of "[kVinDid]"] inv(3) by simp
  show ?thesis
  proof (cases "i = kVinDid")
    case True
    have e: "x22_Process obs chk (us_read (diag_uds_app cfg rt u) s) sa body (diag_did 0 1) lm (us_sm s, us_am s) (us_w s) =
        (case did_Read v [kVinDid] of Inl err \<Rightarrow> (if err = 0 then Crash else reject 0x22 (word_of_int err), (us_sm s, us_am s), us_w s)
         | Inr l \<Rightarrow> (x22_answer l, (us_sm s, us_am s), us_w s))"
      using \<open>length body = 3\<close> f r True by (simp add: x22_Process_def i del: x22_filter.simps)
    show ?thesis unfolding e using \<open>length body = 3\<close> True
      by (auto simp: i did_Read_def x22_answer_def write_defs CreateResponse_def kResponseServiceIdMask_def nrc_defs kVinDid_def
          vin_bytes split: option.split)
  next
    case False
    then show ?thesis using True f by (simp add: x22_Process_def i del: x22_filter.simps)
  qed
next
  case False
  have "length body div 2 > 1 \<or> length body < 3" using False by linarith
  moreover have "(length body - 1) mod 2 \<noteq> 0 \<longleftrightarrow> even (length body)" if "\<not> length body < 3" using that by presburger
  ultimately show ?thesis using False by (cases "length body < 3") (auto simp: x22_Process_def)
qed

text \<open>Routine control: whatever is asked of the routine, it is not called.\<close>

lemma diag_x31_Process:
  assumes "diag_session (sm_current (fst st))"
  shows "x31_Process obs chk app sa body diag_x31 lm st w =
    (reject 0x31 (if length body < 4 then kIncorrectMessageLengthOrInvalidFormat
                  else if fst (ReadUint16 body 2) = kOtaStartRoutine then kSubfunctionNotSupported else kRequestOutOfRange), st, w)"
  using assms by (auto simp: x31_Process_def diag_x31_def Let_def diag_sessions_pass kOtaStartRoutine_def)

text \<open>Writing: the vehicle identification number becomes the data of the request.\<close>

lemma diag_x2e_Process:
  assumes "diag_session (sm_current (fst st))"
  shows "x2e_Process obs chk did_app sa body (diag_did 17 0) lm st w =
    (if length body = 20 \<and> fst (ReadUint16 body 1) = kVinDid
     then (Reply [0x6E, 0xF1, 0x90], st, w\<lparr>dw_values := (dw_values w)(kVinDid \<mapsto> drop 3 body)\<rparr>)
     else (reject 0x2E (if length body < 4 \<or> fst (ReadUint16 body 1) = kVinDid then kIncorrectMessageLengthOrInvalidFormat else kRequestOutOfRange), st, w))"
  using assms
  by (auto simp: x2e_Process_def diag_did_def Let_def diag_sessions_pass kVinDid_def dm_Write_def did_app_def over_values_def did_Write_def
      write_defs CreateResponse_def kResponseServiceIdMask_def vin_bytes ReadAll_def)

text \<open>Transfers use the download adapter and nothing else.\<close>

definition only_download :: "'o diag_world \<Rightarrow> 'a \<times> 'o diag_world \<Rightarrow> bool" where
  "only_download w p \<longleftrightarrow> dw_values (snd p) = dw_values w \<and> dw_ota (snd p) = dw_ota w"

lemma only_over_download [simp]: "only_download w (over_download f w)"
  by (simp add: over_download_def only_download_def split: prod.split)

lemma only_download_same [simp]: "only_download w (a, w)"
  by (simp add: only_download_def)

lemma only_reject [simp]: "only_download w (snd (tm_reject sid status nrc tm w')) = only_download w (tm, w')"
  by (simp add: tm_reject_def only_download_def)

lemma only_respond [simp]: "only_download w (snd (tm_respond b status tm w')) = only_download w (tm, w')"
  by (simp add: tm_respond_def only_download_def)

lemma only_snd [simp]: "only_download w (a, snd p) = only_download w p"
  by (simp add: only_download_def)

lemma download_app_calls [simp]:
  "only_download w (ta_RequestDownload (download_app a) d f m w)" "only_download w (ta_DownloadData (download_app a) c b w)"
  "only_download w (ta_UploadData (download_app a) c n w)" "only_download w (ta_Read (download_app a) c n w)"
  "only_download w (ta_Write (download_app a) c b w)"
  by (simp_all add: download_app_def)

lemma exit_call_world [simp]: "only_download w (exit_call (download_app a) record tm w)"
  by (simp add: exit_call_def download_app_def Let_def)

lemma requestDownload_world: "only_download w (snd (requestDownload (download_app a) status body tm w))"
  by (simp add: requestDownload_def Let_def case_prod_unfold tm_respond_def split: sum.split)

lemma transferExit_world: "only_download w (snd (transferExit (download_app a) status body tm w))"
  by (simp add: transferExit_def case_prod_unfold split: sum.split)

lemma transferData_world: "only_download w (snd (transferData (download_app a) status body tm w))"
  by (simp add: transferData_def Let_def case_prod_unfold split: sum.split)

section \<open>What a request does\<close>

text \<open>The number of the vehicle is always 17 bytes long.\<close>

definition vin_values :: "(u16 \<rightharpoonup> bytes) \<Rightarrow> bool" where
  "vin_values v \<longleftrightarrow> (\<exists>d. v kVinDid = Some d \<and> length d = 17)"

definition diag_reach :: "'o \<Rightarrow> 'o diag_world uds_server \<Rightarrow> bool" where
  "diag_reach x s \<longleftrightarrow> (\<exists>v. vin_values v \<and> diag_inv v x s)"

lemma reply_quiet:
  assumes "us_reply app r rep s = (r', s')" and "rc_sid (rq_rc r) \<noteq> 0x10" and "rep \<noteq> Crash" and "diag_inv v x s"
  shows "diag_inv v x s' \<and> us_sm s' = us_sm s"
  using assms by (cases rep) (auto simp: us_reply_def us_Confirm_eq Let_def)

lemma diag_inv_w: "diag_inv v x s \<Longrightarrow> diag_inv (dw_values w) (dw_ota w) (s\<lparr>us_w := w\<rparr>)"
  by (simp add: diag_inv_def as_configured_def)

lemma diag_transfer_world:
  assumes "transfer_known s (rc_sid (rq_rc r))" and "us_transfers s = [kDownload \<mapsto> diag_transfer]"
  shows "only_download w (snd (TmProcess (ua_transfer (diag_uds_app cfg rt u)) (rc_sid (rq_rc r)) status body tm w))"
proof -
  from assms have "rc_sid (rq_rc r) \<in> {0x34, 0x36, 0x37}" by (auto simp: transfer_known_def)
  then show ?thesis by (auto simp: TmProcess_def diag_uds_app_def requestDownload_world transferData_world transferExit_world)
qed

lemma diag_process_transfer:
  assumes "diag_inv v x s" and "process_transfer (diag_uds_app cfg rt u) r s = (r', s')" and "transfer_known s (rc_sid (rq_rc r))"
  shows "diag_inv v x s' \<and> us_sm s' = us_sm s"
proof -
  have "us_transfers s = [kDownload \<mapsto> diag_transfer]" using assms(1) by (simp add: diag_inv_def as_configured_def)
  note w = diag_transfer_world [OF assms(3) this, where w = "us_w s" and tm = "us_tm s" and body = "rc_body (rq_rc r)"]
  have i: "diag_inv v x (s\<lparr>us_tm := tm, us_w := w\<rparr>)" if "only_download (us_w s) (tm, w)" for tm w
    using assms(1) that by (simp add: diag_inv_def as_configured_def only_download_def)
  show ?thesis
  proof (cases "TmProcess (ua_transfer (diag_uds_app cfg rt u)) (rc_sid (rq_rc r)) kResPosOk (rc_body (rq_rc r)) (us_tm s) (us_w s)")
    case 1: (fields a tm1 w1)
    show ?thesis
    proof (cases a)
      case None
      with 1 w [of cfg rt u kResPosOk] i assms(2) show ?thesis by (auto simp: process_transfer_def Let_def)
    next
      case (Some msg)
      let ?st = "last (rc_confirmed (RcRespond (rq_stray r) msg (rq_rc r)))"
      obtain a2 tm2 w2 where 2: "TmProcess (ua_transfer (diag_uds_app cfg rt u)) (rc_sid (rq_rc r)) ?st (rc_body (rq_rc r)) (us_tm s) (us_w s) = (a2, tm2, w2)"
        by (metis prod_cases3)
      with w [of cfg rt u ?st] have "only_download (us_w s) (tm2, w2)" by simp
      with 1 2 Some i assms(2) show ?thesis by (auto simp: process_transfer_def Let_def)
    qed
  qed
qed

lemma diag_process:
  assumes inv: "diag_inv v x s" and v: "vin_values v" and known: "GetServiceBySid s (rc_sid (rq_rc r))"
    and p: "process (diag_uds_app cfg rt u) r s = (r', s')"
  shows "diag_reach x s' \<and> session_moves s s'"
proof -
  let ?app = "diag_uds_app cfg rt u" and ?sid = "rc_sid (rq_rc r)"
  from inv have c: "us_x22 s = Some (diag_did 0 1)" "us_x2e s = Some (diag_did 17 0)" "us_x31 s = Some diag_x31" "us_x27 s = None" "us_x29 s = None"
    "diag_session (sm_current (us_sm s))" "dw_values (us_w s) = v" "dw_ota (us_w s) = x"
    by (simp_all add: diag_inv_def as_configured_def)
  have same: "s\<lparr>us_sm := us_sm s, us_am := us_am s, us_w := us_w s\<rparr> = s" by simp
  have fin: "diag_reach x s' \<and> session_moves s s'" if "diag_inv v' x s'" "us_sm s' = us_sm s" "vin_values v'" for v'
    using that by (auto simp: diag_reach_def session_moves_def)
  consider "?sid = 0x10" | "?sid = 0x22" | "?sid = 0x2E" | "?sid = 0x31" | "?sid \<notin> {0x10, 0x22, 0x2E, 0x31}" "transfer_known s ?sid"
    using known c by (auto simp: GetServiceBySid_def)
  then show ?thesis
  proof cases
    case 1
    from session_control [OF inv this p] v show ?thesis by (auto simp: diag_reach_def)
  next
    case 2
    obtain rep where rep: "x22_Process OnClient (us_check ?app s) (us_read ?app s) (rq_sa r) (rc_body (rq_rc r)) (diag_did 0 1) (us_lm s) (us_sm s, us_am s) (us_w s)
        = (rep, (us_sm s, us_am s), us_w s)" "rep \<noteq> Crash"
      by (rule that, rule diag_x22_Process [OF inv]) (simp add: reject_def)
    have "us_reply ?app r rep s = (r', s')" using p 2 c rep(1) by (simp add: process_def)
    from reply_quiet [OF this _ rep(2) inv] 2 show ?thesis using v fin by auto
  next
    case 3
    have d: "ua_data ?app = did_app" by (simp add: diag_uds_app_def)
    obtain rep w where rep: "x2e_Process OnClient (us_check ?app s) did_app (rq_sa r) (rc_body (rq_rc r)) (diag_did 17 0) (us_lm s) (us_sm s, us_am s) (us_w s)
        = (rep, (us_sm s, us_am s), w)" "rep \<noteq> Crash" "vin_values (dw_values w)" "dw_ota w = x"
      using c v by (cases "length (rc_body (rq_rc r)) = 20 \<and> fst (ReadUint16 (rc_body (rq_rc r)) 1) = kVinDid") (auto simp: diag_x2e_Process reject_def vin_values_def)
    have "us_reply ?app r rep (s\<lparr>us_w := w\<rparr>) = (r', s')" using p 3 c rep(1) d by (simp add: process_def)
    from reply_quiet [OF this _ rep(2) diag_inv_w [OF inv]] 3 rep(3,4) show ?thesis using fin by auto
  next
    case 4
    obtain rep where rep: "x31_Process OnClient (us_check ?app s) (ua_routine ?app) (rq_sa r) (rc_body (rq_rc r)) diag_x31 (us_lm s) (us_sm s, us_am s) (us_w s)
        = (rep, (us_sm s, us_am s), us_w s)" "rep \<noteq> Crash"
      using c by (simp add: diag_x31_Process reject_def)
    have "us_reply ?app r rep s = (r', s')" using p 4 c rep(1) by (simp add: process_def)
    from reply_quiet [OF this _ rep(2) inv] 4 show ?thesis using v fin by auto
  next
    case 5
    from 5(2) inv have "?sid \<in> {0x34, 0x36, 0x37}" by (auto simp: transfer_known_def diag_inv_def as_configured_def)
    then have "process_transfer ?app r s = (r', s')" using p by (auto simp: process_def Let_def)
    from diag_process_transfer [OF inv this 5(2)] v fin show ?thesis by blast
  qed
qed

lemma diag_handle:
  assumes inv: "diag_inv v x s" and v: "vin_values v" and h: "handleRequestContext (diag_uds_app cfg rt u) r s = (r', s')"
  shows "diag_reach x s' \<and> session_moves s s'"
proof (cases "GetServiceBySid s (rc_sid (rq_rc r))")
  case True
  have same: "s\<lparr>us_sm := us_sm s, us_am := us_am s\<rparr> = s" by simp
  have "process (diag_uds_app cfg rt u) r s = (r', s')" using h True diag_us_sid_check [OF inv] by (simp add: handleRequestContext_def Let_def)
  from diag_process [OF inv v True this] show ?thesis .
next
  case False
  with h have "s' = removeRequestHandler (rq_handle r) s" by (simp add: handleRequestContext_def Let_def us_refuse_def)
  with inv v show ?thesis by (auto simp: diag_reach_def session_moves_def)
qed

section \<open>What events do\<close>

lemma diag_reach_quiet: "diag_reach x s \<Longrightarrow> quiet s s' \<Longrightarrow> diag_session (sm_current (us_sm s')) \<Longrightarrow> diag_reach x s'"
  by (auto simp: diag_reach_def intro: diag_inv_quiet)

lemma diag_reach_session: "diag_reach x s \<Longrightarrow> diag_session (sm_current (us_sm s))"
  by (auto simp: diag_reach_def diag_inv_def)

text \<open>A step that is quiet and keeps the session, or returns to the default session.\<close>

definition calls_back :: "'w uds_server \<Rightarrow> 'w uds_server \<Rightarrow> bool" where
  "calls_back s s' \<longleftrightarrow> quiet s s' \<and> (sm_current (us_sm s') = sm_current (us_sm s) \<or> sm_current (us_sm s') = 1)"

definition rests :: "'w uds_server \<Rightarrow> 'w uds_server \<Rightarrow> bool" where
  "rests s s' \<longleftrightarrow> quiet s s' \<and> sm_current (us_sm s') = sm_current (us_sm s)"

lemma rests_back: "rests s s' \<Longrightarrow> calls_back s s'"
  by (simp add: rests_def calls_back_def)

lemma rests_trans: "rests s s' \<Longrightarrow> rests s' s'' \<Longrightarrow> rests s s''"
  by (auto simp: rests_def intro: quiet_trans)

lemma rests_then: "rests s s' \<Longrightarrow> calls_back s' s'' \<Longrightarrow> calls_back s s''"
  by (auto simp: rests_def calls_back_def intro: quiet_trans)

lemma back_then: "calls_back s s' \<Longrightarrow> rests s' s'' \<Longrightarrow> calls_back s s''"
  by (auto simp: rests_def calls_back_def intro: quiet_trans)

lemma diag_reach_back: "diag_reach x s \<Longrightarrow> calls_back s s' \<Longrightarrow> diag_reach x s'"
  using diag_reach_quiet [of x s s'] diag_reach_session [of x s] by (auto simp: calls_back_def diag_session_def)

lemma rests_with_client: "rests s (with_client a f s)"
  using stays_with_client [where s = s and a = a and f = f] by (simp add: rests_def quiet_with_client stays_def)

lemma back_SetSession: "calls_back s (us_SetSession (diag_uds_app cfg rt u) 1 c s)"
  by (simp add: calls_back_def quiet_SetSession us_SetSession_facts)

lemma back_s3: "calls_back s (s3Timeout (diag_uds_app cfg rt u) s)"
proof -
  let ?s1 = "us_SetSession (diag_uds_app cfg rt u) 1 0 s"
  have "rests ?s1 (s3Timeout (diag_uds_app cfg rt u) s)"
    by (auto simp: s3Timeout_def rests_def Let_def calm_def dest!: calm_GetClient split: prod.split option.split)
  with back_SetSession show ?thesis by (rule back_then)
qed

lemma rests_cancel: "rests s (cancel_running c s)"
  using cancel_stays [where s = s and client = c] by (simp add: rests_def quiet_cancel stays_def)

lemma rests_simple [simp]: "rests s s" "rests s (s\<lparr>us_s3 := b\<rparr>)" "rests s (s\<lparr>us_running := tab\<rparr>)" "rests s (put_response c m s)"
  "rests s (Unlock s)" "rests s (snd (TryLock s))" "rests s (s\<lparr>us_am := am\<rparr>)" "rests s (snd (allocRequestHandler s))"
  by (simp_all add: rests_def put_response_def Unlock_def TryLock_def allocRequestHandler_def Let_def)

text \<open>Only a higher priority of another tester makes the server return to the default session on a message.\<close>

lemma prioritize_back:
  "calls_back s (snd (prioritize (diag_uds_app cfg rt u) c p s)) \<and>
   (\<not> (c \<noteq> sm_client (us_sm s) \<and> p < us_priority s) \<longrightarrow> rests s (snd (prioritize (diag_uds_app cfg rt u) c p s)))"
proof -
  have r: "rests s ((cancel_running 0 s)\<lparr>us_running := tab\<rparr>)" for tab
    using rests_cancel rests_simple(3) rests_trans by blast
  show ?thesis using r back_SetSession [of s cfg rt u 0] rests_cancel [where s = s]
    by (auto simp: prioritize_def Let_def ResetDefaultSession_def intro!: rests_back)
qed

lemma Indicate_back:
  assumes "Indicate (diag_uds_app cfg rt u) m s = (ok, s')"
  shows "calls_back s s' \<and> (\<not> (ms_sa m \<noteq> sm_client (us_sm s) \<and> ms_priority m < us_priority s) \<longrightarrow> rests s s')"
proof -
  let ?s = "s\<lparr>us_s3 := False\<rparr>"
  obtain adm s1 where p: "prioritize (diag_uds_app cfg rt u) (ms_sa m) (ms_priority m) ?s = (adm, s1)" by fastforce
  from prioritize_back [of ?s cfg rt u "ms_sa m" "ms_priority m"] p
  have 1: "calls_back s s1" "\<not> (ms_sa m \<noteq> sm_client (us_sm s) \<and> ms_priority m < us_priority s) \<longrightarrow> rests s s1"
    using rests_then [of s ?s s1] rests_trans [of s ?s s1] by simp_all
  have 2: "rests s (put_response c msg ?s)" "rests s ((put_response c msg ?s)\<lparr>us_s3 := True\<rparr>)" "rests s ?s" for c msg
    using rests_trans [OF rests_simple(2) rests_simple(4)] rests_trans [OF rests_trans [OF rests_simple(2) rests_simple(4)] rests_simple(2)] by simp_all
  have 3: "calls_back s (put_response c msg s1)" "rests s s1 \<longrightarrow> rests s (put_response c msg s1)" for c msg
    using back_then [OF 1(1) rests_simple(4)] rests_trans [OF _ rests_simple(4)] by blast+
  from assms 1 2 3 show ?thesis
    by (auto simp: Indicate_def Let_def p intro: rests_back split: if_splits bool.splits)
qed

lemma HandleMessage_rests: "rests s (HandleMessage m s)"
proof (cases "map_of (us_responses s) (ms_channel m)")
  case None
  let ?s1 = "snd (allocRequestHandler s)"
  have "rests s (with_client (ms_sa m) ca_Stop ?s1)" using rests_trans [OF rests_simple(8) rests_with_client] .
  moreover have "rests t (t\<lparr>us_queue := q\<rparr>)" for t :: "'a uds_server" and q by (simp add: rests_def)
  ultimately show ?thesis using None rests_trans by (fastforce simp: HandleMessage_def case_prod_unfold Let_def)
next
  case (Some msg)
  then show ?thesis by (simp add: HandleMessage_def rests_def quiet_def as_configured_def)
qed

lemma finish_request_diag:
  assumes "diag_reach x s"
  shows "diag_reach x (finish_request (diag_uds_app cfg rt u) c s) \<and> session_moves s (finish_request (diag_uds_app cfg rt u) c s)"
proof (cases "map_of (us_running s) c")
  case (Some r)
  obtain r' s1 where h: "handleRequestContext (diag_uds_app cfg rt u) r s = (r', s1)" by fastforce
  with assms have 1: "diag_reach x s1" "session_moves s s1" using diag_handle [OF _ _ h] by (auto simp: diag_reach_def)
  have "rests s1 (finish_request (diag_uds_app cfg rt u) c s)"
  proof (rule rests_trans [OF rests_with_client])
    show "rests (with_client c ca_Refresh s1) (finish_request (diag_uds_app cfg rt u) c s)"
      by (simp add: finish_request_def Some h Let_def updateRequestContextStateTable_def rests_def quiet_def as_configured_def)
  qed
  with 1 diag_reach_back [OF 1(1) rests_back] show ?thesis by (auto simp: session_moves_def rests_def)
qed (use assms in \<open>simp add: finish_request_def session_moves_def\<close>)

text \<open>In a as_configured server the current session is known, so that taking a request finds it.\<close>

lemma take_rests: "diag_reach x s \<Longrightarrow> rests s (take_request s)"
proof -
  assume "diag_reach x s"
  then have "diag_session (sm_current (us_sm s))" "sm_table (us_sm s) = diag_table" by (auto simp: diag_reach_def diag_inv_def as_configured_def)
  then have "GetSession (sm_current (us_sm s)) (us_sm s) \<noteq> None" by (auto simp: GetSession_def diag_table_def diag_session_def)
  then show ?thesis
    by (auto simp: take_request_def updateRequestContextStateTable_def Let_def rests_def quiet_def as_configured_def split: list.split)
qed

text \<open>The events that may end a session that is not the default one.\<close>

definition ends_session :: "server_event \<Rightarrow> 'w uds_server \<Rightarrow> bool" where
  "ends_session e s \<longleftrightarrow> e = S3Expires \<or> e = ResetSession \<or>
     (\<exists>m. e = Receive m \<and> ms_sa m \<noteq> sm_client (us_sm s) \<and> ms_priority m < us_priority s)"

lemma step_diag:
  assumes "diag_reach x s"
  shows "diag_reach x (server_step (diag_uds_app cfg rt u) e s) \<and>
    (session_moves s (server_step (diag_uds_app cfg rt u) e s) \<or> ends_session e s \<and> sm_current (us_sm (server_step (diag_uds_app cfg rt u) e s)) = 1)"
proof -
  let ?s' = "server_step (diag_uds_app cfg rt u) e s"
  have ended: ?thesis if "calls_back s ?s'" "\<not> ends_session e s \<longrightarrow> rests s ?s'"
    using that diag_reach_back [OF assms] by (auto simp: calls_back_def rests_def session_moves_def)
  have rest: ?thesis if "rests s ?s'" using ended rests_back that by blast
  show ?thesis
  proof (cases e)
    case (Receive m)
    obtain ok s1 where i: "Indicate (diag_uds_app cfg rt u) m s = (ok, s1)" by fastforce
    from Indicate_back [OF i] have "calls_back s s1" "\<not> ends_session e s \<longrightarrow> rests s s1" by (auto simp: ends_session_def Receive)
    then have "calls_back s ?s'" "\<not> ends_session e s \<longrightarrow> rests s ?s'"
      using back_then [OF _ HandleMessage_rests] rests_trans [OF _ HandleMessage_rests] by (auto simp: Receive i)
    then show ?thesis by (rule ended)
  next
    case Take
    show ?thesis by (rule rest) (simp add: Take take_rests [OF assms])
  next
    case (Finish c)
    with finish_request_diag [OF assms] show ?thesis by simp
  next
    case (RequestTimer c ev)
    show ?thesis
      by (rule rest) (simp add: RequestTimer request_timer_def updateRequestContextStateTable_def Let_def rests_def quiet_def as_configured_def split: option.split)
  next
    case S3Expires
    have "calls_back s ?s'" using rests_then [OF rests_simple(2) [where s = s and b = False] back_s3 [where cfg = cfg and rt = rt and u = u]] rests_back [OF rests_simple(1) [of s]] by (simp add: S3Expires)
    then show ?thesis using ended by (simp add: ends_session_def S3Expires)
  next
    case ResetSession
    have "calls_back s ?s'" by (simp add: ResetSession ResetDefaultSession_def back_SetSession)
    then show ?thesis using ended by (simp add: ends_session_def ResetSession)
  next
    case SharedDelayExpires
    show ?thesis by (rule rest) (simp add: SharedDelayExpires rests_def quiet_x27)
  next
    case (LevelDelayExpires i)
    show ?thesis by (rule rest) (auto simp: LevelDelayExpires delay_expires_def rests_def quiet_def as_configured_def split: option.split)
  qed (rule rest, simp)+
qed

lemma run_diag: "diag_reach x s \<Longrightarrow> diag_reach x (server_run (diag_uds_app cfg rt u) evs s)"
  unfolding server_run_def by (induction evs arbitrary: s) (simp_all add: step_diag del: server_step.simps)

definition diag_world_new :: "fsys \<Rightarrow> 'o \<Rightarrow> 'o diag_world" where
  "diag_world_new fs x = \<lparr>dw_values = did_new, dw_download = da_new fs, dw_ota = x\<rparr>"

lemma start_diag: "\<exists>s. InitializeUds cfg (diag_world_new fs x) = Started s \<and> diag_reach x s"
proof -
  have "vin_values did_new" by (simp add: vin_values_def did_new_def)
  with InitializeUds_starts [of cfg "diag_world_new fs x"] show ?thesis by (auto simp: diag_reach_def diag_world_new_def)
qed

lemma started_diag: "InitializeUds cfg (diag_world_new fs x) = Started s0 \<Longrightarrow> diag_reach x (server_run (diag_uds_app cfg rt u) evs s0)"
  using start_diag [of cfg fs x] run_diag by auto

section \<open>What testers can and can not do\<close>


text \<open>
  C23: no tester can start an update. After any sequence of events the update manager behind the routine adapter is in the
  state it had when the server started, and every request to start, stop or ask for the result of the
  update routine is answered with \<open>subFunctionNotSupported\<close> (0x12): main.cpp leaves the conditions of the routine at
  their default, which stands for a subfunction that does not exist.
\<close>

theorem update_is_never_started:
  "\<exists>s0. InitializeUds cfg (diag_world_new fs x) = Started s0 \<and>
     (\<forall>evs r sub p. let s = server_run (diag_uds_app cfg rt u) evs s0;
                       q = r\<lparr>rq_rc := (rq_rc r)\<lparr>rc_sid := 0x31, rc_body := [0x31, sub, 0x11, 0x00] @ p\<rparr>\<rparr> in
        dw_ota (us_w s) = x \<and>
        fst (handleRequestContext (diag_uds_app cfg rt u) q s) = q\<lparr>rq_rc := RcRespond (rq_stray r) [0x7F, 0x31, 0x12] (rq_rc q)\<rparr>)"
proof -
  obtain s0 where s0: "InitializeUds cfg (diag_world_new fs x) = Started s0" using start_diag [of cfg fs x] by blast
  have "fst (handleRequestContext (diag_uds_app cfg rt u) q s) = q\<lparr>rq_rc := RcRespond (rq_stray r) [0x7F, 0x31, 0x12] (rq_rc q)\<rparr>"
    if reach: "diag_reach x s" and q: "q = r\<lparr>rq_rc := (rq_rc r)\<lparr>rc_sid := 0x31, rc_body := [0x31, sub, 0x11, 0x00] @ p\<rparr>\<rparr>" for s q r sub p
  proof -
    from reach obtain v where inv: "diag_inv v x s" by (auto simp: diag_reach_def)
    then have x31: "us_x31 s = Some diag_x31" "diag_session (sm_current (us_sm s))" by (simp_all add: diag_inv_def as_configured_def)
    have "fst (ReadUint16 ([0x31, sub, 0x11, 0x00] @ p) 2) = kOtaStartRoutine" by (simp add: ReadUint16_def kOtaStartRoutine_def be_word_def)
    then show ?thesis using x31 diag_us_sid_check [OF inv]
      by (simp add: handleRequestContext_def Let_def GetServiceBySid_def q process_def diag_x31_Process reject_def us_reply_def CreateNegativeResponse_def kSubfunctionNotSupported_def)
  qed
  moreover have "dw_ota (us_w s) = x" if "diag_reach x s" for s using that by (auto simp: diag_reach_def diag_inv_def)
  ultimately show ?thesis using s0 started_diag [OF s0] by (auto simp: Let_def)
qed


definition request_with :: "byte \<Rightarrow> bytes \<Rightarrow> server_request \<Rightarrow> server_request" where
  "request_with sid body r = r\<lparr>rq_rc := (rq_rc r)\<lparr>rc_sid := sid, rc_body := body\<rparr>\<rparr>"

definition answered_with :: "bytes \<Rightarrow> server_request \<Rightarrow> server_request" where
  "answered_with msg r = r\<lparr>rq_rc := RcRespond (rq_stray r) msg (rq_rc r)\<rparr>"

lemma vin_is_answered:
  assumes "diag_inv v x s" and "v kVinDid = Some vin" and "vin \<noteq> []"
  shows "fst (handleRequestContext (diag_uds_app cfg rt u) (request_with 0x22 [0x22, 0xF1, 0x90] r) s) =
    answered_with ([0x62, 0xF1, 0x90] @ vin) (request_with 0x22 [0x22, 0xF1, 0x90] r)"
proof -
  let ?app = "diag_uds_app cfg rt u"
  have "read_ids [0xF1, 0x90] = [kVinDid]" by (simp add: be_word_def kVinDid_def)
  with assms have "x22_Process OnClient (us_check ?app s) (us_read ?app s) (rq_sa r) [0x22, 0xF1, 0x90] (diag_did 0 1) (us_lm s) (us_sm s, us_am s) (us_w s) =
      (Reply ([0x62, 0xF1, 0x90] @ vin), (us_sm s, us_am s), us_w s)"
    by (subst diag_x22_Process [OF assms(1)]) simp
  moreover have "us_x22 s = Some (diag_did 0 1)" using assms(1) by (simp add: diag_inv_def as_configured_def)
  ultimately show ?thesis using diag_us_sid_check [OF assms(1)]
    by (simp add: handleRequestContext_def Let_def GetServiceBySid_def request_with_def answered_with_def process_def us_reply_def)
qed

text \<open>
  C25: every tester can change the identification number of the vehicle. In every session, without
  unlocking a level, a request to write 17 bytes as the identification number is answered positively, and
  the next request to read it is answered with these bytes, whatever has happened before.
\<close>

theorem written_vin_is_read:
  assumes "InitializeUds cfg (diag_world_new fs x) = Started s0" and "s = server_run (diag_uds_app cfg rt u) evs s0"
    and "length vin = 17" and "w = request_with 0x2E ([0x2E, 0xF1, 0x90] @ vin) q" and "r = request_with 0x22 [0x22, 0xF1, 0x90] p"
  shows "\<exists>s'. handleRequestContext (diag_uds_app cfg rt u) w s = (answered_with [0x6E, 0xF1, 0x90] w, s') \<and>
    fst (handleRequestContext (diag_uds_app cfg rt u) r s') = answered_with ([0x62, 0xF1, 0x90] @ vin) r"
proof -
  let ?app = "diag_uds_app cfg rt u"
  have "diag_reach x s" using started_diag [OF assms(1)] assms(2) by simp
  then obtain v where inv: "diag_inv v x s" by (auto simp: diag_reach_def)
  then have c: "us_x2e s = Some (diag_did 17 0)" "diag_session (sm_current (us_sm s))" by (simp_all add: diag_inv_def as_configured_def)
  let ?s' = "removeRequestHandler (rq_handle w) (s\<lparr>us_w := (us_w s)\<lparr>dw_values := (dw_values (us_w s))(kVinDid \<mapsto> vin)\<rparr>\<rparr>)"
  have "fst (ReadUint16 ([0x2E, 0xF1, 0x90] @ vin) 1) = kVinDid" by (simp add: ReadUint16_def kVinDid_def be_word_def)
  then have 1: "handleRequestContext ?app w s = (answered_with [0x6E, 0xF1, 0x90] w, ?s')"
    using c diag_us_sid_check [OF inv] assms(3,4)
    by (simp add: handleRequestContext_def Let_def GetServiceBySid_def request_with_def answered_with_def process_def diag_uds_app_def [of cfg]
        diag_x2e_Process us_reply_def us_Confirm_eq)
  have "diag_inv (v(kVinDid \<mapsto> vin)) x ?s'" using inv by (simp add: removeRequestHandler_def diag_inv_def as_configured_def)
  moreover have "vin \<noteq> []" using assms(3) by auto
  ultimately have "fst (handleRequestContext ?app r ?s') = answered_with ([0x62, 0xF1, 0x90] @ vin) r"
    unfolding assms(5) by (intro vin_is_answered [of "v(kVinDid \<mapsto> vin)" x]) simp_all
  with 1 show ?thesis by blast
qed

section \<open>The theorems at work\<close>

definition demo_vin :: bytes where
  "demo_vin = replicate 17 0x41"

definition demo_rq :: server_request where
  "demo_rq = \<lparr>rq_sa = 0x0E80, rq_priority = 10, rq_channel = 1, rq_stray = 0, rq_handle = 0, rq_rc = rc_new 0x2E [] 0x1000 [] []\<rparr>"

theorem written_vin_is_read_witness:
  "\<forall>fs rt u. \<exists>s0. InitializeUds config_default (diag_world_new fs ()) = Started s0 \<and>
     (\<exists>s'. handleRequestContext (diag_uds_app config_default rt u) (request_with 0x2E ([0x2E, 0xF1, 0x90] @ demo_vin) demo_rq)
          (server_run (diag_uds_app config_default rt u) [Take, S3Expires] s0) =
        (answered_with [0x6E, 0xF1, 0x90] (request_with 0x2E ([0x2E, 0xF1, 0x90] @ demo_vin) demo_rq), s') \<and>
      fst (handleRequestContext (diag_uds_app config_default rt u) (request_with 0x22 [0x22, 0xF1, 0x90] demo_rq) s') =
        answered_with ([0x62, 0xF1, 0x90] @ demo_vin) (request_with 0x22 [0x22, 0xF1, 0x90] demo_rq))"
proof (intro allI)
  fix fs rt u
  obtain s0 where s0: "InitializeUds config_default (diag_world_new fs ()) = Started s0" using start_diag [of config_default fs "()"] by blast
  have "length demo_vin = 17" by (simp add: demo_vin_def)
  from written_vin_is_read [OF s0 refl this refl refl, where evs = "[Take, S3Expires]" and rt = rt and u = u and q = demo_rq and p = demo_rq] s0
  show "\<exists>s0. InitializeUds config_default (diag_world_new fs ()) = Started s0 \<and>
     (\<exists>s'. handleRequestContext (diag_uds_app config_default rt u) (request_with 0x2E ([0x2E, 0xF1, 0x90] @ demo_vin) demo_rq)
          (server_run (diag_uds_app config_default rt u) [Take, S3Expires] s0) =
        (answered_with [0x6E, 0xF1, 0x90] (request_with 0x2E ([0x2E, 0xF1, 0x90] @ demo_vin) demo_rq), s') \<and>
      fst (handleRequestContext (diag_uds_app config_default rt u) (request_with 0x22 [0x22, 0xF1, 0x90] demo_rq) s') =
        answered_with ([0x62, 0xF1, 0x90] @ demo_vin) (request_with 0x22 [0x22, 0xF1, 0x90] demo_rq))" by blast
qed

text \<open>The server after a tester has entered the extended session.\<close>

definition demo_diag_app :: "unit diag_world uds_app" where
  "demo_diag_app = diag_uds_app config_default \<lparr>ra_Start = undefined, ra_Stop = undefined, ra_RequestResults = undefined\<rparr>
     \<lparr>uc_security = undefined, uc_auth = undefined, uc_transfer = undefined, uc_compare = undefined\<rparr>"

definition demo_diag :: "unit diag_world uds_server" where
  "demo_diag = (case InitializeUds config_default (diag_world_new ex_config_fs ()) of Started s \<Rightarrow> s)"

definition demo_extended :: "unit diag_world uds_server" where
  "demo_extended = server_run demo_diag_app [Receive (demo_request [0x10, 2]), Take, Finish 0x0E80] demo_diag"

text \<open>The S3 timer runs, so the session is not the default one.\<close>

lemma s3_means_session:
  assumes "tm_wf (us_tm s)" and "\<not> us_s3 s" and "us_s3 (finish_request app c s)"
  shows "isNonDefaultSession (finish_request app c s)"
proof (cases "map_of (us_running s) c")
  case (Some r)
  obtain r' s1 where h: "handleRequestContext app r s = (r', s1)" by fastforce
  with handle_frame [OF h assms(1)] have "us_s3 s1 = us_s3 s" by (simp add: frame_def)
  with assms(2,3) h Some show ?thesis
    by (auto simp: finish_request_def Let_def updateRequestContextStateTable_def isNonDefaultSession_def split: if_splits)
qed (use assms in \<open>simp add: finish_request_def\<close>)

lemma demo_extended_session: "us_s3 demo_extended" "sm_current (us_sm demo_extended) \<noteq> 1"
proof -
  let ?s = "take_request (server_step demo_diag_app (Receive (demo_request [0x10, 2])) demo_diag)"
  have e: "demo_extended = finish_request demo_diag_app 0x0E80 ?s" by (simp add: demo_extended_def server_run_def del: server_step.simps(1))
  show s3: "us_s3 demo_extended" by code_simp
  have "tm_wf (us_tm demo_diag)" by code_simp
  then have "tm_wf (us_tm (server_step demo_diag_app (Receive (demo_request [0x10, 2])) demo_diag))" by (rule step_wf)
  from step_wf [OF this, of demo_diag_app Take] have wf: "tm_wf (us_tm ?s)" by simp
  have "\<not> us_s3 ?s" by code_simp
  with s3_means_session [OF wf this, of demo_diag_app "0x0E80"] s3 e show "sm_current (us_sm demo_extended) \<noteq> 1" by (simp add: isNonDefaultSession_def)
qed


end
